(* ===== verification/Prelude.thy ===== *)
theory Prelude
  imports Main "HOL-Library.Word" "HOL-Library.Monad_Syntax" "HOL-Library.AList"
begin

text \<open>
  Shared vocabulary of the development: bytes and machine integers, the C strings and the
  GLib string helpers the code uses, error slots (\<open>GError **\<close>), quarks and pointers,
  and the generic lemmas the component theories rely on.

  Conventions.  A function that can reach undefined behaviour of C (a NULL dereference, a
  write outside a buffer, a second release) has a result of type \<open>'a option\<close>, and \<open>None\<close>
  stands for that crash.  A read of memory the code does not own, behind the end of a line or in a
  string already destroyed, has no one outcome: what it finds is an argument of the model, a
  string, or \<open>None\<close> for a read that faults, and then the function that reads crashes as well.  A
  function without such a path returns its result directly.  A GLib error slot is \<open>gerr\<close>: \<open>None\<close> is
  the unset slot, and \<open>Some RELEASED\<close> one that points to a freed error.  The error pointer itself is
  never NULL at any call site of the repository, so the guards on it are not modelled.
\<close>

unbundle bit_operations_syntax

named_theorems run_simps \<open>inversion of a run: what it means that a do block returned\<close>
named_theorems cache_frames \<open>what the operations of the database cache leave alone, as destruction rules\<close>

section \<open>Machine integers, bytes\<close>

type_synonym byte = "8 word"
type_synonym bytes = "byte list"
type_synonym u32 = "32 word"
type_synonym gint = "32 word"
type_synonym ck_ulong = "64 word"

definition byte_of_char :: "char \<Rightarrow> byte" where
  "byte_of_char c = of_nat (of_char c)"

definition char_of_byte :: "byte \<Rightarrow> char" where
  "char_of_byte b = char_of (unat b)"

lemma of_char_less_256: "(of_char c :: nat) < 256"
  by simp

lemma char_of_byte_of_char [simp]: "char_of_byte (byte_of_char c) = c"
  by (simp add: char_of_byte_def byte_of_char_def unat_of_nat)

lemma unat_byte_less: "unat (b :: byte) < 256"
proof -
  have "unat b < 2 ^ LENGTH(8)" by (rule unsigned_less)
  then show ?thesis by simp
qed

lemma byte_of_char_of_byte [simp]: "byte_of_char (char_of_byte b) = b"
  using unat_byte_less[of b] by (simp add: byte_of_char_def char_of_byte_def)

lemma map_char_of_byte_of_char [simp]: "map (char_of_byte \<circ> byte_of_char) s = s"
  by (simp add: comp_def)

text \<open>A byte buffer read as a C string: the bytes before the first NUL.\<close>

definition c_str :: "string \<Rightarrow> string" where
  "c_str s = takeWhile (\<lambda>c. c \<noteq> CHR 0x00) s"

definition c_str_of_bytes :: "bytes \<Rightarrow> string" where
  "c_str_of_bytes bs = c_str (map char_of_byte bs)"

lemma c_str_no_nul: "CHR 0x00 \<notin> set (c_str s)"
  unfolding c_str_def by (blast dest: set_takeWhileD)

lemma c_str_id: "CHR 0x00 \<notin> set s \<Longrightarrow> c_str s = s"
  unfolding c_str_def by (rule takeWhile_eq_all_conv[THEN iffD2]) auto

lemma c_str_idem [simp]: "c_str (c_str s) = c_str s"
  by (rule c_str_id[OF c_str_no_nul])

text \<open>
  \<open>unsigned int\<close> fields of the C structures that travel in byte buffers, in the byte order
  of x86-64.
\<close>

definition le32 :: "u32 \<Rightarrow> bytes" where
  "le32 w = [ucast w, ucast (drop_bit 8 w), ucast (drop_bit 16 w), ucast (drop_bit 24 w)]"

definition rd32 :: "bytes \<Rightarrow> u32" where
  "rd32 bs = (case bs of
      b0 # b1 # b2 # b3 # _ \<Rightarrow>
        ucast b0 OR push_bit 8 (ucast b1) OR push_bit 16 (ucast b2) OR push_bit 24 (ucast b3)
    | _ \<Rightarrow> 0)"

lemma length_le32 [simp]: "length (le32 w) = 4"
  by (simp add: le32_def)

lemma rd32_le32 [simp]: "rd32 (le32 w @ bs) = w"
proof -
  have "rd32 (le32 w @ bs) = ucast (ucast w :: byte) OR push_bit 8 (ucast (ucast (drop_bit 8 w) :: byte))
      OR push_bit 16 (ucast (ucast (drop_bit 16 w) :: byte)) OR push_bit 24 (ucast (ucast (drop_bit 24 w) :: byte))"
    by (simp add: rd32_def le32_def)
  also have "\<dots> = w"
  proof (rule bit_word_eqI)
    fix n assume n: "n < LENGTH(32)"
    consider "n < 8" | "8 \<le> n" "n < 16" | "16 \<le> n" "n < 24" | "24 \<le> n" by linarith
    then show "bit (ucast (ucast w :: byte) OR push_bit 8 (ucast (ucast (drop_bit 8 w) :: byte))
      OR push_bit 16 (ucast (ucast (drop_bit 16 w) :: byte))
      OR push_bit 24 (ucast (ucast (drop_bit 24 w) :: byte)) :: u32) n = bit w n"
      using n by cases (auto simp: bit_simps)
  qed
  finally show ?thesis .
qed

lemma le32_rd32:
  assumes "4 \<le> length bs"
  shows "le32 (rd32 bs) = take 4 bs"
proof -
  obtain a b c d xs where bs: "bs = a # b # c # d # xs"
    using assms by (auto simp: numeral_eq_Suc Suc_le_length_iff)
  let ?w = "ucast a OR push_bit 8 (ucast b) OR push_bit 16 (ucast c) OR push_bit 24 (ucast d) :: u32"
  have "(ucast ?w :: byte) = a" "(ucast (drop_bit 8 ?w) :: byte) = b"
    "(ucast (drop_bit 16 ?w) :: byte) = c" "(ucast (drop_bit 24 ?w) :: byte) = d"
    by (rule bit_word_eqI, auto simp: bit_simps dest: bit_imp_le_length)+
  then show ?thesis by (simp add: bs rd32_def le32_def)
qed

section \<open>Error slots\<close>

text \<open>
  The error codes of \<open>key-agent/types.h\<close>; \<open>ERR_MINUS_ONE\<close> is the literal \<open>-1\<close> the
  API module uses, \<open>EXTERNAL\<close> an error set by a library.
\<close>

datatype errcode =
    KEYAGENT_ERROR_NPMLOAD | KEYAGENT_ERROR_KEYINIT | KEYAGENT_ERROR_STMLOAD
  | KEYAGENT_ERROR_KEY_CREATE_PARAMS | KEYAGENT_ERROR_NPM_URL_UNSUPPORTED
  | KEYAGENT_ERROR_KEY_CREATE_INVALID_SESSION_ID | KEYAGENT_ERROR_SESSION_CREATE_INVALID_LABEL
  | KEYAGENT_ERROR_SESSION_CREATE_INVALID_SWK_TYPE | KEYAGENT_ERROR_INVALID_KEYFORMAT
  | KEYAGENT_ERROR_INVALID_CONF_VALUE | KEYAGENT_ERROR_OUT_OF_MEMORY
  | KEYAGENT_ERROR_INVALID_CERT_INFO | APIMODULE_ERROR_INVALID_CONF_VALUE
  | APIMODULE_ERROR_INVALID_INPUT | APIMODULE_ERROR_API_RETURN_ERROR
  | STM_ERROR_QUOTE | STM_ERROR_API_MODULE_LOADKEY | STM_ERROR_INVALID_CHALLENGE_DATA
  | STM_ERROR_INVALID_LOADKEY_DATA | STM_ERROR_INVALID_SESSION_DATA
  | NPM_ERROR_INIT | NPM_ERROR_REGISTER | NPM_ERROR_KEYSERVER_ERROR | NPM_ERROR_LOAD_KEY
  | NPM_ERROR_JSON_PARSE | NPM_ERROR_INVALID_STATUS | NPM_ERROR_INVALID_SESSION_DATA
  | ERR_MINUS_ONE | EXTERNAL nat | RELEASED

type_synonym gerr = "errcode option"

text \<open>
  \<open>RELEASED\<close> is not a code of the program: a slot that holds it points to an error that has been freed.

  \<open>k_set_error\<close> of \<open>k_errors.h\<close> clears the slot and sets it; GLib's \<open>g_set_error\<close>
  keeps an error that is already there; \<open>g_propagate_error\<close> likewise.
\<close>

definition k_set_error :: "gerr \<Rightarrow> errcode \<Rightarrow> gerr" where
  "k_set_error err c = Some c"

text \<open>The same on a slot that may point to a freed error, which \<open>g_clear_error\<close> would free again.\<close>

definition k_reset_error :: "gerr \<Rightarrow> errcode \<Rightarrow> gerr option" where
  "k_reset_error err c = (if err = Some RELEASED then None else Some (k_set_error err c))"

definition g_set_error :: "gerr \<Rightarrow> errcode \<Rightarrow> gerr" where
  "g_set_error err c = (case err of None \<Rightarrow> Some c | Some e \<Rightarrow> Some e)"

definition g_propagate_error :: "gerr \<Rightarrow> gerr \<Rightarrow> gerr" where
  "g_propagate_error dest src = (case src of None \<Rightarrow> dest | Some c \<Rightarrow> g_set_error dest c)"

text \<open>What the simplifier leaves of a result that is there when its first component is a flag.\<close>

lemma ex_flag [simp]: "Ex Not" "\<exists>b. b"
  by auto

lemma k_set_error_Some [simp]: "k_set_error err c = Some c"
  by (simp add: k_set_error_def)

lemma g_set_error_not_None [simp]: "g_set_error err c \<noteq> None"
  by (simp add: g_set_error_def split: option.splits)

lemma g_set_error_ex [simp]: "\<exists>e. g_set_error err c = Some e"
  using g_set_error_not_None[of err c] by blast

lemma g_set_error_None [simp]: "g_set_error None c = Some c"
  by (simp add: g_set_error_def)

lemma g_propagate_error_None_right [simp]: "g_propagate_error e None = e"
  by (simp add: g_propagate_error_def)

lemma g_propagate_error_None_left [simp]: "g_propagate_error None s = s"
  by (simp add: g_propagate_error_def split: option.splits)

lemma g_propagate_error_None_iff: "g_propagate_error d s = None \<longleftrightarrow> d = None \<and> s = None"
  by (auto simp: g_propagate_error_def split: option.splits)

section \<open>Quarks and pointers\<close>

text \<open>
  A \<open>GQuark\<close> stands for an interned string: equal strings have equal quarks, different
  strings different ones, and 0 is the quark of no string.  A quark is modelled by its string,
  with \<open>None\<close> for 0.  A \<open>gpointer\<close> used as a hash key is either an integer stored in a
  pointer (\<open>GINT_TO_POINTER\<close> of a quark) or the address of a character array; quarks are
  small counters, so no address equals one.
\<close>

type_synonym quark = "string option"

definition g_quark_from_string :: "string \<Rightarrow> quark" where
  "g_quark_from_string s = Some s"

lemma g_quark_from_string_inj [simp]:
  "g_quark_from_string s = g_quark_from_string t \<longleftrightarrow> s = t"
  by (simp add: g_quark_from_string_def)

lemma g_quark_from_string_nonzero [simp]: "g_quark_from_string s \<noteq> None"
  by (simp add: g_quark_from_string_def)

datatype gpointer = QUARK_TO_POINTER quark | STR_POINTER string

section \<open>Strings\<close>

text \<open>\<open>g_strsplit (s, ":", -1)\<close>: the empty string gives the empty vector.\<close>

fun split_pieces :: "char \<Rightarrow> string \<Rightarrow> string list" where
  "split_pieces c [] = [[]]"
| "split_pieces c (x # xs) =
     (if x = c then [] # split_pieces c xs
      else (case split_pieces c xs of p # ps \<Rightarrow> (x # p) # ps | [] \<Rightarrow> [[x]]))"

definition g_strsplit :: "char \<Rightarrow> string \<Rightarrow> string list" where
  "g_strsplit c s = (if s = [] then [] else split_pieces c s)"

text \<open>\<open>g_strjoin\<close> and \<open>g_strjoinv\<close>.\<close>

fun g_strjoinv :: "string \<Rightarrow> string list \<Rightarrow> string" where
  "g_strjoinv sep [] = []"
| "g_strjoinv sep [x] = x"
| "g_strjoinv sep (x # y # ys) = x @ sep @ g_strjoinv sep (y # ys)"

text \<open>\<open>g_string_new\<close>: NULL gives the empty string.\<close>

definition g_string_new :: "string option \<Rightarrow> string" where
  "g_string_new s = (case s of None \<Rightarrow> [] | Some t \<Rightarrow> t)"

lemma g_string_new_Some [simp]: "g_string_new (Some s) = s"
  by (simp add: g_string_new_def)

text \<open>Element \<open>i\<close> of a NULL-terminated vector, \<open>NULL\<close> at the terminator.\<close>

definition strv_nth :: "string list \<Rightarrow> nat \<Rightarrow> string option" where
  "strv_nth xs i = (if i < length xs then Some (xs ! i) else None)"

definition g_ascii_isspace :: "char \<Rightarrow> bool" where
  "g_ascii_isspace c \<longleftrightarrow> c \<in> {CHR '' '', CHR 0x09, CHR 0x0A, CHR 0x0C, CHR 0x0D}"

definition g_strstrip :: "string \<Rightarrow> string" where
  "g_strstrip s = rev (dropWhile g_ascii_isspace (rev (dropWhile g_ascii_isspace s)))"

definition g_str_has_prefix :: "string \<Rightarrow> string \<Rightarrow> bool" where
  "g_str_has_prefix s p \<longleftrightarrow> take (length p) s = p"

text \<open>\<open>g_strrstr (haystack, needle) != NULL\<close>.\<close>

fun str_contains :: "string \<Rightarrow> string \<Rightarrow> bool" where
  "str_contains [] needle = (needle = [])"
| "str_contains (x # xs) needle =
     (take (length needle) (x # xs) = needle \<or> str_contains xs needle)"

subsection \<open>Splitting and joining\<close>

lemma split_pieces_not_Nil [simp]: "split_pieces c s \<noteq> []"
  by (induction s) (auto split: list.splits)

lemma split_pieces_Cons_neq:
  "x \<noteq> c \<Longrightarrow> split_pieces c (x # xs) = (x # hd (split_pieces c xs)) # tl (split_pieces c xs)"
  by (cases "split_pieces c xs") auto

lemma split_pieces_no_sep: "p \<in> set (split_pieces c s) \<Longrightarrow> c \<notin> set p"
proof (induction s arbitrary: p)
  case Nil
  then show ?case by simp
next
  case (Cons x xs)
  then show ?case
    by (cases "x = c"; cases "split_pieces c xs") auto
qed

lemma split_pieces_free: "c \<notin> set p \<Longrightarrow> split_pieces c p = [p]"
  by (induction p) auto

lemma split_pieces_append_sep:
  "c \<notin> set p \<Longrightarrow> split_pieces c (p @ c # rest) = p # split_pieces c rest"
  by (induction p) auto

lemma join_split_pieces: "g_strjoinv [c] (split_pieces c s) = s"
proof (induction s)
  case Nil
  then show ?case by simp
next
  case (Cons x xs)
  obtain p ps where p: "split_pieces c xs = p # ps"
    by (cases "split_pieces c xs") auto
  show ?case
    using Cons.IH by (cases ps) (auto simp: p)
qed

lemma split_pieces_join:
  "ps \<noteq> [] \<Longrightarrow> \<forall>p\<in>set ps. c \<notin> set p \<Longrightarrow> split_pieces c (g_strjoinv [c] ps) = ps"
  by (induction "[c]" ps rule: g_strjoinv.induct)
    (auto simp: split_pieces_free split_pieces_append_sep)

lemma length_split_pieces_map:
  "length (split_pieces c s) = Suc (length (filter (\<lambda>x. x = c) s))"
  by (induction s) (auto split: list.splits)

lemma join_split_map:
  "g_strjoinv [d] (split_pieces c s) = map (\<lambda>x. if x = c then d else x) s"
proof (induction s)
  case Nil
  then show ?case by simp
next
  case (Cons x xs)
  obtain p ps where p: "split_pieces c xs = p # ps"
    by (cases "split_pieces c xs") auto
  show ?case
    using Cons.IH by (cases ps) (auto simp: p)
qed

lemma strv_nth_Nil [simp]: "strv_nth [] i = None"
  by (simp add: strv_nth_def)

lemma strv_nth_0 [simp]: "strv_nth (x # xs) 0 = Some x"
  by (simp add: strv_nth_def)

lemma strv_nth_Suc [simp]: "strv_nth (x # xs) (Suc i) = strv_nth xs i"
  by (simp add: strv_nth_def)

lemma g_strstrip_ends:
  assumes "g_strstrip s \<noteq> []"
  shows "\<not> g_ascii_isspace (last (g_strstrip s))"
proof -
  let ?r = "dropWhile g_ascii_isspace (rev (dropWhile g_ascii_isspace s))"
  have "?r \<noteq> []" using assms by (simp add: g_strstrip_def)
  then have "\<not> g_ascii_isspace (hd ?r)" by (rule hd_dropWhile)
  then show ?thesis using \<open>?r \<noteq> []\<close> by (simp add: g_strstrip_def last_rev)
qed

section \<open>The crash monad\<close>

text \<open>Inversion and evaluation of \<open>do\<close> blocks over \<open>option\<close>.\<close>

lemma bind_eq_SomeE:
  assumes "Option.bind m f = Some y"
  obtains x where "m = Some x" "f x = Some y"
  using assms by (auto simp: bind_eq_Some_conv)

lemmas branch_splits = if_splits option.splits

declare bind_eq_Some_conv [run_simps] Let_def [run_simps]

end
