(* ===== verification/Ghash.thy ===== *)
theory Ghash
  imports Prelude
begin

text \<open>
  The \<open>GHashTable\<close> of the code: an association list with distinct keys, in the order in
  which \<open>g_hash_table_foreach\<close> and \<open>g_hash_table_find\<close> visit it.  GLib leaves that
  order open, so nothing proved from the interface below depends on it; the definitions that
  iterate do it in list order.  The interface is a locale, interpreted on the operations here
  and used by every component that keeps a table.
\<close>

type_synonym ('k, 'v) ghash = "('k \<times> 'v) list"

definition ght_empty :: "('k, 'v) ghash" where
  "ght_empty = []"

definition ght_lookup :: "('k, 'v) ghash \<Rightarrow> 'k \<Rightarrow> 'v option" where
  "ght_lookup t k = map_of t k"

definition ght_insert :: "'k \<Rightarrow> 'v \<Rightarrow> ('k, 'v) ghash \<Rightarrow> ('k, 'v) ghash" where
  "ght_insert k v t = AList.update k v t"

definition ght_remove :: "'k \<Rightarrow> ('k, 'v) ghash \<Rightarrow> ('k, 'v) ghash" where
  "ght_remove k t = AList.delete k t"

definition ght_wf :: "('k, 'v) ghash \<Rightarrow> bool" where
  "ght_wf t \<longleftrightarrow> distinct (map fst t)"

text \<open>The values in visiting order.\<close>

definition ght_values :: "('k, 'v) ghash \<Rightarrow> 'v list" where
  "ght_values t = map snd t"

section \<open>The interface\<close>

locale hash_table =
  fixes empty :: "'t"
    and lookup :: "'t \<Rightarrow> 'k \<Rightarrow> 'v option"
    and insert :: "'k \<Rightarrow> 'v \<Rightarrow> 't \<Rightarrow> 't"
    and remove :: "'k \<Rightarrow> 't \<Rightarrow> 't"
    and wf :: "'t \<Rightarrow> bool"
  assumes lookup_empty: "lookup empty k = None"
    and lookup_insert: "lookup (insert k v t) k' = (if k' = k then Some v else lookup t k')"
    and lookup_remove: "wf t \<Longrightarrow> lookup (remove k t) k' = (if k' = k then None else lookup t k')"
    and wf_empty: "wf empty"
    and wf_insert: "wf t \<Longrightarrow> wf (insert k v t)"
    and wf_remove: "wf t \<Longrightarrow> wf (remove k t)"
begin

lemma lookup_insert_same: "lookup (insert k v t) k = Some v"
  by (simp add: lookup_insert)

lemma lookup_insert_all:
  assumes "\<And>k' v'. lookup t k' = Some v' \<Longrightarrow> P k' v'" and "P k v"
    and "lookup (insert k v t) k' = Some v'"
  shows "P k' v'"
  using assms by (simp add: lookup_insert split: if_splits)

lemma lookup_remove_mono:
  "wf t \<Longrightarrow> lookup (remove k t) k' = Some v \<Longrightarrow> lookup t k' = Some v"
  by (simp add: lookup_remove split: if_splits)

lemma remove_insert_fresh:
  "wf t \<Longrightarrow> lookup t k = None \<Longrightarrow> lookup (remove k (insert k v t)) = lookup t"
  by (rule ext) (simp add: lookup_remove lookup_insert wf_insert)

end

interpretation gh: hash_table ght_empty ght_lookup ght_insert ght_remove ght_wf
  by unfold_locales
    (simp_all add: ght_empty_def ght_lookup_def ght_insert_def ght_remove_def ght_wf_def
      update_conv' delete_conv' distinct_update distinct_delete fun_upd_def)

declare gh.lookup_empty [simp] gh.lookup_insert [simp] gh.wf_empty [simp]
  gh.wf_insert [simp] gh.wf_remove [simp] gh.lookup_remove [simp]

lemma ght_values_in:
  "ght_wf t \<Longrightarrow> v \<in> set (ght_values t) \<longleftrightarrow> (\<exists>k. ght_lookup t k = Some v)"
  by (force simp: ght_values_def ght_lookup_def ght_wf_def)

lemma ght_entries_in:
  "ght_wf t \<Longrightarrow> (k, v) \<in> set t \<longleftrightarrow> ght_lookup t k = Some v"
  by (simp add: ght_lookup_def ght_wf_def)

lemma ght_lookup_SomeD: "ght_lookup t k = Some v \<Longrightarrow> (k, v) \<in> set t"
  by (simp add: ght_lookup_def map_of_SomeD)

lemma ght_empty_iff: "t = [] \<longleftrightarrow> (\<forall>k. ght_lookup t k = None)"
proof (cases t)
  case Nil
  then show ?thesis by (simp add: ght_lookup_def)
next
  case (Cons e es)
  then have "ght_lookup t (fst e) = Some (snd e)"
    by (cases e) (simp add: ght_lookup_def)
  then show ?thesis using Cons by auto
qed

lemma ght_insert_absent:
  "ght_lookup t k = None \<Longrightarrow> ght_insert k v t = t @ [(k, v)]"
  unfolding ght_lookup_def ght_insert_def
  by (induction t) (auto split: if_splits)

end
