(* ===== verification/Buffers.thy ===== *)
theory Buffers
  imports Ghash
begin

text \<open>
  The reference counted buffers and attribute tables of \<open>include/k_types.h\<close>, over an
  explicit store of allocated objects.  A \<open>k_buffer\<close> is a struct with its own count and a
  \<open>GByteArray\<close> with another one; both are counted up and down together.  Using an object
  that is not in the store, or bytes that were released, is a crash (\<open>None\<close>).  The counts are
  \<open>gint\<close>s, which \<open>g_atomic_int_inc\<close> and \<open>g_atomic_int_dec_and_test\<close> count round modulo \<open>2 ^ 32\<close>.  The other
  theories pass buffer contents by value; this one is about who owns them.
\<close>

type_synonym addr = nat

record k_buffer =
  buf_bytes :: "bytes option"   \<comment> \<open>the \<open>GByteArray\<close>; \<open>None\<close> once it is released\<close>
  bytes_refs :: gint            \<comment> \<open>the count inside the \<open>GByteArray\<close>\<close>
  buf_ref_count :: gint         \<comment> \<open>\<open>ref_count\<close> of the struct\<close>

record k_attributes =
  attr_hash :: "(string, addr) ghash"
  hash_refs :: gint
  attr_ref_count :: gint

record store =
  bufs :: "addr \<rightharpoonup> k_buffer"
  attrs :: "addr \<rightharpoonup> k_attributes"

section \<open>Buffers\<close>

text \<open>
  \<open>g_byte_array_append\<close> of \<open>size\<close> bytes read from \<open>data\<close>.  The \<open>int\<close> becomes a \<open>guint\<close>, a negative
  one a large one; reading past the data is a crash, and GLib aborts when the array's length would
  not fit into a \<open>guint\<close>.
\<close>

definition k_buffer_append :: "addr \<Rightarrow> bytes \<Rightarrow> gint \<Rightarrow> store \<Rightarrow> store option" where
  "k_buffer_append a data n s = do {
     b \<leftarrow> bufs s a;
     bs \<leftarrow> buf_bytes b;
     if unat n \<le> length data \<and> length bs + unat n < 2 ^ 32
     then Some (s\<lparr>bufs := (bufs s)(a \<mapsto> b\<lparr>buf_bytes := Some (bs @ take (unat n) data)\<rparr>)\<rparr>)
     else None }"

text \<open>
  \<open>k_buffer_alloc\<close> at the fresh address \<open>a\<close>.  With no data the array gets \<open>n\<close>
  bytes whose values are whatever \<open>undef\<close> holds.
\<close>

definition k_buffer_alloc :: "addr \<Rightarrow> bytes \<Rightarrow> bytes option \<Rightarrow> gint \<Rightarrow> store \<Rightarrow> store option" where
  "k_buffer_alloc a undef data n s =
     (let s1 = s\<lparr>bufs := (bufs s)(a \<mapsto> \<lparr>buf_bytes = Some [], bytes_refs = 1, buf_ref_count = 1\<rparr>)\<rparr>
      in case data of
        None \<Rightarrow> k_buffer_append a (take (unat n) (undef @ replicate (unat n) 0)) n s1
      | Some d \<Rightarrow> k_buffer_append a d n s1)"

definition k_buffer_ref :: "addr \<Rightarrow> store \<Rightarrow> store option" where
  "k_buffer_ref a s = do {
     b \<leftarrow> bufs s a;
     _ \<leftarrow> buf_bytes b;
     Some (s\<lparr>bufs := (bufs s)(a \<mapsto>
       b\<lparr>bytes_refs := bytes_refs b + 1, buf_ref_count := buf_ref_count b + 1\<rparr>)\<rparr>) }"

definition k_buffer_unref :: "addr option \<Rightarrow> store \<Rightarrow> store option" where
  "k_buffer_unref p s = (case p of
      None \<Rightarrow> Some s
    | Some a \<Rightarrow> do {
        b \<leftarrow> bufs s a;
        _ \<leftarrow> buf_bytes b;
        let b1 = (if bytes_refs b = 1 then b\<lparr>buf_bytes := None, bytes_refs := 0\<rparr>
                  else b\<lparr>bytes_refs := bytes_refs b - 1\<rparr>);
        Some (s\<lparr>bufs := (bufs s)(a :=
          (if buf_ref_count b1 = 1 then None
           else Some (b1\<lparr>buf_ref_count := buf_ref_count b1 - 1\<rparr>)))\<rparr>) })"

definition k_buffer_equal :: "addr \<Rightarrow> addr \<Rightarrow> store \<Rightarrow> bool option" where
  "k_buffer_equal a1 a2 s = do {
     b1 \<leftarrow> bufs s a1; d1 \<leftarrow> buf_bytes b1;
     b2 \<leftarrow> bufs s a2; d2 \<leftarrow> buf_bytes b2;
     Some (if length d1 \<noteq> length d2 then False
           else list_all (\<lambda>i. d1 ! i = d2 ! i) [0..<length d1]) }"

section \<open>Attribute tables\<close>

definition k_attributes_alloc :: "addr \<Rightarrow> store \<Rightarrow> store" where
  "k_attributes_alloc a s =
     s\<lparr>attrs := (attrs s)(a \<mapsto> \<lparr>attr_hash = ght_empty, hash_refs = 1, attr_ref_count = 1\<rparr>)\<rparr>"

definition k_attributes_ref :: "addr \<Rightarrow> store \<Rightarrow> store option" where
  "k_attributes_ref a s = do {
     t \<leftarrow> attrs s a;
     Some (s\<lparr>attrs := (attrs s)(a \<mapsto>
       t\<lparr>hash_refs := hash_refs t + 1, attr_ref_count := attr_ref_count t + 1\<rparr>)\<rparr>) }"

text \<open>\<open>k_attribute_free\<close>, the destroy function of the table's values, on each of them.\<close>

fun free_values :: "addr list \<Rightarrow> store \<Rightarrow> store option" where
  "free_values [] s = Some s"
| "free_values (a # as) s = do { s1 \<leftarrow> k_buffer_unref (Some a) s; free_values as s1 }"

definition k_attributes_unref :: "addr \<Rightarrow> store \<Rightarrow> store option" where
  "k_attributes_unref a s = do {
     t \<leftarrow> attrs s a;
     s1 \<leftarrow> (if hash_refs t = 1 then free_values (ght_values (attr_hash t)) s else Some s);
     Some (s1\<lparr>attrs := (attrs s1)(a :=
       (if attr_ref_count t = 1 then None
        else Some (t\<lparr>hash_refs := hash_refs t - 1, attr_ref_count := attr_ref_count t - 1\<rparr>)))\<rparr>) }"

text \<open>
  \<open>KEYAGENT_KEY_ADD_BYTEARRAY_ATTR\<close>: the table holds a reference of its own; a value it
  replaces is released by the table's destroy function.
\<close>

definition add_bytearray_attr :: "addr \<Rightarrow> string \<Rightarrow> addr option \<Rightarrow> store \<Rightarrow> store option" where
  "add_bytearray_attr t name src s = (case src of
      None \<Rightarrow> Some s
    | Some b \<Rightarrow> do {
        s1 \<leftarrow> k_buffer_ref b s;
        ta \<leftarrow> attrs s1 t;
        s2 \<leftarrow> (case ght_lookup (attr_hash ta) name of
                None \<Rightarrow> Some s1
              | Some old \<Rightarrow> k_buffer_unref (Some old) s1);
        Some (s2\<lparr>attrs := (attrs s2)(t \<mapsto> ta\<lparr>attr_hash := ght_insert name b (attr_hash ta)\<rparr>)\<rparr>) })"

section \<open>Well-formed stores\<close>

text \<open>
  A live buffer has bytes, and the two counts agree and are not zero; likewise for tables.
\<close>

definition buf_ok :: "k_buffer \<Rightarrow> bool" where
  "buf_ok b \<longleftrightarrow> buf_bytes b \<noteq> None \<and> bytes_refs b = buf_ref_count b \<and> buf_ref_count b \<noteq> 0"

definition store_ok :: "store \<Rightarrow> bool" where
  "store_ok s \<longleftrightarrow> (\<forall>a b. bufs s a = Some b \<longrightarrow> buf_ok b) \<and>
     (\<forall>a t. attrs s a = Some t \<longrightarrow> hash_refs t = attr_ref_count t \<and> attr_ref_count t \<noteq> 0)"

lemma store_okD: "store_ok s \<Longrightarrow> bufs s a = Some b \<Longrightarrow> buf_ok b"
  by (auto simp: store_ok_def)

lemma store_ok_bufs_upd:
  "store_ok s \<Longrightarrow> (\<And>b. v = Some b \<Longrightarrow> buf_ok b) \<Longrightarrow> store_ok (s\<lparr>bufs := (bufs s)(a := v)\<rparr>)"
  by (auto simp: store_ok_def)

lemma k_buffer_append_ok:
  "store_ok s \<Longrightarrow> k_buffer_append a d n s = Some s' \<Longrightarrow> store_ok s'"
  by (auto simp: k_buffer_append_def bind_eq_Some_conv split: if_splits dest!: store_okD
      intro!: store_ok_bufs_upd) (auto simp: buf_ok_def)

lemma k_buffer_alloc_ok:
  assumes "store_ok s" and "k_buffer_alloc a u d n s = Some s'"
  shows "store_ok s'"
proof -
  have "store_ok (s\<lparr>bufs := (bufs s)(a \<mapsto> \<lparr>buf_bytes = Some [], bytes_refs = 1, buf_ref_count = 1\<rparr>)\<rparr>)"
    using assms(1) by (rule store_ok_bufs_upd) (auto simp: buf_ok_def)
  then show ?thesis
    using assms(2) by (auto simp: k_buffer_alloc_def Let_def intro: k_buffer_append_ok split: option.splits)
qed

text \<open>The count up and down, as long as it does not come round.\<close>

lemma gint_inc: "unat c + 1 < 2 ^ 32 \<Longrightarrow> unat (c + 1 :: gint) = unat c + 1"
  by (simp add: unat_word_ariths(1))

lemma gint_inc_nonzero: "unat c + 1 < 2 ^ 32 \<Longrightarrow> (c + 1 :: gint) \<noteq> 0"
  using gint_inc[of c] by (metis Suc_eq_plus1 nat.distinct(1) unat_0)

lemma gint_dec: "c \<noteq> 0 \<Longrightarrow> unat (c - 1 :: gint) = unat c - 1"
  by (simp add: unat_minus_one)

lemma gint_one: "(c :: gint) = 1 \<longleftrightarrow> unat c = 1"
  by (metis unat_1 word_unat_eq_iff)

lemma k_buffer_unref_eval:
  assumes "bufs s a = Some b" and "buf_ok b"
  shows "k_buffer_unref (Some a) s = Some (s\<lparr>bufs := (bufs s)(a :=
    (if buf_ref_count b = 1 then None
     else Some (b\<lparr>bytes_refs := buf_ref_count b - 1, buf_ref_count := buf_ref_count b - 1\<rparr>)))\<rparr>)"
  using assms by (auto simp: k_buffer_unref_def buf_ok_def)

lemma k_buffer_unref_ok:
  assumes ok: "store_ok s" and run: "k_buffer_unref p s = Some s'"
  shows "store_ok s'"
proof (cases p)
  case None
  then show ?thesis using assms by (simp add: k_buffer_unref_def)
next
  case (Some a)
  with run obtain b where b: "bufs s a = Some b"
    by (auto simp: k_buffer_unref_def bind_eq_Some_conv)
  have okb: "buf_ok b" using ok b by (rule store_okD)
  show ?thesis
    using run Some ok okb by (auto simp: k_buffer_unref_eval[OF b okb] buf_ok_def intro!: store_ok_bufs_upd
        split: if_splits)
qed


lemma free_values_ok: "store_ok s \<Longrightarrow> free_values as s = Some s' \<Longrightarrow> store_ok s'"
  by (induction as arbitrary: s) (auto simp: bind_eq_Some_conv intro: k_buffer_unref_ok)

section \<open>What the counts promise\<close>

text \<open>The counts seen from outside: how many owners a buffer has.\<close>

definition owners :: "addr \<Rightarrow> store \<Rightarrow> nat" where
  "owners a s = (case bufs s a of None \<Rightarrow> 0 | Some b \<Rightarrow> unat (buf_ref_count b))"

definition contents :: "addr \<Rightarrow> store \<Rightarrow> bytes option" where
  "contents a s = Option.bind (bufs s a) buf_bytes"

lemma owners_pos_iff: "store_ok s \<Longrightarrow> 0 < owners a s \<longleftrightarrow> bufs s a \<noteq> None"
  by (auto simp: owners_def buf_ok_def unat_gt_0 dest: store_okD split: option.splits)

lemma k_buffer_ref_spec:
  assumes "store_ok s" and "0 < owners a s" and "owners a s + 1 < 2 ^ 32"
  shows "\<exists>s'. k_buffer_ref a s = Some s' \<and> owners a s' = owners a s + 1
    \<and> contents a s' = contents a s \<and> (\<forall>c. c \<noteq> a \<longrightarrow> bufs s' c = bufs s c) \<and> attrs s' = attrs s \<and> store_ok s'"
proof -
  from assms obtain b where b: "bufs s a = Some b" by (auto simp: owners_pos_iff)
  then have ok: "buf_ok b" using assms(1) by (blast dest: store_okD)
  have u: "unat (buf_ref_count b + 1) = unat (buf_ref_count b) + 1" "buf_ref_count b + 1 \<noteq> 0"
    using assms(3) b gint_inc[of "buf_ref_count b"] gint_inc_nonzero[of "buf_ref_count b"] by (simp_all add: owners_def)
  have "store_ok (s\<lparr>bufs := (bufs s)(a \<mapsto> b\<lparr>bytes_refs := bytes_refs b + 1, buf_ref_count := buf_ref_count b + 1\<rparr>)\<rparr>)"
    using assms(1) by (rule store_ok_bufs_upd) (use ok u in \<open>auto simp: buf_ok_def\<close>)
  then show ?thesis using b ok u by (auto simp: k_buffer_ref_def owners_def contents_def buf_ok_def)
qed

lemma k_buffer_unref_spec:
  assumes "store_ok s" and "0 < owners a s"
  shows "\<exists>s'. k_buffer_unref (Some a) s = Some s' \<and> owners a s' = owners a s - 1
    \<and> contents a s' = (if owners a s = 1 then None else contents a s)
    \<and> (\<forall>c. c \<noteq> a \<longrightarrow> bufs s' c = bufs s c) \<and> attrs s' = attrs s"
proof -
  from assms obtain b where b: "bufs s a = Some b" by (auto simp: owners_pos_iff)
  then have "buf_ok b" using assms(1) by (blast dest: store_okD)
  then show ?thesis
    using b by (auto simp: k_buffer_unref_def owners_def contents_def buf_ok_def Let_def gint_dec gint_one)
qed

text \<open>A run of references taken and dropped on one buffer.\<close>

datatype ref_op = Ref | Unref

fun run_refs :: "addr \<Rightarrow> ref_op list \<Rightarrow> store \<Rightarrow> store option" where
  "run_refs a [] s = Some s"
| "run_refs a (Ref # ops) s = do { s1 \<leftarrow> k_buffer_ref a s; run_refs a ops s1 }"
| "run_refs a (Unref # ops) s = do { s1 \<leftarrow> k_buffer_unref (Some a) s; run_refs a ops s1 }"

text \<open>No prefix of the run drops more references than were held.\<close>

fun balanced :: "nat \<Rightarrow> ref_op list \<Rightarrow> bool" where
  "balanced n [] = True"
| "balanced n (Ref # ops) = (0 < n \<and> balanced (n + 1) ops)"
| "balanced n (Unref # ops) = (0 < n \<and> balanced (n - 1) ops)"

text \<open>
  As long as the count does not come round, running a list of operations on a buffer held by
  \<open>owners a s\<close> owners never uses a released buffer exactly when the run is balanced, and what is left
  are the owners it counts; the contents stay as they were as long as one is left.
\<close>

lemma run_refs_crash_iff:
  assumes "store_ok s" and "owners a s + count_list ops Ref < 2 ^ 32"
  shows "run_refs a ops s \<noteq> None \<longleftrightarrow> balanced (owners a s) ops"
  using assms
proof (induction ops arbitrary: s)
  case Nil
  then show ?case by simp
next
  case (Cons op ops)
  show ?case
  proof (cases "0 < owners a s")
    case False
    then have "bufs s a = None" using Cons.prems(1) by (simp add: owners_pos_iff)
    then show ?thesis using False
      by (cases op) (simp_all add: k_buffer_ref_def k_buffer_unref_def owners_def)
  next
    case True
    show ?thesis
    proof (cases op)
      case Ref
      then have "owners a s + 1 < 2 ^ 32" using Cons.prems(2) by simp
      from k_buffer_ref_spec[OF Cons.prems(1) True this] obtain s1 where
        s1: "k_buffer_ref a s = Some s1" "owners a s1 = owners a s + 1" "store_ok s1" by blast
      then show ?thesis using Cons.IH[OF s1(3)] Cons.prems(2) Ref True by simp
    next
      case Unref
      from k_buffer_unref_spec[OF Cons.prems(1) True] obtain s2 where
        s2: "k_buffer_unref (Some a) s = Some s2" "owners a s2 = owners a s - 1" by blast
      then show ?thesis
        using Cons.IH[OF k_buffer_unref_ok[OF Cons.prems(1) s2(1)]] Cons.prems(2) Unref True by simp
    qed
  qed
qed

lemma run_refs_owners:
  assumes "store_ok s" and "owners a s + count_list ops Ref < 2 ^ 32" and "run_refs a ops s = Some s'"
  shows "int (owners a s') = int (owners a s) + int (count_list ops Ref) - int (count_list ops Unref)
    \<and> (0 < owners a s' \<longrightarrow> contents a s' = contents a s)"
  using assms
proof (induction ops arbitrary: s)
  case Nil
  then show ?case by simp
next
  case (Cons op ops)
  have "balanced (owners a s) (op # ops)"
    using run_refs_crash_iff[OF Cons.prems(1,2)] Cons.prems(3) by (metis option.discI)
  then have pos: "0 < owners a s" by (cases op) auto
  show ?case
  proof (cases op)
    case Ref
    then have "owners a s + 1 < 2 ^ 32" using Cons.prems(2) by simp
    from k_buffer_ref_spec[OF Cons.prems(1) pos this] obtain s1 where
      s1: "k_buffer_ref a s = Some s1" "owners a s1 = owners a s + 1" "contents a s1 = contents a s" "store_ok s1"
      by blast
    then show ?thesis using Cons.IH[OF s1(4)] Cons.prems(2,3) Ref by simp
  next
    case Unref
    from k_buffer_unref_spec[OF Cons.prems(1) pos] obtain s1 where
      s1: "k_buffer_unref (Some a) s = Some s1" "owners a s1 = owners a s - 1"
        "contents a s1 = (if owners a s = 1 then None else contents a s)"
      by blast
    have IH: "int (owners a s') = int (owners a s1) + int (count_list ops Ref) - int (count_list ops Unref)
      \<and> (0 < owners a s' \<longrightarrow> contents a s' = contents a s1)"
      using Cons.IH[OF k_buffer_unref_ok[OF Cons.prems(1) s1(1)]] Cons.prems(2,3) Unref s1(1,2) by simp
    have "owners a s1 = 0 \<Longrightarrow> owners a s' = 0"
    proof -
      assume z: "owners a s1 = 0"
      have r: "run_refs a ops s1 = Some s'" using Cons.prems(3) Unref s1(1) by simp
      have "owners a s1 + count_list ops Ref < 2 ^ 32" using Cons.prems(2) Unref s1(2) by simp
      from run_refs_crash_iff[OF k_buffer_unref_ok[OF Cons.prems(1) s1(1)] this] have "balanced 0 ops"
        using r z by (metis option.discI)
      then have "ops = []" by (cases ops; cases "hd ops") auto
      then show "owners a s' = 0" using z r by simp
    qed
    then show ?thesis using IH s1 pos Unref by auto
  qed
qed

text \<open>\<open>2 ^ 32\<close> references bring the count round: the store is what it was.\<close>

lemma run_refs_many:
  "bufs s a = Some b \<Longrightarrow> buf_bytes b \<noteq> None \<Longrightarrow> run_refs a (replicate n Ref @ ops) s =
     run_refs a ops (s\<lparr>bufs := (bufs s)(a \<mapsto>
       b\<lparr>bytes_refs := bytes_refs b + of_nat n, buf_ref_count := buf_ref_count b + of_nat n\<rparr>)\<rparr>)"
proof (induction n arbitrary: s b)
  case 0
  then show ?case by (simp add: fun_upd_idem)
next
  case (Suc n)
  let ?b = "b\<lparr>bytes_refs := bytes_refs b + 1, buf_ref_count := buf_ref_count b + 1\<rparr>"
  let ?s = "s\<lparr>bufs := (bufs s)(a \<mapsto> ?b)\<rparr>"
  have "k_buffer_ref a s = Some ?s" using Suc.prems by (auto simp: k_buffer_ref_def)
  moreover have "run_refs a (replicate n Ref @ ops) ?s = run_refs a ops (?s\<lparr>bufs := (bufs ?s)(a \<mapsto>
      ?b\<lparr>bytes_refs := bytes_refs ?b + of_nat n, buf_ref_count := buf_ref_count ?b + of_nat n\<rparr>)\<rparr>)"
    by (rule Suc.IH) (use Suc.prems in simp_all)
  moreover have "?s\<lparr>bufs := (bufs ?s)(a \<mapsto> ?b\<lparr>bytes_refs := bytes_refs ?b + of_nat n, buf_ref_count := buf_ref_count ?b + of_nat n\<rparr>)\<rparr>
      = s\<lparr>bufs := (bufs s)(a \<mapsto> b\<lparr>bytes_refs := bytes_refs b + of_nat (Suc n), buf_ref_count := buf_ref_count b + of_nat (Suc n)\<rparr>)\<rparr>"
    by (simp add: add.assoc)
  ultimately show ?case by (simp only: replicate_Suc append_Cons run_refs.simps bind.bind_lunit)
qed

lemma run_refs_round:
  assumes ok: "store_ok s" and pos: "0 < owners a s" and n: "(of_nat n :: gint) = 0"
  shows "run_refs a (replicate n Ref @ ops) s = run_refs a ops s"
proof -
  obtain b where b: "bufs s a = Some b" using ok pos by (auto simp: owners_pos_iff)
  then have "buf_bytes b \<noteq> None" using ok by (auto simp: buf_ok_def dest: store_okD)
  then show ?thesis using run_refs_many[OF b, of n ops] b by (simp add: n fun_upd_idem)
qed

text \<open>
  The way the key server plug-in stores an attribute: allocate a buffer, put it into the
  table (which takes its own reference), drop the plug-in's reference.  The table is then its
  only owner, and dropping the last reference of the table releases the buffer.
\<close>

lemma add_bytearray_attr_spec:
  assumes ok: "store_ok s" and pos: "0 < owners b s" "owners b s + 1 < 2 ^ 32" and t: "attrs s t = Some ta"
    and absent: "ght_lookup (attr_hash ta) name = None"
  shows "\<exists>s'. add_bytearray_attr t name (Some b) s = Some s' \<and> owners b s' = owners b s + 1
    \<and> contents b s' = contents b s
    \<and> attrs s' = (attrs s)(t \<mapsto> ta\<lparr>attr_hash := ght_insert name b (attr_hash ta)\<rparr>)"
proof -
  from k_buffer_ref_spec[OF ok pos] obtain s1 where
    s1: "k_buffer_ref b s = Some s1" "owners b s1 = owners b s + 1"
      "contents b s1 = contents b s" "attrs s1 = attrs s" by blast
  then show ?thesis using t absent
    by (auto simp: add_bytearray_attr_def owners_def contents_def)
qed

lemma k_attributes_unref_last:
  assumes ok: "store_ok s" and t: "attrs s t = Some ta" "attr_ref_count ta = 1"
    and vals: "ght_values (attr_hash ta) = [b]" and one: "owners b s = 1"
  shows "\<exists>s'. k_attributes_unref t s = Some s' \<and> bufs s' b = None \<and> attrs s' t = None"
proof -
  have h: "hash_refs ta = 1" using ok t by (auto simp: store_ok_def)
  have pos: "0 < owners b s" using one by simp
  from k_buffer_unref_spec[OF ok pos] obtain s1 where
    s1: "k_buffer_unref (Some b) s = Some s1" "owners b s1 = 0" using one by auto
  have "bufs s1 b = None"
    using owners_pos_iff[OF k_buffer_unref_ok[OF ok s1(1)], where a = b] s1(2) by simp
  then show ?thesis using t h vals s1(1) by (simp add: k_attributes_unref_def)
qed

section \<open>Properties\<close>

text \<open>
  C36: while fewer than \<open>2 ^ 32\<close> references can be held, taking and dropping references on a buffer
  touches a released buffer exactly when some prefix of the operations drops more references than are
  held; as long as one is left the bytes are the ones it had.  The bound is needed: the count is a
  \<open>gint\<close>, and \<open>2 ^ 32\<close> references on a live buffer leave everything as it was, so that the owners there were
  before can release it under the new ones.
\<close>

theorem refcount_no_use_after_free:
  assumes "store_ok s"
  shows "(owners a s + count_list ops Ref < 2 ^ 32 \<longrightarrow>
      (run_refs a ops s \<noteq> None \<longleftrightarrow> balanced (owners a s) ops) \<and>
      (\<forall>s'. run_refs a ops s = Some s' \<longrightarrow>
        int (owners a s') = int (owners a s) + int (count_list ops Ref) - int (count_list ops Unref) \<and>
        (0 < owners a s' \<longrightarrow> contents a s' = contents a s))) \<and>
    (0 < owners a s \<longrightarrow> run_refs a (replicate (2 ^ 32) Ref @ ops) s = run_refs a ops s)"
proof (intro conjI)
  have "(of_nat (2 ^ 32) :: gint) = 0" by simp
  then show "0 < owners a s \<longrightarrow> run_refs a (replicate (2 ^ 32) Ref @ ops) s = run_refs a ops s"
    using run_refs_round[OF assms] by blast
qed (use run_refs_crash_iff[OF assms] run_refs_owners[OF assms] in blast)

definition sample_store :: store where
  "sample_store = \<lparr>bufs = [7 \<mapsto> \<lparr>buf_bytes = Some [1, 2], bytes_refs = 1, buf_ref_count = 1\<rparr>],
     attrs = Map.empty\<rparr>"

lemma sample_store_ok: "store_ok sample_store"
  by (simp add: store_ok_def sample_store_def buf_ok_def)

lemma refcount_no_use_after_free_witness:
  "run_refs 7 [Ref, Unref, Unref] sample_store \<noteq> None \<and> run_refs 7 [Ref, Unref, Unref, Unref] sample_store = None \<and>
    run_refs 7 (replicate (2 ^ 32) Ref @ [Unref, Unref]) sample_store = None"
proof -
  have o: "owners 7 sample_store = 1" by (simp add: owners_def sample_store_def)
  have "balanced 1 [Ref, Unref, Unref]" "\<not> balanced 1 [Ref, Unref, Unref, Unref]" "\<not> balanced 1 [Unref, Unref]"
    by simp_all
  moreover have "1 + count_list [Ref, Unref, Unref] Ref < 2 ^ 32" "1 + count_list [Ref, Unref, Unref, Unref] Ref < 2 ^ 32"
    "1 + count_list [Unref, Unref] Ref < 2 ^ 32" by simp_all
  moreover have "0 < owners 7 sample_store" by (simp add: o)
  ultimately show ?thesis using refcount_no_use_after_free[OF sample_store_ok, of 7] unfolding o by (metis (no_types, lifting))
qed

text \<open>
  C37: a decoded value (its length cut to 32 bits, as the allocation takes it), put into a fresh
  attribute table and released by its maker, as the plug-in does it, stays readable through the table,
  and releasing the table releases it: nothing is used after its release, and nothing is left behind.
\<close>

theorem attribute_lifecycle:
  assumes fresh: "bufs s b = None" "attrs s t = None"
  shows "\<exists>s1 s2 s3 s4. k_buffer_alloc b undef (Some d) (of_nat (length d)) s = Some s1 \<and>
    add_bytearray_attr t name (Some b) (k_attributes_alloc t s1) = Some s2 \<and>
    k_buffer_unref (Some b) s2 = Some s3 \<and> contents b s3 = Some (take (length d mod 2 ^ 32) d) \<and> owners b s3 = 1 \<and>
    k_attributes_unref t s3 = Some s4 \<and> bufs s4 = bufs s \<and> attrs s4 = attrs s"
proof -
  let ?d = "take (length d mod 2 ^ 32) d"
  have n: "unat (of_nat (length d) :: gint) = length d mod 2 ^ 32" by (simp add: unat_of_nat)
  define s1 where "s1 = s\<lparr>bufs := (bufs s)(b \<mapsto> \<lparr>buf_bytes = Some ?d, bytes_refs = 1, buf_ref_count = 1\<rparr>)\<rparr>"
  have a: "k_buffer_alloc b undef (Some d) (of_nat (length d)) s = Some s1"
    unfolding k_buffer_alloc_def k_buffer_append_def n by (simp add: s1_def)
  define s2 where "s2 = s\<lparr>bufs := (bufs s)(b \<mapsto> \<lparr>buf_bytes = Some ?d, bytes_refs = 2, buf_ref_count = 2\<rparr>),
    attrs := (attrs s)(t \<mapsto> \<lparr>attr_hash = ght_insert name b ght_empty, hash_refs = 1, attr_ref_count = 1\<rparr>)\<rparr>"
  have b: "add_bytearray_attr t name (Some b) (k_attributes_alloc t s1) = Some s2"
    by (simp add: add_bytearray_attr_def k_attributes_alloc_def s1_def s2_def k_buffer_ref_def)
  define s3 where "s3 = s2\<lparr>bufs := (bufs s)(b \<mapsto> \<lparr>buf_bytes = Some ?d, bytes_refs = 1, buf_ref_count = 1\<rparr>)\<rparr>"
  have c: "k_buffer_unref (Some b) s2 = Some s3"
    by (simp add: k_buffer_unref_def s2_def s3_def)
  have v: "ght_values (ght_insert name b ght_empty) = [b]"
    by (simp add: ght_values_def ght_insert_def ght_empty_def)
  have "(bufs s)(b := None) = bufs s" "(attrs s)(t := None) = attrs s" using fresh by (auto simp: fun_eq_iff)
  then have "\<exists>s4. k_attributes_unref t s3 = Some s4 \<and> bufs s4 = bufs s \<and> attrs s4 = attrs s"
    by (simp add: k_attributes_unref_def s3_def s2_def v k_buffer_unref_def)
  moreover have "contents b s3 = Some ?d" "owners b s3 = 1" by (simp_all add: contents_def owners_def s3_def)
  ultimately show ?thesis using a b c by blast
qed

lemma attribute_lifecycle_witness:
  "\<exists>s1 s2 s3 s4. k_buffer_alloc 8 [] (Some [5, 6]) (of_nat (length [5, 6 :: byte])) sample_store = Some s1 \<and>
    add_bytearray_attr 3 ''KEYDATA'' (Some 8) (k_attributes_alloc 3 s1) = Some s2 \<and>
    k_buffer_unref (Some 8) s2 = Some s3 \<and> contents 8 s3 = Some [5, 6] \<and> owners 8 s3 = 1 \<and>
    k_attributes_unref 3 s3 = Some s4 \<and> bufs s4 = bufs sample_store \<and> attrs s4 = attrs sample_store"
proof -
  have "bufs sample_store 8 = None" "attrs sample_store 3 = None" by (simp_all add: sample_store_def)
  from attribute_lifecycle[OF this, of "[]" "[5, 6]" "''KEYDATA''"] show ?thesis by simp
qed

end
