(* ===== verification/Request.thy ===== *)
theory Request
  imports Prelude
begin

text \<open>
  \<open>key-agent/src/request.cpp\<close>: the request ids of key loads, random version 4 UUIDs.
  The random numbers come from GLib's generator, an argument here.
\<close>

section \<open>Model\<close>

text \<open>\<open>%02x\<close> of a byte.\<close>

definition hex_digit :: "nat \<Rightarrow> char" where
  "hex_digit n = (if n < 10 then char_of (48 + n) else char_of (87 + n))"

definition hex2 :: "byte \<Rightarrow> string" where
  "hex2 b = [hex_digit (unat b div 16), hex_digit (unat b mod 16)]"

definition uuid_to_string :: "bytes \<Rightarrow> string" where
  "uuid_to_string u =
     concat (map (\<lambda>i. hex2 (u ! i)) [0..<4]) @ ''-'' @
     concat (map (\<lambda>i. hex2 (u ! i)) [4..<6]) @ ''-'' @
     concat (map (\<lambda>i. hex2 (u ! i)) [6..<8]) @ ''-'' @
     concat (map (\<lambda>i. hex2 (u ! i)) [8..<10]) @ ''-'' @
     concat (map (\<lambda>i. hex2 (u ! i)) [10..<16])"

text \<open>\<open>version << 4\<close> is computed in \<open>guint\<close> and truncated to the byte.\<close>

definition uuid_set_version :: "bytes \<Rightarrow> u32 \<Rightarrow> bytes" where
  "uuid_set_version u version =
     (let u1 = u[6 := (u ! 6 AND 0x0f)];
          u2 = u1[6 := (u1 ! 6 OR ucast (push_bit 4 version))];
          u3 = u2[8 := (u2 ! 8 AND 0x3f)]
      in u3[8 := (u3 ! 8 OR 0x80)])"

text \<open>The four words \<open>ints[i] = g_random_int ()\<close>, overlaid on the sixteen bytes.\<close>

fun uuid_words :: "nat \<Rightarrow> ('x \<Rightarrow> u32 \<times> 'x) \<Rightarrow> 'x \<Rightarrow> bytes \<times> 'x" where
  "uuid_words 0 rnd x = ([], x)"
| "uuid_words (Suc n) rnd x =
     (let (r, x1) = rnd x; (bs, x2) = uuid_words n rnd x1 in (le32 r @ bs, x2))"

definition uuid_generate_v4 :: "('x \<Rightarrow> u32 \<times> 'x) \<Rightarrow> 'x \<Rightarrow> bytes \<times> 'x" where
  "uuid_generate_v4 rnd x = (let (u, x1) = uuid_words 4 rnd x in (uuid_set_version u 4, x1))"

definition keyagent_generate_request_id :: "('x \<Rightarrow> u32 \<times> 'x) \<Rightarrow> 'x \<Rightarrow> string \<times> 'x" where
  "keyagent_generate_request_id rnd x =
     (let (u, x1) = uuid_generate_v4 rnd x in (uuid_to_string u, x1))"

section \<open>Shape of an id\<close>

lemma length_uuid_words: "length (fst (uuid_words n rnd x)) = 4 * n"
  by (induction n arbitrary: x) (auto split: prod.splits simp: Let_def, metis fst_conv)

lemma length_uuid_set_version [simp]: "length (uuid_set_version u v) = length u"
  by (simp add: uuid_set_version_def Let_def)

lemma length_uuid_generate_v4: "length (fst (uuid_generate_v4 rnd x)) = 16"
  using length_uuid_words[of 4 rnd x] by (cases "uuid_words 4 rnd x") (simp add: uuid_generate_v4_def)

lemma length_hex2 [simp]: "length (hex2 b) = 2"
  by (simp add: hex2_def)

lemma uuid_set_version_6:
  "length u = 16 \<Longrightarrow> uuid_set_version u v ! 6 = (u ! 6 AND 0x0f) OR ucast (push_bit 4 v)"
  by (simp add: uuid_set_version_def Let_def)

lemma uuid_set_version_8:
  "length u = 16 \<Longrightarrow> uuid_set_version u v ! 8 = (u ! 8 AND 0x3f) OR 0x80"
  by (simp add: uuid_set_version_def Let_def)

lemma uuid_set_version_other:
  "i \<noteq> 6 \<Longrightarrow> i \<noteq> 8 \<Longrightarrow> uuid_set_version u v ! i = u ! i"
  by (simp add: uuid_set_version_def Let_def)

text \<open>The four most significant bits of byte 6 become the version.\<close>

lemma version_bits:
  "drop_bit 4 ((b AND 0x0f) OR ucast (push_bit 4 (4 :: u32)) :: byte) = 4"
  by simp

lemma variant_bits: "drop_bit 6 ((b AND 0x3f) OR 0x80 :: byte) = 2"
  by simp

lemma length_16E:
  assumes "length u = 16"
  obtains a b c d e f g h i j k l m n p q where "u = [a,b,c,d,e,f,g,h,i,j,k,l,m,n,p,q]"
  using assms by (auto simp: numeral_eq_Suc length_Suc_conv)

lemma uuid_to_string_eval:
  "uuid_to_string [a,b,c,d,e,f,g,h,i,j,k,l,m,n,p,q] =
     hex2 a @ hex2 b @ hex2 c @ hex2 d @ ''-'' @ hex2 e @ hex2 f @ ''-'' @ hex2 g @ hex2 h @ ''-'' @
     hex2 i @ hex2 j @ ''-'' @ hex2 k @ hex2 l @ hex2 m @ hex2 n @ hex2 p @ hex2 q"
  by (simp add: uuid_to_string_def upt_rec[of 0] upt_rec[of 4] upt_rec[of 6] upt_rec[of 8] upt_rec[of 10]
      numeral_eq_Suc upt_rec)

lemma length_uuid_to_string [simp]: "length u = 16 \<Longrightarrow> length (uuid_to_string u) = 36"
  by (erule length_16E) (simp add: uuid_to_string_eval)

section \<open>Reading an id back\<close>

definition unhex_digit :: "char \<Rightarrow> nat" where
  "unhex_digit c = (let n = of_char c in if n < 58 then n - 48 else n - 87)"

fun unhex :: "string \<Rightarrow> bytes" where
  "unhex (c # d # s) = of_nat (16 * unhex_digit c + unhex_digit d) # unhex s"
| "unhex _ = []"

definition uuid_of_string :: "string \<Rightarrow> bytes" where
  "uuid_of_string s = unhex (filter (\<lambda>c. c \<noteq> CHR ''-'') s)"

lemma unhex_hex_digit [simp]: "n < 16 \<Longrightarrow> unhex_digit (hex_digit n) = n"
  by (auto simp: unhex_digit_def hex_digit_def Let_def)

lemma hex_digit_not_dash [simp]: "n < 16 \<Longrightarrow> hex_digit n \<noteq> CHR ''-''"
  by (auto simp: hex_digit_def dest!: arg_cong[where f = "of_char :: char \<Rightarrow> nat"])

lemma unat_byte_div16: "unat (b :: byte) div 16 < 16"
  using unat_byte_less[of b] by simp

lemma filter_hex2 [simp]: "filter (\<lambda>c. c \<noteq> CHR ''-'') (hex2 b) = hex2 b"
  using unat_byte_div16[of b] by (simp add: hex2_def)

lemma unhex_hex2 [simp]: "unhex (hex2 b @ s) = b # unhex s"
  using unat_byte_div16[of b] by (simp add: hex2_def)

lemma unhex_hex2_end [simp]: "unhex (hex2 b) = [b]"
  using unhex_hex2[of b "[]"] by simp

lemma uuid_of_to_string: "length u = 16 \<Longrightarrow> uuid_of_string (uuid_to_string u) = u"
  by (erule length_16E) (simp add: uuid_to_string_eval uuid_of_string_def)

lemma uuid_to_string_inj:
  "length u = 16 \<Longrightarrow> length v = 16 \<Longrightarrow> uuid_to_string u = uuid_to_string v \<Longrightarrow> u = v"
  by (metis uuid_of_to_string)

section \<open>Properties\<close>

lemma uuid_generate_v4_bits:
  assumes "uuid_generate_v4 rnd x = (u, x1)"
  shows "length u = 16" and "drop_bit 4 (u ! 6) = 4" and "drop_bit 6 (u ! 8) = 2"
proof -
  obtain v where v: "length v = 16" "u = uuid_set_version v 4"
    using assms length_uuid_words[of 4 rnd x]
    by (cases "uuid_words 4 rnd x") (auto simp: uuid_generate_v4_def)
  then show "length u = 16" by simp
  show "drop_bit 4 (u ! 6) = 4" unfolding v(2) using v(1) by (simp add: uuid_set_version_6)
  show "drop_bit 6 (u ! 8) = 2" unfolding v(2) using v(1) by (simp add: uuid_set_version_8)
qed

text \<open>
  C26: a request id is a version 4 UUID whatever the random numbers are: it has 36 characters, its
  version nibble is 4, its variant bits are 10, and reading the text back gives the sixteen bytes
  that were generated.
\<close>

theorem request_id_roundtrip:
  "\<exists>u. length u = 16 \<and> drop_bit 4 (u ! 6) = 4 \<and> drop_bit 6 (u ! 8) = 2 \<and>
     u = fst (uuid_generate_v4 rnd x) \<and>
     length (fst (keyagent_generate_request_id rnd x)) = 36 \<and>
     uuid_of_string (fst (keyagent_generate_request_id rnd x)) = u"
proof -
  obtain u x1 where u: "uuid_generate_v4 rnd x = (u, x1)" by (cases "uuid_generate_v4 rnd x")
  note b = uuid_generate_v4_bits[OF u]
  show ?thesis
    using b uuid_of_to_string[OF b(1)] u by (intro exI[of _ u]) (simp add: keyagent_generate_request_id_def)
qed

end
