(* ===== verification/Config.thy ===== *)
theory Config
  imports Prelude
begin

text \<open>
  \<open>config-file/src/key_configfile.c\<close>, the accessors of configuration files.  The parser and
  the key file object are GLib's: a loaded file is what its three typed reads answer, and
  loading a file by name is an argument.  A handle is NULL when loading failed, and reads
  through a NULL handle answer NULL or FALSE without an error.
\<close>

record keyfile =
  kf_string :: "string \<Rightarrow> string \<Rightarrow> errcode + string"
  kf_boolean :: "string \<Rightarrow> string \<Rightarrow> errcode + bool"
  kf_integer :: "string \<Rightarrow> string \<Rightarrow> errcode + gint"

definition key_config_openfile ::
    "(string \<Rightarrow> errcode + keyfile) \<Rightarrow> string option \<Rightarrow> gerr \<Rightarrow> keyfile option \<times> gerr" where
  "key_config_openfile load filename err =
     (if err \<noteq> None then (None, err)
      else case filename of
        None \<Rightarrow> (None, err)
      | Some f \<Rightarrow> (case load f of
          Inl e \<Rightarrow> (None, g_propagate_error err (Some e))
        | Inr kf \<Rightarrow> (Some kf, err)))"

definition key_config_get_string ::
    "keyfile option \<Rightarrow> string \<Rightarrow> string \<Rightarrow> gerr \<Rightarrow> string option \<times> gerr" where
  "key_config_get_string config section key err =
     (if err \<noteq> None then (None, err)
      else case config of
        None \<Rightarrow> (None, err)
      | Some kf \<Rightarrow> (case kf_string kf section key of
          Inl e \<Rightarrow> (None, g_set_error err e)
        | Inr v \<Rightarrow> (Some v, err)))"

definition key_config_get_string_optional ::
    "keyfile option \<Rightarrow> string \<Rightarrow> string \<Rightarrow> string option \<Rightarrow> string option" where
  "key_config_get_string_optional config section key default_val =
     (let (val, err) = key_config_get_string config section key None
      in if err \<noteq> None then default_val else val)"

definition key_config_get_integer ::
    "keyfile option \<Rightarrow> string \<Rightarrow> string \<Rightarrow> gerr \<Rightarrow> gint \<times> gerr" where
  "key_config_get_integer config section key err =
     (if err \<noteq> None then (- 1, err)
      else case config of
        None \<Rightarrow> (0, err)
      | Some kf \<Rightarrow> (case kf_integer kf section key of
          Inl e \<Rightarrow> (0, g_set_error err e)
        | Inr v \<Rightarrow> (v, err)))"

definition key_config_get_boolean ::
    "keyfile option \<Rightarrow> string \<Rightarrow> string \<Rightarrow> gerr \<Rightarrow> int \<times> gerr" where
  "key_config_get_boolean config section key err =
     (if err \<noteq> None then (- 1, err)
      else case config of
        None \<Rightarrow> (0, err)
      | Some kf \<Rightarrow> (case kf_boolean kf section key of
          Inl e \<Rightarrow> (0, g_set_error err e)
        | Inr b \<Rightarrow> (if b then 1 else 0, err)))"

definition key_config_get_boolean_optional ::
    "keyfile option \<Rightarrow> string \<Rightarrow> string \<Rightarrow> int \<Rightarrow> int" where
  "key_config_get_boolean_optional config section key default_val =
     (let (val, err) = key_config_get_boolean config section key None
      in if err \<noteq> None then default_val else val)"

section \<open>What the accessors guarantee\<close>

lemma openfile_error_iff:
  "key_config_openfile load (Some f) None = (h, err) \<Longrightarrow> (err = None \<longleftrightarrow> h \<noteq> None)"
  by (auto simp: key_config_openfile_def split: sum.splits)

lemma get_string_error_iff:
  "key_config_get_string (Some kf) s k None = (v, err) \<Longrightarrow> (err = None \<longleftrightarrow> v \<noteq> None)"
  by (auto simp: key_config_get_string_def split: sum.splits)

lemma get_string_keeps_error:
  "key_config_get_string c s k (Some e) = (None, Some e)"
  by (simp add: key_config_get_string_def)

lemma get_string_optional_eval:
  "key_config_get_string_optional (Some kf) s k d =
     (case kf_string kf s k of Inl e \<Rightarrow> d | Inr v \<Rightarrow> Some v)"
  by (simp add: key_config_get_string_optional_def key_config_get_string_def split: sum.splits)

lemma get_boolean_optional_eval:
  "key_config_get_boolean_optional (Some kf) s k d =
     (case kf_boolean kf s k of Inl e \<Rightarrow> d | Inr b \<Rightarrow> (if b then 1 else 0))"
  by (simp add: key_config_get_boolean_optional_def key_config_get_boolean_def split: sum.splits)

end
