(* ===== verification/Curl.thy ===== *)
theory Curl
  imports Prelude
begin

text \<open>
  \<open>utils/curl.cpp\<close>: one HTTPS request.  libcurl is an argument: creating a handle, setting
  one option, performing the transfer (which hands header lines and body chunks to the
  callbacks of this file) and reading the response code.  The state \<open>'x\<close> is the world
  outside the library, threaded through every call.

  libcurl hands over a header line without a terminating NUL.  A line is therefore given with what
  memory holds behind it, up to the next NUL, or \<open>None\<close> when reading on faults.
\<close>

type_synonym header_line = "string \<times> string option"

record keyagent_ssl_opts =
  certfile :: "string option"
  ca_certfile :: "string option"
  certtype :: "string option"
  keyname :: "string option"
  keytype_str :: "string option"
  key_password :: "string option"
  ssl_verify :: int
  ssl_version :: int

datatype curlopt =
    CURLOPT_URL string | CURLOPT_VERBOSE int | CURLOPT_SSLVERSION int
  | CURLOPT_SSLCERTTYPE string | CURLOPT_SSLCERT string | CURLOPT_SSLKEYTYPE string
  | CURLOPT_SSLKEY string | CURLOPT_CAINFO string | CURLOPT_KEYPASSWD string
  | CURLOPT_SSLENGINE string | CURLOPT_SSLENGINE_DEFAULT int | CURLOPT_SSL_VERIFYPEER int
  | CURLOPT_POSTFIELDS string | CURLOPT_HTTPHEADER "string list"
  | CURLOPT_WRITEFUNCTION | CURLOPT_WRITEDATA | CURLOPT_USERPWD string
  | CURLOPT_HEADERFUNCTION | CURLOPT_HEADERDATA

record 'x curl_ops =
  curl_easy_init :: "'x \<Rightarrow> bool \<times> 'x"
  curl_easy_setopt :: "curlopt \<Rightarrow> 'x \<Rightarrow> bool \<times> 'x"
  curl_easy_perform :: "'x \<Rightarrow> (header_line list \<times> bytes list) \<times> 'x"
  curl_easy_getinfo :: "'x \<Rightarrow> int \<times> 'x"

definition FORMAT_PEM :: string where "FORMAT_PEM = ''PEM''"
definition FORMAT_ENG :: string where "FORMAT_ENG = ''ENG''"

section \<open>Callbacks\<close>

text \<open>\<open>__write_byte_array\<close>; the byte count is a \<open>size_t\<close>, passed on as an \<open>int\<close>.\<close>

definition write_byte_array :: "bytes \<Rightarrow> bytes \<Rightarrow> ck_ulong \<Rightarrow> ck_ulong \<Rightarrow> bytes \<times> ck_ulong" where
  "write_byte_array mem contents sz nmemb =
     (let realsize = sz * nmemb
      in (mem @ take (unat (ucast realsize :: u32)) contents, realsize))"

text \<open>
  \<open>__get_response_header\<close> copies the buffer as a C string: up to a NUL in the line, else up to the
  next NUL in the memory behind it.
\<close>

definition g_strdup_line :: "header_line \<Rightarrow> string option" where
  "g_strdup_line l = (if CHR 0x00 \<in> set (fst l) then Some (c_str (fst l)) else map_option (\<lambda>t. fst l @ c_str t) (snd l))"

definition get_response_header :: "header_line \<Rightarrow> string list \<Rightarrow> string list option" where
  "get_response_header header_buffer res_headers = do {
     header_element \<leftarrow> g_strdup_line header_buffer;
     Some (res_headers @ [header_element]) }"

text \<open>The callback on the lines of a response, in the order they come.\<close>

fun receive_headers :: "header_line list \<Rightarrow> string list \<Rightarrow> string list option" where
  "receive_headers [] res_headers = Some res_headers"
| "receive_headers (l # ls) res_headers = do { h \<leftarrow> get_response_header l res_headers; receive_headers ls h }"

text \<open>\<open>__build_header_list\<close>, run over the header array.\<close>

definition build_header_list :: "string list \<Rightarrow> string list" where
  "build_header_list headers = fold (\<lambda>s header_list. header_list @ [s]) headers []"

text \<open>libcurl calls the write callback with \<open>size = 1\<close>.\<close>

definition receive_chunks :: "bytes list \<Rightarrow> bytes \<Rightarrow> bytes" where
  "receive_chunks chunks mem =
     fold (\<lambda>c m. fst (write_byte_array m c 1 (of_nat (length c)))) chunks mem"

section \<open>The request\<close>

text \<open>The options in the order of the \<open>SETOPT\<close> calls.\<close>

definition opt_list :: "('a \<Rightarrow> curlopt) \<Rightarrow> 'a option \<Rightarrow> curlopt list" where
  "opt_list f v = (case v of None \<Rightarrow> [] | Some a \<Rightarrow> [f a])"

definition verify_of :: "keyagent_ssl_opts option \<Rightarrow> int" where
  "verify_of ssl_opts = (case ssl_opts of None \<Rightarrow> 0 | Some so \<Rightarrow> (if ssl_verify so = 1 then 1 else 0))"

definition ssl_option_list :: "keyagent_ssl_opts \<Rightarrow> curlopt list" where
  "ssl_option_list so =
     (if ssl_version so \<noteq> 0 then [CURLOPT_SSLVERSION (ssl_version so)] else []) @
     opt_list CURLOPT_SSLCERTTYPE (certtype so) @
     opt_list CURLOPT_SSLCERT (certfile so) @
     opt_list CURLOPT_SSLKEYTYPE (keytype_str so) @
     opt_list CURLOPT_SSLKEY (keyname so) @
     opt_list CURLOPT_CAINFO (ca_certfile so) @
     opt_list CURLOPT_KEYPASSWD (key_password so) @
     (if keytype_str so = Some FORMAT_ENG
      then [CURLOPT_SSLENGINE ''pkcs11'', CURLOPT_SSLENGINE_DEFAULT 1] else []) @
     [CURLOPT_SSL_VERIFYPEER (verify_of (Some so))]"

definition https_options ::
    "string \<Rightarrow> string list \<Rightarrow> string option \<Rightarrow> bool \<Rightarrow> keyagent_ssl_opts option \<Rightarrow>
     string option \<Rightarrow> bool \<Rightarrow> curlopt list" where
  "https_options url headers postdata want_headers ssl_opts userpwd verbose =
     [CURLOPT_URL url] @
     (if verbose then [CURLOPT_VERBOSE 1] else []) @
     (case ssl_opts of None \<Rightarrow> [] | Some so \<Rightarrow> ssl_option_list so) @
     opt_list CURLOPT_POSTFIELDS postdata @
     [CURLOPT_HTTPHEADER (build_header_list headers), CURLOPT_WRITEFUNCTION, CURLOPT_WRITEDATA] @
     (case userpwd of None \<Rightarrow> []
      | Some u \<Rightarrow> [CURLOPT_USERPWD u, CURLOPT_SSL_VERIFYPEER (verify_of ssl_opts)]) @
     (if want_headers then [CURLOPT_HEADERFUNCTION, CURLOPT_HEADERDATA] else [])"

text \<open>The \<open>SETOPT\<close> macro returns from the function at the first option refused.\<close>

fun set_options :: "'x curl_ops \<Rightarrow> curlopt list \<Rightarrow> 'x \<Rightarrow> bool \<times> 'x" where
  "set_options C [] x = (True, x)"
| "set_options C (opt # opts) x =
     (let (ok, x1) = curl_easy_setopt C opt x
      in if ok then set_options C opts x1 else (False, x1))"

text \<open>
  Result: the HTTP status (\<open>-1\<close> when nothing was sent), the response headers collected (when
  the caller passed an array for them), the body appended to \<open>returndata\<close>, the state; or a crash in
  the header callback.
\<close>

definition skc_https_send ::
    "'x curl_ops \<Rightarrow> string \<Rightarrow> string list \<Rightarrow> string option \<Rightarrow> string list option \<Rightarrow> bytes \<Rightarrow>
     keyagent_ssl_opts option \<Rightarrow> string option \<Rightarrow> bool \<Rightarrow> 'x \<Rightarrow>
     (int \<times> string list option \<times> bytes \<times> 'x) option" where
  "skc_https_send C url headers postdata response_headers returndata ssl_opts userpwd verbose x =
     (let (ok, x1) = curl_easy_init C x in
      if \<not> ok then Some (- 1, response_headers, returndata, x1)
      else
       (let (ok2, x2) = set_options C
              (https_options url headers postdata (response_headers \<noteq> None) ssl_opts userpwd verbose) x1 in
        if \<not> ok2 then Some (- 1, response_headers, returndata, x2)
        else do {
          let ((lines, chunks), x3) = curl_easy_perform C x2;
          hs \<leftarrow> (case response_headers of None \<Rightarrow> Some None | Some h \<Rightarrow> map_option Some (receive_headers lines h));
          let (res_status, x4) = curl_easy_getinfo C x3;
          Some (res_status, hs, receive_chunks chunks returndata, x4) }))"

section \<open>What a request guarantees\<close>

lemma build_header_list_id [simp]: "build_header_list hs = hs"
proof -
  have "fold (\<lambda>s l. l @ [s]) hs acc = acc @ hs" for acc
    by (induction hs arbitrary: acc) auto
  then show ?thesis by (simp add: build_header_list_def)
qed

lemma receive_headers_eval: "receive_headers ls h = map_option ((@) h) (those (map g_strdup_line ls))"
proof (induction ls arbitrary: h)
  case Nil
  then show ?case by simp
next
  case (Cons l ls)
  then show ?case by (cases "g_strdup_line l"; cases "those (map g_strdup_line ls)") (simp_all add: get_response_header_def)
qed

text \<open>A line that can be read as a C string; and one that is terminated at its end.\<close>

definition readable_line :: "header_line \<Rightarrow> bool" where
  "readable_line l \<longleftrightarrow> CHR 0x00 \<in> set (fst l) \<or> snd l \<noteq> None"

definition terminated_line :: "header_line \<Rightarrow> bool" where
  "terminated_line l \<longleftrightarrow> CHR 0x00 \<notin> set (fst l) \<and> map_option c_str (snd l) = Some []"

lemma those_None_iff: "those (map f ls) = None \<longleftrightarrow> (\<exists>l\<in>set ls. f l = None)"
  by (induction ls) (auto split: option.splits)

lemma g_strdup_line_None: "g_strdup_line l = None \<longleftrightarrow> \<not> readable_line l"
  by (simp add: g_strdup_line_def readable_line_def)

lemma receive_headers_None: "receive_headers ls h = None \<longleftrightarrow> \<not> list_all readable_line ls"
  by (auto simp: receive_headers_eval those_None_iff g_strdup_line_None list_all_iff)

lemma those_terminated: "list_all terminated_line ls \<Longrightarrow> those (map g_strdup_line ls) = Some (map fst ls)"
  by (induction ls) (auto simp: terminated_line_def g_strdup_line_def)

text \<open>The header lines and the body chunks that the answer to a request brings.\<close>

definition response_of :: "'x curl_ops \<Rightarrow> curlopt list \<Rightarrow> 'x \<Rightarrow> header_line list \<times> bytes list" where
  "response_of C opts x =
     (let (ok, x1) = curl_easy_init C x; (ok2, x2) = set_options C opts x1
      in if ok \<and> ok2 then fst (curl_easy_perform C x2) else ([], []))"

lemma skc_https_send_None:
  "skc_https_send C url hs post rh body ssl up vb x = None \<longleftrightarrow> rh \<noteq> None \<and>
     \<not> list_all readable_line (fst (response_of C (https_options url hs post (rh \<noteq> None) ssl up vb) x))"
proof (cases rh)
  case None
  then show ?thesis by (simp add: skc_https_send_def Let_def split: prod.splits)
next
  case (Some h)
  have "\<not> list_all readable_line ls \<longleftrightarrow> receive_headers ls h = None" for ls by (simp add: receive_headers_None)
  then show ?thesis using Some
    by (cases "receive_headers (fst (response_of C (https_options url hs post (rh \<noteq> None) ssl up vb) x)) h")
      (auto simp: skc_https_send_def response_of_def split: prod.splits if_splits)
qed

lemma skc_https_send_no_headers: "skc_https_send C url hs post None body ssl up vb x \<noteq> None"
  by (simp add: skc_https_send_None)

lemma write_byte_array_full:
  assumes "length c < 2 ^ 31"
  shows "write_byte_array m c 1 (of_nat (length c)) = (m @ c, of_nat (length c))"
proof -
  have "unat (ucast (of_nat (length c) :: ck_ulong) :: u32) = length c"
    using assms by (simp add: unsigned_ucast_eq unsigned_of_nat take_bit_nat_eq_self)
  then show ?thesis by (simp add: write_byte_array_def Let_def)
qed

lemma receive_chunks_concat:
  "\<forall>c\<in>set cs. length c < 2 ^ 31 \<Longrightarrow> receive_chunks cs m = m @ concat cs"
  unfolding receive_chunks_def
  by (induction cs arbitrary: m) (auto simp: write_byte_array_full)

text \<open>The peer verification in force: the last value set, libcurl's default being 1.\<close>

fun peer_verify :: "int \<Rightarrow> curlopt list \<Rightarrow> int" where
  "peer_verify d [] = d"
| "peer_verify d (CURLOPT_SSL_VERIFYPEER v # opts) = peer_verify v opts"
| "peer_verify d (_ # opts) = peer_verify d opts"

lemma peer_verify_append: "peer_verify d (xs @ ys) = peer_verify (peer_verify d xs) ys"
  by (induction d xs rule: peer_verify.induct) auto

lemma peer_verify_opt_list [simp]:
  "peer_verify d (opt_list CURLOPT_SSLCERTTYPE v) = d"
  "peer_verify d (opt_list CURLOPT_SSLCERT v) = d"
  "peer_verify d (opt_list CURLOPT_SSLKEYTYPE v) = d"
  "peer_verify d (opt_list CURLOPT_SSLKEY v) = d"
  "peer_verify d (opt_list CURLOPT_CAINFO v) = d"
  "peer_verify d (opt_list CURLOPT_KEYPASSWD v) = d"
  "peer_verify d (opt_list CURLOPT_POSTFIELDS v) = d"
  by (cases v; simp add: opt_list_def)+

lemma peer_verify_https:
  "peer_verify 1 (https_options url hs post wh ssl up vb) =
     (case (ssl, up) of (None, None) \<Rightarrow> 1 | _ \<Rightarrow> verify_of ssl)"
  by (simp add: https_options_def ssl_option_list_def peer_verify_append
      split: option.splits)

lemma set_options_prefix:
  "set_options C opts x = (False, x') \<Longrightarrow>
     \<exists>pre opt post. opts = pre @ opt # post \<and> (\<exists>y. set_options C pre x = (True, y) \<and>
       curl_easy_setopt C opt y = (False, x'))"
proof (induction opts arbitrary: x)
  case Nil
  then show ?case by simp
next
  case (Cons o1 opts)
  obtain ok y where s: "curl_easy_setopt C o1 x = (ok, y)" by (cases "curl_easy_setopt C o1 x")
  show ?case
  proof (cases ok)
    case True
    with Cons.prems s have "set_options C opts y = (False, x')" by simp
    from Cons.IH[OF this] obtain pre opt post z where
      "opts = pre @ opt # post" "set_options C pre y = (True, z)" "curl_easy_setopt C opt z = (False, x')"
      by blast
    then show ?thesis using s True
      by (intro exI[of _ "o1 # pre"] exI[of _ opt] exI[of _ post]) auto
  next
    case False
    then show ?thesis using Cons.prems s
      by (intro exI[of _ "[]"] exI[of _ o1] exI[of _ opts]) auto
  qed
qed

section \<open>Properties\<close>

text \<open>
  C29: the server's certificate is verified in every request that is sent with TLS options whose
  \<open>ssl_verify\<close> is TRUE, and in every one without options and without a password; a password
  without TLS options switches the verification off.
\<close>

theorem peer_verification:
  "peer_verify 1 (https_options url hs post wh ssl up vb) =
     (case (ssl, up) of (None, None) \<Rightarrow> 1 | (None, Some u) \<Rightarrow> 0
      | (Some so, _) \<Rightarrow> (if ssl_verify so = 1 then 1 else 0))"
  by (simp add: peer_verify_https verify_of_def split: option.splits)


definition sample_curl :: "unit curl_ops" where
  "sample_curl = \<lparr>curl_easy_init = \<lambda>x. (True, x), curl_easy_setopt = \<lambda>opt x. (True, x),
     curl_easy_perform = \<lambda>x. (([(''A'', Some []), (''B'', Some ''C'')], [[1, 2], [3]]), x), curl_easy_getinfo = \<lambda>x. (200, x)\<rparr>"

lemma set_options_sample: "set_options sample_curl opts () = (True, ())"
  by (induction opts) (simp_all add: sample_curl_def)


end
