(* ===== verification/Cryptoki.thy ===== *)
theory Cryptoki
  imports Ghash
begin

text \<open>
  What the PKCS#11 API module sees of its surroundings, and its own state.  The PKCS#11
  library below it (the SGX crypto toolkit behind \<open>func_list\<close>) and the URI parser of
  p11-kit are arguments: a record of functions over the outside state \<open>'x\<close>, one per
  entry point the module calls.  Handles, slots, object classes and return values are
  \<open>CK_ULONG\<close>, 64-bit words.
\<close>

section \<open>Constants of the PKCS#11 header the module uses\<close>

abbreviation CKR_OK :: ck_ulong where "CKR_OK \<equiv> 0"
abbreviation CKR_GENERAL_ERROR :: ck_ulong where "CKR_GENERAL_ERROR \<equiv> 0x5"
abbreviation CKR_FUNCTION_FAILED :: ck_ulong where "CKR_FUNCTION_FAILED \<equiv> 0x6"
abbreviation CKR_ARGUMENTS_BAD :: ck_ulong where "CKR_ARGUMENTS_BAD \<equiv> 0x7"
abbreviation CKR_USER_ALREADY_LOGGED_IN :: ck_ulong where "CKR_USER_ALREADY_LOGGED_IN \<equiv> 0x100"
abbreviation CKR_CRYPTOKI_ALREADY_INITIALIZED :: ck_ulong where
  "CKR_CRYPTOKI_ALREADY_INITIALIZED \<equiv> 0x191"
abbreviation CKO_DATA :: ck_ulong where "CKO_DATA \<equiv> 0x0"
abbreviation CKO_PUBLIC_KEY :: ck_ulong where "CKO_PUBLIC_KEY \<equiv> 0x2"
abbreviation CKO_PRIVATE_KEY :: ck_ulong where "CKO_PRIVATE_KEY \<equiv> 0x3"
abbreviation CKO_SECRET_KEY :: ck_ulong where "CKO_SECRET_KEY \<equiv> 0x4"
abbreviation CKK_RSA :: ck_ulong where "CKK_RSA \<equiv> 0x0"
abbreviation CKK_AES :: ck_ulong where "CKK_AES \<equiv> 0x1F"
abbreviation CK_INVALID_HANDLE :: ck_ulong where "CK_INVALID_HANDLE \<equiv> 0"
abbreviation CKU_SO :: ck_ulong where "CKU_SO \<equiv> 0"
abbreviation CKU_USER :: ck_ulong where "CKU_USER \<equiv> 1"
abbreviation CKF_RW_SERIAL_SESSION :: ck_ulong where "CKF_RW_SERIAL_SESSION \<equiv> 0x6"

section \<open>Attributes and mechanisms\<close>

datatype ck_attribute =
    CKA_TOKEN bool | CKA_CLASS ck_ulong | CKA_KEY_TYPE ck_ulong
  | CKA_LABEL string | CKA_ID string
  | CKA_PRIVATE bool | CKA_DECRYPT bool | CKA_ENCRYPT bool | CKA_SIGN bool | CKA_VERIFY bool
  | CKA_WRAP bool | CKA_UNWRAP bool | CKA_MODULUS_BITS ck_ulong

datatype sgx_ql_policy = SGX_QL_PERSISTENT | SGX_QL_EPHEMERAL | SGX_QL_DEFAULT

text \<open>
  A mechanism with its parameter block: AES-GCM with IV, IV length, IV bits and tag bits (no
  additional data); RSA-OAEP with SHA-1 and MGF1-SHA1; RSA key generation; the export of an
  ECDSA quote over an RSA public key, with launch policy and nonce.
\<close>

datatype ck_mechanism =
    CKM_AES_GCM bytes ck_ulong ck_ulong ck_ulong
  | CKM_RSA_PKCS_OAEP
  | CKM_RSA_PKCS_KEY_PAIR_GEN
  | CKM_EXPORT_ECDSA_QUOTE_RSA_PUBLIC_KEY sgx_ql_policy bytes

section \<open>The library below\<close>

text \<open>
  \<open>C_GetSlotList\<close> is two calls: the number of slots, and the list.  \<open>C_WrapKey\<close>
  likewise: without an output buffer the size, with a buffer of \<open>n\<close> bytes its contents and
  the length written.  \<open>c_initialize\<close> and \<open>c_finalize\<close> are the library's own entry
  points, which the module wraps when the library exports them under these names.
\<close>

record 'x cryptoki =
  C_GetSlotCount :: "'x \<Rightarrow> (ck_ulong \<times> ck_ulong) \<times> 'x"
  C_GetSlotList :: "ck_ulong \<Rightarrow> 'x \<Rightarrow> (ck_ulong \<times> ck_ulong list) \<times> 'x"
  C_GetTokenInfo :: "ck_ulong \<Rightarrow> 'x \<Rightarrow> (ck_ulong \<times> string) \<times> 'x"
  C_InitToken :: "ck_ulong \<Rightarrow> string \<Rightarrow> string \<Rightarrow> 'x \<Rightarrow> ck_ulong \<times> 'x"
  C_InitPIN :: "ck_ulong \<Rightarrow> string \<Rightarrow> 'x \<Rightarrow> ck_ulong \<times> 'x"
  C_OpenSession :: "ck_ulong \<Rightarrow> ck_ulong \<Rightarrow> 'x \<Rightarrow> (ck_ulong \<times> ck_ulong) \<times> 'x"
  C_CloseSession :: "ck_ulong \<Rightarrow> 'x \<Rightarrow> ck_ulong \<times> 'x"
  C_Login :: "ck_ulong \<Rightarrow> ck_ulong \<Rightarrow> string \<Rightarrow> 'x \<Rightarrow> ck_ulong \<times> 'x"
  C_Logout :: "ck_ulong \<Rightarrow> 'x \<Rightarrow> ck_ulong \<times> 'x"
  C_FindObjectsInit :: "ck_ulong \<Rightarrow> ck_attribute list \<Rightarrow> 'x \<Rightarrow> ck_ulong \<times> 'x"
  C_FindObjects :: "ck_ulong \<Rightarrow> ck_ulong \<Rightarrow> 'x \<Rightarrow> (ck_ulong \<times> ck_ulong list) \<times> 'x"
  C_FindObjectsFinal :: "ck_ulong \<Rightarrow> 'x \<Rightarrow> ck_ulong \<times> 'x"
  C_GetAttributeValue_CLASS :: "ck_ulong \<Rightarrow> ck_ulong \<Rightarrow> 'x \<Rightarrow> (ck_ulong \<times> ck_ulong) \<times> 'x"
  C_UnwrapKey :: "ck_ulong \<Rightarrow> ck_mechanism \<Rightarrow> ck_ulong \<Rightarrow> bytes \<Rightarrow> ck_attribute list \<Rightarrow> 'x \<Rightarrow>
    (ck_ulong \<times> ck_ulong) \<times> 'x"
  C_WrapKey_size :: "ck_ulong \<Rightarrow> ck_mechanism \<Rightarrow> ck_ulong \<Rightarrow> 'x \<Rightarrow> (ck_ulong \<times> ck_ulong) \<times> 'x"
  C_WrapKey :: "ck_ulong \<Rightarrow> ck_mechanism \<Rightarrow> ck_ulong \<Rightarrow> nat \<Rightarrow> 'x \<Rightarrow> (ck_ulong \<times> bytes \<times> ck_ulong) \<times> 'x"
  C_GenerateKeyPair :: "ck_ulong \<Rightarrow> ck_mechanism \<Rightarrow> ck_attribute list \<Rightarrow> ck_attribute list \<Rightarrow> 'x \<Rightarrow>
    (ck_ulong \<times> ck_ulong \<times> ck_ulong) \<times> 'x"
  c_initialize :: "'x \<Rightarrow> ck_ulong \<times> 'x"
  c_finalize :: "'x \<Rightarrow> ck_ulong \<times> 'x"
  exports_C_Initialize :: bool
  exports_C_Finalize :: bool

text \<open>
  The public key part at the front of an exported quote, \<open>CK_RSA_PUBLIC_KEY_PARAMS\<close>: its
  size and where the two lengths are, a layout of the toolkit's header.
\<close>

record rsa_params_layout =
  rsa_params_size :: nat
  ulExponentLen :: "bytes \<Rightarrow> ck_ulong"
  ulModulusLen :: "bytes \<Rightarrow> ck_ulong"

text \<open>A parsed PKCS#11 URI, field by field what p11-kit's accessors return.\<close>

record p11_uri =
  p11_token_label :: "string option"
  p11_label :: "string option"
  p11_id :: "string option"
  p11_class :: "ck_ulong option"
  p11_pin :: "string option"

section \<open>The module's state\<close>

record apimodule_uri_data =
  token_label :: "string option"
  key_label :: "string option"
  key_id :: "string option"
  pin :: "string option"
  utype :: ck_ulong
  slot_id :: ck_ulong

record apimodule_token =
  tok_label :: string
  tok_pin :: string
  tok_challenge :: "bytes option"
  tok_session :: ck_ulong
  publickey_challenge_handle :: ck_ulong
  privatekey_challenge_handle :: ck_ulong
  wrappingkey_handle :: ck_ulong

text \<open>The tables of callbacks the repository provides: one, the SGX one.\<close>

datatype api_backend = SGX_APIMODULE_OPS

text \<open>
  \<open>ext\<close> is the outside world; \<open>token_hash\<close> and \<open>api_hash\<close> the two global tables;
  \<open>uri_mem\<close> the memory holding \<open>apimodule_uri_data\<close> structs, which the key agent passes
  around as an opaque \<open>module_data\<close> pointer; \<open>preload_keys_flag\<close> the static counter of
  \<open>C_Initialize\<close>; the last two are the static variables of the SGX STM plug-in.
\<close>

record 'x am =
  ext :: 'x
  token_hash :: "(string, apimodule_token) ghash"
  api_hash :: "(string, api_backend) ghash"
  uri_mem :: "nat \<rightharpoonup> apimodule_uri_data"
  preload_keys_flag :: gint
  attestation_type :: "string option"
  qlPolicy :: "string option"

text \<open>Calling into the library below: the outside state is replaced, the rest stays.\<close>

definition with_ext :: "('x \<Rightarrow> 'r \<times> 'x) \<Rightarrow> 'x am \<Rightarrow> 'r \<times> 'x am" where
  "with_ext f a = (let (r, x) = f (ext a) in (r, a\<lparr>ext := x\<rparr>))"

lemma with_ext_beta: "with_ext f a = (fst (f (ext a)), a\<lparr>ext := snd (f (ext a))\<rparr>)"
  by (simp add: with_ext_def split_beta)

lemmas call_simps = with_ext_beta split_beta run_simps

lemma with_ext_eqD:
  "with_ext f a = (r, a') \<Longrightarrow> \<exists>x. a' = a\<lparr>ext := x\<rparr> \<and> f (ext a) = (r, x)"
  by (auto simp: with_ext_def split: prod.splits)

section \<open>What every operation keeps\<close>

text \<open>
  A token sits in the table under its own label.  An operation may move the outside world and
  the preload counter, add tokens, and change the handles of a token or the slot and class of
  the URI data; labels, PINs and the configuration stay.
\<close>

definition am_ok :: "'x am \<Rightarrow> bool" where
  "am_ok a \<longleftrightarrow> ght_wf (token_hash a) \<and>
     (\<forall>l t. ght_lookup (token_hash a) l = Some t \<longrightarrow> tok_label t = l)"

definition uri_same :: "apimodule_uri_data \<Rightarrow> apimodule_uri_data \<Rightarrow> bool" where
  "uri_same d d' \<longleftrightarrow> token_label d' = token_label d \<and> key_label d' = key_label d \<and>
     key_id d' = key_id d \<and> pin d' = pin d"

definition tokens_kept :: "'x am \<Rightarrow> 'x am \<Rightarrow> bool" where
  "tokens_kept a a' \<longleftrightarrow> (\<forall>l t. ght_lookup (token_hash a) l = Some t \<longrightarrow>
     (\<exists>t'. ght_lookup (token_hash a') l = Some t' \<and> tok_pin t' = tok_pin t))"

definition uris_kept :: "'x am \<Rightarrow> 'x am \<Rightarrow> bool" where
  "uris_kept a a' \<longleftrightarrow> dom (uri_mem a') = dom (uri_mem a) \<and>
     (\<forall>p d d'. uri_mem a p = Some d \<longrightarrow> uri_mem a' p = Some d' \<longrightarrow> uri_same d d')"

definition am_step :: "'x am \<Rightarrow> 'x am \<Rightarrow> bool" where
  "am_step a a' \<longleftrightarrow>
     api_hash a' = api_hash a \<and> attestation_type a' = attestation_type a \<and> qlPolicy a' = qlPolicy a \<and>
     uris_kept a a' \<and> (am_ok a \<longrightarrow> am_ok a' \<and> tokens_kept a a')"

lemma uri_same_refl [simp, intro!]: "uri_same d d"
  by (simp add: uri_same_def)

lemma uri_same_trans: "uri_same d1 d2 \<Longrightarrow> uri_same d2 d3 \<Longrightarrow> uri_same d1 d3"
  by (simp add: uri_same_def)

lemma uri_same_upd [simp]:
  "uri_same d (d\<lparr>slot_id := s\<rparr>)" "uri_same d (d\<lparr>utype := u\<rparr>)"
  by (simp_all add: uri_same_def)

lemma tokens_kept_refl [simp]: "tokens_kept a a"
  by (simp add: tokens_kept_def)

lemma tokens_kept_trans: "tokens_kept a b \<Longrightarrow> tokens_kept b c \<Longrightarrow> tokens_kept a c"
  unfolding tokens_kept_def by metis

lemma uris_kept_refl [simp]: "uris_kept a a"
  by (simp add: uris_kept_def)

lemma uris_kept_trans:
  assumes ab: "uris_kept a b" and bc: "uris_kept b c"
  shows "uris_kept a c"
  unfolding uris_kept_def
proof (intro conjI allI impI)
  show "dom (uri_mem c) = dom (uri_mem a)" using ab bc by (simp add: uris_kept_def)
  fix p d d'' assume d: "uri_mem a p = Some d" "uri_mem c p = Some d''"
  then have "p \<in> dom (uri_mem b)" using ab by (auto simp: uris_kept_def)
  then obtain d' where "uri_mem b p = Some d'" by blast
  then have "uri_same d d'" "uri_same d' d''" using ab bc d by (auto simp: uris_kept_def)
  then show "uri_same d d''" by (rule uri_same_trans)
qed

lemma am_step_refl [simp, intro!]: "am_step a a"
  by (simp add: am_step_def)

lemma am_step_trans [trans]: "am_step a b \<Longrightarrow> am_step b c \<Longrightarrow> am_step a c"
  by (auto simp: am_step_def intro: uris_kept_trans tokens_kept_trans)

lemma am_step_okD: "am_step a a' \<Longrightarrow> am_ok a \<Longrightarrow> am_ok a'"
  by (simp add: am_step_def)

lemma am_step_apiD: "am_step a a' \<Longrightarrow> api_hash a' = api_hash a"
  by (simp add: am_step_def)

lemma am_step_ext [simp, intro!]: "am_step a (a\<lparr>ext := x\<rparr>)"
  by (simp add: am_step_def am_ok_def uris_kept_def tokens_kept_def)

lemma am_step_flag [simp, intro!]: "am_step a (a\<lparr>ext := x, preload_keys_flag := f\<rparr>)"
  by (simp add: am_step_def am_ok_def uris_kept_def tokens_kept_def)

lemma am_step_uri_mem:
  "uri_mem a p = Some d \<Longrightarrow> uri_same d d' \<Longrightarrow> am_step a (a\<lparr>uri_mem := (uri_mem a)(p \<mapsto> d')\<rparr>)"
  by (auto simp: am_step_def am_ok_def uris_kept_def tokens_kept_def)

lemma am_step_token:
  assumes "\<And>t0. ght_lookup (token_hash a) (tok_label t) = Some t0 \<Longrightarrow> tok_pin t = tok_pin t0"
  shows "am_step a (a\<lparr>token_hash := ght_insert (tok_label t) t (token_hash a)\<rparr>)"
  using assms by (auto simp: am_step_def am_ok_def uris_kept_def tokens_kept_def)

lemma am_step_uri_memD:
  assumes step: "am_step a a'" and p: "uri_mem a p = Some d"
  shows "\<exists>d'. uri_mem a' p = Some d' \<and> uri_same d d'"
proof -
  have "p \<in> dom (uri_mem a')" using step p by (auto simp: am_step_def uris_kept_def)
  then obtain d' where "uri_mem a' p = Some d'" by blast
  then show ?thesis using step p by (auto simp: am_step_def uris_kept_def)
qed

lemma am_step_uri_mem_dom: "am_step a a' \<Longrightarrow> dom (uri_mem a') = dom (uri_mem a)"
  by (simp add: am_step_def uris_kept_def)

lemma am_step_tokenD:
  "am_step a a' \<Longrightarrow> am_ok a \<Longrightarrow> ght_lookup (token_hash a) l = Some t \<Longrightarrow>
     \<exists>t'. ght_lookup (token_hash a') l = Some t' \<and> tok_pin t' = tok_pin t"
  by (auto simp: am_step_def tokens_kept_def)

text \<open>The library below ran, perhaps restarted: only the outside world and the counter moved.\<close>

definition moved :: "'x am \<Rightarrow> 'x am \<Rightarrow> bool" where
  "moved a a' \<longleftrightarrow> (\<exists>x f. a' = a\<lparr>ext := x, preload_keys_flag := f\<rparr>)"

lemma movedI [simp, intro!]: "moved a (a\<lparr>ext := x, preload_keys_flag := f\<rparr>)"
  unfolding moved_def by (rule exI, rule exI, rule refl)

lemma moved_ext [simp, intro!]: "moved a (a\<lparr>ext := x\<rparr>)"
  unfolding moved_def by (rule exI[of _ x], rule exI[of _ "preload_keys_flag a"]) simp

lemma moved_refl [simp, intro!]: "moved a a"
  unfolding moved_def by (rule exI[of _ "ext a"], rule exI[of _ "preload_keys_flag a"]) simp

lemma moved_trans: "moved a b \<Longrightarrow> moved b c \<Longrightarrow> moved a c"
  unfolding moved_def
proof (elim exE)
  fix x f y g
  assume "b = a\<lparr>ext := x, preload_keys_flag := f\<rparr>" "c = b\<lparr>ext := y, preload_keys_flag := g\<rparr>"
  then have "c = a\<lparr>ext := y, preload_keys_flag := g\<rparr>" by simp
  then show "\<exists>x f. c = a\<lparr>ext := x, preload_keys_flag := f\<rparr>" by blast
qed

lemma moved_ext_trans: "moved (a\<lparr>ext := x\<rparr>) c \<Longrightarrow> moved a c"
  by (rule moved_trans[OF moved_ext])

lemma moved_simps:
  "moved a a' \<Longrightarrow> token_hash a' = token_hash a"
  "moved a a' \<Longrightarrow> uri_mem a' = uri_mem a"
  "moved a a' \<Longrightarrow> api_hash a' = api_hash a"
  by (auto simp: moved_def)

lemma moved_step: "moved a a' \<Longrightarrow> am_step a a'"
  by (auto simp: moved_def)

end
