(* ===== verification/Pkcs11_Utils.thy ===== *)
theory Pkcs11_Utils
  imports Cryptoki
begin

text \<open>
  \<open>api-module/pkcs11/src/utils.c\<close>: reading a PKCS#11 URI into \<open>apimodule_uri_data\<close>,
  finding, creating and logging into the token it names, searching the token for the key, and
  the table of tokens that are logged in.
\<close>

abbreviation MIN_PIN_LEN :: nat where "MIN_PIN_LEN \<equiv> 4"
abbreviation MAX_PIN_LEN :: nat where "MAX_PIN_LEN \<equiv> 255"
abbreviation MIN_KEYID_LEN :: nat where "MIN_KEYID_LEN \<equiv> 36"

definition KMS_PREFIX_TOKEN :: string where "KMS_PREFIX_TOKEN = ''KMS''"

section \<open>Blank padded labels\<close>

text \<open>The loop \<open>while (len && utf8buf[len-1] == ' ') len--\<close>.\<close>

fun utf8_len :: "string \<Rightarrow> nat \<Rightarrow> nat" where
  "utf8_len buf 0 = 0"
| "utf8_len buf (Suc n) = (if buf ! n = CHR '' '' then utf8_len buf n else Suc n)"

definition apimodule_utf8_to_char :: "string \<Rightarrow> nat \<Rightarrow> string option" where
  "apimodule_utf8_to_char utf8buf len =
     (if len = 0 then None
      else (let n = utf8_len utf8buf len in if n = 0 then None else Some (take n utf8buf)))"

section \<open>URI data\<close>

definition apimodule_uri_data_init :: apimodule_uri_data where
  "apimodule_uri_data_init =
     \<lparr>token_label = None, key_label = None, key_id = None, pin = None, utype = CKO_DATA, slot_id = 0\<rparr>"

text \<open>The strings are released; the struct keeps the dangling pointers, here \<open>None\<close>.\<close>

definition apimodule_uri_data_cleanup :: "apimodule_uri_data \<Rightarrow> apimodule_uri_data" where
  "apimodule_uri_data_cleanup d =
     d\<lparr>token_label := None, key_label := None, key_id := None, pin := None,
       utype := - 1, slot_id := - 1\<rparr>"

text \<open>
  The checks of \<open>apimodule_uri_to_uri_data\<close> in their order.  With no URI the struct is left
  as it was; every later failure leaves the fields assigned so far.
\<close>

definition apimodule_uri_to_uri_data ::
    "(string \<Rightarrow> p11_uri option) \<Rightarrow> string option \<Rightarrow> apimodule_uri_data \<Rightarrow> bool \<times> apimodule_uri_data" where
  "apimodule_uri_to_uri_data p11_parse uri uri_data =
    (case uri of None \<Rightarrow> (False, uri_data) | Some u \<Rightarrow>
     (let d = apimodule_uri_data_init in
      case p11_parse u of None \<Rightarrow> (False, d) | Some key_uri \<Rightarrow>
      (case p11_token_label key_uri of None \<Rightarrow> (False, d) | Some tlab \<Rightarrow>
       if tlab = [] \<or> hd tlab = CHR 0x00 then (False, d) else
      (case p11_label key_uri of None \<Rightarrow> (False, d) | Some label_attr \<Rightarrow>
      (case p11_id key_uri of None \<Rightarrow> (False, d) | Some id_attr \<Rightarrow>
       if length id_attr < MIN_KEYID_LEN then (False, d)
       else if \<not> str_contains u ''type='' then (False, d) else
      (case p11_class key_uri of None \<Rightarrow> (False, d) | Some cls \<Rightarrow>
       let d1 = d\<lparr>utype := cls\<rparr> in
       if cls \<noteq> CKO_SECRET_KEY \<and> cls \<noteq> CKO_PRIVATE_KEY then (False, d1) else
      (case p11_pin key_uri of None \<Rightarrow> (False, d1) | Some upin \<Rightarrow>
       if length upin < MIN_PIN_LEN \<or> length upin > MAX_PIN_LEN then (False, d1) else
      (case apimodule_utf8_to_char tlab (length tlab) of None \<Rightarrow> (False, d1) | Some lbl \<Rightarrow>
       let d2 = d1\<lparr>token_label := Some lbl\<rparr> in
       if c_str lbl \<noteq> KMS_PREFIX_TOKEN then (False, d2)
       else (True, d2\<lparr>key_label := Some label_attr, key_id := Some id_attr, pin := Some upin\<rparr>)))))))))"

section \<open>Finding the token\<close>

text \<open>
  The loop over the slots.  A slot that does not answer or has a blank label is passed over;
  the return value is the last one seen.  Comparing needs the label of the URI data.
\<close>

fun findtoken_loop ::
    "'x cryptoki \<Rightarrow> apimodule_uri_data \<Rightarrow> ck_ulong list \<Rightarrow> ck_ulong \<Rightarrow> 'x am \<Rightarrow>
     (ck_ulong \<times> bool \<times> apimodule_uri_data \<times> 'x am) option" where
  "findtoken_loop K d [] rv a = Some (rv, False, d, a)"
| "findtoken_loop K d (s # slots) rv a =
     (let ((rv1, info), a1) = with_ext (C_GetTokenInfo K s) a in
      if rv1 \<noteq> CKR_OK then findtoken_loop K d slots rv1 a1
      else case apimodule_utf8_to_char info (length info) of
        None \<Rightarrow> findtoken_loop K d slots rv1 a1
      | Some tlab \<Rightarrow> do {
          want \<leftarrow> token_label d;
          if take (length want) tlab = want
          then Some (rv1, True, d\<lparr>slot_id := s\<rparr>, a1)
          else findtoken_loop K d slots rv1 a1 })"

definition apimodule_findtoken ::
    "'x cryptoki \<Rightarrow> apimodule_uri_data \<Rightarrow> 'x am \<Rightarrow>
     (ck_ulong \<times> bool \<times> apimodule_uri_data \<times> 'x am) option" where
  "apimodule_findtoken K d a =
     (let ((rv, nslots), a1) = with_ext (C_GetSlotCount K) a in
      if rv \<noteq> CKR_OK \<or> nslots = 0 then Some (rv, False, d, a1)
      else
        (let ((rv2, slots), a2) = with_ext (C_GetSlotList K nslots) a1 in
         if rv2 \<noteq> CKR_OK \<or> slots = [] then Some (rv2, False, d, a2)
         else findtoken_loop K d slots rv2 a2))"

section \<open>Creating the token\<close>

text \<open>The label field: the name, padded with the 31 blanks of the literal, cut at 32 bytes.\<close>

definition token_label_field :: "string \<Rightarrow> string" where
  "token_label_field tlab = take 32 (tlab @ replicate 31 CHR '' '')"

text \<open>
  Result: the return value and the session handle, \<open>None\<close> while it is unset.
\<close>

definition apimodule_createtoken ::
    "'x cryptoki \<Rightarrow> apimodule_uri_data \<Rightarrow> 'x am \<Rightarrow> (ck_ulong \<times> ck_ulong option \<times> 'x am) option" where
  "apimodule_createtoken K d a =
     (let ((rv, nslots), a1) = with_ext (C_GetSlotCount K) a in
      if rv \<noteq> CKR_OK \<or> nslots = 0 then Some (rv, None, a1)
      else do {
        tlab \<leftarrow> token_label d;
        p \<leftarrow> pin d;
        let slot = nslots - 1;
        let (rv2, a2) = with_ext (C_InitToken K slot p (token_label_field tlab)) a1;
        if rv2 \<noteq> CKR_OK then Some (rv2, None, a2) else do {
        let ((rv3, hs), a3) = with_ext (C_OpenSession K slot CKF_RW_SERIAL_SESSION) a2;
        if rv3 \<noteq> CKR_OK then Some (rv3, Some hs, a3) else do {
        let (rv4, a4) = with_ext (C_Login K hs CKU_SO p) a3;
        if rv4 \<noteq> CKR_USER_ALREADY_LOGGED_IN \<and> rv4 \<noteq> CKR_OK then Some (rv4, Some hs, a4) else do {
        let (rv5, a5) = with_ext (C_InitPIN K hs p) a4;
        if rv5 \<noteq> CKR_OK then Some (rv5, Some hs, a5) else do {
        let (_, a6) = with_ext (C_Logout K hs) a5;
        let (rv7, a7) = with_ext (C_Login K hs CKU_USER p) a6;
        Some (if rv7 = CKR_USER_ALREADY_LOGGED_IN then CKR_OK else rv7, Some hs, a7) }}}}})"

section \<open>Searching the token\<close>

definition apimodule_findobject ::
    "'x cryptoki \<Rightarrow> ck_ulong \<Rightarrow> apimodule_uri_data \<Rightarrow> 'x am \<Rightarrow> (ck_ulong \<times> bool \<times> 'x am) option" where
  "apimodule_findobject K hSession d a = do {
     kl \<leftarrow> key_label d;
     ki \<leftarrow> key_id d;
     let (rv1, a1) = with_ext (C_FindObjectsInit K hSession [CKA_LABEL kl, CKA_ID ki]) a;
     if rv1 \<noteq> CKR_OK then Some (rv1, False, a1) else do {
     let ((rv2, objs), a2) = with_ext (C_FindObjects K hSession 16) a1;
     if rv2 \<noteq> CKR_OK then Some (rv2, False, a2) else do {
     let (rv3, a3) = with_ext (C_FindObjectsFinal K hSession) a2;
     if rv3 \<noteq> CKR_OK then Some (rv3, False, a3)
     else (case objs of
         [] \<Rightarrow> Some (rv3, False, a3)
       | obj # _ \<Rightarrow>
           (let ((rv4, _), a4) = with_ext (C_GetAttributeValue_CLASS K hSession obj) a3
            in Some (rv4, True, a4))) }}}"

section \<open>The token table\<close>

definition alloc_apimodule_token :: "string \<Rightarrow> string \<Rightarrow> apimodule_token" where
  "alloc_apimodule_token label p =
     \<lparr>tok_label = label, tok_pin = p, tok_challenge = None, tok_session = CK_INVALID_HANDLE,
      publickey_challenge_handle = CK_INVALID_HANDLE, privatekey_challenge_handle = CK_INVALID_HANDLE,
      wrappingkey_handle = CK_INVALID_HANDLE\<rparr>"

definition lookup_apimodule_token :: "'x am \<Rightarrow> string \<Rightarrow> apimodule_token option" where
  "lookup_apimodule_token a label = ght_lookup (token_hash a) label"

definition cache_apimodule_token :: "apimodule_token \<Rightarrow> 'x am \<Rightarrow> 'x am" where
  "cache_apimodule_token t a = a\<lparr>token_hash := ght_insert (tok_label t) t (token_hash a)\<rparr>"

section \<open>Logging into the token\<close>

text \<open>
  \<open>func_list->C_Initialize\<close> is the module's own wrapper, if the library exports the function.  Called from inside a key load its
  preload branch must be off.  Were the flag still zero, it would log an error it does not have or
  start a second load, which blocks for ever on the key agent's writer lock that this one holds; only a
  preload file that cannot be opened, or whose first line is not a URI or names a key the token has or a
  token of another PIN, would let it return.  The model answers \<open>None\<close> for all of them: with the flag at zero
  no start of the library below has succeeded, and PKCS#11 makes it refuse the slot queries that lead
  here (\<open>CKR_CRYPTOKI_NOT_INITIALIZED\<close>).
\<close>

definition C_Initialize_nested :: "'x cryptoki \<Rightarrow> 'x am \<Rightarrow> 'x am option" where
  "C_Initialize_nested K a =
     (let (rv, a1) = with_ext (c_initialize K) a in
      if rv = CKR_OK \<or> rv = CKR_CRYPTOKI_ALREADY_INITIALIZED
      then (if \<not> exports_C_Initialize K then Some a1 else if preload_keys_flag a1 = 0 then None
            else Some (a1\<lparr>preload_keys_flag := preload_keys_flag a1 + 1\<rparr>))
      else Some a1)"

text \<open>
  The body of the \<open>do ... while (FALSE)\<close> of \<open>init_apimodule_token\<close>: a missing token is
  created and the library restarted (\<open>Inl\<close> is a \<open>break\<close>), then the slot is looked up
  again, a session opened and the user logged in.  Result: the return value, the session to
  record, the URI data, the error slot and the state.
\<close>

definition init_token_create ::
    "'x cryptoki \<Rightarrow> apimodule_uri_data \<Rightarrow> gerr \<Rightarrow> 'x am \<Rightarrow>
     ((ck_ulong \<times> gerr \<times> 'x am) + 'x am) option" where
  "init_token_create K d err a = do {
     (rv, hs, a1) \<leftarrow> apimodule_createtoken K d a;
     if rv \<noteq> CKR_OK then Some (Inl (rv, k_set_error err ERR_MINUS_ONE, a1)) else do {
     h \<leftarrow> hs;
     let (_, a2) = with_ext (C_Logout K h) a1;
     let (_, a3) = with_ext (C_CloseSession K h) a2;
     let (_, a4) = with_ext (c_finalize K) a3;
     a5 \<leftarrow> C_Initialize_nested K a4;
     Some (Inr a5) }}"

definition init_token_login ::
    "'x cryptoki \<Rightarrow> apimodule_uri_data \<Rightarrow> gerr \<Rightarrow> 'x am \<Rightarrow>
     (ck_ulong \<times> ck_ulong \<times> apimodule_uri_data \<times> gerr \<times> 'x am) option" where
  "init_token_login K d err a = do {
     (rv, present, d1, a1) \<leftarrow> apimodule_findtoken K d a;
     if rv \<noteq> CKR_OK \<or> \<not> present
     then Some (rv, CK_INVALID_HANDLE, d1, k_set_error err ERR_MINUS_ONE, a1) else do {
     let ((rv2, hs), a2) = with_ext (C_OpenSession K (slot_id d1) CKF_RW_SERIAL_SESSION) a1;
     if rv2 \<noteq> CKR_OK then Some (rv2, CK_INVALID_HANDLE, d1, k_set_error err ERR_MINUS_ONE, a2) else do {
     let (_, a3) = with_ext (C_Logout K hs) a2;
     p \<leftarrow> pin d1;
     let (rv4, a4) = with_ext (C_Login K hs CKU_USER p) a3;
     if rv4 \<noteq> CKR_USER_ALREADY_LOGGED_IN \<and> rv4 \<noteq> CKR_OK
     then Some (rv4, CK_INVALID_HANDLE, d1, k_set_error err ERR_MINUS_ONE, a4)
     else Some (CKR_OK, hs, d1, err, a4) }}}"

definition init_token_body ::
    "'x cryptoki \<Rightarrow> apimodule_uri_data \<Rightarrow> bool \<Rightarrow> gerr \<Rightarrow> 'x am \<Rightarrow>
     (ck_ulong \<times> ck_ulong \<times> apimodule_uri_data \<times> gerr \<times> 'x am) option" where
  "init_token_body K d create err a = do {
     (rv, present, d1, a1) \<leftarrow> apimodule_findtoken K d a;
     if rv \<noteq> CKR_OK then Some (rv, CK_INVALID_HANDLE, d1, k_set_error err ERR_MINUS_ONE, a1)
     else if present then init_token_login K d1 err a1
     else if \<not> create then Some (CKR_GENERAL_ERROR, CK_INVALID_HANDLE, d1, err, a1)
     else do {
       r \<leftarrow> init_token_create K d1 err a1;
       (case r of
          Inl (rv2, err2, a2) \<Rightarrow> Some (rv2, CK_INVALID_HANDLE, d1, err2, a2)
        | Inr a2 \<Rightarrow> init_token_login K d1 err a2) }}"

definition init_apimodule_token ::
    "'x cryptoki \<Rightarrow> apimodule_uri_data \<Rightarrow> bool \<Rightarrow> gerr \<Rightarrow> 'x am \<Rightarrow>
     (apimodule_token option \<times> apimodule_uri_data \<times> gerr \<times> 'x am) option" where
  "init_apimodule_token K d create err a = do {
     tlab \<leftarrow> token_label d;
     p \<leftarrow> pin d;
     let t = alloc_apimodule_token (c_str tlab) (c_str p);
     (rv, hs, d1, err1, a1) \<leftarrow> init_token_body K d create err a;
     if rv \<noteq> CKR_OK then Some (None, d1, err1, a1)
     else (let t1 = t\<lparr>tok_session := hs\<rparr>
           in Some (Some t1, d1, err1, cache_apimodule_token t1 a1)) }"

section \<open>Labels and their padding\<close>

lemma utf8_len_le: "utf8_len buf n \<le> n"
  by (induction n) auto

lemma utf8_len_last: "utf8_len buf n = Suc m \<Longrightarrow> buf ! m \<noteq> CHR '' ''"
  by (induction n) (auto split: if_splits)

lemma utf8_len_blank: "utf8_len buf n \<le> i \<Longrightarrow> i < n \<Longrightarrow> buf ! i = CHR '' ''"
  by (induction n) (auto split: if_splits simp: less_Suc_eq)

text \<open>The loop removes exactly the trailing blanks.\<close>

lemma utf8_to_char_dropWhile:
  "apimodule_utf8_to_char s (length s) =
     (let r = rev (dropWhile (\<lambda>c. c = CHR '' '') (rev s)) in if r = [] then None else Some r)"
proof -
  have "take (utf8_len s (length s)) s = rev (dropWhile (\<lambda>c. c = CHR '' '') (rev s))"
  proof (induction s rule: rev_induct)
    case Nil
    then show ?case by simp
  next
    case (snoc x xs)
    have cong: "n \<le> length xs \<Longrightarrow> utf8_len (xs @ [y]) n = utf8_len xs n" for n y
      by (induction n) (auto simp: nth_append)
    show ?case
    proof (cases "x = CHR '' ''")
      case True
      then show ?thesis
        using snoc utf8_len_le[of xs "length xs"] cong[of "length xs" x] by simp
    next
      case False
      then show ?thesis by simp
    qed
  qed
  moreover have "utf8_len s (length s) = 0 \<longleftrightarrow> take (utf8_len s (length s)) s = []"
    using utf8_len_le[of s "length s"] by auto
  ultimately show ?thesis by (auto simp: apimodule_utf8_to_char_def Let_def)
qed

lemma utf8_to_char_SomeD:
  assumes "apimodule_utf8_to_char s (length s) = Some r"
  shows "r \<noteq> []" and "last r \<noteq> CHR '' ''"
proof -
  have r: "r = rev (dropWhile (\<lambda>c. c = CHR '' '') (rev s))" "r \<noteq> []"
    using assms by (auto simp: utf8_to_char_dropWhile Let_def split: if_splits)
  then show "r \<noteq> []" by simp
  have "dropWhile (\<lambda>c. c = CHR '' '') (rev s) \<noteq> []" using r by auto
  from hd_dropWhile[OF this] show "last r \<noteq> CHR '' ''"
    using r by (simp add: last_rev)
qed

lemma length_token_label_field: "0 < length l \<Longrightarrow> length (token_label_field l) = 32"
  by (cases l) (auto simp: token_label_field_def min_def)

lemma token_label_field_read:
  assumes "0 < length l" and "length l \<le> 32" and "last l \<noteq> CHR '' ''"
  shows "apimodule_utf8_to_char (token_label_field l) 32 = Some l"
proof -
  have f: "token_label_field l = l @ replicate (32 - length l) CHR '' ''"
    using assms by (cases l) (auto simp: token_label_field_def min_def take_replicate)
  have "dropWhile (\<lambda>c. c = CHR '' '') (rev l) = rev l"
    using assms by (cases l rule: rev_cases) auto
  moreover have "dropWhile (\<lambda>c. c = CHR '' '') (replicate n CHR '' '' @ r) = dropWhile (\<lambda>c. c = CHR '' '') r" for n r
    by (induction n) auto
  ultimately have "dropWhile (\<lambda>c. c = CHR '' '') (rev (token_label_field l)) = rev l"
    by (simp add: f)
  then show ?thesis
    using assms utf8_to_char_dropWhile[of "token_label_field l"] by (simp add: length_token_label_field Let_def)
qed

section \<open>URIs accepted\<close>

lemma uri_to_uri_data_accepts:
  assumes "apimodule_uri_to_uri_data parse uri d0 = (True, d)"
  shows "\<exists>tlab kid p u. uri = Some u \<and> token_label d = Some tlab \<and> c_str tlab = KMS_PREFIX_TOKEN \<and>
     key_label d \<noteq> None \<and> key_id d = Some kid \<and> MIN_KEYID_LEN \<le> length kid \<and>
     pin d = Some p \<and> MIN_PIN_LEN \<le> length p \<and> length p \<le> MAX_PIN_LEN \<and>
     utype d \<in> {CKO_SECRET_KEY, CKO_PRIVATE_KEY} \<and> str_contains u ''type=''"
  using assms
  by (auto simp: apimodule_uri_to_uri_data_def Let_def not_less split: option.splits if_splits)

lemma uri_to_uri_data_None: "apimodule_uri_to_uri_data parse None d0 = (False, d0)"
  by (simp add: apimodule_uri_to_uri_data_def)

section \<open>Frames\<close>

text \<open>
  The searches move the outside world only; what they write into the URI data is the slot.
\<close>

lemma findtoken_loop_frame:
  "findtoken_loop K d slots rv a = Some (rv', present, d', a') \<Longrightarrow>
     (\<exists>x. a' = a\<lparr>ext := x\<rparr>) \<and> (\<exists>s. d' = d\<lparr>slot_id := s\<rparr>) \<and> (present \<longrightarrow> rv' = CKR_OK \<and> slot_id d' \<in> set slots)"
proof (induction slots arbitrary: rv a)
  case Nil
  then show ?case by (auto intro: exI[of _ "ext a"] exI[of _ "slot_id d"])
next
  case (Cons s slots)
  show ?case
    using Cons.prems
    by (auto simp: call_simps split: branch_splits dest!: Cons.IH)
qed

lemma findtoken_frame:
  assumes "apimodule_findtoken K d a = Some (rv, present, d', a')"
  shows "\<exists>x s. a' = a\<lparr>ext := x\<rparr> \<and> d' = d\<lparr>slot_id := s\<rparr>" and "present \<Longrightarrow> rv = CKR_OK"
proof -
  have self: "\<exists>s. d = d\<lparr>slot_id := s\<rparr>" by (rule exI[of _ "slot_id d"]) simp
  show "\<exists>x s. a' = a\<lparr>ext := x\<rparr> \<and> d' = d\<lparr>slot_id := s\<rparr>" and "present \<Longrightarrow> rv = CKR_OK"
    using assms self
    by (auto simp: apimodule_findtoken_def call_simps split: if_splits dest!: findtoken_loop_frame)
qed

lemma createtoken_frame:
  "apimodule_createtoken K d a = Some (rv, hs, a') \<Longrightarrow> \<exists>x. a' = a\<lparr>ext := x\<rparr>"
  by (auto simp: apimodule_createtoken_def call_simps split: if_splits)

lemma findobject_frame:
  "apimodule_findobject K h d a = Some (rv, present, a') \<Longrightarrow> \<exists>x. a' = a\<lparr>ext := x\<rparr>"
  by (auto simp: apimodule_findobject_def call_simps split: if_splits list.splits)

lemma C_Initialize_nested_frame: "C_Initialize_nested K a = Some a' \<Longrightarrow> moved a a'"
  by (auto simp: C_Initialize_nested_def call_simps split: if_splits)

lemma init_token_create_frame:
  "init_token_create K d err a = Some r \<Longrightarrow>
     (case r of Inl (rv, err', a') \<Rightarrow> rv \<noteq> CKR_OK \<and> err' \<noteq> None \<and> moved a a' | Inr a' \<Rightarrow> moved a a')"
  by (auto simp: init_token_create_def call_simps split: if_splits
      dest!: createtoken_frame C_Initialize_nested_frame) (auto intro: moved_trans[rotated])

lemma init_token_login_frame:
  "init_token_login K d err a = Some (rv, hs, d', err', a') \<Longrightarrow>
     (\<exists>x. a' = a\<lparr>ext := x\<rparr>) \<and> (\<exists>s. d' = d\<lparr>slot_id := s\<rparr>) \<and> (rv \<noteq> CKR_OK \<longrightarrow> err' \<noteq> None)"
  by (auto simp: init_token_login_def call_simps split: if_splits dest!: findtoken_frame(1))

lemma init_token_body_frame:
  "init_token_body K d create err a = Some (rv, hs, d', err', a') \<Longrightarrow>
     moved a a' \<and> (\<exists>s. d' = d\<lparr>slot_id := s\<rparr>)"
proof -
  assume run: "init_token_body K d create err a = Some (rv, hs, d', err', a')"
  then obtain rv1 present d1 a1 where f: "apimodule_findtoken K d a = Some (rv1, present, d1, a1)"
    by (auto simp: init_token_body_def bind_eq_Some_conv)
  obtain x s where x: "a1 = a\<lparr>ext := x\<rparr>" "d1 = d\<lparr>slot_id := s\<rparr>" using findtoken_frame(1)[OF f] by blast
  have login: "moved a a' \<and> (\<exists>s. d' = d\<lparr>slot_id := s\<rparr>)"
    if "init_token_login K d1 err b = Some (rv, hs, d', err', a')" "moved a b" for b
    using init_token_login_frame[OF that(1)] that(2) x(2) by (auto intro: moved_trans)
  consider "rv1 \<noteq> CKR_OK" | "rv1 = CKR_OK" present | "rv1 = CKR_OK" "\<not> present" "\<not> create"
    | "rv1 = CKR_OK" "\<not> present" create by blast
  then show ?thesis
  proof cases
    case 4
    then obtain r where c: "init_token_create K d1 err a1 = Some r"
      and r: "(case r of Inl (rv2, err2, a2) \<Rightarrow> Some (rv2, CK_INVALID_HANDLE, d1, err2, a2)
             | Inr a2 \<Rightarrow> init_token_login K d1 err a2) = Some (rv, hs, d', err', a')"
      using run f by (auto simp: init_token_body_def bind_eq_Some_conv)
    show ?thesis
    proof (cases r)
      case (Inl e)
      then show ?thesis
        using init_token_create_frame[OF c] r x by (cases e) (auto intro: moved_ext_trans)
    next
      case (Inr a2)
      then show ?thesis
        using init_token_create_frame[OF c] r x login[of a2] by (auto intro: moved_ext_trans)
    qed
  qed (use run f x login in \<open>auto simp: init_token_body_def\<close>)
qed

text \<open>Without \<open>create\<close> the preload counter is not touched either.\<close>

lemma init_token_body_lookup_only:
  "init_token_body K d False err a = Some (rv, hs, d', err', a') \<Longrightarrow>
     (\<exists>x. a' = a\<lparr>ext := x\<rparr>) \<and> (\<exists>s. d' = d\<lparr>slot_id := s\<rparr>)"
  by (auto simp: init_token_body_def call_simps split: if_splits
      dest!: findtoken_frame(1) init_token_login_frame)

text \<open>
  A token comes out exactly when the body's last return value was good; it carries the label
  and PIN of the URI, and is in the table.
\<close>

lemma init_apimodule_token_result:
  assumes "init_apimodule_token K d create err a = Some (r, d', err', a')"
  shows "\<exists>s. d' = d\<lparr>slot_id := s\<rparr>"
    and "\<exists>a1. moved a a1 \<and> (case r of
        None \<Rightarrow> a' = a1
      | Some t \<Rightarrow> a' = cache_apimodule_token t a1 \<and>
          (\<exists>tlab p. token_label d = Some tlab \<and> pin d = Some p \<and>
             tok_label t = c_str tlab \<and> tok_pin t = c_str p))"
  using assms
  by (auto simp: init_apimodule_token_def bind_eq_Some_conv alloc_apimodule_token_def Let_def
      split: if_splits dest!: init_token_body_frame)

lemma cache_token_step:
  assumes "\<And>t0. lookup_apimodule_token a (tok_label t) = Some t0 \<Longrightarrow> tok_pin t = tok_pin t0"
  shows "am_step a (cache_apimodule_token t a)"
  unfolding cache_apimodule_token_def
  by (rule am_step_token) (auto simp: assms lookup_apimodule_token_def)

lemma lookup_moved: "moved a a' \<Longrightarrow> lookup_apimodule_token a' l = lookup_apimodule_token a l"
  by (simp add: lookup_apimodule_token_def moved_simps)

lemma lookup_cache [simp]:
  "lookup_apimodule_token (cache_apimodule_token t a) l =
     (if l = tok_label t then Some t else lookup_apimodule_token a l)"
  by (simp add: lookup_apimodule_token_def cache_apimodule_token_def)

lemma uri_mem_cache [simp]: "uri_mem (cache_apimodule_token t a) = uri_mem a"
  by (simp add: cache_apimodule_token_def)

lemma init_apimodule_token_step:
  assumes run: "init_apimodule_token K d create err a = Some (r, d', err', a')"
    and absent: "\<And>tlab. token_label d = Some tlab \<Longrightarrow> lookup_apimodule_token a (c_str tlab) = None"
  shows "am_step a a'" and "uri_mem a' = uri_mem a"
    and "r = Some t \<Longrightarrow> token_label d = Some tlab \<Longrightarrow> lookup_apimodule_token a' (c_str tlab) = Some t"
proof -
  from init_apimodule_token_result(2)[OF run] obtain a1 where m: "moved a a1"
    and c: "case r of None \<Rightarrow> a' = a1
      | Some t \<Rightarrow> a' = cache_apimodule_token t a1 \<and>
          (\<exists>tlab p. token_label d = Some tlab \<and> pin d = Some p \<and>
             tok_label t = c_str tlab \<and> tok_pin t = c_str p)" by blast
  have "am_step a1 a'"
    using c absent by (auto split: option.splits intro!: cache_token_step simp: lookup_moved[OF m])
  with moved_step[OF m] show "am_step a a'" by (rule am_step_trans)
  show "uri_mem a' = uri_mem a" using c by (auto split: option.splits simp: moved_simps[OF m])
  show "r = Some t \<Longrightarrow> token_label d = Some tlab \<Longrightarrow> lookup_apimodule_token a' (c_str tlab) = Some t"
    using c by auto
qed

section \<open>Properties\<close>

text \<open>
  C27: the label written to a token when it is created, padded to the 32 bytes of the field, is
  read back unchanged when the token is looked for, for labels of up to 32 bytes that do not end
  in a blank.
\<close>

theorem token_label_roundtrip:
  assumes "0 < length l" and "length l \<le> 32" and "last l \<noteq> CHR '' ''"
  shows "length (token_label_field l) = 32 \<and> apimodule_utf8_to_char (token_label_field l) 32 = Some l"
  using length_token_label_field[OF assms(1)] token_label_field_read[OF assms] by blast

lemma token_label_roundtrip_witness:
  "apimodule_utf8_to_char (token_label_field ''KMS'') 32 = Some ''KMS''"
  using token_label_roundtrip[of "''KMS''"] by simp

text \<open>
  C28: a URI the module accepts names a KMS token, carries a key label, a key id of at least 36
  characters, a PIN of 4 to 255 characters, a \<open>type=\<close> attribute, and the class of a secret or
  private key; nothing else is accepted.
\<close>

theorem uri_accepted_fields:
  assumes "apimodule_uri_to_uri_data parse uri d0 = (True, d)"
  shows "\<exists>tlab kid p u. uri = Some u \<and> token_label d = Some tlab \<and> c_str tlab = KMS_PREFIX_TOKEN \<and>
     key_label d \<noteq> None \<and> key_id d = Some kid \<and> 36 \<le> length kid \<and>
     pin d = Some p \<and> 4 \<le> length p \<and> length p \<le> 255 \<and>
     utype d \<in> {CKO_SECRET_KEY, CKO_PRIVATE_KEY} \<and> str_contains u ''type=''"
  by (rule uri_to_uri_data_accepts[OF assms])

definition sample_uri :: p11_uri where
  "sample_uri = \<lparr>p11_token_label = Some ''KMS  '', p11_label = Some ''k'',
     p11_id = Some (replicate 36 CHR ''7''), p11_class = Some CKO_SECRET_KEY, p11_pin = Some ''1234''\<rparr>"

lemma uri_accepted_fields_witness:
  "\<exists>d. apimodule_uri_to_uri_data (\<lambda>_. Some sample_uri) (Some ''type=x'') apimodule_uri_data_init = (True, d) \<and>
     token_label d = Some ''KMS'' \<and> pin d = Some ''1234'' \<and> utype d \<in> {CKO_SECRET_KEY, CKO_PRIVATE_KEY}"
proof -
  define d where "d = snd (apimodule_uri_to_uri_data (\<lambda>_. Some sample_uri) (Some ''type=x'') apimodule_uri_data_init)"
  have r: "apimodule_uri_to_uri_data (\<lambda>_. Some sample_uri) (Some ''type=x'') apimodule_uri_data_init = (True, d)"
    unfolding d_def by code_simp
  have "token_label d = Some ''KMS''" "pin d = Some ''1234''" unfolding d_def by code_simp+
  then show ?thesis using r uri_accepted_fields[OF r] by blast
qed

lemma findtoken_loop_found:
  "findtoken_loop K d slots rv a = Some (rv', True, d', a') \<Longrightarrow>
     slot_id d' \<in> set slots \<and> (\<exists>x info tlab want. fst (C_GetTokenInfo K (slot_id d') x) = (CKR_OK, info) \<and>
       apimodule_utf8_to_char info (length info) = Some tlab \<and> token_label d = Some want \<and>
       take (length want) tlab = want)"
proof (induction slots arbitrary: rv a)
  case Nil
  then show ?case by simp
next
  case (Cons s slots)
  obtain rv1 info x where q: "C_GetTokenInfo K s (ext a) = ((rv1, info), x)" by (metis prod.exhaust)
  show ?case
  proof (cases "rv1 = CKR_OK \<and> apimodule_utf8_to_char info (length info) \<noteq> None")
    case False
    then have "findtoken_loop K d slots rv1 (a\<lparr>ext := x\<rparr>) = Some (rv', True, d', a')"
      using Cons.prems q by (auto simp: call_simps split: branch_splits)
    then show ?thesis using Cons.IH by fastforce
  next
    case True
    then obtain tlab want where t: "apimodule_utf8_to_char info (length info) = Some tlab" "token_label d = Some want"
      using Cons.prems q by (auto simp: call_simps)
    show ?thesis
    proof (cases "take (length want) tlab = want")
      case False
      then have "findtoken_loop K d slots rv1 (a\<lparr>ext := x\<rparr>) = Some (rv', True, d', a')"
        using Cons.prems q t True by (simp add: call_simps)
      then show ?thesis using Cons.IH by fastforce
    next
      case m: True
      then have "slot_id d' = s" using Cons.prems q t True by (auto simp: call_simps)
      moreover have "fst (C_GetTokenInfo K s (ext a)) = (CKR_OK, info)" using q True by simp
      ultimately show ?thesis using t m by auto
    qed
  qed
qed

text \<open>
  C25: a token that was found is on a slot the library listed, which answered with a label of which
  the URI's is a prefix (not necessarily the whole label).
\<close>
theorem findtoken_prefix:
  assumes "apimodule_findtoken K d a = Some (rv, True, d', a')"
  shows "rv = CKR_OK \<and> (\<exists>n x slots y info tlab want. fst (C_GetSlotList K n x) = (CKR_OK, slots) \<and> slot_id d' \<in> set slots \<and>
    fst (C_GetTokenInfo K (slot_id d') y) = (CKR_OK, info) \<and> apimodule_utf8_to_char info (length info) = Some tlab \<and>
    token_label d = Some want \<and> take (length want) tlab = want)"
proof -
  obtain rv1 n x where q: "C_GetSlotCount K (ext a) = ((rv1, n), x)" by (metis prod.exhaust)
  obtain rv2 slots y where l: "C_GetSlotList K n x = ((rv2, slots), y)" by (metis prod.exhaust)
  from assms q l have ok: "rv2 = CKR_OK" and f: "findtoken_loop K d slots rv2 (a\<lparr>ext := y\<rparr>) = Some (rv, True, d', a')"
    by (auto simp: apimodule_findtoken_def call_simps split: if_splits)
  have "fst (C_GetSlotList K n x) = (CKR_OK, slots)" using l ok by simp
  then show ?thesis using findtoken_loop_found[OF f] findtoken_frame(2)[OF assms] by blast
qed

text \<open>
  C17: opening a token that is not in the table either enters it under the URI's label with the URI's
  PIN and keeps every other entry, or leaves the table as it was.
\<close>
theorem token_entered:
  assumes "init_apimodule_token K d create err a = Some (r, d', err', a')" and "token_label d = Some tlab"
    and "pin d = Some p"
  shows "case r of None \<Rightarrow> token_hash a' = token_hash a
    | Some t \<Rightarrow> tok_label t = c_str tlab \<and> tok_pin t = c_str p \<and>
        (\<forall>l. lookup_apimodule_token a' l = (if l = c_str tlab then Some t else lookup_apimodule_token a l))"
proof -
  from init_apimodule_token_result(2)[OF assms(1)] obtain a1 where m: "moved a a1" and c: "case r of
        None \<Rightarrow> a' = a1
      | Some t \<Rightarrow> a' = cache_apimodule_token t a1 \<and>
          (\<exists>tlab p. token_label d = Some tlab \<and> pin d = Some p \<and>
             tok_label t = c_str tlab \<and> tok_pin t = c_str p)" by blast
  then show ?thesis using assms(2,3)
    by (cases r) (auto simp: moved_simps[OF m] lookup_moved[OF m])
qed

end
