(* ===== verification/Apimodule_Sgx.thy ===== *)
theory Apimodule_Sgx
  imports Pkcs11_Utils
begin

text \<open>
  \<open>api-module/pkcs11/src/apimodule-sgx.cpp\<close>: the SGX backend.  It generates the challenge
  key pair and exports the quote, unwraps the session's wrapping key with the challenge private
  key, and unwraps application keys with the wrapping key.  Key material only ever goes into
  \<open>C_UnwrapKey\<close>; what comes back are handles.
\<close>

datatype keyagent_keytype = KEYAGENT_RSAKEY | KEYAGENT_AESKEY | KEYAGENT_INVALIDKEY

record loadkey_details =
  ld_label :: "string option"
  ld_url :: string
  ld_type :: keyagent_keytype
  ld_key :: "bytes option"
  ld_iv :: "bytes option"
  ld_tag_size :: ck_ulong
  ld_module_data :: "nat option"

record session_details =
  sd_label :: "string option"
  sd_module_data :: "nat option"
  sd_swk_type :: quark
  sd_session :: "bytes option"

record challenge_details =
  cd_label :: "string option"
  cd_nonce :: bytes
  cd_challenge :: "bytes option"
  cd_module_data :: "nat option"

record sgx_challenge_request =
  launch_policy :: sgx_ql_policy
  rq_nonce :: bytes
  attestationType :: string

definition PKCS11_APIMODULE_QUOTELABEL :: string where "PKCS11_APIMODULE_QUOTELABEL = ''quoting-key''"
definition PKCS11_APIMODULE_QUOTEID :: string where "PKCS11_APIMODULE_QUOTEID = ''80000001''"
definition PKCS11_APIMODULE_SWKLABEL :: string where "PKCS11_APIMODULE_SWKLABEL = ''SWK''"
definition PKCS11_APIMODULE_SWKID :: string where "PKCS11_APIMODULE_SWKID = ''80000002''"

section \<open>Unwrapping application keys\<close>

text \<open>
  \<open>CK_GCM_PARAMS\<close> from the IV and the tag size; without an IV the macros dereference NULL.
\<close>

definition gcm_params :: "loadkey_details \<Rightarrow> ck_mechanism option" where
  "gcm_params details = do {
     iv \<leftarrow> ld_iv details;
     Some (CKM_AES_GCM iv (of_nat (length iv)) (of_nat (length iv * 8)) (ld_tag_size details * 8)) }"

definition rsa_key_template :: "string \<Rightarrow> string \<Rightarrow> ck_attribute list" where
  "rsa_key_template label kid =
     [CKA_TOKEN True, CKA_CLASS CKO_PRIVATE_KEY, CKA_KEY_TYPE CKK_RSA, CKA_LABEL label, CKA_ID kid,
      CKA_PRIVATE True, CKA_DECRYPT True, CKA_SIGN True, CKA_UNWRAP True]"

definition aes_key_template :: "string \<Rightarrow> string \<Rightarrow> ck_attribute list" where
  "aes_key_template label kid =
     [CKA_TOKEN False, CKA_CLASS CKO_SECRET_KEY, CKA_KEY_TYPE CKK_AES, CKA_LABEL label, CKA_ID kid,
      CKA_PRIVATE True, CKA_DECRYPT True, CKA_ENCRYPT True, CKA_UNWRAP True]"

definition sgx_unwrap_rsa_key ::
    "'x cryptoki \<Rightarrow> loadkey_details \<Rightarrow> apimodule_uri_data \<Rightarrow> apimodule_token \<Rightarrow> 'x am \<Rightarrow>
     (ck_ulong \<times> 'x am) option" where
  "sgx_unwrap_rsa_key K details d t a = do {
     mech \<leftarrow> gcm_params details;
     label \<leftarrow> key_label d;
     kid \<leftarrow> key_id d;
     wrapped \<leftarrow> ld_key details;
     let ((rv, _), a1) = with_ext (C_UnwrapKey K (tok_session t) mech (wrappingkey_handle t) wrapped
                                     (rsa_key_template label kid)) a;
     Some (rv, a1) }"

definition sgx_unwrap_symmeric_key ::
    "'x cryptoki \<Rightarrow> loadkey_details \<Rightarrow> apimodule_uri_data \<Rightarrow> apimodule_token \<Rightarrow> 'x am \<Rightarrow>
     (ck_ulong \<times> 'x am) option" where
  "sgx_unwrap_symmeric_key K details d t a = do {
     mech \<leftarrow> gcm_params details;
     label \<leftarrow> key_label d;
     kid \<leftarrow> key_id d;
     wrapped \<leftarrow> ld_key details;
     let ((rv, _), a1) = with_ext (C_UnwrapKey K (tok_session t) mech (wrappingkey_handle t) wrapped
                                     (aes_key_template label kid)) a;
     Some (rv, a1) }"

text \<open>
  The guards on the details; the struct behind \<open>module_data\<close> is read from memory, and a
  dangling pointer is a crash.
\<close>

definition sgx_load_key ::
    "'x cryptoki \<Rightarrow> loadkey_details \<Rightarrow> gerr \<Rightarrow> 'x am \<Rightarrow> (bool \<times> gerr \<times> 'x am) option" where
  "sgx_load_key K details err a =
     (case (ld_key details, ld_module_data details) of
        (Some _, Some p) \<Rightarrow> do {
          d \<leftarrow> uri_mem a p;
          (case token_label d of
             None \<Rightarrow> Some (False, k_set_error err ERR_MINUS_ONE, a)
           | Some tlab \<Rightarrow>
               (case lookup_apimodule_token a (c_str tlab) of
                  None \<Rightarrow> Some (False, k_set_error err ERR_MINUS_ONE, a)
                | Some t \<Rightarrow> do {
                    (rv, a1) \<leftarrow> (case ld_type details of
                        KEYAGENT_AESKEY \<Rightarrow> sgx_unwrap_symmeric_key K details d t a
                      | KEYAGENT_RSAKEY \<Rightarrow> sgx_unwrap_rsa_key K details d t a
                      | KEYAGENT_INVALIDKEY \<Rightarrow> Some (CKR_ARGUMENTS_BAD, a));
                    if rv = CKR_OK then Some (True, err, a1)
                    else Some (False, k_set_error err ERR_MINUS_ONE, a1) })) }
      | _ \<Rightarrow> Some (False, k_set_error err ERR_MINUS_ONE, a))"

section \<open>The challenge\<close>

definition challenge_public_template :: "string \<Rightarrow> string \<Rightarrow> ck_attribute list" where
  "challenge_public_template label kid =
     [CKA_TOKEN False, CKA_CLASS CKO_PUBLIC_KEY, CKA_KEY_TYPE CKK_RSA, CKA_LABEL label, CKA_ID kid,
      CKA_PRIVATE True, CKA_ENCRYPT True, CKA_VERIFY True, CKA_WRAP True, CKA_MODULUS_BITS 2048]"

definition challenge_private_template :: "string \<Rightarrow> string \<Rightarrow> ck_attribute list" where
  "challenge_private_template label kid =
     [CKA_TOKEN False, CKA_CLASS CKO_PRIVATE_KEY, CKA_KEY_TYPE CKK_RSA, CKA_LABEL label, CKA_ID kid,
      CKA_PRIVATE True, CKA_DECRYPT True, CKA_SIGN True, CKA_UNWRAP True]"

text \<open>The handles of the token are overwritten whatever the call returns.\<close>

definition generate_rsa_keypair ::
    "'x cryptoki \<Rightarrow> apimodule_token \<Rightarrow> string \<Rightarrow> string \<Rightarrow> 'x am \<Rightarrow> ck_ulong \<times> apimodule_token \<times> 'x am" where
  "generate_rsa_keypair K t label kid a =
     (let ((rv, pub, priv), a1) = with_ext (C_GenerateKeyPair K (tok_session t) CKM_RSA_PKCS_KEY_PAIR_GEN
            (challenge_public_template label kid) (challenge_private_template label kid)) a
      in (rv, t\<lparr>publickey_challenge_handle := pub, privatekey_challenge_handle := priv\<rparr>, a1))"

text \<open>The header of a challenge, and the bytes that \<open>k_buffer_append\<close> copies out of it.\<close>

datatype apimodule_quote_details = Ecdsa_quote_details (quote_size: u32) | Sw_quote_details (dummy: u32)

record keyagent_sgx_quote_info =
  exponent_len :: u32
  modulus_len :: u32
  quote_details :: apimodule_quote_details

definition quote_info_bytes :: "keyagent_sgx_quote_info \<Rightarrow> bytes" where
  "quote_info_bytes i = le32 (exponent_len i) @ le32 (modulus_len i) @
     (case quote_details i of Ecdsa_quote_details n \<Rightarrow> le32 n | Sw_quote_details n \<Rightarrow> le32 n)"

text \<open>
  The challenge sent to the key server: the three lengths of \<open>keyagent_sgx_quote_info\<close>,
  then the public key and the quote without the toolkit's header.  A buffer too short for the
  header, or a quote length outside the buffer, is read out of bounds.
\<close>

definition build_challenge :: "rsa_params_layout \<Rightarrow> bytes \<Rightarrow> ck_ulong \<Rightarrow> bytes option" where
  "build_challenge L quote quote_len =
     (if length quote < rsa_params_size L \<or> unat quote_len < rsa_params_size L
         \<or> length quote < unat quote_len then None
      else Some (quote_info_bytes \<lparr>exponent_len = ucast (ulExponentLen L quote),
                   modulus_len = ucast (ulModulusLen L quote), quote_details = Ecdsa_quote_details (ucast quote_len)\<rparr> @
                 take (unat quote_len - rsa_params_size L) (drop (rsa_params_size L) quote)))"

definition sgx_export_quote ::
    "'x cryptoki \<Rightarrow> rsa_params_layout \<Rightarrow> ck_mechanism \<Rightarrow> apimodule_token \<Rightarrow> gerr \<Rightarrow> 'x am \<Rightarrow>
     (bool \<times> gerr \<times> apimodule_token \<times> 'x am) option" where
  "sgx_export_quote K L mech t err a =
     (let (rv, t1, a1) = generate_rsa_keypair K t PKCS11_APIMODULE_QUOTELABEL PKCS11_APIMODULE_QUOTEID a in
      if rv \<noteq> CKR_OK then Some (False, k_set_error err ERR_MINUS_ONE, t1, a1) else
      (let ((rv2, quote_len), a2) = with_ext (C_WrapKey_size K (tok_session t1) mech
              (publickey_challenge_handle t1)) a1 in
       if rv2 \<noteq> CKR_OK then Some (False, k_set_error err ERR_MINUS_ONE, t1, a2) else
       (let ((rv3, quote, quote_len2), a3) = with_ext (C_WrapKey K (tok_session t1) mech
               (publickey_challenge_handle t1) (unat (ucast quote_len :: u32))) a2 in
        if rv3 \<noteq> CKR_OK then Some (False, k_set_error err ERR_MINUS_ONE, t1, a3) else
        do { ch \<leftarrow> build_challenge L quote quote_len2;
             Some (True, err, t1\<lparr>tok_challenge := Some ch\<rparr>, a3) })))"

definition sgx_get_challenge ::
    "'x cryptoki \<Rightarrow> rsa_params_layout \<Rightarrow> challenge_details \<Rightarrow> sgx_challenge_request \<Rightarrow> gerr \<Rightarrow> 'x am \<Rightarrow>
     (bool \<times> gerr \<times> 'x am) option" where
  "sgx_get_challenge K L details request err a =
     (case cd_module_data details of
        None \<Rightarrow> Some (False, k_set_error err ERR_MINUS_ONE, a)
      | Some p \<Rightarrow>
        if attestationType request \<noteq> ''ECDSA'' then Some (False, k_set_error err ERR_MINUS_ONE, a)
        else do {
          d \<leftarrow> uri_mem a p;
          (case token_label d of
             None \<Rightarrow> Some (False, k_set_error err ERR_MINUS_ONE, a)
           | Some tlab \<Rightarrow>
               (case lookup_apimodule_token a (c_str tlab) of
                  None \<Rightarrow> Some (False, k_set_error err ERR_MINUS_ONE, a)
                | Some t \<Rightarrow> do {
                    (result, err1, t1, a1) \<leftarrow> sgx_export_quote K L
                       (CKM_EXPORT_ECDSA_QUOTE_RSA_PUBLIC_KEY (launch_policy request) (cd_nonce details))
                       t err a;
                    Some (result, err1, cache_apimodule_token t1 a1) })) })"

section \<open>The wrapping key\<close>

definition swk_template :: "ck_attribute list" where
  "swk_template =
     [CKA_TOKEN False, CKA_CLASS CKO_SECRET_KEY, CKA_KEY_TYPE CKK_AES,
      CKA_LABEL PKCS11_APIMODULE_SWKLABEL, CKA_ID PKCS11_APIMODULE_SWKID,
      CKA_PRIVATE True, CKA_DECRYPT True, CKA_UNWRAP True]"

definition sgx_set_wrapping_key ::
    "'x cryptoki \<Rightarrow> session_details \<Rightarrow> gerr \<Rightarrow> 'x am \<Rightarrow> (bool \<times> gerr \<times> 'x am) option" where
  "sgx_set_wrapping_key K details err a =
     (case (sd_session details, sd_module_data details) of
        (Some swk, Some p) \<Rightarrow> do {
          d \<leftarrow> uri_mem a p;
          (case token_label d of
             None \<Rightarrow> Some (False, k_set_error err ERR_MINUS_ONE, a)
           | Some tlab \<Rightarrow>
               (case lookup_apimodule_token a (c_str tlab) of
                  None \<Rightarrow> Some (False, k_set_error err ERR_MINUS_ONE, a)
                | Some t \<Rightarrow>
                   (let ((rv, hPrk), a1) = with_ext (C_UnwrapKey K (tok_session t) CKM_RSA_PKCS_OAEP
                           (privatekey_challenge_handle t) swk swk_template) a in
                    if rv \<noteq> CKR_OK then Some (False, k_set_error err ERR_MINUS_ONE, a1)
                    else Some (True, err, cache_apimodule_token (t\<lparr>wrappingkey_handle := hPrk\<rparr>) a1)))) }
      | _ \<Rightarrow> Some (False, k_set_error err ERR_MINUS_ONE, a))"

section \<open>Results, errors and frames\<close>

text \<open>
  What an operation of the backend promises: the state moves by an \<open>am_step\<close>, and a
  failure leaves an error in the slot.
\<close>

definition reports :: "bool \<Rightarrow> gerr \<Rightarrow> gerr \<Rightarrow> bool" where
  "reports r err err' \<longleftrightarrow> (if r then err' = err else err' \<noteq> None)"

lemma reports_simps [simp]:
  "reports True err err' \<longleftrightarrow> err' = err"
  "reports False err err' \<longleftrightarrow> err' \<noteq> None"
  by (simp_all add: reports_def)

lemma reports_iff: "reports r None err' \<Longrightarrow> err' = None \<longleftrightarrow> r"
  by (cases r) simp_all

lemma am_ok_label:
  "am_ok a \<Longrightarrow> lookup_apimodule_token a l = Some t \<Longrightarrow> tok_label t = l"
  by (simp add: am_ok_def lookup_apimodule_token_def)

lemma am_ok_ext [simp]: "am_ok (a\<lparr>ext := x\<rparr>) = am_ok a"
  by (simp add: am_ok_def)

lemma lookup_ext [simp]: "lookup_apimodule_token (a\<lparr>ext := x\<rparr>) l = lookup_apimodule_token a l"
  by (simp add: lookup_apimodule_token_def)

lemma unwrap_frame:
  "sgx_unwrap_rsa_key K details d t a = Some (rv, a') \<Longrightarrow> \<exists>x. a' = a\<lparr>ext := x\<rparr>"
  "sgx_unwrap_symmeric_key K details d t a = Some (rv, a') \<Longrightarrow> \<exists>x. a' = a\<lparr>ext := x\<rparr>"
  by (auto simp: sgx_unwrap_rsa_key_def sgx_unwrap_symmeric_key_def call_simps)

lemma sgx_load_key_frame:
  assumes "sgx_load_key K details err a = Some (r, err', a')"
  shows "(\<exists>x. a' = a\<lparr>ext := x\<rparr>) \<and> reports r err err'"
proof (cases "\<exists>wk p d tlab t. ld_key details = Some wk \<and> ld_module_data details = Some p \<and>
    uri_mem a p = Some d \<and> token_label d = Some tlab \<and> lookup_apimodule_token a (c_str tlab) = Some t")
  case False
  have self: "\<exists>x. a = a\<lparr>ext := x\<rparr>" by (rule exI[of _ "ext a"]) simp
  then show ?thesis
    using assms False by (auto simp: sgx_load_key_def bind_eq_Some_conv split: option.splits)
next
  case True
  have self: "\<exists>x. a = a\<lparr>ext := x\<rparr>" by (rule exI[of _ "ext a"]) simp
  from True show ?thesis
    using assms self
    by (cases "ld_type details")
      (auto simp: sgx_load_key_def call_simps split: if_splits dest!: unwrap_frame)
qed

lemma generate_rsa_keypair_frame:
  "generate_rsa_keypair K t label kid a = (rv, t', a') \<Longrightarrow>
     (\<exists>x. a' = a\<lparr>ext := x\<rparr>) \<and> tok_label t' = tok_label t \<and> tok_pin t' = tok_pin t \<and>
     tok_session t' = tok_session t \<and> wrappingkey_handle t' = wrappingkey_handle t"
  by (auto simp: generate_rsa_keypair_def call_simps)

lemma sgx_export_quote_frame:
  assumes "sgx_export_quote K L mech t err a = Some (r, err', t', a')"
  shows "(\<exists>x. a' = a\<lparr>ext := x\<rparr>) \<and> tok_label t' = tok_label t \<and> tok_pin t' = tok_pin t
    \<and> reports r err err' \<and> (r \<longrightarrow> tok_challenge t' \<noteq> None)"
proof -
  obtain rv t1 a1 where g: "generate_rsa_keypair K t PKCS11_APIMODULE_QUOTELABEL PKCS11_APIMODULE_QUOTEID a = (rv, t1, a1)"
    by (metis prod_cases3)
  show ?thesis
    using assms generate_rsa_keypair_frame[OF g]
    by (auto simp: sgx_export_quote_def g call_simps split: if_splits)
qed

lemma sgx_get_challenge_step:
  assumes run: "sgx_get_challenge K L details request err a = Some (r, err', a')" and ok: "am_ok a"
  shows "am_step a a' \<and> reports r err err' \<and>
    (r \<longrightarrow> (\<forall>p d tlab. cd_module_data details = Some p \<longrightarrow> uri_mem a p = Some d \<longrightarrow>
       token_label d = Some tlab \<longrightarrow> (\<exists>t. lookup_apimodule_token a' (c_str tlab) = Some t \<and>
         tok_challenge t \<noteq> None)))"
proof (cases "\<exists>p d tlab t. cd_module_data details = Some p \<and> attestationType request = ''ECDSA'' \<and>
    uri_mem a p = Some d \<and> token_label d = Some tlab \<and> lookup_apimodule_token a (c_str tlab) = Some t")
  case False
  then show ?thesis using run
    by (auto simp: sgx_get_challenge_def bind_eq_Some_conv split: option.splits if_splits)
next
  case True
  then obtain p d tlab t where t: "cd_module_data details = Some p" "attestationType request = ''ECDSA''"
    "uri_mem a p = Some d" "token_label d = Some tlab" "lookup_apimodule_token a (c_str tlab) = Some t"
    by blast
  from run obtain t1 a1 where e: "sgx_export_quote K L
      (CKM_EXPORT_ECDSA_QUOTE_RSA_PUBLIC_KEY (launch_policy request) (cd_nonce details)) t err a = Some (r, err', t1, a1)"
    and a': "a' = cache_apimodule_token t1 a1"
    by (auto simp: sgx_get_challenge_def t call_simps)
  note f = sgx_export_quote_frame[OF e]
  obtain x where x: "a1 = a\<lparr>ext := x\<rparr>" using f by blast
  have "am_step a1 (cache_apimodule_token t1 a1)"
    by (rule cache_token_step) (use f t am_ok_label[OF ok t(5)] in \<open>auto simp: x\<close>)
  then have "am_step a a'" unfolding a' x by (rule am_step_trans[OF am_step_ext])
  then show ?thesis using f t am_ok_label[OF ok t(5)] a' by auto
qed

lemma sgx_set_wrapping_key_step:
  assumes run: "sgx_set_wrapping_key K details err a = Some (r, err', a')" and ok: "am_ok a"
  shows "am_step a a' \<and> reports r err err'"
proof (cases "\<exists>swk p d tlab t. sd_session details = Some swk \<and> sd_module_data details = Some p \<and>
    uri_mem a p = Some d \<and> token_label d = Some tlab \<and> lookup_apimodule_token a (c_str tlab) = Some t")
  case False
  then show ?thesis using run
    by (auto simp: sgx_set_wrapping_key_def bind_eq_Some_conv split: option.splits)
next
  case True
  then obtain swk p d tlab t where t: "sd_session details = Some swk" "sd_module_data details = Some p"
    "uri_mem a p = Some d" "token_label d = Some tlab" "lookup_apimodule_token a (c_str tlab) = Some t"
    by blast
  have "am_step (a\<lparr>ext := x\<rparr>) (cache_apimodule_token (t\<lparr>wrappingkey_handle := h\<rparr>) (a\<lparr>ext := x\<rparr>))" for x h
    by (rule cache_token_step) (use t am_ok_label[OF ok t(5)] in auto)
  then have "am_step a (cache_apimodule_token (t\<lparr>wrappingkey_handle := h\<rparr>) (a\<lparr>ext := x\<rparr>))" for x h
    by (rule am_step_trans[OF am_step_ext])
  then show ?thesis using run by (auto simp: sgx_set_wrapping_key_def t call_simps split: if_splits)
qed

section \<open>Properties\<close>

lemma rd32_fields:
  "rd32 (drop 4 (le32 a @ le32 b @ xs)) = b" "rd32 (drop 8 (le32 a @ le32 b @ le32 c @ ys)) = c"
proof -
  show "rd32 (drop 4 (le32 a @ le32 b @ xs)) = b" by simp
  have "drop 8 (le32 a @ le32 b @ le32 c @ ys) = le32 c @ ys" by (simp add: drop_append)
  then show "rd32 (drop 8 (le32 a @ le32 b @ le32 c @ ys)) = c" by simp
qed

text \<open>
  C12: the challenge sent to the key server can be read back: exponent length, modulus length and
  quote length in its first twelve bytes, then the exported quote without the toolkit's header.
\<close>
theorem challenge_layout:
  assumes "build_challenge L quote n = Some ch"
  shows "rd32 ch = ucast (ulExponentLen L quote) \<and> rd32 (drop 4 ch) = ucast (ulModulusLen L quote) \<and>
    rd32 (drop 8 ch) = ucast n \<and> take (rsa_params_size L) quote @ drop 12 ch = take (unat n) quote"
proof -
  have ch: "ch = le32 (ucast (ulExponentLen L quote)) @ le32 (ucast (ulModulusLen L quote)) @ le32 (ucast n) @
      take (unat n - rsa_params_size L) (drop (rsa_params_size L) quote)"
    and le: "rsa_params_size L \<le> unat n" "unat n \<le> length quote"
    using assms by (auto simp: build_challenge_def quote_info_bytes_def split: if_splits)
  have "drop 12 ch = take (unat n - rsa_params_size L) (drop (rsa_params_size L) quote)"
    unfolding ch by (simp add: drop_append)
  then have "take (rsa_params_size L) quote @ drop 12 ch = take (unat n) quote"
    using le by (simp add: take_add[symmetric])
  then show ?thesis unfolding ch by (simp add: rd32_fields)
qed

end
