(* ===== verification/Apimodule.thy ===== *)
theory Apimodule
  imports Apimodule_Sgx
begin

text \<open>
  The callbacks of \<open>api-module/pkcs11/src/pkcs11-apimodule.cpp\<close> that the key agent calls
  through function pointers: get a challenge, set the wrapping key, load a key.  Each checks
  its arguments, finds the token and the backend registered under the label, and forwards.
\<close>

text \<open>Forwarding through \<open>ops->...\<close>; the only table of callbacks is the SGX one.\<close>

definition uri_data_write :: "nat \<Rightarrow> apimodule_uri_data \<Rightarrow> 'x am \<Rightarrow> 'x am" where
  "uri_data_write p d a = a\<lparr>uri_mem := (uri_mem a)(p \<mapsto> d)\<rparr>"

text \<open>
  The token of a challenge: the one in the table, or a new one, created if the device does
  not have it.
\<close>

definition challenge_token ::
    "'x cryptoki \<Rightarrow> nat \<Rightarrow> apimodule_uri_data \<Rightarrow> string \<Rightarrow> gerr \<Rightarrow> 'x am \<Rightarrow>
     (bool \<times> gerr \<times> 'x am) option" where
  "challenge_token K p d tlab err a =
     (case lookup_apimodule_token a (c_str tlab) of
        Some t \<Rightarrow> Some (True, err, a)
      | None \<Rightarrow> do {
          (t, d1, err1, a1) \<leftarrow> init_apimodule_token K d True err a;
          Some (t \<noteq> None, err1, uri_data_write p d1 a1) })"

definition apimodule_get_challenge ::
    "'x cryptoki \<Rightarrow> rsa_params_layout \<Rightarrow> challenge_details \<Rightarrow> sgx_challenge_request \<Rightarrow> gerr \<Rightarrow> 'x am \<Rightarrow>
     (bool \<times> challenge_details \<times> gerr \<times> 'x am) option" where
  "apimodule_get_challenge K L details request err a =
     (case (cd_label details, cd_module_data details) of
        (Some label, Some p) \<Rightarrow> do {
          d \<leftarrow> uri_mem a p;
          (case token_label d of
             None \<Rightarrow> Some (False, details, k_set_error err ERR_MINUS_ONE, a)
           | Some tlab \<Rightarrow> do {
               (have_token, err1, a1) \<leftarrow> challenge_token K p d tlab err a;
               (case ght_lookup (api_hash a1) label of
                  None \<Rightarrow> Some (False, details, k_set_error err1 ERR_MINUS_ONE, a1)
                | Some SGX_APIMODULE_OPS \<Rightarrow>
                    if \<not> have_token then Some (False, details, k_set_error err1 ERR_MINUS_ONE, a1)
                    else do {
                      (r, err2, a2) \<leftarrow> sgx_get_challenge K L details request err1 a1;
                      if r then do {
                        t \<leftarrow> lookup_apimodule_token a2 (c_str tlab);
                        ch \<leftarrow> tok_challenge t;
                        Some (True, details\<lparr>cd_challenge := Some ch\<rparr>, err2, a2) }
                      else Some (False, details, err2, a2) }) }) }
      | _ \<Rightarrow> Some (False, details, k_set_error err ERR_MINUS_ONE, a))"

definition apimodule_set_wrapping_key ::
    "'x cryptoki \<Rightarrow> session_details \<Rightarrow> gerr \<Rightarrow> 'x am \<Rightarrow> (bool \<times> gerr \<times> 'x am) option" where
  "apimodule_set_wrapping_key K details err a =
     (case sd_module_data details of
        None \<Rightarrow> Some (False, k_set_error err ERR_MINUS_ONE, a)
      | Some p \<Rightarrow> do {
          d \<leftarrow> uri_mem a p;
          (case token_label d of
             None \<Rightarrow> Some (False, k_set_error err ERR_MINUS_ONE, a)
           | Some tlab \<Rightarrow> do {
               label \<leftarrow> sd_label details;
               (case (lookup_apimodule_token a (c_str tlab), ght_lookup (api_hash a) label) of
                  (Some _, Some SGX_APIMODULE_OPS) \<Rightarrow> sgx_set_wrapping_key K details err a
                | _ \<Rightarrow> Some (False, k_set_error err ERR_MINUS_ONE, a)) }) })"

text \<open>The object class a key of the given type will have.\<close>

definition class_of_keytype :: "keyagent_keytype \<Rightarrow> ck_ulong" where
  "class_of_keytype ty = (if ty = KEYAGENT_AESKEY then CKO_SECRET_KEY else CKO_PRIVATE_KEY)"

definition apimodule_load_key ::
    "'x cryptoki \<Rightarrow> loadkey_details \<Rightarrow> gerr \<Rightarrow> 'x am \<Rightarrow> (bool \<times> gerr \<times> 'x am) option" where
  "apimodule_load_key K details err a =
     (case ld_module_data details of
        None \<Rightarrow> Some (False, k_set_error err ERR_MINUS_ONE, a)
      | Some p \<Rightarrow> do {
          d \<leftarrow> uri_mem a p;
          (case token_label d of
             None \<Rightarrow> Some (False, k_set_error err ERR_MINUS_ONE, a)
           | Some tlab \<Rightarrow> do {
               label \<leftarrow> ld_label details;
               (case (lookup_apimodule_token a (c_str tlab), ght_lookup (api_hash a) label) of
                  (Some _, Some SGX_APIMODULE_OPS) \<Rightarrow>
                    (let cls = class_of_keytype (ld_type details);
                         d1 = (if utype d = CKO_DATA then d\<lparr>utype := cls\<rparr> else d);
                         a1 = uri_data_write p d1 a
                     in if utype d1 \<noteq> cls then Some (False, k_set_error err ERR_MINUS_ONE, a1)
                        else sgx_load_key K details err a1)
                | _ \<Rightarrow> Some (False, k_set_error err ERR_MINUS_ONE, a)) }) })"

section \<open>The interface the key agent calls through\<close>

text \<open>
  What the three callbacks promise their caller: the module's state only moves by
  \<open>am_step\<close>; a failure leaves an error; a challenge that was reported is there; and the
  details keep the pointer to the caller's data.
\<close>

definition challenge_cb_ok ::
    "(challenge_details \<Rightarrow> sgx_challenge_request \<Rightarrow> gerr \<Rightarrow> 'x am \<Rightarrow> (bool \<times> challenge_details \<times> gerr \<times> 'x am) option)
     \<Rightarrow> bool" where
  "challenge_cb_ok f \<longleftrightarrow> (\<forall>details rq err a r details' err' a'. am_ok a \<longrightarrow>
     f details rq err a = Some (r, details', err', a') \<longrightarrow>
     am_step a a' \<and>
     (if r then cd_challenge details' \<noteq> None else err' \<noteq> None \<and> details' = details))"

definition session_cb_ok ::
    "(session_details \<Rightarrow> gerr \<Rightarrow> 'x am \<Rightarrow> (bool \<times> gerr \<times> 'x am) option) \<Rightarrow> bool" where
  "session_cb_ok f \<longleftrightarrow> (\<forall>details err a r err' a'. am_ok a \<longrightarrow>
     f details err a = Some (r, err', a') \<longrightarrow> am_step a a' \<and> reports r err err')"

definition loadkey_cb_ok ::
    "(loadkey_details \<Rightarrow> gerr \<Rightarrow> 'x am \<Rightarrow> (bool \<times> gerr \<times> 'x am) option) \<Rightarrow> bool" where
  "loadkey_cb_ok f \<longleftrightarrow> (\<forall>details err a r err' a'. am_ok a \<longrightarrow>
     f details err a = Some (r, err', a') \<longrightarrow> am_step a a' \<and> reports r err err')"

locale api_module =
  fixes get_challenge :: "challenge_details \<Rightarrow> sgx_challenge_request \<Rightarrow> gerr \<Rightarrow> 'x am \<Rightarrow>
      (bool \<times> challenge_details \<times> gerr \<times> 'x am) option"
    and set_wrapping_key :: "session_details \<Rightarrow> gerr \<Rightarrow> 'x am \<Rightarrow> (bool \<times> gerr \<times> 'x am) option"
    and load_key :: "loadkey_details \<Rightarrow> gerr \<Rightarrow> 'x am \<Rightarrow> (bool \<times> gerr \<times> 'x am) option"
  assumes get_challenge_ok: "challenge_cb_ok get_challenge"
    and set_wrapping_key_ok: "session_cb_ok set_wrapping_key"
    and load_key_ok: "loadkey_cb_ok load_key"
begin

lemma get_challenge_step:
  "am_ok a \<Longrightarrow> get_challenge d rq err a = Some (r, d', err', a') \<Longrightarrow> am_step a a'"
  using get_challenge_ok by (auto simp: challenge_cb_ok_def)

lemma set_wrapping_key_step:
  "am_ok a \<Longrightarrow> set_wrapping_key d err a = Some (r, err', a') \<Longrightarrow> am_step a a'"
  using set_wrapping_key_ok by (auto simp: session_cb_ok_def)

lemma load_key_step:
  "am_ok a \<Longrightarrow> load_key d err a = Some (r, err', a') \<Longrightarrow> am_step a a'"
  using load_key_ok by (auto simp: loadkey_cb_ok_def)

text \<open>A whole exchange on an empty error slot that ends without an error is one where each call worked.\<close>

lemma exchange_no_silent_failure:
  assumes "am_ok a" and "get_challenge cd rq None a = Some (r1, cd', e1, a1)"
    and "set_wrapping_key sd e1 a1 = Some (r2, e2, a2)" and "load_key ld e2 a2 = Some (r3, e3, a3)"
  shows "(e3 = None \<longrightarrow> r1 \<and> r2 \<and> r3 \<and> cd_challenge cd' \<noteq> None) \<and> am_step a a3"
proof -
  have s1: "am_step a a1" "if r1 then cd_challenge cd' \<noteq> None else e1 \<noteq> None"
    using get_challenge_ok assms(1,2) by (auto simp: challenge_cb_ok_def)
  have s2: "am_step a1 a2" "reports r2 e1 e2"
    using set_wrapping_key_ok am_step_okD[OF s1(1) assms(1)] assms(3) by (auto simp: session_cb_ok_def)
  have s12: "am_step a a2" using s1(1) s2(1) by (rule am_step_trans)
  have s3: "am_step a2 a3" "reports r3 e2 e3"
    using load_key_ok am_step_okD[OF s12 assms(1)] assms(4) by (auto simp: loadkey_cb_ok_def)
  show ?thesis using s1(2) s2(2) s3(2) am_step_trans[OF s12 s3(1)]
    by (cases r1; cases r2; cases r3) auto
qed

end

section \<open>The callbacks of this module implement it\<close>

lemma api_backend_only [simp]: "b = SGX_APIMODULE_OPS"
  by (cases b) simp

lemma uri_data_write_step:
  "uri_mem a p = Some d \<Longrightarrow> uri_same d d' \<Longrightarrow> am_step a (uri_data_write p d' a)"
  by (simp add: uri_data_write_def am_step_uri_mem)

lemma uri_data_write_simps [simp]:
  "token_hash (uri_data_write p d a) = token_hash a"
  "api_hash (uri_data_write p d a) = api_hash a"
  "uri_mem (uri_data_write p d a) = (uri_mem a)(p \<mapsto> d)"
  "lookup_apimodule_token (uri_data_write p d a) l = lookup_apimodule_token a l"
  "am_ok (uri_data_write p d a) = am_ok a"
  by (simp_all add: uri_data_write_def lookup_apimodule_token_def am_ok_def)

lemma challenge_token_step:
  assumes run: "challenge_token K p d tlab err a = Some (have_token, err', a')"
    and d: "uri_mem a p = Some d" "token_label d = Some tlab"
  shows "am_step a a' \<and>
    (have_token \<longrightarrow> lookup_apimodule_token a' (c_str tlab) \<noteq> None) \<and>
    (\<exists>s. uri_mem a' p = Some (d\<lparr>slot_id := s\<rparr>))"
proof (cases "lookup_apimodule_token a (c_str tlab)")
  case (Some t)
  moreover have "\<exists>s. d = d\<lparr>slot_id := s\<rparr>" by (rule exI[of _ "slot_id d"]) simp
  ultimately show ?thesis using run d by (auto simp: challenge_token_def)
next
  case None
  from run None obtain t d1 a1 where i: "init_apimodule_token K d True err a = Some (t, d1, err', a1)"
    and ht: "have_token \<longleftrightarrow> t \<noteq> None" and a': "a' = uri_data_write p d1 a1"
    by (auto simp: challenge_token_def bind_eq_Some_conv)
  have absent: "\<And>l. token_label d = Some l \<Longrightarrow> lookup_apimodule_token a (c_str l) = None"
    using d None by simp
  from init_apimodule_token_result(1)[OF i] obtain s where s: "d1 = d\<lparr>slot_id := s\<rparr>" by blast
  have m: "uri_mem a1 p = Some d" using init_apimodule_token_step(2)[OF i absent] d by simp
  have "am_step a a1" using i absent by (rule init_apimodule_token_step(1))
  moreover have "am_step a1 a'" unfolding a' s by (rule uri_data_write_step[OF m]) simp
  ultimately have "am_step a a'" by (rule am_step_trans)
  moreover have "t = Some t' \<Longrightarrow> lookup_apimodule_token a' (c_str tlab) = Some t'" for t'
    using init_apimodule_token_step(3)[OF i absent _ d(2)] a' by simp
  ultimately show ?thesis using ht None s a' by auto
qed

lemma apimodule_get_challenge_ok: "challenge_cb_ok (apimodule_get_challenge K L)"
  unfolding challenge_cb_ok_def
proof (intro allI impI)
  fix details rq err a r details' err' a'
  assume ok: "am_ok a" and run: "apimodule_get_challenge K L details rq err a = Some (r, details', err', a')"
  show "am_step a a' \<and> (if r then cd_challenge details' \<noteq> None else err' \<noteq> None \<and> details' = details)"
  proof (cases "\<exists>l p d tlab. cd_label details = Some l \<and> cd_module_data details = Some p \<and>
      uri_mem a p = Some d \<and> token_label d = Some tlab")
    case False
    then show ?thesis using run
      by (auto simp: apimodule_get_challenge_def bind_eq_Some_conv split: option.splits)
  next
    case True
    then obtain l p d tlab where d: "cd_label details = Some l" "cd_module_data details = Some p"
      "uri_mem a p = Some d" "token_label d = Some tlab" by blast
    from run obtain ht err1 a1 where c: "challenge_token K p d tlab err a = Some (ht, err1, a1)"
      by (auto simp: apimodule_get_challenge_def d bind_eq_Some_conv)
    note s1 = challenge_token_step[OF c d(3,4)]
    show ?thesis
    proof (cases "ght_lookup (api_hash a1) l = None \<or> \<not> ht")
      case True
      then show ?thesis using run c s1
        by (auto simp: apimodule_get_challenge_def d split: option.splits api_backend.splits)
    next
      case False
      then obtain b where b: "ght_lookup (api_hash a1) l = Some b" "b = SGX_APIMODULE_OPS" ht
        by (cases "ght_lookup (api_hash a1) l"; cases "the (ght_lookup (api_hash a1) l)") auto
      from run b c obtain r2 err2 a2 where g: "sgx_get_challenge K L details rq err1 a1 = Some (r2, err2, a2)"
        by (auto simp: apimodule_get_challenge_def d bind_eq_Some_conv)
      have ok1: "am_ok a1" using s1 ok by (blast dest: am_step_okD)
      note s2 = sgx_get_challenge_step[OF g ok1]
      have "am_step a a2" using s1 s2 by (blast intro: am_step_trans)
      then show ?thesis using run b c g s2
        by (cases r2) (auto simp: apimodule_get_challenge_def d bind_eq_Some_conv)
    qed
  qed
qed

lemma apimodule_set_wrapping_key_ok: "session_cb_ok (apimodule_set_wrapping_key K)"
  unfolding session_cb_ok_def
proof (intro allI impI)
  fix details err a r err' a'
  assume ok: "am_ok a" and run: "apimodule_set_wrapping_key K details err a = Some (r, err', a')"
  show "am_step a a' \<and> reports r err err'"
  proof (cases "sgx_set_wrapping_key K details err a = Some (r, err', a')")
    case True
    then show ?thesis using ok by (rule sgx_set_wrapping_key_step)
  next
    case False
    then show ?thesis using run
      by (auto simp: apimodule_set_wrapping_key_def bind_eq_Some_conv split: option.splits api_backend.splits)
  qed
qed

lemma apimodule_load_key_ok: "loadkey_cb_ok (apimodule_load_key K)"
  unfolding loadkey_cb_ok_def
proof (intro allI impI)
  fix details err a r err' a'
  assume ok: "am_ok a" and run: "apimodule_load_key K details err a = Some (r, err', a')"
  show "am_step a a' \<and> reports r err err'"
  proof (cases "\<exists>l p d tlab t. ld_label details = Some l \<and> ld_module_data details = Some p \<and>
      uri_mem a p = Some d \<and> token_label d = Some tlab \<and>
      lookup_apimodule_token a (c_str tlab) = Some t \<and> ght_lookup (api_hash a) l = Some SGX_APIMODULE_OPS")
    case False
    then show ?thesis using run
      by (auto simp: apimodule_load_key_def bind_eq_Some_conv split: option.splits api_backend.splits)
  next
    case True
    then obtain l p d tlab t where d: "ld_label details = Some l" "ld_module_data details = Some p"
      "uri_mem a p = Some d" "token_label d = Some tlab"
      "lookup_apimodule_token a (c_str tlab) = Some t" "ght_lookup (api_hash a) l = Some SGX_APIMODULE_OPS"
      by blast
    let ?cls = "class_of_keytype (ld_type details)"
    define d1 where "d1 = (if utype d = CKO_DATA then d\<lparr>utype := ?cls\<rparr> else d)"
    have s: "am_step a (uri_data_write p d1 a)"
      by (rule uri_data_write_step[OF d(3)]) (simp add: d1_def)
    have run': "(if utype d1 \<noteq> ?cls then Some (False, k_set_error err ERR_MINUS_ONE, uri_data_write p d1 a)
        else sgx_load_key K details err (uri_data_write p d1 a)) = Some (r, err', a')"
      using run unfolding d1_def by (simp only: apimodule_load_key_def d Let_def bind.bind_lunit option.case
          prod.case api_backend.case)
    show ?thesis
    proof (cases "utype d1 = ?cls")
      case True
      then have "sgx_load_key K details err (uri_data_write p d1 a) = Some (r, err', a')" using run' by simp
      from sgx_load_key_frame[OF this] s show ?thesis by (auto intro: am_step_trans[OF _ am_step_ext])
    qed (use run' s in auto)
  qed
qed

interpretation sgx_api: api_module "apimodule_get_challenge K L" "apimodule_set_wrapping_key K"
    "apimodule_load_key K" for K L
  by unfold_locales
    (rule apimodule_get_challenge_ok apimodule_set_wrapping_key_ok apimodule_load_key_ok)+

section \<open>Properties\<close>

text \<open>
  C9: a key is unwrapped with its session's wrapping key.  After the wrapping key was unwrapped to a
  handle with the private challenge key, loading an AES key calls \<open>C_UnwrapKey\<close> with that handle,
  the key's IV and tag size, and the label and id of the URI; its return value decides the result.
\<close>
theorem key_unwrapped_with_session_key:
  assumes "uri_mem a p = Some d" and "token_label d = Some tlab" and "key_label d = Some kl" and "key_id d = Some kid"
    and "utype d = CKO_SECRET_KEY" and "lookup_apimodule_token a (c_str tlab) = Some t" and "tok_label t = c_str tlab"
    and "ght_lookup (api_hash a) label = Some SGX_APIMODULE_OPS"
    and "sd_module_data sd = Some p" and "sd_label sd = Some label" and "sd_session sd = Some swk"
    and "ld_module_data ld = Some p" and "ld_label ld = Some label" and "ld_type ld = KEYAGENT_AESKEY"
    and "ld_key ld = Some wrapped" and "ld_iv ld = Some iv"
    and "C_UnwrapKey K (tok_session t) CKM_RSA_PKCS_OAEP (privatekey_challenge_handle t) swk swk_template (ext a)
      = ((CKR_OK, h), x1)"
    and "C_UnwrapKey K (tok_session t) (CKM_AES_GCM iv (of_nat (length iv)) (of_nat (length iv * 8)) (ld_tag_size ld * 8))
      h wrapped (aes_key_template kl kid) x1 = ((rv, h2), x2)"
  shows "\<exists>a1 a2. apimodule_set_wrapping_key K sd None a = Some (True, None, a1) \<and>
    apimodule_load_key K ld None a1 = Some (rv = CKR_OK, if rv = CKR_OK then None else Some ERR_MINUS_ONE, a2) \<and>
    ext a2 = x2"
proof -
  let ?a1 = "cache_apimodule_token (t\<lparr>wrappingkey_handle := h\<rparr>) (a\<lparr>ext := x1\<rparr>)"
  have s: "apimodule_set_wrapping_key K sd None a = Some (True, None, ?a1)"
    using assms(1,2,6,8-11,17) by (simp add: apimodule_set_wrapping_key_def sgx_set_wrapping_key_def call_simps)
  have a1: "uri_mem ?a1 p = Some d" "api_hash ?a1 = api_hash a" "ext ?a1 = x1"
    "lookup_apimodule_token ?a1 (c_str tlab) = Some (t\<lparr>wrappingkey_handle := h\<rparr>)"
    using assms(1,7) by (simp_all add: cache_apimodule_token_def lookup_apimodule_token_def)
  have "\<exists>a2. apimodule_load_key K ld None ?a1 = Some (rv = CKR_OK, if rv = CKR_OK then None else Some ERR_MINUS_ONE, a2) \<and>
    ext a2 = x2"
    using assms(2-5,8,12-16,18) a1
    by (simp add: apimodule_load_key_def sgx_load_key_def class_of_keytype_def sgx_unwrap_symmeric_key_def
        gcm_params_def call_simps uri_data_write_def lookup_apimodule_token_def cache_apimodule_token_def)
  then show ?thesis using s by blast
qed

end
