(* ===== verification/Stm_Sgx.thy ===== *)
theory Stm_Sgx
  imports Apimodule Config
begin

text \<open>
  \<open>stm/sgx/src/application_intf.cpp\<close>: the SGX STM plug-in, and the interface of STM
  plug-ins (\<open>key-agent/stm/stm.h\<close>).  The plug-in reads its two settings, and forwards to the
  API module's callbacks it is given as function pointers; a NULL pointer is \<open>None\<close>.
\<close>

section \<open>The interface structures\<close>

type_synonym 'x challenge_cb = "challenge_details \<Rightarrow> sgx_challenge_request \<Rightarrow> gerr \<Rightarrow> 'x am \<Rightarrow>
  (bool \<times> challenge_details \<times> gerr \<times> 'x am) option"
type_synonym 'x session_cb = "session_details \<Rightarrow> gerr \<Rightarrow> 'x am \<Rightarrow> (bool \<times> gerr \<times> 'x am) option"
type_synonym 'x loadkey_cb = "loadkey_details \<Rightarrow> gerr \<Rightarrow> 'x am \<Rightarrow> (bool \<times> gerr \<times> 'x am) option"

record 'x keyagent_apimodule_ops =
  ops_load_key :: "'x loadkey_cb option"
  ops_get_challenge :: "'x challenge_cb option"
  ops_set_wrapping_key :: "'x session_cb option"

record 'x stm_create_challenge_details =
  cd_request_id :: string
  apimodule_get_challenge_cb :: "'x challenge_cb option"
  cd_apimodule_details :: challenge_details

record 'x stm_session_details =
  sd_request_id :: string
  set_wrapping_key_cb :: "'x session_cb option"
  sd_apimodule_details :: session_details

record 'x stm_loadkey_details =
  ld_request_id :: string
  ld_swk_quark :: quark
  apimodule_load_key_cb :: "'x loadkey_cb option"
  ld_apimodule_details :: loadkey_details

type_synonym 'x stm_init_fn = "string \<Rightarrow> gerr \<Rightarrow> 'x am \<Rightarrow> (string option \<times> gerr \<times> 'x am) option"
type_synonym 'x stm_create_challenge_fn = "'x stm_create_challenge_details \<Rightarrow> gerr \<Rightarrow> 'x am \<Rightarrow>
  (bool \<times> 'x stm_create_challenge_details \<times> gerr \<times> 'x am) option"
type_synonym 'x stm_set_session_fn = "'x stm_session_details \<Rightarrow> gerr \<Rightarrow> 'x am \<Rightarrow> (bool \<times> gerr \<times> 'x am) option"
type_synonym 'x stm_load_key_fn = "'x stm_loadkey_details \<Rightarrow> gerr \<Rightarrow> 'x am \<Rightarrow> (bool \<times> gerr \<times> 'x am) option"

section \<open>Settings\<close>

definition g_build_filename :: "string \<Rightarrow> string \<Rightarrow> string" where
  "g_build_filename dir name = dir @ ''/'' @ name"

text \<open>
  The error slot is empty at every call.  An attestation type other than ECDSA is reported on
  the log only.
\<close>

definition application_stm_init ::
    "(string \<Rightarrow> errcode + keyfile) \<Rightarrow> string \<Rightarrow> gerr \<Rightarrow> 'x am \<Rightarrow> gerr \<times> 'x am" where
  "application_stm_init load config_directory err a =
     (let (config, err1) = key_config_openfile load (Some (g_build_filename config_directory ''sgx_stm.ini'')) err in
      if err1 \<noteq> None then (err1, a) else
      (let (ty, err2) = key_config_get_string config ''core'' ''type'' err1;
           a1 = a\<lparr>attestation_type := ty\<rparr> in
       if err2 \<noteq> None then (err2, a1) else
       if ty = Some ''ECDSA'' then
         (let (pol, err3) = key_config_get_string config ''ECDSA'' ''launch_policy'' err2
          in (err3, a1\<lparr>qlPolicy := pol\<rparr>))
       else (err2, a1)))"

definition stm_init ::
    "(string \<Rightarrow> errcode + keyfile) \<Rightarrow> string \<Rightarrow> gerr \<Rightarrow> 'x am \<Rightarrow> (string option \<times> gerr \<times> 'x am) option" where
  "stm_init load config_directory err a =
     (let (err1, a1) = application_stm_init load config_directory err a
      in Some (if err1 \<noteq> None then None else Some ''SGX'', err1, a1))"

section \<open>Operations\<close>

definition stm_create_challenge :: "'x stm_create_challenge_fn" where
  "stm_create_challenge details err a =
     (case apimodule_get_challenge_cb details of
        None \<Rightarrow> Some (False, details, k_set_error err STM_ERROR_API_MODULE_LOADKEY, a)
      | Some cb \<Rightarrow> do {
          pol \<leftarrow> qlPolicy a;
          let launch = (if c_str pol = ''PERSISTENT'' then Some SGX_QL_PERSISTENT
                        else if c_str pol = ''EPHEMERAL'' then Some SGX_QL_EPHEMERAL else None);
          (case launch of
             None \<Rightarrow> Some (False, details, k_set_error err STM_ERROR_API_MODULE_LOADKEY, a)
           | Some lp \<Rightarrow> do {
               aty \<leftarrow> attestation_type a;
               let request = \<lparr>launch_policy = lp, rq_nonce = cd_nonce (cd_apimodule_details details),
                              attestationType = aty\<rparr>;
               (ret, d1, err1, a1) \<leftarrow> cb (cd_apimodule_details details) request err a;
               let details1 = details\<lparr>cd_apimodule_details := d1\<rparr>;
               if cd_challenge d1 = None \<and> err1 = None
               then Some (False, details1, k_set_error err1 STM_ERROR_API_MODULE_LOADKEY, a1)
               else Some (ret, details1, err1, a1) }) })"

definition stm_set_session :: "'x stm_set_session_fn" where
  "stm_set_session details err a =
     (case set_wrapping_key_cb details of
        None \<Rightarrow> Some (False, k_set_error err STM_ERROR_API_MODULE_LOADKEY, a)
      | Some cb \<Rightarrow> cb (sd_apimodule_details details) err a)"

definition stm_load_key :: "'x stm_load_key_fn" where
  "stm_load_key details err a =
     (case apimodule_load_key_cb details of
        None \<Rightarrow> Some (False, k_set_error err STM_ERROR_API_MODULE_LOADKEY, a)
      | Some cb \<Rightarrow> cb (ld_apimodule_details details) err a)"

section \<open>The contract of an STM plug-in\<close>

text \<open>
  A plug-in may rely on the callbacks it is given; it owes the key agent that the API module's
  state only moves by \<open>am_step\<close>, that a failure leaves an error, and that a challenge it
  reports is there.
\<close>

definition opt_ok :: "('f \<Rightarrow> bool) \<Rightarrow> 'f option \<Rightarrow> bool" where
  "opt_ok P f \<longleftrightarrow> (case f of None \<Rightarrow> True | Some g \<Rightarrow> P g)"

lemma opt_ok_simps [simp]: "opt_ok P None" "opt_ok P (Some f) \<longleftrightarrow> P f"
  by (simp_all add: opt_ok_def)

definition create_challenge_ok :: "'x stm_create_challenge_fn \<Rightarrow> bool" where
  "create_challenge_ok f \<longleftrightarrow> (\<forall>details err a r details' err' a'.
     opt_ok challenge_cb_ok (apimodule_get_challenge_cb details) \<longrightarrow> am_ok a \<longrightarrow>
     cd_challenge (cd_apimodule_details details) = None \<longrightarrow> f details err a = Some (r, details', err', a') \<longrightarrow>
     am_step a a' \<and> (if r then cd_challenge (cd_apimodule_details details') \<noteq> None else err' \<noteq> None))"

definition set_session_ok :: "'x stm_set_session_fn \<Rightarrow> bool" where
  "set_session_ok f \<longleftrightarrow> (\<forall>details err a r err' a'.
     opt_ok session_cb_ok (set_wrapping_key_cb details) \<longrightarrow> am_ok a \<longrightarrow>
     f details err a = Some (r, err', a') \<longrightarrow> am_step a a' \<and> reports r err err')"

definition load_key_ok :: "'x stm_load_key_fn \<Rightarrow> bool" where
  "load_key_ok f \<longleftrightarrow> (\<forall>details err a r err' a'.
     opt_ok loadkey_cb_ok (apimodule_load_key_cb details) \<longrightarrow> am_ok a \<longrightarrow>
     f details err a = Some (r, err', a') \<longrightarrow> am_step a a' \<and> reports r err err')"

lemma create_challenge_okD:
  "create_challenge_ok f \<Longrightarrow> opt_ok challenge_cb_ok (apimodule_get_challenge_cb d) \<Longrightarrow> am_ok a \<Longrightarrow>
     cd_challenge (cd_apimodule_details d) = None \<Longrightarrow> f d err a = Some (r, d', err', a') \<Longrightarrow>
     am_step a a' \<and> (if r then cd_challenge (cd_apimodule_details d') \<noteq> None else err' \<noteq> None)"
  unfolding create_challenge_ok_def by blast

lemma set_session_okD:
  "set_session_ok f \<Longrightarrow> opt_ok session_cb_ok (set_wrapping_key_cb d) \<Longrightarrow> am_ok a \<Longrightarrow>
     f d err a = Some (r, err', a') \<Longrightarrow> am_step a a' \<and> reports r err err'"
  unfolding set_session_ok_def by blast

lemma load_key_okD:
  "load_key_ok f \<Longrightarrow> opt_ok loadkey_cb_ok (apimodule_load_key_cb d) \<Longrightarrow> am_ok a \<Longrightarrow>
     f d err a = Some (r, err', a') \<Longrightarrow> am_step a a' \<and> reports r err err'"
  unfolding load_key_ok_def by blast

locale stm_plugin =
  fixes create_challenge :: "'x stm_create_challenge_fn"
    and set_session :: "'x stm_set_session_fn"
    and load_key :: "'x stm_load_key_fn"
  assumes create_challenge: "create_challenge_ok create_challenge"
    and set_session: "set_session_ok set_session"
    and load_key: "load_key_ok load_key"
begin

lemma create_challengeD:
  assumes "opt_ok challenge_cb_ok (apimodule_get_challenge_cb d)" "am_ok a"
    "cd_challenge (cd_apimodule_details d) = None" "create_challenge d err a = Some (r, d', err', a')"
  shows "am_step a a'" and "r \<Longrightarrow> cd_challenge (cd_apimodule_details d') \<noteq> None" and "\<not> r \<Longrightarrow> err' \<noteq> None"
  using create_challenge_okD[OF create_challenge assms] by simp_all

end

lemma stm_create_challenge_ok: "create_challenge_ok (stm_create_challenge :: 'x stm_create_challenge_fn)"
  unfolding create_challenge_ok_def
proof (intro allI impI)
  fix details details' :: "'x stm_create_challenge_details" and err r err' and a a' :: "'x am"
  assume cb: "opt_ok challenge_cb_ok (apimodule_get_challenge_cb details)" and ok: "am_ok a"
    and none: "cd_challenge (cd_apimodule_details details) = None"
    and run: "stm_create_challenge details err a = Some (r, details', err', a')"
  show "am_step a a' \<and> (if r then cd_challenge (cd_apimodule_details details') \<noteq> None else err' \<noteq> None)"
  proof (cases "apimodule_get_challenge_cb details")
    case None
    then show ?thesis using run by (auto simp: stm_create_challenge_def)
  next
    case (Some f)
    have f: "am_ok a \<Longrightarrow> f d rq err a = Some (r1, d1, err1, a1) \<Longrightarrow>
      am_step a a1 \<and> (if r1 then cd_challenge d1 \<noteq> None else err1 \<noteq> None \<and> d1 = d)" for d rq r1 d1 err1 a1
      using cb Some by (auto simp: challenge_cb_ok_def)
    show ?thesis using run ok
      by (auto simp: stm_create_challenge_def Some run_simps split: option.splits if_splits
          dest!: f)
  qed
qed

lemma stm_set_session_ok: "set_session_ok stm_set_session"
  by (auto simp: set_session_ok_def stm_set_session_def session_cb_ok_def split: option.splits)

lemma stm_load_key_ok: "load_key_ok stm_load_key"
  by (auto simp: load_key_ok_def stm_load_key_def loadkey_cb_ok_def split: option.splits)

interpretation sgx_stm: stm_plugin stm_create_challenge stm_set_session stm_load_key
  by unfold_locales (rule stm_create_challenge_ok stm_set_session_ok stm_load_key_ok)+

text \<open>Initialising reports the plug-in's name exactly when no error was met.\<close>

lemma stm_init_reports:
  "stm_init load dir None a = Some (name, err, a') \<Longrightarrow> (name = Some ''SGX'' \<longleftrightarrow> err = None) \<and> (name \<noteq> None \<longleftrightarrow> err = None)"
  by (auto simp: stm_init_def split_beta Let_def split: if_splits)

text \<open>
  A loaded configuration with another attestation type passes, and leaves the launch policy
  unset.
\<close>

lemma stm_init_other_type:
  assumes "load (dir @ ''/sgx_stm.ini'') = Inr kf" and "kf_string kf ''core'' ''type'' = Inr ty"
    and "ty \<noteq> ''ECDSA''"
  shows "stm_init load dir None a = Some (Some ''SGX'', None, a\<lparr>attestation_type := Some ty\<rparr>)"
  using assms by (simp add: stm_init_def application_stm_init_def key_config_openfile_def
      key_config_get_string_def g_build_filename_def)

section \<open>Properties\<close>

text \<open>
  C34: the SGX plug-in comes up without an error whatever attestation type its configuration names,
  but with another type than ECDSA it has not read its launch policy: the first challenge then
  dereferences it.
\<close>
theorem other_attestation_type:
  assumes "load (dir @ ''/sgx_stm.ini'') = Inr kf" and "kf_string kf ''core'' ''type'' = Inr ty" and "ty \<noteq> ''ECDSA''"
    and "qlPolicy a = None" and "apimodule_get_challenge_cb details \<noteq> None"
  shows "\<exists>a'. stm_init load dir None a = Some (Some ''SGX'', None, a') \<and> stm_create_challenge details err a' = None"
proof (intro exI conjI)
  show "stm_init load dir None a = Some (Some ''SGX'', None, a\<lparr>attestation_type := Some ty\<rparr>)"
    using stm_init_other_type[where load = load and dir = dir and kf = kf and ty = ty] assms(1-3) by blast
  show "stm_create_challenge details err (a\<lparr>attestation_type := Some ty\<rparr>) = None"
    using assms(4,5) by (auto simp: stm_create_challenge_def)
qed

end
