(* ===== verification/World.thy ===== *)
theory World
  imports Stm_Sgx Curl Request
begin

text \<open>
  The key agent's state (\<open>key-agent/src/internal.h\<close>, the globals of \<open>intf.cpp\<close>,
  \<open>cache-init.cpp\<close>, \<open>cache-key.cpp\<close> and of the KMS plug-in) and its surroundings.

  Sessions are shared by pointer: the session table, an STM and a key may all point to one
  session, and no session is ever freed, so they live in \<open>sess_mem\<close> and a pointer is an
  index.  STMs, keys and requests have one owner, their table.  A table that has not been
  created yet (a NULL \<open>GHashTable\<close>) answers like an empty one, and is one here.
\<close>

section \<open>Records\<close>

record keyagent_session_real =
  ses_swk :: bytes
  ses_name :: string
  ses_session_id :: string
  ses_swk_type :: string
  ses_cache_id :: gint

record keyagent_stm_real =
  stm_label :: string
  stm_module_name :: string
  stm_initialized :: bool
  stm_session :: "nat option"
  stm_apimodule :: bool

record keyagent_key_real =
  key_url :: string
  key_type :: keyagent_keytype
  key_session :: "nat option"
  key_attributes :: "(string, bytes) ghash"
  key_cache_id :: gint

record keyagent_npm_real =
  npm_label :: string
  npm_module_name :: string
  npm_initialized :: bool

record keyagent_request =
  req_module_data :: "nat option"
  req_npm_name :: string
  req_stm_name :: "string option"

datatype keyagent_keyserver_key_format = KEYAGENT_KEY_FORMAT_PEM | KEYAGENT_KEY_FORMAT_PKCS11

text \<open>
  \<open>am\<close> is the state of the API module and of what lies outside, in the same process.
  \<open>rwlock\<close> and \<open>cache_rwlock\<close> say whether the writer lock is held.  The last nine
  fields are the static variables of \<open>keyagent_init\<close>, \<open>C_GetFunctionList\<close> and
  \<open>pkcs11-apimodule.cpp\<close>.
\<close>

record 'x world =
  am :: "'x am"
  sess_mem :: "keyagent_session_real list"
  session_hash :: "(quark, nat) ghash"
  stm_hash :: "(quark, keyagent_stm_real) ghash"
  key_hash :: "(gpointer, keyagent_key_real) ghash"
  npm_hash :: "(string, keyagent_npm_real) ghash"
  swk_type_hash :: "(quark, string) ghash"
  apimodule_loadkey_hash :: "(string, keyagent_request) ghash"
  apimodule_ops :: "'x keyagent_apimodule_ops"
  apimodule_enabled :: bool
  rwlock :: bool
  cache_rwlock :: bool
  cache_sessions :: bool
  cache_keys :: bool
  fake_cache_ids :: gint
  global_model :: bool
  global_delete_list :: "gint list"
  config :: "keyfile option"
  cert :: string
  certkey :: string
  cacert :: string
  keyformat :: keyagent_keyserver_key_format
  ka_ssl_verify :: int
  configdirectory :: string
  kms_server_url :: "string option"
  kms_debug :: bool
  ka_init_done :: bool
  ka_init_error :: gerr
  gfl_init :: bool
  gfl_rv :: ck_ulong
  mode :: "string option"
  pre_load_keyfile :: "string option"
  func_list_set :: bool
  module_hash :: "string list"
  atfork_set :: bool

section \<open>Plug-ins and libraries\<close>

text \<open>A loaded STM module: its four symbols, each of which may be missing.\<close>

record 'x stm_module =
  sym_stm_init :: "'x stm_init_fn option"
  sym_stm_create_challenge :: "'x stm_create_challenge_fn option"
  sym_stm_set_session :: "'x stm_set_session_fn option"
  sym_stm_load_key :: "'x stm_load_key_fn option"

text \<open>
  The database library: parse a statement, ask for its parameters, run it; insert a row; commit.
  A result set is its rows; a value is an integer, a string, a blob, or something else.
\<close>

datatype dbval = DbInt gint | DbStr string | DbBlob bytes | DbOther

record 'x gda_ops =
  gda_connection_open :: "string \<Rightarrow> string \<Rightarrow> gerr \<Rightarrow> 'x \<Rightarrow> (bool \<times> gerr) \<times> 'x"
  gda_sql_parser_parse_string :: "string \<Rightarrow> gerr \<Rightarrow> 'x \<Rightarrow> (bool \<times> gerr) \<times> 'x"
  gda_statement_get_parameters :: "string \<Rightarrow> gerr \<Rightarrow> 'x \<Rightarrow> (bool \<times> gerr) \<times> 'x"
  gda_execute_select :: "string \<Rightarrow> (string \<times> dbval) list \<Rightarrow> gerr \<Rightarrow> 'x \<Rightarrow> (dbval list list option \<times> gerr) \<times> 'x"
  gda_execute_non_select :: "string \<Rightarrow> (string \<times> dbval) list \<Rightarrow> gerr \<Rightarrow> 'x \<Rightarrow> (gint \<times> gerr) \<times> 'x"
  gda_insert_row_into_table :: "string \<Rightarrow> (string \<times> dbval) list \<Rightarrow> gerr \<Rightarrow> 'x \<Rightarrow> (bool \<times> gerr) \<times> 'x"
  gda_commit_transaction :: "'x \<Rightarrow> bool \<times> 'x"

text \<open>
  The surroundings: the modules on disk, the configuration files, the random numbers, the
  database, and the file system as far as \<open>access\<close>, \<open>g_dir_open\<close>,
  \<open>g_mkdir_with_parents\<close> (the error number, or \<open>None\<close>) and the pattern matcher see
  it; \<open>PKGDATA\<close> is the installation directory, a macro of the build, and
  \<open>undef_mem\<close> what memory holds that was allocated and not written.
\<close>

record 'x ka_env =
  g_module_open_stm :: "string \<Rightarrow> 'x stm_module option"
  load_keyfile :: "string \<Rightarrow> errcode + keyfile"
  g_random_int :: "'x \<Rightarrow> u32 \<times> 'x"
  e_gda :: "'x gda_ops"
  file_exists :: "string \<Rightarrow> bool"
  dir_entries :: "string \<Rightarrow> string list option"
  g_pattern_match_string :: "string \<Rightarrow> string \<Rightarrow> bool"
  g_mkdir_with_parents :: "string \<Rightarrow> 'x \<Rightarrow> nat option \<times> 'x"
  g_path_get_dirname :: "string \<Rightarrow> string"
  g_path_get_basename :: "string \<Rightarrow> string"
  PKGDATA :: string
  undef_mem :: bytes

text \<open>Calling out of the key agent: into the API module's state, and to the outside.\<close>

definition with_am :: "('x am \<Rightarrow> ('r \<times> 'x am) option) \<Rightarrow> 'x world \<Rightarrow> ('r \<times> 'x world) option" where
  "with_am f w = do { (r, a) \<leftarrow> f (am w); Some (r, w\<lparr>am := a\<rparr>) }"

definition out :: "('x \<Rightarrow> 'r \<times> 'x) \<Rightarrow> 'x world \<Rightarrow> 'r \<times> 'x world" where
  "out f w = (let (r, a) = with_ext f (am w) in (r, w\<lparr>am := a\<rparr>))"

lemma out_beta:
  "out f w = (fst (f (ext (am w))), w\<lparr>am := (am w)\<lparr>ext := snd (f (ext (am w)))\<rparr>\<rparr>)"
  by (simp add: out_def with_ext_beta)

lemma with_am_eq:
  "with_am f w = Some (r, w') \<longleftrightarrow> (\<exists>a. f (am w) = Some (r, a) \<and> w' = w\<lparr>am := a\<rparr>)"
  by (auto simp: with_am_def bind_eq_Some_conv)

lemmas world_call_simps = out_beta with_am_eq split_beta run_simps

text \<open>Following a session pointer.\<close>

definition sess_at :: "'x world \<Rightarrow> nat \<Rightarrow> keyagent_session_real option" where
  "sess_at w p = (if p < length (sess_mem w) then Some (sess_mem w ! p) else None)"

definition sess_upd :: "nat \<Rightarrow> keyagent_session_real \<Rightarrow> 'x world \<Rightarrow> 'x world" where
  "sess_upd p s w = w\<lparr>sess_mem := (sess_mem w)[p := s]\<rparr>"

definition sess_alloc :: "keyagent_session_real \<Rightarrow> 'x world \<Rightarrow> nat \<times> 'x world" where
  "sess_alloc s w = (length (sess_mem w), w\<lparr>sess_mem := sess_mem w @ [s]\<rparr>)"

lemma sess_at_Some_iff: "(\<exists>s. sess_at w p = Some s) \<longleftrightarrow> p < length (sess_mem w)"
  by (simp add: sess_at_def)

lemma sess_at_lt: "sess_at w p = Some s \<Longrightarrow> p < length (sess_mem w)"
  by (simp add: sess_at_def split: if_splits)

lemma sess_at_upd:
  "sess_at (sess_upd q s w) p = (if p = q \<and> p < length (sess_mem w) then Some s else sess_at w p)"
  by (auto simp: sess_at_def sess_upd_def)

lemma sess_at_cong: "sess_mem w' = sess_mem w \<Longrightarrow> sess_at w' p = sess_at w p"
  by (simp add: sess_at_def)

lemma sess_at_frame [simp]:
  "sess_at (w\<lparr>am := a\<rparr>) p = sess_at w p"
  "sess_at (w\<lparr>session_hash := sh\<rparr>) p = sess_at w p"
  "sess_at (w\<lparr>stm_hash := st\<rparr>) p = sess_at w p"
  "sess_at (w\<lparr>key_hash := kh\<rparr>) p = sess_at w p"
  "sess_at (w\<lparr>apimodule_loadkey_hash := rh\<rparr>) p = sess_at w p"
  "sess_at (w\<lparr>rwlock := b\<rparr>) p = sess_at w p"
  by (simp_all add: sess_at_def)

section \<open>Frames\<close>

text \<open>
  What is fixed once the agent is initialised, and the tables it works on.  An operation's
  frame is stated by saying which of these groups it leaves alone.
\<close>

definition statics where
  "statics w = (npm_hash w, swk_type_hash w, apimodule_ops w, apimodule_enabled w, rwlock w,
     cache_sessions w, cache_keys w, config w, cert w, certkey w, cacert w, keyformat w,
     ka_ssl_verify w, configdirectory w, kms_server_url w, kms_debug w, ka_init_done w, ka_init_error w,
     gfl_init w, gfl_rv w, mode w, pre_load_keyfile w, func_list_set w, module_hash w, atfork_set w)"

definition tables where
  "tables w = (session_hash w, stm_hash w, key_hash w, apimodule_loadkey_hash w)"

lemma statics_upd [simp]:
  "statics (w\<lparr>am := a\<rparr>) = statics w"
  "statics (w\<lparr>sess_mem := m\<rparr>) = statics w"
  "statics (w\<lparr>session_hash := sh\<rparr>) = statics w"
  "statics (w\<lparr>stm_hash := st\<rparr>) = statics w"
  "statics (w\<lparr>key_hash := kh\<rparr>) = statics w"
  "statics (w\<lparr>apimodule_loadkey_hash := rh\<rparr>) = statics w"
  "statics (w\<lparr>cache_rwlock := b\<rparr>) = statics w"
  "statics (w\<lparr>fake_cache_ids := i\<rparr>) = statics w"
  "statics (w\<lparr>global_model := b\<rparr>) = statics w"
  "statics (w\<lparr>global_delete_list := l\<rparr>) = statics w"
  by (simp_all add: statics_def)

lemma tables_upd [simp]:
  "tables (w\<lparr>am := a\<rparr>) = tables w"
  "tables (w\<lparr>sess_mem := m\<rparr>) = tables w"
  "tables (w\<lparr>cache_rwlock := b\<rparr>) = tables w"
  "tables (w\<lparr>fake_cache_ids := i\<rparr>) = tables w"
  "tables (w\<lparr>global_model := b\<rparr>) = tables w"
  "tables (w\<lparr>global_delete_list := l\<rparr>) = tables w"
  by (simp_all add: tables_def)

lemma tablesD:
  assumes "tables w' = tables w"
  shows "session_hash w' = session_hash w" and "stm_hash w' = stm_hash w"
    and "key_hash w' = key_hash w" and "apimodule_loadkey_hash w' = apimodule_loadkey_hash w"
  using assms by (simp_all add: tables_def)

text \<open>The sessions without their cache ids, and without their wrapping keys as well.\<close>

definition uncached :: "'x world \<Rightarrow> keyagent_session_real list" where
  "uncached w = map (\<lambda>s. s\<lparr>ses_cache_id := 0\<rparr>) (sess_mem w)"

definition sess_names :: "'x world \<Rightarrow> (string \<times> string \<times> string) list" where
  "sess_names w = map (\<lambda>s. (ses_name s, ses_session_id s, ses_swk_type s)) (sess_mem w)"

lemma uncached_upd [simp]:
  "uncached (w\<lparr>am := a\<rparr>) = uncached w"
  "uncached (w\<lparr>session_hash := sh\<rparr>) = uncached w"
  "uncached (w\<lparr>stm_hash := st\<rparr>) = uncached w"
  "uncached (w\<lparr>key_hash := kh\<rparr>) = uncached w"
  "uncached (w\<lparr>apimodule_loadkey_hash := rh\<rparr>) = uncached w"
  "uncached (w\<lparr>cache_rwlock := b\<rparr>) = uncached w"
  "uncached (w\<lparr>fake_cache_ids := i\<rparr>) = uncached w"
  "uncached (w\<lparr>global_model := b\<rparr>) = uncached w"
  "uncached (w\<lparr>global_delete_list := l\<rparr>) = uncached w"
  by (simp_all add: uncached_def)

lemma sess_names_upd [simp]:
  "sess_names (w\<lparr>am := a\<rparr>) = sess_names w"
  "sess_names (w\<lparr>session_hash := sh\<rparr>) = sess_names w"
  "sess_names (w\<lparr>stm_hash := st\<rparr>) = sess_names w"
  "sess_names (w\<lparr>key_hash := kh\<rparr>) = sess_names w"
  "sess_names (w\<lparr>apimodule_loadkey_hash := rh\<rparr>) = sess_names w"
  "sess_names (w\<lparr>cache_rwlock := b\<rparr>) = sess_names w"
  by (simp_all add: sess_names_def)

lemma uncached_names: "uncached w' = uncached w \<Longrightarrow> sess_names w' = sess_names w"
proof -
  have "sess_names v = map (\<lambda>s. (ses_name s, ses_session_id s, ses_swk_type s)) (uncached v)" for v :: "'b world"
    by (simp add: sess_names_def uncached_def comp_def)
  moreover have "sess_names v = map (\<lambda>s. (ses_name s, ses_session_id s, ses_swk_type s)) (uncached v)" for v :: "'a world"
    by (simp add: sess_names_def uncached_def comp_def)
  ultimately show "uncached w' = uncached w \<Longrightarrow> sess_names w' = sess_names w" by simp
qed

lemma sess_names_at:
  "sess_at w p = Some s \<Longrightarrow> sess_names w ! p = (ses_name s, ses_session_id s, ses_swk_type s)"
  by (auto simp: sess_at_def sess_names_def split: if_splits)

lemma length_sess_names [simp]: "length (sess_names w) = length (sess_mem w)"
  by (simp add: sess_names_def)

lemma length_uncached: "uncached w' = uncached w \<Longrightarrow> length (sess_mem w') = length (sess_mem w)"
  unfolding uncached_def by (rule map_eq_imp_length_eq)

text \<open>A step through the database: no table changes, and of a session at most its cache id.\<close>

definition cache_step :: "'x world \<Rightarrow> 'x world \<Rightarrow> bool" where
  "cache_step w w' \<longleftrightarrow> statics w' = statics w \<and> tables w' = tables w \<and> uncached w' = uncached w \<and>
     moved (am w) (am w')"

lemma cache_step_refl [simp, intro!]: "cache_step w w"
  by (simp add: cache_step_def)

lemma cache_step_trans [trans]: "cache_step u v \<Longrightarrow> cache_step v w \<Longrightarrow> cache_step u w"
  by (auto simp: cache_step_def intro: moved_trans)

lemma cache_step_out [simp, intro!]: "cache_step w (w\<lparr>am := (am w)\<lparr>ext := x\<rparr>\<rparr>)"
  by (simp add: cache_step_def)

lemma cache_step_upd [simp, intro!]:
  "cache_step w (w\<lparr>cache_rwlock := b\<rparr>)"
  "cache_step w (w\<lparr>fake_cache_ids := i\<rparr>)"
  "cache_step w (w\<lparr>global_model := b\<rparr>)"
  "cache_step w (w\<lparr>global_delete_list := l\<rparr>)"
  by (simp_all add: cache_step_def)

lemma cache_step_session: "sess_at w p = Some s \<Longrightarrow> cache_step w (sess_upd p (s\<lparr>ses_cache_id := i\<rparr>) w)"
  by (auto simp: cache_step_def sess_upd_def uncached_def sess_at_def map_update split: if_splits
      intro!: moved_refl nth_equalityI simp: nth_list_update)

lemma cache_step_pre:
  "cache_step (w\<lparr>am := (am w)\<lparr>ext := x\<rparr>\<rparr>) v \<Longrightarrow> cache_step w v"
  "cache_step (w\<lparr>cache_rwlock := b\<rparr>) v \<Longrightarrow> cache_step w v"
  "cache_step (w\<lparr>global_model := c\<rparr>) v \<Longrightarrow> cache_step w v"
  "cache_step (w\<lparr>global_delete_list := l\<rparr>) v \<Longrightarrow> cache_step w v"
  by (rule cache_step_trans[rotated], assumption, simp)+

end
