(* ===== verification/Session.thy ===== *)
theory Session
  imports World
begin

text \<open>
  \<open>key-agent/src/session.cpp\<close>, the part that needs no other component: looking sessions
  up, the list of session ids sent to the key server, cache ids, and the types of session
  wrapping keys (SWK).
\<close>

definition supported_swk_types :: "string list" where
  "supported_swk_types =
     [''AES128-GCM'', ''AES192-GCM'', ''AES256-GCM'', ''AES128-WRAP'', ''AES192-WRAP'', ''AES256-WRAP'']"

section \<open>Session ids\<close>

definition get_session_ids :: "keyagent_session_real \<Rightarrow> string \<Rightarrow> string" where
  "get_session_ids s session_ids =
     session_ids @ (if session_ids \<noteq> [] then '','' else []) @ ses_name s @ '':'' @ ses_session_id s"

text \<open>Visiting the table follows each pointer in it.\<close>

fun session_ids_foreach :: "'x world \<Rightarrow> nat list \<Rightarrow> string \<Rightarrow> string option" where
  "session_ids_foreach w [] acc = Some acc"
| "session_ids_foreach w (p # ps) acc = do {
     s \<leftarrow> sess_at w p;
     session_ids_foreach w ps (get_session_ids s acc) }"

definition keyagent_session_get_ids :: "'x world \<Rightarrow> string option option" where
  "keyagent_session_get_ids w = do {
     session_ids \<leftarrow> session_ids_foreach w (ght_values (session_hash w)) [];
     Some (if session_ids = [] then None else Some session_ids) }"

definition keyagent_session_lookup :: "'x world \<Rightarrow> string \<Rightarrow> nat option" where
  "keyagent_session_lookup w session_id = ght_lookup (session_hash w) (g_quark_from_string session_id)"

definition keyagent_session_set_cache_id :: "nat \<Rightarrow> gint \<Rightarrow> 'x world \<Rightarrow> 'x world option" where
  "keyagent_session_set_cache_id p cid w = do {
     s \<leftarrow> sess_at w p;
     Some (sess_upd p (s\<lparr>ses_cache_id := cid\<rparr>) w) }"

definition keyagent_session_get_cache_id :: "'x world \<Rightarrow> nat \<Rightarrow> gint option" where
  "keyagent_session_get_cache_id w p = map_option ses_cache_id (sess_at w p)"

definition keyagent_session_get_stmname :: "'x world \<Rightarrow> nat \<Rightarrow> string option" where
  "keyagent_session_get_stmname w p = map_option ses_name (sess_at w p)"

section \<open>Types of wrapping keys\<close>

text \<open>\<open>keyagent_quark_to_string\<close> of \<open>types.h\<close>, which makes a quark.\<close>

definition keyagent_quark_to_string :: "string option \<Rightarrow> string option \<Rightarrow> quark" where
  "keyagent_quark_to_string type name =
     g_quark_from_string (''KEYAGENT'' @ (case type of None \<Rightarrow> [] | Some t \<Rightarrow> ''_'' @ t) @
       (case name of None \<Rightarrow> [] | Some n \<Rightarrow> ''_'' @ n))"

definition keyagent_session_make_swktype :: "string \<Rightarrow> quark" where
  "keyagent_session_make_swktype type =
     keyagent_quark_to_string (Some ''SWKTYPE'') (Some (g_strjoinv ''_'' (g_strsplit CHR ''-'' type)))"

definition keyagent_session_lookup_swktype :: "'x world \<Rightarrow> string \<Rightarrow> quark" where
  "keyagent_session_lookup_swktype w type =
     (let q = keyagent_session_make_swktype type
      in if ght_lookup (swk_type_hash w) q = None then None else q)"

definition keyagent_session_init :: "'x world \<Rightarrow> bool \<times> 'x world" where
  "keyagent_session_init w =
     (True, w\<lparr>swk_type_hash :=
        fold (\<lambda>ty t. ght_insert (keyagent_session_make_swktype ty) ty t) supported_swk_types ght_empty\<rparr>)"

section \<open>What they compute\<close>

lemma session_ids_foreach_join:
  assumes "\<forall>p\<in>set ps. p < length (sess_mem w)" and "acc \<noteq> []"
  shows "session_ids_foreach w ps acc =
    Some (acc @ concat (map (\<lambda>p. '','' @ ses_name (sess_mem w ! p) @ '':'' @ ses_session_id (sess_mem w ! p)) ps))"
  using assms by (induction ps arbitrary: acc) (auto simp: sess_at_def get_session_ids_def)

definition session_entry :: "'x world \<Rightarrow> nat \<Rightarrow> string" where
  "session_entry w p = ses_name (sess_mem w ! p) @ '':'' @ ses_session_id (sess_mem w ! p)"

lemma g_strjoinv_concat:
  "g_strjoinv sep (x # xs) = x @ concat (map (\<lambda>y. sep @ y) xs)"
proof (induction xs arbitrary: x)
  case Nil
  then show ?case by simp
next
  case (Cons y ys)
  then show ?case by simp
qed

lemma session_get_ids_join:
  assumes "\<forall>p\<in>set (ght_values (session_hash w)). p < length (sess_mem w)"
  shows "keyagent_session_get_ids w = Some
    (if session_hash w = [] then None
     else Some (g_strjoinv '','' (map (session_entry w) (ght_values (session_hash w)))))"
proof (cases "ght_values (session_hash w)")
  case Nil
  then show ?thesis by (simp add: keyagent_session_get_ids_def ght_values_def)
next
  case (Cons p ps)
  then have p: "p < length (sess_mem w)" "\<forall>q\<in>set ps. q < length (sess_mem w)" using assms by auto
  have ne: "session_hash w \<noteq> []" using Cons by (auto simp: ght_values_def)
  have "session_ids_foreach w (p # ps) [] = session_ids_foreach w ps (session_entry w p)"
    using p by (simp add: sess_at_def get_session_ids_def session_entry_def)
  also have "\<dots> = Some (session_entry w p @ concat (map (\<lambda>q. '','' @ session_entry w q) ps))"
    using p by (subst session_ids_foreach_join) (auto simp: session_entry_def)
  finally show ?thesis
    using Cons ne by (simp add: keyagent_session_get_ids_def g_strjoinv_concat session_entry_def comp_def)
qed

text \<open>Dashes and underscores are not told apart.\<close>

definition undash :: "string \<Rightarrow> string" where
  "undash s = map (\<lambda>c. if c = CHR ''-'' then CHR ''_'' else c) s"

lemma make_swktype_eval:
  "keyagent_session_make_swktype type = Some (''KEYAGENT_SWKTYPE_'' @ undash type)"
  by (auto simp: keyagent_session_make_swktype_def keyagent_quark_to_string_def g_strsplit_def
      join_split_map undash_def g_quark_from_string_def)

lemma lookup_fold_insert_None:
  "ght_lookup (fold (\<lambda>x t. ght_insert (f x) x t) xs t0) k = None \<longleftrightarrow>
     k \<notin> f ` set xs \<and> ght_lookup t0 k = None"
  by (induction xs arbitrary: t0) (auto split: if_splits)

lemma swktype_known_iff:
  assumes "swk_type_hash w = swk_type_hash (snd (keyagent_session_init w0))"
  shows "keyagent_session_lookup_swktype w type \<noteq> None \<longleftrightarrow> undash type \<in> undash ` set supported_swk_types"
  unfolding keyagent_session_lookup_swktype_def assms
  by (simp add: keyagent_session_init_def lookup_fold_insert_None make_swktype_eval image_iff Let_def)

section \<open>Properties\<close>

text \<open>
  Once the agent is initialised it accepts exactly the six types of wrapping keys of the list,
  also written with underscores for dashes.
\<close>
lemma swk_types_accepted:
  "keyagent_session_lookup_swktype (snd (keyagent_session_init w)) type \<noteq> None \<longleftrightarrow>
     map (\<lambda>c. if c = CHR ''-'' then CHR ''_'' else c) type \<in>
       {''AES128_GCM'', ''AES192_GCM'', ''AES256_GCM'', ''AES128_WRAP'', ''AES192_WRAP'', ''AES256_WRAP''}"
  using swktype_known_iff[OF refl, of w type] by (auto simp: undash_def supported_swk_types_def)

end
