(* ===== verification/Cache.thy ===== *)
theory Cache
  imports Session
begin

text \<open>
  \<open>key-agent/src/cache-init.cpp\<close>, \<open>cache-session.cpp\<close> and \<open>cache-key.cpp\<close>: the
  local database of sessions and keys, and the ids handed out when it is switched off.  The SQL
  is the code's text; what the database answers is the library's.
\<close>

definition cache_generate_fake_id :: "'x world \<Rightarrow> gint \<times> 'x world" where
  "cache_generate_fake_id w = (fake_cache_ids w + 1, w\<lparr>fake_cache_ids := fake_cache_ids w + 1\<rparr>)"

section \<open>Reading values\<close>

text \<open>
  A value of a result set is NULL outside it.  \<open>g_value_get_int\<close> and
  \<open>g_value_get_string\<close> answer 0 and NULL for a value of another type; taking the type of a
  NULL value, and a failed \<open>g_assert\<close>, end the process.
\<close>

definition value_at :: "dbval list list \<Rightarrow> nat \<Rightarrow> nat \<Rightarrow> dbval option" where
  "value_at model col row =
     (if row < length model \<and> col < length (model ! row) then Some (model ! row ! col) else None)"

definition g_value_get_int :: "dbval option \<Rightarrow> gint" where
  "g_value_get_int v = (case v of Some (DbInt i) \<Rightarrow> i | _ \<Rightarrow> 0)"

definition g_value_get_string :: "dbval option \<Rightarrow> string option" where
  "g_value_get_string v = (case v of Some (DbStr s) \<Rightarrow> Some s | _ \<Rightarrow> None)"

definition assert_string :: "dbval option \<Rightarrow> string option" where
  "assert_string v = (case v of Some (DbStr s) \<Rightarrow> Some s | _ \<Rightarrow> None)"

definition assert_blob :: "dbval option \<Rightarrow> bytes option" where
  "assert_blob v = (case v of Some (DbBlob b) \<Rightarrow> Some b | _ \<Rightarrow> None)"

text \<open>The error slot is dereferenced to log it: it must be set, and the error not be freed.\<close>

definition log_error :: "gerr \<Rightarrow> unit option" where
  "log_error err = (case err of None \<Rightarrow> None | Some e \<Rightarrow> if e = RELEASED then None else Some ())"

lemma log_error_iff: "log_error err = Some u \<longleftrightarrow> err \<noteq> None \<and> err \<noteq> Some RELEASED"
  by (simp add: log_error_def split: option.split)

section \<open>Creating the database\<close>

definition open_cache_connection :: "'x ka_env \<Rightarrow> string \<Rightarrow> string \<Rightarrow> gerr \<Rightarrow> 'x world \<Rightarrow> bool \<times> gerr \<times> 'x world" where
  "open_cache_connection E provider conn err w =
     (let ((ok, err1), w1) = out (gda_connection_open (e_gda E) provider conn err) w in (ok, err1, w1))"

definition run_sql_non_select :: "'x ka_env \<Rightarrow> string \<Rightarrow> gerr \<Rightarrow> 'x world \<Rightarrow> bool \<times> gerr \<times> 'x world" where
  "run_sql_non_select E sql err w =
     (let ((stmt, err1), w1) = out (gda_sql_parser_parse_string (e_gda E) sql err) w in
      if \<not> stmt then (False, err1, w1)
      else (let (_, w2) = out (gda_execute_non_select (e_gda E) sql [] None) w1 in (True, err1, w2)))"

definition SQL_CREATE_KEYS :: string where
  "SQL_CREATE_KEYS = ''CREATE TABLE keys (id INTEGER PRIMARY KEY AUTOINCREMENT NOT NULL, sealed_data BLOB NOT NULL, session_id VARCHAR(64) NOT NULL, key_type INTEGER NOT NULL, url VARCHAR (256) NOT NULL UNIQUE ON CONFLICT REPLACE)''"
definition SQL_CREATE_SESSIONS :: string where
  "SQL_CREATE_SESSIONS = ''CREATE TABLE sessions (id INTEGER PRIMARY KEY AUTOINCREMENT UNIQUE, stm_label VARCHAR (64) NOT NULL UNIQUE ON CONFLICT REPLACE, swk BLOB NOT NULL, session_id VARCHAR (64), swk_type VARCHAR (64))''"
definition SQL_CREATE_KEY_POLICY :: string where
  "SQL_CREATE_KEY_POLICY = ''CREATE TABLE key_policy_attributes (keyattr_policy_id INTEGER PRIMARY KEY AUTOINCREMENT UNIQUE, key_id INTEGER NOT NULL REFERENCES keys (id) ON UPDATE CASCADE, attr_name VARCHAR(64) NOT NULL, attr_value VARCHAR(256) NOT NULL, UNIQUE (key_id, attr_name) ON CONFLICT REPLACE)''"
definition SQL_CREATE_KEY_ATTRIBUTES :: string where
  "SQL_CREATE_KEY_ATTRIBUTES = ''CREATE TABLE key_attributes (keyattr_id INTEGER PRIMARY KEY AUTOINCREMENT NOT NULL, key_id INTEGER NOT NULL REFERENCES keys (id) ON UPDATE CASCADE, attr_name VARCHAR(64) NOT NULL, attr_value BLOB NOT NULL, UNIQUE (key_id, attr_name) ON CONFLICT REPLACE)''"

definition create_cache_tables :: "'x ka_env \<Rightarrow> gerr \<Rightarrow> 'x world \<Rightarrow> (bool \<times> gerr \<times> 'x world) option" where
  "create_cache_tables E err w =
     (let (ok1, err1, w1) = run_sql_non_select E SQL_CREATE_KEYS err w in
      if \<not> ok1 then Some (False, err1, w1) else
      (let (ok2, err2, w2) = run_sql_non_select E SQL_CREATE_SESSIONS err1 w1 in
       if \<not> ok2 then Some (False, err2, w2) else
       (let (ok3, err3, w3) = run_sql_non_select E SQL_CREATE_KEY_POLICY err2 w2 in
        if \<not> ok3 then Some (False, err3, w3) else
        (let (ok4, err4, w4) = run_sql_non_select E SQL_CREATE_KEY_ATTRIBUTES err3 w3 in
         if \<not> ok4 then do { _ \<leftarrow> log_error err4; Some (False, err4, w4) } else
         (let (_, w5) = out (gda_commit_transaction (e_gda E)) w4 in Some (True, err4, w5))))))"

section \<open>Sessions in the database\<close>

record session_data =
  sdt_id :: gint
  sdt_label :: string
  sdt_session_id :: string
  sdt_swk_type :: string
  sdt_swk :: bytes

definition get_session_from_model :: "dbval list list \<Rightarrow> nat \<Rightarrow> session_data option option" where
  "get_session_from_model model row = do {
     label \<leftarrow> assert_string (value_at model 1 row);
     sid \<leftarrow> assert_string (value_at model 3 row);
     ty \<leftarrow> assert_string (value_at model 4 row);
     Some (case value_at model 2 row of
        Some (DbBlob b) \<Rightarrow> Some \<lparr>sdt_id = g_value_get_int (value_at model 0 row), sdt_label = label,
                              sdt_session_id = sid, sdt_swk_type = ty, sdt_swk = b\<rparr>
      | _ \<Rightarrow> None) }"

text \<open>The loop of \<open>__keyagent_cache_loadsessions\<close> over \<open>n\<close> rows from \<open>i\<close>.\<close>

fun check_session_rows :: "dbval list list \<Rightarrow> nat \<Rightarrow> nat \<Rightarrow> bool option" where
  "check_session_rows model i 0 = Some True"
| "check_session_rows model i (Suc n) = do {
     r \<leftarrow> get_session_from_model model i;
     (case r of None \<Rightarrow> Some False | Some _ \<Rightarrow> check_session_rows model (Suc i) n) }"

definition SQL_SELECT_SESSIONS :: string where
  "SQL_SELECT_SESSIONS = ''SELECT id, stm_label, swk, session_id, swk_type FROM sessions''"
definition SQL_SELECT_SESSION_BY_LABEL :: string where
  "SQL_SELECT_SESSION_BY_LABEL = ''SELECT id, stm_label, swk, session_id, swk_type FROM sessions WHERE stm_label=##label::gchararray''"

definition cache_loadsessions :: "'x ka_env \<Rightarrow> gerr \<Rightarrow> 'x world \<Rightarrow> (bool \<times> gerr \<times> 'x world) option" where
  "cache_loadsessions E err w =
     (let ((stmt, err1), w1) = out (gda_sql_parser_parse_string (e_gda E) SQL_SELECT_SESSIONS err) w in
      if \<not> stmt then Some (False, err1, w1) else
      (let ((model, err2), w2) = out (gda_execute_select (e_gda E) SQL_SELECT_SESSIONS [] err1) w1 in
       case model of
         None \<Rightarrow> Some (False, err2, w2)
       | Some rows \<Rightarrow> do { ret \<leftarrow> check_session_rows rows 0 (length rows); Some (ret, err2, w2) }))"

text \<open>A select with parameters: parse, get the parameters, run.\<close>

definition select_with_params ::
    "'x ka_env \<Rightarrow> string \<Rightarrow> (string \<times> dbval) list \<Rightarrow> gerr \<Rightarrow> 'x world \<Rightarrow>
     dbval list list option \<times> gerr \<times> 'x world" where
  "select_with_params E sql params err w =
     (let ((stmt, err1), w1) = out (gda_sql_parser_parse_string (e_gda E) sql err) w in
      if \<not> stmt then (None, err1, w1) else
      (let ((ps, err2), w2) = out (gda_statement_get_parameters (e_gda E) sql err1) w1 in
       if \<not> ps then (None, err2, w2) else
       (let ((model, err3), w3) = out (gda_execute_select (e_gda E) sql params err2) w2 in
        (model, err3, w3))))"

definition get_session :: "'x ka_env \<Rightarrow> string \<Rightarrow> gerr \<Rightarrow> 'x world \<Rightarrow> (session_data option \<times> gerr \<times> 'x world) option" where
  "get_session E label err w =
     (let (model, err1, w1) = select_with_params E SQL_SELECT_SESSION_BY_LABEL [(''label'', DbStr label)] err w in
      case model of
        None \<Rightarrow> Some (None, err1, w1)
      | Some rows \<Rightarrow> do { r \<leftarrow> get_session_from_model rows 0; Some (r, err1, w1) })"

text \<open>The body between the lock and the label \<open>out\<close>: the id, the result, the error.\<close>

definition cache_session_body ::
    "'x ka_env \<Rightarrow> keyagent_session_real \<Rightarrow> gerr \<Rightarrow> 'x world \<Rightarrow> (gint \<times> bool \<times> gerr \<times> 'x world) option" where
  "cache_session_body E s err w =
     (if \<not> cache_sessions w then (let (i, w1) = cache_generate_fake_id w in Some (i, True, err, w1)) else
      (let ((ok, err1), w1) = out (gda_insert_row_into_table (e_gda E) ''sessions''
              [(''stm_label'', DbStr (ses_name s)), (''swk'', DbBlob (ses_swk s)),
               (''session_id'', DbStr (ses_session_id s)), (''swk_type'', DbStr (ses_swk_type s))] err) w in
       if \<not> ok then do { _ \<leftarrow> log_error err1; Some (- 1, False, err1, w1) } else
       (let (_, w2) = out (gda_commit_transaction (e_gda E)) w1 in do {
          (r, err2, w3) \<leftarrow> get_session E (ses_name s) err1 w2;
          (case r of
             None \<Rightarrow> Some (- 1, False, g_set_error err2 KEYAGENT_ERROR_KEY_CREATE_PARAMS, w3)
           | Some d \<Rightarrow> Some (sdt_id d, True, err2, w3)) })))"

definition cache_session :: "'x ka_env \<Rightarrow> nat \<Rightarrow> gerr \<Rightarrow> 'x world \<Rightarrow> (bool \<times> gerr \<times> 'x world) option" where
  "cache_session E p err w = do {
     s \<leftarrow> sess_at w p;
     (i, ret, err1, w1) \<leftarrow> cache_session_body E s err (w\<lparr>cache_rwlock := True\<rparr>);
     w2 \<leftarrow> keyagent_session_set_cache_id p i w1;
     Some (ret, err1, w2\<lparr>cache_rwlock := False\<rparr>) }"

section \<open>Keys in the database\<close>

record key_data =
  kd_url :: "string option"
  kd_cache_id :: gint
  kd_key_type :: gint
  kd_session_id :: "string option"
  kd_sealed_data :: bytes

definition get_key_from_model :: "dbval list list \<Rightarrow> nat \<Rightarrow> key_data option" where
  "get_key_from_model model row = do {
     b \<leftarrow> assert_blob (value_at model 3 row);
     Some \<lparr>kd_url = g_value_get_string (value_at model 4 row),
           kd_cache_id = g_value_get_int (value_at model 0 row),
           kd_key_type = g_value_get_int (value_at model 2 row),
           kd_session_id = g_value_get_string (value_at model 1 row), kd_sealed_data = b\<rparr> }"

definition SQL_SELECT_ATTR :: string where
  "SQL_SELECT_ATTR = ''SELECT keyattr_id, attr_value FROM key_attributes WHERE key_id=##keyid::gint and attr_name=##attrname::gchararray''"
definition SQL_SELECT_KEYS :: string where
  "SQL_SELECT_KEYS = ''SELECT id, session_id, key_type, sealed_data, url FROM keys''"
definition SQL_SELECT_KEY_BY_URL :: string where
  "SQL_SELECT_KEY_BY_URL = ''SELECT id, session_id, key_type, sealed_data, url FROM keys WHERE url=##url::gchararray''"

definition cache_loadkey_attr ::
    "'x ka_env \<Rightarrow> gint \<Rightarrow> string \<Rightarrow> gerr \<Rightarrow> 'x world \<Rightarrow> (bytes option \<times> gerr \<times> 'x world) option" where
  "cache_loadkey_attr E kid attr_name err w =
     (let (model, err1, w1) = select_with_params E SQL_SELECT_ATTR
            [(''keyid'', DbInt kid), (''attrname'', DbStr attr_name)] err w in
      case model of
        None \<Rightarrow> Some (None, err1, w1)
      | Some rows \<Rightarrow>
          if rows = [] then Some (None, err1, w1)
          else do { b \<leftarrow> assert_blob (value_at rows 1 0); Some (Some b, err1, w1) })"

text \<open>The attributes read are put into a table of their own, which is released again.\<close>

definition create_rsa_key :: "'x ka_env \<Rightarrow> key_data \<Rightarrow> gerr \<Rightarrow> 'x world \<Rightarrow> (bool \<times> gerr \<times> 'x world) option" where
  "create_rsa_key E d err w = do {
     (v, err1, w1) \<leftarrow> cache_loadkey_attr E (kd_cache_id d) ''KEYDATA'' err w;
     Some (v \<noteq> None, err1, w1) }"

text \<open>
  The parser is a \<open>GObject\<close> with one reference; releasing a reference an object does not
  have uses freed memory.
\<close>

definition g_object_unref :: "nat \<Rightarrow> nat option" where
  "g_object_unref refs = (case refs of 0 \<Rightarrow> None | Suc n \<Rightarrow> Some n)"

definition delete_key :: "'x ka_env \<Rightarrow> gint \<Rightarrow> string \<Rightarrow> string \<Rightarrow> 'x world \<Rightarrow> 'x world option" where
  "delete_key E kid table field w = do {
     let sql = ''DELETE FROM '' @ table @ '' WHERE '' @ field @ ''=##keyid::gint'';
     let parser = 1;
     let ((stmt, err1), w1) = out (gda_sql_parser_parse_string (e_gda E) sql None) w;
     parser1 \<leftarrow> g_object_unref parser;
     let w4 = (if \<not> stmt then w1 else
        (let ((ps, err2), w2) = out (gda_statement_get_parameters (e_gda E) sql err1) w1 in
         if \<not> ps then w2 else
         (let ((ret, err3), w3) = out (gda_execute_non_select (e_gda E) sql [(''keyid'', DbInt kid)] err2) w2 in
          if 0 \<le>s ret then snd (out (gda_commit_transaction (e_gda E)) w3) else w3)));
     _ \<leftarrow> g_object_unref parser1;
     Some w4 }"

definition delete_key_and_attrs :: "'x ka_env \<Rightarrow> gint \<Rightarrow> 'x world \<Rightarrow> 'x world option" where
  "delete_key_and_attrs E i w = do {
     w1 \<leftarrow> delete_key E i ''key_attributes'' ''key_id'' w;
     w2 \<leftarrow> delete_key E i ''keys'' ''id'' w1;
     delete_key E i ''key_policy_attributes'' ''key_id'' w2 }"

fun delete_keys_from_list :: "'x ka_env \<Rightarrow> gint list \<Rightarrow> 'x world \<Rightarrow> 'x world option" where
  "delete_keys_from_list E [] w = Some w"
| "delete_keys_from_list E (i # is) w = do { w1 \<leftarrow> delete_key_and_attrs E i w; delete_keys_from_list E is w1 }"

text \<open>
  The loop over the rows.  \<open>ret\<close> is not reset between rows, and only an RSA row sets it.
  \<open>KEYAGENT_RSAKEY\<close> is 1.
\<close>

fun loadkeys_rows :: "'x ka_env \<Rightarrow> dbval list list \<Rightarrow> nat \<Rightarrow> nat \<Rightarrow> bool \<Rightarrow> 'x world \<Rightarrow> 'x world option" where
  "loadkeys_rows E model i 0 ret w = Some w"
| "loadkeys_rows E model i (Suc n) ret w = do {
     d \<leftarrow> get_key_from_model model i;
     (ret1, _, w1) \<leftarrow> (if kd_key_type d = 1 then create_rsa_key E d None w else Some (ret, None, w));
     loadkeys_rows E model (Suc i) n ret1
       (if ret1 then w1 else w1\<lparr>global_delete_list := global_delete_list w1 @ [kd_cache_id d]\<rparr>) }"

definition cache_loadkeys :: "'x ka_env \<Rightarrow> gerr \<Rightarrow> 'x world \<Rightarrow> (bool \<times> gerr \<times> 'x world) option" where
  "cache_loadkeys E err w =
     (let ((stmt, err1), w1) = out (gda_sql_parser_parse_string (e_gda E) SQL_SELECT_KEYS err) w in
      if \<not> stmt then Some (False, err1, w1) else
      (let ((model, err2), w2) = out (gda_execute_select (e_gda E) SQL_SELECT_KEYS [] err1) w1 in
       case model of
         None \<Rightarrow> Some (False, err2, w2)
       | Some rows \<Rightarrow> do {
           w3 \<leftarrow> loadkeys_rows E rows 0 (length rows) False (w2\<lparr>global_model := True\<rparr>);
           w4 \<leftarrow> delete_keys_from_list E (global_delete_list w3) (w3\<lparr>global_model := False\<rparr>);
           Some (True, err2, w4\<lparr>global_delete_list := []\<rparr>) }))"

definition get_key :: "'x ka_env \<Rightarrow> string \<Rightarrow> gerr \<Rightarrow> 'x world \<Rightarrow> (key_data option \<times> gerr \<times> 'x world) option" where
  "get_key E url err w =
     (let (model, err1, w1) = select_with_params E SQL_SELECT_KEY_BY_URL [(''url'', DbStr url)] err w in
      case model of
        None \<Rightarrow> Some (None, err1, w1)
      | Some rows \<Rightarrow> do { d \<leftarrow> get_key_from_model rows 0; Some (Some d, err1, w1) })"

definition cache_key_attr ::
    "'x ka_env \<Rightarrow> string \<Rightarrow> bytes \<Rightarrow> gint \<Rightarrow> gerr \<Rightarrow> 'x world \<Rightarrow> (bool \<times> gerr \<times> 'x world) option" where
  "cache_key_attr E attr_name attr_value kid err w =
     (let ((ok, err1), w1) = out (gda_insert_row_into_table (e_gda E) ''key_attributes''
            [(''key_id'', DbInt kid), (''attr_name'', DbStr attr_name), (''attr_value'', DbBlob attr_value)] err) w in
      if \<not> ok then do { _ \<leftarrow> log_error err1; Some (False, err1, w1) }
      else (let (_, w2) = out (gda_commit_transaction (e_gda E)) w1 in Some (True, err1, w2)))"

text \<open>The attribute names are the strings of the quarks.\<close>

definition KEYAGENT_ATTR_KEYDATA :: string where
  "KEYAGENT_ATTR_KEYDATA = ''KEYAGENT_ATTR_KEYDATA''"

definition cache_rsa_key_attrs ::
    "'x ka_env \<Rightarrow> keyagent_key_real \<Rightarrow> gint \<Rightarrow> gerr \<Rightarrow> 'x world \<Rightarrow> (bool \<times> gerr \<times> 'x world) option" where
  "cache_rsa_key_attrs E k kid err w = do {
     v \<leftarrow> ght_lookup (key_attributes k) KEYAGENT_ATTR_KEYDATA;
     cache_key_attr E ''KEYDATA'' v kid err w }"

definition keytype_int :: "keyagent_keytype \<Rightarrow> gint" where
  "keytype_int t = (case t of KEYAGENT_RSAKEY \<Rightarrow> 1 | KEYAGENT_AESKEY \<Rightarrow> 2 | KEYAGENT_INVALIDKEY \<Rightarrow> 3)"

text \<open>The row was found: an RSA key's attributes are stored, and if that fails its rows are deleted.\<close>

definition cache_key_found ::
    "'x ka_env \<Rightarrow> keyagent_key_real \<Rightarrow> key_data \<Rightarrow> gerr \<Rightarrow> 'x world \<Rightarrow> (bool \<times> gerr \<times> 'x world) option" where
  "cache_key_found E k d err w = do {
     (ret, err1, w1) \<leftarrow> (if kd_key_type d = 1 then cache_rsa_key_attrs E k (kd_cache_id d) err w
                        else Some (True, err, w));
     w2 \<leftarrow> (if ret then Some w1 else do { _ \<leftarrow> log_error err1; delete_key_and_attrs E (kd_cache_id d) w1 });
     Some (ret, err1, w2) }"

definition cache_key_body ::
    "'x ka_env \<Rightarrow> keyagent_key_real \<Rightarrow> gerr \<Rightarrow> 'x world \<Rightarrow> (gint \<times> bool \<times> gerr \<times> 'x world) option" where
  "cache_key_body E k err w =
     (if \<not> cache_keys w then (let (i, w1) = cache_generate_fake_id w in Some (i, True, err, w1)) else do {
        p \<leftarrow> key_session k;
        s \<leftarrow> sess_at w p;
        let ((ok, err1), w1) = out (gda_insert_row_into_table (e_gda E) ''keys''
              [(''url'', DbStr (key_url k)), (''sealed_data'', DbBlob (take 2 (undef_mem E @ [0, 0]))),
               (''session_id'', DbStr (ses_session_id s)), (''key_type'', DbInt (keytype_int (key_type k)))] err) w;
        if \<not> ok then do { _ \<leftarrow> log_error err1; Some (- 1, False, err1, w1) } else do {
        let (_, w2) = out (gda_commit_transaction (e_gda E)) w1;
        (r, err2, w3) \<leftarrow> get_key E (key_url k) err1 w2;
        (case r of
           None \<Rightarrow> Some (- 1, False, err2, w3)
         | Some d \<Rightarrow> do {
             (ret, err3, w4) \<leftarrow> cache_key_found E k d err2 w3;
             Some (kd_cache_id d, ret, err3, w4) }) }})"

text \<open>\<open>__keyagent_cache_key\<close>: the key afterwards, with its cache id.\<close>

definition cache_key ::
    "'x ka_env \<Rightarrow> keyagent_key_real \<Rightarrow> gerr \<Rightarrow> 'x world \<Rightarrow> (bool \<times> keyagent_key_real \<times> gerr \<times> 'x world) option" where
  "cache_key E k err w = do {
     (i, ret, err1, w1) \<leftarrow> cache_key_body E k err (w\<lparr>cache_rwlock := True\<rparr>);
     Some (ret, k\<lparr>key_cache_id := i\<rparr>, err1, w1\<lparr>cache_rwlock := False\<rparr>) }"

definition uncache_key :: "'x ka_env \<Rightarrow> keyagent_key_real \<Rightarrow> 'x world \<Rightarrow> 'x world option" where
  "uncache_key E k w =
     (if global_model w then Some (w\<lparr>global_delete_list := global_delete_list w @ [key_cache_id k]\<rparr>)
      else delete_key_and_attrs E (key_cache_id k) w)"

section \<open>Initialisation\<close>

text \<open>The database is open: its tables, and what is in them.\<close>

definition cache_load :: "'x ka_env \<Rightarrow> gerr \<Rightarrow> 'x world \<Rightarrow> (bool \<times> gerr \<times> 'x world) option" where
  "cache_load E err w = do {
     (ok, err1, w1) \<leftarrow> create_cache_tables E err w;
     if \<not> ok then Some (False, err1, w1) else do {
     (ok2, err2, w2) \<leftarrow> (if cache_sessions w1 then cache_loadsessions E err1 w1 else Some (True, err1, w1));
     if \<not> ok2 then Some (False, err2, w2) else do {
     (ok3, err3, w3) \<leftarrow> (if cache_keys w2 then cache_loadkeys E err2 w2 else Some (True, err2, w2));
     if \<not> ok3 then Some (False, err3, w3)
     else if cache_keys w3 then Some (False, err3, w3) else Some (True, err3, w3) }}}"

definition cache_open :: "'x ka_env \<Rightarrow> gerr \<Rightarrow> 'x world \<Rightarrow> (bool \<times> gerr \<times> 'x world) option" where
  "cache_open E err w =
     (let provider = g_string_new (key_config_get_string_optional (config w) ''cache'' ''database_provider'' (Some ''SQLite''));
          full = g_string_new (key_config_get_string_optional (config w) ''cache'' ''database_name''
                   (Some (PKGDATA E @ ''/var/cache/keyagent_cache'')));
          dir = g_path_get_dirname E full;
          conn = ''DB_DIR='' @ dir @ '';DB_NAME='' @ g_path_get_basename E full;
          (errno, w1) = out (g_mkdir_with_parents E dir) w in
      case errno of
        Some n \<Rightarrow> Some (False, g_set_error err (EXTERNAL n), w1)
      | None \<Rightarrow>
         (let (ok, err1, w2) = open_cache_connection E provider conn err w1 in
          if \<not> ok then Some (False, err1, w2) else cache_load E err1 w2))"

definition cache_init :: "'x ka_env \<Rightarrow> gerr \<Rightarrow> 'x world \<Rightarrow> (bool \<times> gerr \<times> 'x world) option" where
  "cache_init E err w =
     (let (cs, err1) = key_config_get_boolean (config w) ''cache'' ''cache_sessions'' err;
          w1 = w\<lparr>cache_sessions := (cs \<noteq> 0)\<rparr> in
      if err1 \<noteq> None then Some (False, err1, w1) else
      (let (ck, err2) = key_config_get_boolean (config w) ''cache'' ''cache_keys'' err1;
           w2 = w1\<lparr>cache_keys := (ck \<noteq> 0)\<rparr> in
       if err2 \<noteq> None then Some (False, err2, w2) else
       (let w3 = w2\<lparr>cache_rwlock := False\<rparr> in
        if \<not> cache_sessions w3 \<and> \<not> cache_keys w3 then Some (True, err2, w3) else cache_open E err2 w3)))"

section \<open>Frames\<close>

lemma select_with_params_step [cache_frames]:
  "select_with_params E sql ps err w = (m, err', w') \<Longrightarrow> cache_step w w'"
  by (auto simp: select_with_params_def world_call_simps split: if_splits intro: cache_step_pre)

lemma get_session_step [cache_frames]: "get_session E l err w = Some (r, err', w') \<Longrightarrow> cache_step w w'"
  by (auto simp: get_session_def bind_eq_Some_conv split: prod.splits option.splits
      dest!: cache_frames)

lemma cache_session_body_step:
  assumes "cache_session_body E s err w = Some (i, r, err', w')"
  shows "cache_step w w' \<and> (\<not> r \<longrightarrow> err' \<noteq> None) \<and>
    (\<not> cache_sessions w \<longrightarrow> r \<and> err' = err \<and> i = fake_cache_ids w + 1)"
proof (cases "cache_sessions w")
  case False
  then show ?thesis using assms by (auto simp: cache_session_body_def cache_generate_fake_id_def)
next
  case True
  then show ?thesis using assms
    by (auto simp: cache_session_body_def world_call_simps log_error_iff split: branch_splits
        dest!: cache_frames intro: cache_step_pre)
qed

lemma cache_session_step:
  assumes "cache_session E p err w = Some (r, err', w')"
  shows "cache_step w w' \<and> \<not> cache_rwlock w' \<and> (\<not> r \<longrightarrow> err' \<noteq> None) \<and>
    (\<not> cache_sessions w \<longrightarrow> r \<and> err' = err \<and> map_option ses_cache_id (sess_at w' p) = Some (fake_cache_ids w + 1))"
proof -
  from assms obtain s i w1 s1 where s: "sess_at w p = Some s"
    and b: "cache_session_body E s err (w\<lparr>cache_rwlock := True\<rparr>) = Some (i, r, err', w1)"
    and s1: "sess_at w1 p = Some s1"
    and w': "w' = sess_upd p (s1\<lparr>ses_cache_id := i\<rparr>) w1\<lparr>cache_rwlock := False\<rparr>"
    by (auto simp: cache_session_def bind_eq_Some_conv keyagent_session_set_cache_id_def)
  note f = cache_session_body_step[OF b]
  have "cache_step w w1" using f by (blast intro: cache_step_pre)
  also have "cache_step w1 (sess_upd p (s1\<lparr>ses_cache_id := i\<rparr>) w1)" using s1 by (rule cache_step_session)
  also have "cache_step (sess_upd p (s1\<lparr>ses_cache_id := i\<rparr>) w1) w'" unfolding w' by simp
  finally have "cache_step w w'" .
  moreover have "sess_at w' p = Some (s1\<lparr>ses_cache_id := i\<rparr>)"
    using s1 by (simp add: w' sess_at_def sess_upd_def split: if_splits)
  ultimately show ?thesis using f w' by auto
qed

lemma get_key_step [cache_frames]: "get_key E url err w = Some (r, err', w') \<Longrightarrow> cache_step w w'"
  by (auto simp: get_key_def bind_eq_Some_conv split: prod.splits option.splits
      dest!: cache_frames)

lemma cache_key_attr_step [cache_frames]: "cache_key_attr E n v i err w = Some (r, err', w') \<Longrightarrow>
    cache_step w w' \<and> (\<not> r \<longrightarrow> err' \<noteq> None)"
  by (auto simp: cache_key_attr_def world_call_simps log_error_iff split: if_splits intro: cache_step_pre)

text \<open>
  Whatever the database answers, deleting a row releases the SQL parser twice.
\<close>

lemma delete_key_double_unref: "delete_key E i table field w = None"
  by (auto simp: delete_key_def g_object_unref_def split_beta Let_def)

lemma delete_key_and_attrs_crash: "delete_key_and_attrs E i w = None"
  by (simp add: delete_key_and_attrs_def delete_key_double_unref)

lemma cache_key_found_step [cache_frames]:
  "cache_key_found E k d err w = Some (r, err', w') \<Longrightarrow> cache_step w w' \<and> r"
  by (auto simp: cache_key_found_def cache_rsa_key_attrs_def bind_eq_Some_conv delete_key_and_attrs_crash
      split: if_splits dest!: cache_frames)

lemma cache_key_body_step:
  assumes "cache_key_body E k err w = Some (i, r, err', w')"
  shows "cache_step w w' \<and> (\<not> cache_keys w \<longrightarrow> r \<and> err' = err \<and> i = fake_cache_ids w + 1)"
proof (cases "cache_keys w")
  case False
  then show ?thesis using assms by (auto simp: cache_key_body_def cache_generate_fake_id_def)
next
  case True
  have "cache_step w w'" using assms True
    by (auto simp: cache_key_body_def world_call_simps split: branch_splits
        dest!: cache_frames intro: cache_step_pre(1))
      (drule cache_step_pre(1), erule cache_step_trans)
  then show ?thesis using True by simp
qed

lemma cache_key_step:
  assumes "cache_key E k err w = Some (r, k', err', w')"
  shows "cache_step w w' \<and> \<not> cache_rwlock w' \<and> (\<exists>i. k' = k\<lparr>key_cache_id := i\<rparr>) \<and>
    (\<not> cache_keys w \<longrightarrow> r \<and> err' = err \<and> key_cache_id k' = fake_cache_ids w + 1)"
proof -
  from assms obtain i w1 where
    b: "cache_key_body E k err (w\<lparr>cache_rwlock := True\<rparr>) = Some (i, r, err', w1)"
    and k': "k' = k\<lparr>key_cache_id := i\<rparr>" and w': "w' = w1\<lparr>cache_rwlock := False\<rparr>"
    by (auto simp: cache_key_def bind_eq_Some_conv)
  note f = cache_key_body_step[OF b]
  have "cache_step w w1" using f by (blast intro: cache_step_pre)
  also have "cache_step w1 w'" by (simp add: w')
  finally show ?thesis using f k' w' by auto
qed

section \<open>The database at start-up\<close>

lemma run_sql_step [cache_frames]: "run_sql_non_select E sql err w = (r, err', w') \<Longrightarrow> cache_step w w'"
  by (auto simp: run_sql_non_select_def world_call_simps split: if_splits intro: cache_step_pre)

lemma create_cache_tables_step:
  assumes run: "create_cache_tables E err w = Some (r, err', w')"
  shows "cache_step w w'"
proof -
  obtain a1 e1 w1 a2 e2 w2 a3 e3 w3 a4 e4 w4 where
    q: "run_sql_non_select E SQL_CREATE_KEYS err w = (a1, e1, w1)"
      "run_sql_non_select E SQL_CREATE_SESSIONS e1 w1 = (a2, e2, w2)"
      "run_sql_non_select E SQL_CREATE_KEY_POLICY e2 w2 = (a3, e3, w3)"
      "run_sql_non_select E SQL_CREATE_KEY_ATTRIBUTES e3 w3 = (a4, e4, w4)"
    by (metis prod_cases3)
  note s = q[THEN run_sql_step]
  have "cache_step w w2" "cache_step w w3" "cache_step w w4"
    using s by (blast intro: cache_step_trans)+
  then show ?thesis using run q s
    by (auto simp: create_cache_tables_def world_call_simps split: if_splits intro: cache_step_trans)
qed

lemma cache_loadsessions_step [cache_frames]: "cache_loadsessions E err w = Some (r, err', w') \<Longrightarrow> cache_step w w'"
  by (auto simp: cache_loadsessions_def world_call_simps split: branch_splits intro: cache_step_pre)

lemma cache_loadkey_attr_step [cache_frames]: "cache_loadkey_attr E kid nm err w = Some (v, err', w') \<Longrightarrow> cache_step w w'"
  by (auto simp: cache_loadkey_attr_def bind_eq_Some_conv split: prod.splits option.splits if_splits
      dest!: cache_frames)

lemma loadkeys_rows_step:
  "loadkeys_rows E model i n ret w = Some w' \<Longrightarrow> cache_step w w'"
proof (induction n arbitrary: i ret w)
  case 0
  then show ?case by simp
next
  case (Suc n)
  then obtain d ret1 e w1 where s: "(if kd_key_type d = 1 then create_rsa_key E d None w else Some (ret, None, w)) = Some (ret1, e, w1)"
    and r: "loadkeys_rows E model (Suc i) n ret1
       (if ret1 then w1 else w1\<lparr>global_delete_list := global_delete_list w1 @ [kd_cache_id d]\<rparr>) = Some w'"
    by (auto simp: bind_eq_Some_conv)
  have "cache_step w w1" using s
    by (auto simp: create_rsa_key_def bind_eq_Some_conv split: if_splits dest: cache_frames)
  moreover have "cache_step w1 w'" using Suc.IH[OF r] by (auto split: if_splits intro: cache_step_pre)
  ultimately show ?case by (rule cache_step_trans)
qed

text \<open>Deleting a key never returns, so a list that was deleted was empty.\<close>

lemma delete_keys_empty: "delete_keys_from_list E is w = Some w' \<Longrightarrow> is = [] \<and> w' = w"
  by (cases "is") (simp_all add: delete_key_and_attrs_crash)

lemma cache_loadkeys_step:
  assumes run: "cache_loadkeys E err w = Some (r, err', w')"
  shows "cache_step w w'"
proof -
  obtain stmt err1 w1 where p: "out (gda_sql_parser_parse_string (e_gda E) SQL_SELECT_KEYS err) w = ((stmt, err1), w1)"
    by (metis prod.exhaust)
  obtain model err2 w2 where e: "out (gda_execute_select (e_gda E) SQL_SELECT_KEYS [] err1) w1 = ((model, err2), w2)"
    by (metis prod.exhaust)
  have s: "cache_step w w1" "cache_step w w2" using p e
    by (auto simp: out_beta)
  show ?thesis
  proof (cases "stmt \<and> model \<noteq> None")
    case False
    then show ?thesis using run p e s by (auto simp: cache_loadkeys_def split: branch_splits)
  next
    case True
    then obtain rows w3 where l: "loadkeys_rows E rows 0 (length rows) False (w2\<lparr>global_model := True\<rparr>) = Some w3"
      and w': "w' = w3\<lparr>global_model := False\<rparr>\<lparr>global_delete_list := []\<rparr>"
      using run p e by (auto simp: cache_loadkeys_def bind_eq_Some_conv dest!: delete_keys_empty)
    have "cache_step w2 w3" using loadkeys_rows_step[OF l] by (rule cache_step_pre)
    also have "cache_step w3 (w3\<lparr>global_model := False\<rparr>)" by simp
    also have "cache_step (w3\<lparr>global_model := False\<rparr>) w'" unfolding w' by simp
    finally have "cache_step w2 w'" .
    with s(2) show ?thesis by (rule cache_step_trans)
  qed
qed

lemma cache_load_step [cache_frames]:
  assumes run: "cache_load E err w = Some (r, err', w')"
  shows "cache_step w w'"
proof -
  from run obtain ok err1 w1 where c: "create_cache_tables E err w = Some (ok, err1, w1)"
    by (auto simp: cache_load_def bind_eq_Some_conv)
  note s1 = create_cache_tables_step[OF c]
  show ?thesis
  proof (cases ok)
    case False
    then show ?thesis using run c s1 by (simp add: cache_load_def)
  next
    case True
    with run c obtain ok2 err2 w2 where
      l: "(if cache_sessions w1 then cache_loadsessions E err1 w1 else Some (True, err1, w1)) = Some (ok2, err2, w2)"
      by (auto simp: cache_load_def bind_eq_Some_conv)
    have s2: "cache_step w1 w2" using l by (auto split: if_splits dest: cache_frames)
    have "cache_step w2 w'"
    proof (cases "ok2 \<and> cache_keys w2")
      case False
      then show ?thesis using run c l True by (auto simp: cache_load_def split: if_splits)
    next
      case True
      then obtain ok3 err3 where "cache_loadkeys E err2 w2 = Some (ok3, err3, w')"
        using run c l \<open>ok\<close> by (auto simp: cache_load_def bind_eq_Some_conv split: if_splits)
      then show ?thesis by (rule cache_loadkeys_step)
    qed
    then show ?thesis using s1 s2 by (blast intro: cache_step_trans)
  qed
qed

lemma cache_open_step: "cache_open E err w = Some (r, err', w') \<Longrightarrow> cache_step w w'"
  by (auto simp: cache_open_def world_call_simps open_cache_connection_def split: branch_splits
      dest!: cache_frames intro: cache_step_pre)

section \<open>Properties\<close>

text \<open>
  With the cache switched off, caching a session never fails, reaches no database and numbers
  the sessions one after the other.
\<close>

lemma session_cache_off:
  assumes "\<not> cache_sessions w" and "sess_at w p = Some s"
  shows "cache_session E p err w = Some (True, err, w\<lparr>sess_mem := (sess_mem w)[p := s\<lparr>ses_cache_id := fake_cache_ids w + 1\<rparr>],
    fake_cache_ids := fake_cache_ids w + 1, cache_rwlock := False\<rparr>)"
  using assms by (auto simp: cache_session_def cache_session_body_def cache_generate_fake_id_def
      keyagent_session_set_cache_id_def sess_upd_def sess_at_def split: if_splits)

end
