(* ===== verification/Key.thy ===== *)
theory Key
  imports Cache
begin

text \<open>
  \<open>key-agent/src/key.cpp\<close>: the table of loaded keys.  A key is entered under the quark of
  its URL, as an integer stored in a pointer.
\<close>

definition keyagent_key_set_cache_id :: "keyagent_key_real \<Rightarrow> gint \<Rightarrow> keyagent_key_real" where
  "keyagent_key_set_cache_id k i = k\<lparr>key_cache_id := i\<rparr>"

definition keyagent_key_get_cache_id :: "keyagent_key_real \<Rightarrow> gint" where
  "keyagent_key_get_cache_id k = key_cache_id k"

definition keyagent_key_get_session_cache_id :: "'x world \<Rightarrow> keyagent_key_real \<Rightarrow> gint option" where
  "keyagent_key_get_session_cache_id w k = do { p \<leftarrow> key_session k; keyagent_session_get_cache_id w p }"

definition url_pointer :: "string \<Rightarrow> gpointer" where
  "url_pointer url = QUARK_TO_POINTER (g_quark_from_string url)"

definition keyagent_key_lookup :: "'x world \<Rightarrow> string \<Rightarrow> keyagent_key_real option" where
  "keyagent_key_lookup w url = ght_lookup (key_hash w) (url_pointer url)"

definition key_store :: "keyagent_key_real \<Rightarrow> string \<Rightarrow> 'x world \<Rightarrow> 'x world" where
  "key_store k url w = w\<lparr>key_hash := ght_insert (url_pointer url) k (key_hash w)\<rparr>"

text \<open>The label \<open>out\<close>: the key is cached when the caller gave no cache id.\<close>

definition key_create_out ::
    "'x ka_env \<Rightarrow> string \<Rightarrow> keyagent_key_real \<Rightarrow> gint \<Rightarrow> gerr \<Rightarrow> 'x world \<Rightarrow> (quark \<times> gerr \<times> 'x world) option" where
  "key_create_out E url k cache_id err w =
     (if cache_id = - 1 then do {
        (_, k1, err1, w1) \<leftarrow> cache_key E k err w;
        Some (g_quark_from_string url, err1, key_store k1 url w1) }
      else Some (g_quark_from_string url, err, w))"

definition keyagent_key_create_with_cacheid ::
    "'x ka_env \<Rightarrow> string \<Rightarrow> keyagent_keytype \<Rightarrow> (string, bytes) ghash option \<Rightarrow> string option \<Rightarrow> gint \<Rightarrow>
     gerr \<Rightarrow> 'x world \<Rightarrow> (quark \<times> gerr \<times> 'x world) option" where
  "keyagent_key_create_with_cacheid E url ty attrs session_id cache_id err w =
     (case keyagent_key_lookup w url of
        Some k \<Rightarrow> key_create_out E url k cache_id err w
      | None \<Rightarrow>
         (case (attrs, session_id) of
            (Some at, Some sid) \<Rightarrow>
              (case ght_lookup at KEYAGENT_ATTR_KEYDATA of
                 None \<Rightarrow> Some (None, g_set_error err KEYAGENT_ERROR_KEY_CREATE_PARAMS, w)
               | Some keydata \<Rightarrow>
                  (case keyagent_session_lookup w sid of
                     None \<Rightarrow> Some (None, g_set_error err KEYAGENT_ERROR_KEY_CREATE_INVALID_SESSION_ID, w)
                   | Some p \<Rightarrow>
                       let k = \<lparr>key_url = url, key_type = ty, key_session = Some p, key_attributes = at,
                                key_cache_id = cache_id\<rparr>
                       in key_create_out E url k cache_id err (key_store k url w)))
          | _ \<Rightarrow> Some (None, g_set_error err KEYAGENT_ERROR_KEY_CREATE_PARAMS, w)))"

definition keyagent_key_create ::
    "'x ka_env \<Rightarrow> string \<Rightarrow> keyagent_keytype \<Rightarrow> (string, bytes) ghash option \<Rightarrow> string option \<Rightarrow>
     gerr \<Rightarrow> 'x world \<Rightarrow> (quark \<times> gerr \<times> 'x world) option" where
  "keyagent_key_create E url ty attrs session_id err w =
     keyagent_key_create_with_cacheid E url ty attrs session_id (- 1) err w"

definition keyagent_key_get_stmname :: "'x world \<Rightarrow> keyagent_key_real \<Rightarrow> string option" where
  "keyagent_key_get_stmname w k = do { p \<leftarrow> key_session k; keyagent_session_get_stmname w p }"

section \<open>Removing keys\<close>

text \<open>Removing an entry from the table runs its destroy function on the value.\<close>

definition keyagent_key_hash_value_free :: "'x ka_env \<Rightarrow> keyagent_key_real \<Rightarrow> 'x world \<Rightarrow> 'x world option" where
  "keyagent_key_hash_value_free E k w = uncache_key E k w"

definition key_hash_remove :: "'x ka_env \<Rightarrow> gpointer \<Rightarrow> 'x world \<Rightarrow> 'x world option" where
  "key_hash_remove E ptr w = (case ght_lookup (key_hash w) ptr of
      None \<Rightarrow> Some w
    | Some k \<Rightarrow> keyagent_key_hash_value_free E k (w\<lparr>key_hash := ght_remove ptr (key_hash w)\<rparr>))"

definition build_delete_key_list :: "nat \<Rightarrow> keyagent_key_real list \<Rightarrow> keyagent_key_real list" where
  "build_delete_key_list p ks = filter (\<lambda>k. key_session k = Some p) ks"

text \<open>\<open>__delete_key\<close> of \<open>key.cpp\<close>: the key handed to the table is the URL's characters.\<close>

definition hash_delete_key :: "'x ka_env \<Rightarrow> keyagent_key_real \<Rightarrow> 'x world \<Rightarrow> 'x world option" where
  "hash_delete_key E k w = key_hash_remove E (STR_POINTER (key_url k)) w"

fun hash_delete_keys :: "'x ka_env \<Rightarrow> keyagent_key_real list \<Rightarrow> 'x world \<Rightarrow> 'x world option" where
  "hash_delete_keys E [] w = Some w"
| "hash_delete_keys E (k # ks) w = do { w1 \<leftarrow> hash_delete_key E k w; hash_delete_keys E ks w1 }"

definition keyagent_key_remove_by_session :: "'x ka_env \<Rightarrow> nat \<Rightarrow> 'x world \<Rightarrow> 'x world option" where
  "keyagent_key_remove_by_session E p w =
     hash_delete_keys E (build_delete_key_list p (ght_values (key_hash w))) w"

section \<open>The table\<close>

text \<open>Every entry is a key under the quark of its URL, with key data, of an existing session.\<close>

definition key_ok :: "'x world \<Rightarrow> gpointer \<Rightarrow> keyagent_key_real \<Rightarrow> bool" where
  "key_ok w ptr k \<longleftrightarrow> ptr = url_pointer (key_url k) \<and> ght_lookup (key_attributes k) KEYAGENT_ATTR_KEYDATA \<noteq> None \<and>
     (\<exists>p. key_session k = Some p \<and> p < length (sess_mem w))"

definition keys_ok :: "'x world \<Rightarrow> bool" where
  "keys_ok w \<longleftrightarrow> ght_wf (key_hash w) \<and> (\<forall>ptr k. ght_lookup (key_hash w) ptr = Some k \<longrightarrow> key_ok w ptr k)"

text \<open>
  The sessions in the table: each pointer leads to a session, entered under the quark of its id.
\<close>

definition sess_ok :: "'x world \<Rightarrow> bool" where
  "sess_ok w \<longleftrightarrow> ght_wf (session_hash w) \<and>
     (\<forall>q p. ght_lookup (session_hash w) q = Some p \<longrightarrow>
        (\<exists>s. sess_at w p = Some s \<and> q = g_quark_from_string (ses_session_id s)))"

lemma url_pointer_inj [simp]: "url_pointer u = url_pointer v \<longleftrightarrow> u = v"
  by (simp add: url_pointer_def)

lemma url_pointer_not_str [simp]: "url_pointer u \<noteq> STR_POINTER s" "STR_POINTER s \<noteq> url_pointer u"
  by (simp_all add: url_pointer_def)

lemma sess_ok_lookup:
  assumes "sess_ok w" and "keyagent_session_lookup w sid = Some p"
  shows "\<exists>s. sess_at w p = Some s \<and> ses_session_id s = sid"
proof -
  have "ght_lookup (session_hash w) (g_quark_from_string sid) = Some p"
    using assms(2) by (simp add: keyagent_session_lookup_def)
  with assms(1) obtain s where "sess_at w p = Some s" "g_quark_from_string sid = g_quark_from_string (ses_session_id s)"
    unfolding sess_ok_def by blast
  then show ?thesis by simp
qed

lemma keys_ok_lookup: "keys_ok w \<Longrightarrow> keyagent_key_lookup w url = Some k \<Longrightarrow> key_ok w (url_pointer url) k"
  by (simp add: keys_ok_def keyagent_key_lookup_def)

lemma keys_ok_cong:
  assumes "key_hash w' = key_hash w" and "length (sess_mem w) \<le> length (sess_mem w')"
  shows "keys_ok w \<Longrightarrow> keys_ok w'"
  using assms by (fastforce simp: keys_ok_def key_ok_def)

lemma keys_ok_store:
  assumes "keys_ok w" and "key_ok w (url_pointer url) k"
  shows "keys_ok (key_store k url w)"
  using assms by (auto simp: keys_ok_def key_store_def key_ok_def)

lemma sess_ok_cong:
  assumes "session_hash w' = session_hash w" and "sess_names w' = sess_names w"
  shows "sess_ok w \<Longrightarrow> sess_ok w'"
  unfolding sess_ok_def
proof (elim conjE, intro conjI allI impI)
  assume wf: "ght_wf (session_hash w)" and
    all: "\<forall>q p. ght_lookup (session_hash w) q = Some p \<longrightarrow>
      (\<exists>s. sess_at w p = Some s \<and> q = g_quark_from_string (ses_session_id s))"
  show "ght_wf (session_hash w')" using wf assms(1) by simp
  fix q p assume "ght_lookup (session_hash w') q = Some p"
  then obtain s where s: "sess_at w p = Some s" "q = g_quark_from_string (ses_session_id s)"
    using all assms(1) by auto
  have "length (sess_mem w') = length (sess_mem w)" using assms(2) by (metis length_sess_names)
  then obtain s' where s': "sess_at w' p = Some s'" using sess_at_lt[OF s(1)] by (simp add: sess_at_def)
  have "ses_session_id s' = ses_session_id s"
    using sess_names_at[OF s(1)] sess_names_at[OF s'] assms(2) by simp
  then show "\<exists>s. sess_at w' p = Some s \<and> q = g_quark_from_string (ses_session_id s)" using s s' by auto
qed

text \<open>
  Deleting the keys of a session deletes none: the pointer passed is never a key of the table.
\<close>

lemma hash_delete_key_noop: "keys_ok w \<Longrightarrow> hash_delete_key E k w = Some w"
proof -
  assume ok: "keys_ok w"
  have "ght_lookup (key_hash w) (STR_POINTER (key_url k)) = None"
  proof (rule ccontr)
    assume "ght_lookup (key_hash w) (STR_POINTER (key_url k)) \<noteq> None"
    then obtain k' where "ght_lookup (key_hash w) (STR_POINTER (key_url k)) = Some k'" by blast
    then have "STR_POINTER (key_url k) = url_pointer (key_url k')"
      using ok unfolding keys_ok_def key_ok_def by blast
    then show False by simp
  qed
  then show ?thesis by (simp add: hash_delete_key_def key_hash_remove_def)
qed

lemma key_remove_by_session_noop: "keys_ok w \<Longrightarrow> keyagent_key_remove_by_session E p w = Some w"
proof -
  assume ok: "keys_ok w"
  have "hash_delete_keys E ks w = Some w" for ks
    by (induction ks) (simp_all add: hash_delete_key_noop[OF ok])
  then show ?thesis by (simp add: keyagent_key_remove_by_session_def)
qed

section \<open>Creating a key\<close>

lemma key_create_out_result:
  assumes "key_create_out E url k cid err w = Some (q, err', w')"
  shows "q = Some url" and "\<exists>w1 k1. cache_step w w1 \<and> (\<exists>i. k1 = k\<lparr>key_cache_id := i\<rparr>) \<and>
    (if cid = - 1 then w' = key_store k1 url w1 else w' = w)"
proof -
  show "q = Some url"
    using assms by (auto simp: key_create_out_def bind_eq_Some_conv g_quark_from_string_def split: if_splits)
  show "\<exists>w1 k1. cache_step w w1 \<and> (\<exists>i. k1 = k\<lparr>key_cache_id := i\<rparr>) \<and>
    (if cid = - 1 then w' = key_store k1 url w1 else w' = w)"
  proof (cases "cid = - 1")
    case True
    then obtain r k1 w1 where c: "cache_key E k err w = Some (r, k1, err', w1)" and w': "w' = key_store k1 url w1"
      using assms by (auto simp: key_create_out_def bind_eq_Some_conv)
    show ?thesis using cache_key_step[OF c] w' True by auto
  next
    case False
    moreover have "k = k\<lparr>key_cache_id := key_cache_id k\<rparr>" by simp
    ultimately show ?thesis using assms by (auto simp: key_create_out_def)
  qed
qed

text \<open>
  A key is entered, or the table stays as it was; a key once entered keeps its data, session and
  type; and no call fails without an error in the slot.
\<close>

definition same_key :: "keyagent_key_real \<Rightarrow> keyagent_key_real \<Rightarrow> bool" where
  "same_key k k' \<longleftrightarrow> (\<exists>i. k' = k\<lparr>key_cache_id := i\<rparr>)"

lemma same_key_refl [simp, intro!]: "same_key k k"
  unfolding same_key_def by (rule exI[of _ "key_cache_id k"]) simp

lemma same_key_trans: "same_key a b \<Longrightarrow> same_key b c \<Longrightarrow> same_key a c"
  by (auto simp: same_key_def)

lemma same_key_ok: "same_key k k' \<Longrightarrow> key_ok w ptr k' = key_ok w ptr k"
  by (auto simp: same_key_def key_ok_def)

definition keys_kept :: "'x world \<Rightarrow> 'x world \<Rightarrow> bool" where
  "keys_kept w w' \<longleftrightarrow> (\<forall>url k. keyagent_key_lookup w url = Some k \<longrightarrow>
     (\<exists>k'. keyagent_key_lookup w' url = Some k' \<and> same_key k k'))"

lemma keys_kept_refl [simp, intro!]: "keys_kept w w"
  by (auto simp: keys_kept_def)

lemma keys_kept_trans: "keys_kept u v \<Longrightarrow> keys_kept v w \<Longrightarrow> keys_kept u w"
  unfolding keys_kept_def by (meson same_key_trans)

lemma keys_kept_cong: "key_hash w' = key_hash w \<Longrightarrow> keys_kept w w'"
  by (auto simp: keys_kept_def keyagent_key_lookup_def)

lemma lookup_key_store [simp]:
  "keyagent_key_lookup (key_store k url w) u = (if u = url then Some k else keyagent_key_lookup w u)"
  by (simp add: keyagent_key_lookup_def key_store_def)

lemma key_store_frame [simp]:
  "statics (key_store k url w) = statics w" "session_hash (key_store k url w) = session_hash w"
  "stm_hash (key_store k url w) = stm_hash w" "am (key_store k url w) = am w"
  "apimodule_loadkey_hash (key_store k url w) = apimodule_loadkey_hash w"
  "sess_mem (key_store k url w) = sess_mem w" "uncached (key_store k url w) = uncached w" "sess_names (key_store k url w) = sess_names w"
  by (simp_all add: key_store_def)

definition key_step :: "'x world \<Rightarrow> 'x world \<Rightarrow> bool" where
  "key_step w w' \<longleftrightarrow> statics w' = statics w \<and> session_hash w' = session_hash w \<and>
     stm_hash w' = stm_hash w \<and> apimodule_loadkey_hash w' = apimodule_loadkey_hash w \<and>
     uncached w' = uncached w \<and> moved (am w) (am w')"

lemma key_step_refl [simp, intro!]: "key_step w w"
  by (simp add: key_step_def)

lemma key_step_trans: "key_step u v \<Longrightarrow> key_step v w \<Longrightarrow> key_step u w"
  by (auto simp: key_step_def intro: moved_trans)

lemma cache_key_step': "cache_step w w' \<Longrightarrow> key_step w w'"
  by (simp add: cache_step_def key_step_def tables_def)

lemma key_step_store [simp, intro!]: "key_step w (key_store k url w)"
  by (simp add: key_step_def)

lemma key_step_length: "key_step w w' \<Longrightarrow> length (sess_mem w') = length (sess_mem w)"
  unfolding key_step_def by (blast intro: length_uncached)

lemma cache_step_keys:
  assumes "cache_step w w'"
  shows "keys_ok w \<Longrightarrow> keys_ok w'" and "key_ok w ptr k \<Longrightarrow> key_ok w' ptr k"
    and "keyagent_key_lookup w' url = keyagent_key_lookup w url"
  using assms length_uncached[of w' w] keys_ok_cong[of w' w]
  by (auto simp: cache_step_def tables_def key_ok_def keyagent_key_lookup_def)

lemma key_create_out_spec:
  assumes ok: "keys_ok w" and ptr: "key_ok w (url_pointer url) k" and cid: "cid = - 1 \<or> keyagent_key_lookup w url = Some k"
    and run: "key_create_out E url k cid err w = Some (q, err', w')"
  shows "q = Some url \<and> key_step w w' \<and> keys_ok w' \<and>
    (\<exists>k'. keyagent_key_lookup w' url = Some k' \<and> same_key k k') \<and>
    (\<forall>u. u \<noteq> url \<longrightarrow> keyagent_key_lookup w' u = keyagent_key_lookup w u)"
proof -
  from key_create_out_result[OF run] obtain w1 k1 where q: "q = Some url" and s: "cache_step w w1"
    and k1: "same_key k k1" and w': "if cid = - 1 then w' = key_store k1 url w1 else w' = w"
    by (auto simp: same_key_def)
  show ?thesis
  proof (cases "cid = - 1")
    case True
    have "key_ok w1 (url_pointer url) k1" using cache_step_keys(2)[OF s ptr] same_key_ok[OF k1] by blast
    then have "keys_ok w'" using cache_step_keys(1)[OF s ok] w' True by (simp add: keys_ok_store)
    moreover have "key_step w w'" using w' True s
      by (auto intro: key_step_trans[OF cache_key_step' key_step_store])
    ultimately show ?thesis using q w' True k1 cache_step_keys(3)[OF s] by auto
  next
    case False
    then show ?thesis using q w' ok cid by auto
  qed
qed

lemma key_create_spec:
  assumes so: "sess_ok w" and ko: "keys_ok w"
    and run: "keyagent_key_create_with_cacheid E url ty attrs sid cid err w = Some (q, err', w')"
  shows "key_step w w' \<and> keys_ok w' \<and> keys_kept w w' \<and>
    (\<forall>u. u \<noteq> url \<longrightarrow> keyagent_key_lookup w' u = keyagent_key_lookup w u) \<and>
    (if q = None then err' \<noteq> None \<and> w' = w
     else q = Some url \<and> (\<exists>k. keyagent_key_lookup w' url = Some k \<and>
       (keyagent_key_lookup w url = None \<longrightarrow> key_type k = ty \<and> Some (key_attributes k) = attrs \<and>
          (\<exists>s p. sid = Some s \<and> key_session k = Some p \<and> keyagent_session_lookup w s = Some p))))"
proof (cases "keyagent_key_lookup w url")
  case (Some k)
  have "key_ok w (url_pointer url) k" using ko Some by (rule keys_ok_lookup)
  moreover have "key_create_out E url k cid err w = Some (q, err', w')"
    using run Some by (simp add: keyagent_key_create_with_cacheid_def)
  ultimately have r: "q = Some url \<and> key_step w w' \<and> keys_ok w' \<and>
    (\<exists>k'. keyagent_key_lookup w' url = Some k' \<and> same_key k k') \<and>
    (\<forall>u. u \<noteq> url \<longrightarrow> keyagent_key_lookup w' u = keyagent_key_lookup w u)"
    using key_create_out_spec[OF ko _ disjI2[OF Some]] by blast
  have "keys_kept w w'" unfolding keys_kept_def
  proof (intro allI impI)
    fix u k0 assume "keyagent_key_lookup w u = Some k0"
    then show "\<exists>k'. keyagent_key_lookup w' u = Some k' \<and> same_key k0 k'"
      using r Some by (cases "u = url") auto
  qed
  then show ?thesis using r Some by auto
next
  case None
  show ?thesis
  proof (cases "\<exists>at s keydata p. attrs = Some at \<and> sid = Some s \<and>
      ght_lookup at KEYAGENT_ATTR_KEYDATA = Some keydata \<and> keyagent_session_lookup w s = Some p")
    case False
    then show ?thesis using run None ko
      by (auto simp: keyagent_key_create_with_cacheid_def split: option.splits)
  next
    case True
    then obtain at s keydata p where t: "attrs = Some at" "sid = Some s"
      "ght_lookup at KEYAGENT_ATTR_KEYDATA = Some keydata" "keyagent_session_lookup w s = Some p" by blast
    define k where "k = \<lparr>key_url = url, key_type = ty, key_session = Some p, key_attributes = at, key_cache_id = cid\<rparr>"
    have run': "key_create_out E url k cid err (key_store k url w) = Some (q, err', w')"
      using run None t by (simp add: keyagent_key_create_with_cacheid_def k_def Let_def)
    have "p < length (sess_mem w)"
      using so t(4) sess_at_lt by (fastforce simp: sess_ok_def keyagent_session_lookup_def)
    then have kok: "key_ok w (url_pointer url) k" using t by (simp add: key_ok_def k_def)
    have ko': "keys_ok (key_store k url w)" using ko kok by (rule keys_ok_store)
    have kok': "key_ok (key_store k url w) (url_pointer url) k" using kok by (simp add: key_ok_def)
    note r = key_create_out_spec[OF ko' kok' _ run']
    have "key_step w w'" using r key_step_trans[OF key_step_store] by auto
    moreover have "keys_kept w w'" unfolding keys_kept_def
    proof (intro allI impI)
      fix u k0 assume "keyagent_key_lookup w u = Some k0"
      then show "\<exists>k'. keyagent_key_lookup w' u = Some k' \<and> same_key k0 k'" using r None by (cases "u = url") auto
    qed
    moreover from r obtain k' where "keyagent_key_lookup w' url = Some k'" "same_key k k'" by auto
    ultimately show ?thesis using r t by (auto simp: same_key_def k_def)
  qed
qed

section \<open>Properties\<close>

text \<open>
  C23: the session ids sent to the key server are the sessions in the table, each as its STM's name, a
  colon and its id, joined by commas; none when there is no session.
\<close>
theorem session_ids_sent:
  assumes "sess_ok w"
  shows "keyagent_session_get_ids w = Some (if session_hash w = [] then None
    else Some (g_strjoinv '','' (map (session_entry w) (ght_values (session_hash w)))))"
proof (rule session_get_ids_join, intro ballI)
  fix p assume "p \<in> set (ght_values (session_hash w))"
  then obtain q where "ght_lookup (session_hash w) q = Some p"
    using assms ght_values_in unfolding sess_ok_def by metis
  then show "p < length (sess_mem w)" using assms sess_at_lt unfolding sess_ok_def by blast
qed

end
