(* ===== verification/Database.thy ===== *)
theory Database
  imports Key
begin

text \<open>
  What the local cache leaves in the database, and what a later start makes of it.  The database
  library is an argument of the model; \<open>session_db\<close> and \<open>key_db\<close> state, for the two tables the cache
  writes, what SQL promises of the statements the code sends.
\<close>

section \<open>The table of sessions\<close>

text \<open>A row, from the columns of an insert by their names, and as the columns of a select.\<close>

definition db_string :: "(string \<times> dbval) list \<Rightarrow> string \<Rightarrow> string option" where
  "db_string cols c = Option.bind (map_of cols c) (\<lambda>v. assert_string (Some v))"

definition db_blob :: "(string \<times> dbval) list \<Rightarrow> string \<Rightarrow> bytes option" where
  "db_blob cols c = Option.bind (map_of cols c) (\<lambda>v. assert_blob (Some v))"

definition session_row :: "gint \<Rightarrow> (string \<times> dbval) list \<Rightarrow> session_data option" where
  "session_row i cols = do {
     label \<leftarrow> db_string cols ''stm_label'';
     swk \<leftarrow> db_blob cols ''swk'';
     sid \<leftarrow> db_string cols ''session_id'';
     ty \<leftarrow> db_string cols ''swk_type'';
     Some \<lparr>sdt_id = i, sdt_label = label, sdt_session_id = sid, sdt_swk_type = ty, sdt_swk = swk\<rparr> }"

definition session_columns :: "session_data \<Rightarrow> dbval list" where
  "session_columns d = [DbInt (sdt_id d), DbStr (sdt_label d), DbBlob (sdt_swk d), DbStr (sdt_session_id d), DbStr (sdt_swk_type d)]"

text \<open>
  \<open>rows\<close> is the table by its unique column \<open>stm_label\<close>.  Parsing, reading parameters and committing
  leave it; an insert that succeeds replaces the row of its label and gives it an id; a select by
  label that succeeds answers that row, if there is one.
\<close>

definition session_db :: "'x gda_ops \<Rightarrow> ('x \<Rightarrow> string \<Rightarrow> session_data option) \<Rightarrow> bool" where
  "session_db G rows \<longleftrightarrow>
     (\<forall>sql err x. rows (snd (gda_sql_parser_parse_string G sql err x)) = rows x) \<and>
     (\<forall>sql err x. rows (snd (gda_statement_get_parameters G sql err x)) = rows x) \<and>
     (\<forall>x. rows (snd (gda_commit_transaction G x)) = rows x) \<and>
     (\<forall>cols err x err' x'. gda_insert_row_into_table G ''sessions'' cols err x = ((True, err'), x') \<longrightarrow>
        (\<forall>d0. session_row 0 cols = Some d0 \<longrightarrow> (\<exists>i. rows x' = (rows x)(sdt_label d0 \<mapsto> d0\<lparr>sdt_id := i\<rparr>)))) \<and>
     (\<forall>label err x model err' x'.
        gda_execute_select G SQL_SELECT_SESSION_BY_LABEL [(''label'', DbStr label)] err x = ((Some model, err'), x') \<longrightarrow>
        rows x' = rows x \<and> model = (case rows x label of None \<Rightarrow> [] | Some d \<Rightarrow> [session_columns d]))"

lemma session_dbD:
  assumes "session_db G rows"
  shows "rows (snd (gda_sql_parser_parse_string G sql err x)) = rows x"
    and "rows (snd (gda_statement_get_parameters G sql err x)) = rows x"
    and "rows (snd (gda_commit_transaction G x)) = rows x"
    and "gda_insert_row_into_table G ''sessions'' cols err x = ((True, err'), x') \<Longrightarrow> session_row 0 cols = Some d0 \<Longrightarrow>
      \<exists>i. rows x' = (rows x)(sdt_label d0 \<mapsto> d0\<lparr>sdt_id := i\<rparr>)"
    and "gda_execute_select G SQL_SELECT_SESSION_BY_LABEL [(''label'', DbStr label)] err x = ((Some model, err'), x') \<Longrightarrow>
      rows x' = rows x \<and> model = (case rows x label of None \<Rightarrow> [] | Some d \<Rightarrow> [session_columns d])"
  using assms unfolding session_db_def by blast+

lemma get_session_from_columns [simp]: "get_session_from_model [session_columns d] 0 = Some (Some d)"
  by (cases d) (simp add: get_session_from_model_def session_columns_def value_at_def assert_string_def g_value_get_int_def)

lemma get_session_from_nothing [simp]: "get_session_from_model [] row = None"
  by (simp add: get_session_from_model_def value_at_def assert_string_def)

text \<open>Reading the row back finds what the table has.\<close>

lemma get_session_row:
  assumes db: "session_db (e_gda E) rows" and run: "get_session E label err w = Some (Some d, err', w')"
  shows "rows (ext (am w)) label = Some d \<and> rows (ext (am w')) = rows (ext (am w))"
proof -
  let ?x = "ext (am w)"
  define p where "p = gda_sql_parser_parse_string (e_gda E) SQL_SELECT_SESSION_BY_LABEL err ?x"
  define q where "q = gda_statement_get_parameters (e_gda E) SQL_SELECT_SESSION_BY_LABEL (snd (fst p)) (snd p)"
  have r: "rows (snd p) = rows ?x" "rows (snd q) = rows ?x" using session_dbD(1,2)[OF db] by (simp_all add: p_def q_def)
  from run obtain model err1 x1 where
    s: "gda_execute_select (e_gda E) SQL_SELECT_SESSION_BY_LABEL [(''label'', DbStr label)] (snd (fst q)) (snd q) = ((Some model, err1), x1)"
    and m: "get_session_from_model model 0 = Some (Some d)" and w': "ext (am w') = x1"
    by (auto simp: get_session_def select_with_params_def world_call_simps p_def q_def prod_eq_iff split: branch_splits)
  have "rows x1 = rows ?x" "model = (case rows ?x label of None \<Rightarrow> [] | Some d \<Rightarrow> [session_columns d])"
    using session_dbD(5)[OF db s] r by auto
  moreover from this m have "rows ?x label = Some d"
    by (cases "rows ?x label") simp_all
  ultimately show ?thesis using w' by simp
qed

text \<open>
  C13: with the cache switched on, caching a session succeeds only when the database then holds the
  session in the row of its STM, with its id, its wrapping key and the key's type; the session's
  cache id is the id of that row, and no other row is touched.
\<close>
theorem cached_session_row:
  assumes "session_db (e_gda E) rows" and "cache_sessions w" and "sess_at w p = Some s"
    and "cache_session E p err w = Some (True, err', w')"
  shows "\<exists>i. sess_at w' p = Some (s\<lparr>ses_cache_id := i\<rparr>) \<and>
    rows (ext (am w')) = (rows (ext (am w)))(ses_name s \<mapsto> \<lparr>sdt_id = i, sdt_label = ses_name s,
      sdt_session_id = ses_session_id s, sdt_swk_type = ses_swk_type s, sdt_swk = ses_swk s\<rparr>)"
proof -
  let ?cols = "[(''stm_label'', DbStr (ses_name s)), (''swk'', DbBlob (ses_swk s)),
    (''session_id'', DbStr (ses_session_id s)), (''swk_type'', DbStr (ses_swk_type s))]"
  let ?x = "ext (am w)"
  let ?row = "\<lambda>i. \<lparr>sdt_id = i, sdt_label = ses_name s, sdt_session_id = ses_session_id s,
    sdt_swk_type = ses_swk_type s, sdt_swk = ses_swk s\<rparr>"
  have row: "session_row 0 ?cols = Some (?row 0)"
    by (simp add: session_row_def db_string_def db_blob_def assert_string_def assert_blob_def)
  from assms(3,4) obtain i w1 s1 where b: "cache_session_body E s err (w\<lparr>cache_rwlock := True\<rparr>) = Some (i, True, err', w1)"
    and s1: "sess_at w1 p = Some s1" and w': "w' = sess_upd p (s1\<lparr>ses_cache_id := i\<rparr>) w1\<lparr>cache_rwlock := False\<rparr>"
    by (auto simp: cache_session_def bind_eq_Some_conv keyagent_session_set_cache_id_def)
  from b assms(2) obtain err1 x1 err2 w2 d where
    ins: "gda_insert_row_into_table (e_gda E) ''sessions'' ?cols err ?x = ((True, err1), x1)"
    and g: "get_session E (ses_name s) err1 w2 = Some (Some d, err', w1)" and i: "i = sdt_id d"
    and w2: "w2 = w\<lparr>cache_rwlock := True, am := (am w)\<lparr>ext := snd (gda_commit_transaction (e_gda E) x1)\<rparr>\<rparr>"
    by (auto simp: cache_session_body_def world_call_simps prod_eq_iff split: branch_splits)
  from session_dbD(4)[OF assms(1) ins row] obtain j where x1: "rows x1 = (rows ?x)(ses_name s \<mapsto> ?row j)" by auto
  have "rows (ext (am w2)) = rows x1" by (simp add: w2 session_dbD(3)[OF assms(1)])
  then have "d = ?row j" "rows (ext (am w1)) = rows x1" using get_session_row[OF assms(1) g] x1 by auto
  moreover have "sess_mem w1 = sess_mem w" using g
    by (auto simp: get_session_def select_with_params_def world_call_simps w2 split: branch_splits)
  then have "s1 = s" using s1 assms(3) sess_at_cong[of w1 w p] by simp
  ultimately show ?thesis using x1 s1 i
    by (auto simp: w' sess_at_def sess_upd_def split: if_splits)
qed

section \<open>The table of keys\<close>

definition key_row :: "gint \<Rightarrow> (string \<times> dbval) list \<Rightarrow> key_data option" where
  "key_row i cols = do {
     url \<leftarrow> db_string cols ''url'';
     sealed \<leftarrow> db_blob cols ''sealed_data'';
     sid \<leftarrow> db_string cols ''session_id'';
     ty \<leftarrow> map_of cols ''key_type'';
     Some \<lparr>kd_url = Some url, kd_cache_id = i, kd_key_type = g_value_get_int (Some ty), kd_session_id = Some sid,
           kd_sealed_data = sealed\<rparr> }"

definition key_columns :: "string \<Rightarrow> key_data \<Rightarrow> dbval list" where
  "key_columns url d = [DbInt (kd_cache_id d), (case kd_session_id d of None \<Rightarrow> DbOther | Some s \<Rightarrow> DbStr s),
     DbInt (kd_key_type d), DbBlob (kd_sealed_data d), DbStr url]"

text \<open>
  \<open>rows\<close> is the table by its unique column \<open>url\<close>; the select at start-up answers all rows, in some
  order.
\<close>

definition key_db :: "'x gda_ops \<Rightarrow> ('x \<Rightarrow> string \<Rightarrow> key_data option) \<Rightarrow> bool" where
  "key_db G rows \<longleftrightarrow>
     (\<forall>sql err x. rows (snd (gda_sql_parser_parse_string G sql err x)) = rows x) \<and>
     (\<forall>sql err x. rows (snd (gda_statement_get_parameters G sql err x)) = rows x) \<and>
     (\<forall>x. rows (snd (gda_commit_transaction G x)) = rows x) \<and>
     (\<forall>cols err x err' x'. gda_insert_row_into_table G ''keys'' cols err x = ((True, err'), x') \<longrightarrow>
        (\<forall>d0 url. key_row 0 cols = Some d0 \<and> kd_url d0 = Some url \<longrightarrow> (\<exists>i. rows x' = (rows x)(url \<mapsto> d0\<lparr>kd_cache_id := i\<rparr>)))) \<and>
     (\<forall>url err x model err' x'.
        gda_execute_select G SQL_SELECT_KEY_BY_URL [(''url'', DbStr url)] err x = ((Some model, err'), x') \<longrightarrow>
        rows x' = rows x \<and> model = (case rows x url of None \<Rightarrow> [] | Some d \<Rightarrow> [key_columns url d])) \<and>
     (\<forall>err x model err' x'. gda_execute_select G SQL_SELECT_KEYS [] err x = ((Some model, err'), x') \<longrightarrow>
        set model = {key_columns url d | url d. rows x url = Some d})"

lemma key_dbD:
  assumes "key_db G rows"
  shows "rows (snd (gda_sql_parser_parse_string G sql err x)) = rows x"
    and "rows (snd (gda_statement_get_parameters G sql err x)) = rows x"
    and "rows (snd (gda_commit_transaction G x)) = rows x"
    and "gda_insert_row_into_table G ''keys'' cols err x = ((True, err'), x') \<Longrightarrow> key_row 0 cols = Some d0 \<Longrightarrow> kd_url d0 = Some url \<Longrightarrow>
      \<exists>i. rows x' = (rows x)(url \<mapsto> d0\<lparr>kd_cache_id := i\<rparr>)"
    and "gda_execute_select G SQL_SELECT_KEY_BY_URL [(''url'', DbStr url)] err x = ((Some model, err'), x') \<Longrightarrow>
      rows x' = rows x \<and> model = (case rows x url of None \<Rightarrow> [] | Some d \<Rightarrow> [key_columns url d])"
    and "gda_execute_select G SQL_SELECT_KEYS [] err x = ((Some model, err'), x') \<Longrightarrow>
      set model = {key_columns url d | url d. rows x url = Some d}"
proof -
  note a = assms[unfolded key_db_def]
  show "rows (snd (gda_sql_parser_parse_string G sql err x)) = rows x"
    and "rows (snd (gda_statement_get_parameters G sql err x)) = rows x"
    and "rows (snd (gda_commit_transaction G x)) = rows x"
    using a[THEN conjunct1] a[THEN conjunct2, THEN conjunct1] a[THEN conjunct2, THEN conjunct2, THEN conjunct1] by simp_all
  note b = a[THEN conjunct2, THEN conjunct2, THEN conjunct2]
  show "\<exists>i. rows x' = (rows x)(url \<mapsto> d0\<lparr>kd_cache_id := i\<rparr>)"
    if "gda_insert_row_into_table G ''keys'' cols err x = ((True, err'), x')" "key_row 0 cols = Some d0" "kd_url d0 = Some url"
    using b[THEN conjunct1] that by blast
  show "rows x' = rows x \<and> model = (case rows x url of None \<Rightarrow> [] | Some d \<Rightarrow> [key_columns url d])"
    if "gda_execute_select G SQL_SELECT_KEY_BY_URL [(''url'', DbStr url)] err x = ((Some model, err'), x')"
    using b[THEN conjunct2, THEN conjunct1] that by blast
  show "set model = {key_columns url d | url d. rows x url = Some d}"
    if "gda_execute_select G SQL_SELECT_KEYS [] err x = ((Some model, err'), x')"
    using b[THEN conjunct2, THEN conjunct2, rule_format, OF that] .
qed

lemma get_key_from_columns:
  "i < length model \<Longrightarrow> model ! i = key_columns url d \<Longrightarrow> get_key_from_model model i = Some (d\<lparr>kd_url := Some url\<rparr>)"
  by (cases d) (simp add: get_key_from_model_def key_columns_def value_at_def assert_blob_def g_value_get_int_def
      g_value_get_string_def split: option.splits)

lemma get_key_from_nothing [simp]: "get_key_from_model [] row = None"
  by (simp add: get_key_from_model_def value_at_def assert_blob_def)

lemma get_key_row:
  assumes db: "key_db (e_gda E) rows" and run: "get_key E url err w = Some (Some d, err', w')"
  shows "map_option (\<lambda>r. r\<lparr>kd_url := Some url\<rparr>) (rows (ext (am w)) url) = Some d \<and> rows (ext (am w')) = rows (ext (am w))"
proof -
  let ?x = "ext (am w)"
  define p where "p = gda_sql_parser_parse_string (e_gda E) SQL_SELECT_KEY_BY_URL err ?x"
  define q where "q = gda_statement_get_parameters (e_gda E) SQL_SELECT_KEY_BY_URL (snd (fst p)) (snd p)"
  have r: "rows (snd p) = rows ?x" "rows (snd q) = rows ?x" using key_dbD(1,2)[OF db] by (simp_all add: p_def q_def)
  from run obtain model err1 x1 where
    s: "gda_execute_select (e_gda E) SQL_SELECT_KEY_BY_URL [(''url'', DbStr url)] (snd (fst q)) (snd q) = ((Some model, err1), x1)"
    and m: "get_key_from_model model 0 = Some d" and w': "ext (am w') = x1"
    by (auto simp: get_key_def select_with_params_def world_call_simps p_def q_def prod_eq_iff split: branch_splits)
  have "rows x1 = rows ?x" "model = (case rows ?x url of None \<Rightarrow> [] | Some d \<Rightarrow> [key_columns url d])"
    using key_dbD(5)[OF db s] r by auto
  moreover from this m have "map_option (\<lambda>r. r\<lparr>kd_url := Some url\<rparr>) (rows ?x url) = Some d"
    by (cases "rows ?x url") (simp_all add: get_key_from_columns)
  ultimately show ?thesis using w' by simp
qed

text \<open>A start that reads only keys of other types than RSA puts each on the list to be deleted.\<close>

lemma loadkeys_rows_list:
  assumes "i + n = length model" and "\<forall>j<length model. \<exists>d. get_key_from_model model j = Some d \<and> kd_key_type d \<noteq> 1"
    and "loadkeys_rows E model i n False w = Some w'"
  shows "length (global_delete_list w') = length (global_delete_list w) + n"
  using assms
proof (induction n arbitrary: i w)
  case (Suc n)
  have "i < length model" using Suc.prems(1) by simp
  with Suc.prems(2) obtain d where d: "get_key_from_model model i = Some d" "kd_key_type d \<noteq> 1" by blast
  with Suc.prems(3) have "loadkeys_rows E model (Suc i) n False (w\<lparr>global_delete_list := global_delete_list w @ [kd_cache_id d]\<rparr>) = Some w'"
    by simp
  from Suc.IH[OF _ Suc.prems(2) this] Suc.prems(1) show ?case by simp
qed simp

lemma loadkeys_crash:
  assumes db: "key_db (e_gda E) rows" and no_rsa: "\<And>u d. rows (ext (am w)) u = Some d \<Longrightarrow> kd_key_type d \<noteq> 1"
    and some: "rows (ext (am w)) url \<noteq> None"
    and run: "cache_loadkeys E err w = Some (r, err', w')"
  shows "\<not> r"
proof
  assume r
  let ?x = "ext (am w)"
  define p where "p = gda_sql_parser_parse_string (e_gda E) SQL_SELECT_KEYS err ?x"
  have rp: "rows (snd p) = rows ?x" using key_dbD(1)[OF db] by (simp add: p_def)
  from run \<open>r\<close> obtain model err2 x2 w3 w4 v2 where
    s: "gda_execute_select (e_gda E) SQL_SELECT_KEYS [] (snd (fst p)) (snd p) = ((Some model, err2), x2)"
    and l: "loadkeys_rows E model 0 (length model) False v2 = Some w3"
    and "delete_keys_from_list E (global_delete_list w3) (w3\<lparr>global_model := False\<rparr>) = Some w4"
    by (auto simp: cache_loadkeys_def world_call_simps p_def prod_eq_iff split: branch_splits)
  then have "global_delete_list w3 = []" using delete_keys_empty by blast
  moreover have m: "set model = {key_columns u d | u d. rows ?x u = Some d}" using key_dbD(6)[OF db s] rp by simp
  have "\<forall>j<length model. \<exists>d. get_key_from_model model j = Some d \<and> kd_key_type d \<noteq> 1"
  proof (intro allI impI)
    fix j assume j: "j < length model"
    then obtain u d where "rows ?x u = Some d" "model ! j = key_columns u d" using m nth_mem by blast
    then show "\<exists>d. get_key_from_model model j = Some d \<and> kd_key_type d \<noteq> 1"
      using get_key_from_columns[OF j] no_rsa by auto
  qed
  then have "length (global_delete_list w3) = length (global_delete_list v2) + length model"
    using loadkeys_rows_list[OF _ _ l] by simp
  ultimately have "model = []" by simp
  then show False using m some by auto
qed

text \<open>The database answers the statement that reads all keys.\<close>

definition reads_keys :: "'x gda_ops \<Rightarrow> gerr \<Rightarrow> 'x \<Rightarrow> bool" where
  "reads_keys G err x = (let ((stmt, err1), x1) = gda_sql_parser_parse_string G SQL_SELECT_KEYS err x
     in stmt \<and> fst (fst (gda_execute_select G SQL_SELECT_KEYS [] err1 x1)) \<noteq> None)"

lemma cache_loadkeys_answer:
  "cache_loadkeys E err w = Some (r, err', w') \<Longrightarrow> r \<longleftrightarrow> reads_keys (e_gda E) err (ext (am w))"
  by (auto simp: cache_loadkeys_def reads_keys_def out_beta bind_eq_Some_conv split: prod.splits if_splits option.splits)

lemma cache_loadkeys_unread: "\<not> reads_keys (e_gda E) err (ext (am w)) \<Longrightarrow> cache_loadkeys E err w \<noteq> None"
  by (auto simp: cache_loadkeys_def reads_keys_def out_beta split: prod.splits if_splits)


end
