(* ===== verification/Example_Database.thy ===== *)
theory Example_Database
  imports Database "HOL-Library.AList"
begin

text \<open>
  A database that keeps its two tables as association lists, newest row first, and the properties of
  \<open>Database\<close> on it: a session and a key are cached, and the agent is started again.
\<close>

type_synonym sql_tables = "(string \<times> session_data) list \<times> (string \<times> key_data) list"

definition sql_insert ::
    "string \<Rightarrow> (string \<times> dbval) list \<Rightarrow> gerr \<Rightarrow> sql_tables \<Rightarrow> (bool \<times> gerr) \<times> sql_tables" where
  "sql_insert table cols err x =
     (let sid = of_nat (Suc (length (fst x))); kid = of_nat (Suc (length (snd x))) in
      if table = ''sessions'' then
        (case session_row sid cols of None \<Rightarrow> ((False, g_set_error err (EXTERNAL 19)), x)
         | Some d \<Rightarrow> ((True, err), ((sdt_label d, d) # fst x, snd x)))
      else if table = ''keys'' then
        (case Option.bind (key_row kid cols) (\<lambda>d. map_option (\<lambda>u. (u, d)) (kd_url d)) of
           None \<Rightarrow> ((False, g_set_error err (EXTERNAL 19)), x)
         | Some r \<Rightarrow> ((True, err), (fst x, r # snd x)))
      else ((True, err), x))"

definition sql_select ::
    "string \<Rightarrow> (string \<times> dbval) list \<Rightarrow> gerr \<Rightarrow> sql_tables \<Rightarrow> (dbval list list option \<times> gerr) \<times> sql_tables" where
  "sql_select sql ps err x =
     ((Some (if sql = SQL_SELECT_SESSION_BY_LABEL then
               (case Option.bind (db_string ps ''label'') (map_of (fst x)) of None \<Rightarrow> [] | Some d \<Rightarrow> [session_columns d])
             else if sql = SQL_SELECT_KEY_BY_URL then
               (case db_string ps ''url'' of None \<Rightarrow> []
                | Some u \<Rightarrow> (case map_of (snd x) u of None \<Rightarrow> [] | Some d \<Rightarrow> [key_columns u d]))
             else if sql = SQL_SELECT_KEYS then map (\<lambda>(u, d). key_columns u d) (AList.clearjunk (snd x))
             else []), err), x)"

definition sql_gda :: "sql_tables gda_ops" where
  "sql_gda = \<lparr>gda_connection_open = (\<lambda>p c e x. ((True, e), x)), gda_sql_parser_parse_string = (\<lambda>s e x. ((True, e), x)),
     gda_statement_get_parameters = (\<lambda>s e x. ((True, e), x)), gda_execute_select = sql_select,
     gda_execute_non_select = (\<lambda>s ps e x. ((0, e), x)), gda_insert_row_into_table = sql_insert,
     gda_commit_transaction = (\<lambda>x. (True, x))\<rparr>"

lemma select_texts: "SQL_SELECT_KEY_BY_URL \<noteq> SQL_SELECT_SESSION_BY_LABEL" "SQL_SELECT_KEYS \<noteq> SQL_SELECT_SESSION_BY_LABEL"
    "SQL_SELECT_KEYS \<noteq> SQL_SELECT_KEY_BY_URL"
  by (simp_all add: SQL_SELECT_KEY_BY_URL_def SQL_SELECT_SESSION_BY_LABEL_def SQL_SELECT_KEYS_def)

lemma session_row_id: "session_row i cols = map_option (\<lambda>d. d\<lparr>sdt_id := i\<rparr>) (session_row 0 cols)"
  by (auto simp: session_row_def split: Option.bind_split)

lemma key_row_id: "key_row i cols = map_option (\<lambda>d. d\<lparr>kd_cache_id := i\<rparr>) (key_row 0 cols)"
  by (auto simp: key_row_def split: Option.bind_split)

lemma sql_insert_session:
  assumes "sql_insert ''sessions'' cols err x = ((True, err'), x')" and "session_row 0 cols = Some d0"
  shows "\<exists>i. map_of (fst x') = (map_of (fst x))(sdt_label d0 \<mapsto> d0\<lparr>sdt_id := i\<rparr>)"
proof -
  obtain i where "session_row i cols = Some (d0\<lparr>sdt_id := i\<rparr>)" "x' = ((sdt_label d0, d0\<lparr>sdt_id := i\<rparr>) # fst x, snd x)"
    using assms session_row_id[of "of_nat (Suc (length (fst x)))" cols] by (simp add: sql_insert_def Let_def del: of_nat_Suc)
  then show ?thesis by (intro exI[of _ i]) simp
qed

lemma sql_insert_key:
  assumes "sql_insert ''keys'' cols err x = ((True, err'), x')" and "key_row 0 cols = Some d0" and "kd_url d0 = Some url"
  shows "\<exists>i. map_of (snd x') = (map_of (snd x))(url \<mapsto> d0\<lparr>kd_cache_id := i\<rparr>)"
proof -
  obtain i where "key_row i cols = Some (d0\<lparr>kd_cache_id := i\<rparr>)" "x' = (fst x, (url, d0\<lparr>kd_cache_id := i\<rparr>) # snd x)"
    using assms key_row_id[of "of_nat (Suc (length (snd x)))" cols] by (simp add: sql_insert_def Let_def del: of_nat_Suc)
  then show ?thesis by (intro exI[of _ i]) simp
qed

lemma sql_select_simps [simp]:
  "sql_select SQL_SELECT_SESSION_BY_LABEL [(''label'', DbStr l)] err x =
     ((Some (case map_of (fst x) l of None \<Rightarrow> [] | Some d \<Rightarrow> [session_columns d]), err), x)"
  "sql_select SQL_SELECT_KEY_BY_URL [(''url'', DbStr u)] err x =
     ((Some (case map_of (snd x) u of None \<Rightarrow> [] | Some d \<Rightarrow> [key_columns u d]), err), x)"
  "sql_select SQL_SELECT_KEYS [] err x = ((Some (map (\<lambda>(u, d). key_columns u d) (AList.clearjunk (snd x))), err), x)"
  by (simp_all add: sql_select_def db_string_def assert_string_def select_texts)

lemma sql_session_db: "session_db sql_gda (\<lambda>x. map_of (fst x))"
  unfolding session_db_def
  by (intro conjI allI impI) (simp_all add: sql_gda_def sql_insert_session)

lemma sql_key_db: "key_db sql_gda (\<lambda>x. map_of (snd x))"
proof -
  have a: "set (map (\<lambda>(u, d). key_columns u d) (AList.clearjunk l)) = {key_columns u d | u d. map_of l u = Some d}" for l
  proof -
    have "(u, d) \<in> set (AList.clearjunk l) \<longleftrightarrow> map_of l u = Some d" for u d
      using map_of_eq_Some_iff[OF distinct_clearjunk, of l u d] by (simp add: map_of_clearjunk)
    then show ?thesis by force
  qed
  have b: "set model = {key_columns u d | u d. map_of (snd x) u = Some d}"
    if "gda_execute_select sql_gda SQL_SELECT_KEYS [] err x = ((Some model, err'), x')" for err x model err' x'
  proof -
    have "model = map (\<lambda>(u, d). key_columns u d) (AList.clearjunk (snd x))" using that by (auto simp: sql_gda_def)
    then show ?thesis using a[of "snd x"] by (simp only:)
  qed
  show ?thesis
    unfolding key_db_def by (intro conjI allI impI) (rule b, assumption | simp add: sql_gda_def sql_insert_key)+
qed

definition sql_env :: "sql_tables ka_env" where
  "sql_env = \<lparr>g_module_open_stm = (\<lambda>f. None), load_keyfile = (\<lambda>f. Inl (EXTERNAL 2)), g_random_int = (\<lambda>x. (0, x)),
    e_gda = sql_gda, file_exists = (\<lambda>f. True), dir_entries = (\<lambda>d. None), g_pattern_match_string = (\<lambda>p s. True),
    g_mkdir_with_parents = (\<lambda>d x. (None, x)), g_path_get_dirname = (\<lambda>s. s), g_path_get_basename = (\<lambda>s. s),
    PKGDATA = [], undef_mem = []\<rparr>"

text \<open>An agent with one session, whose cache is on, over given tables.\<close>

definition d_session :: keyagent_session_real where
  "d_session = \<lparr>ses_swk = [7], ses_name = ''SGX'', ses_session_id = ''s1'', ses_swk_type = ''AES256-GCM'', ses_cache_id = - 1\<rparr>"

definition d_world :: "sql_tables \<Rightarrow> sql_tables world" where
  "d_world x = \<lparr>am = \<lparr>ext = x, token_hash = [], api_hash = [], uri_mem = Map.empty, preload_keys_flag = 0,
       attestation_type = None, qlPolicy = None\<rparr>, sess_mem = [d_session], session_hash = [], stm_hash = [],
     key_hash = [], npm_hash = [], swk_type_hash = [], apimodule_loadkey_hash = [],
     apimodule_ops = \<lparr>ops_load_key = None, ops_get_challenge = None, ops_set_wrapping_key = None\<rparr>, apimodule_enabled = False,
     rwlock = False, cache_rwlock = False, cache_sessions = True, cache_keys = True, fake_cache_ids = 0,
     global_model = False, global_delete_list = [], config = None, cert = [], certkey = [], cacert = [],
     keyformat = KEYAGENT_KEY_FORMAT_PEM, ka_ssl_verify = 0, configdirectory = [], kms_server_url = None,
     kms_debug = False, ka_init_done = False, ka_init_error = None, gfl_init = False, gfl_rv = CKR_GENERAL_ERROR, mode = None,
     pre_load_keyfile = None, func_list_set = False, module_hash = [], atfork_set = False\<rparr>"

text \<open>The session is cached into a table that has an older one of its STM.\<close>

definition d_tables :: sql_tables where
  "d_tables = ([(''SGX'', \<lparr>sdt_id = 1, sdt_label = ''SGX'', sdt_session_id = ''s0'', sdt_swk_type = ''AES128-WRAP'', sdt_swk = [1]\<rparr>)], [])"

lemma cached_session_row_witness:
  "\<exists>i w'. cache_session sql_env 0 None (d_world d_tables) = Some (True, None, w') \<and>
     map_of (fst (ext (am w'))) ''SGX'' = Some \<lparr>sdt_id = i, sdt_label = ''SGX'', sdt_session_id = ''s1'',
       sdt_swk_type = ''AES256-GCM'', sdt_swk = [7]\<rparr>"
proof -
  have "map_option (\<lambda>(r, e, _). (r, e)) (cache_session sql_env 0 None (d_world d_tables)) = Some (True, None)" by code_simp
  then obtain w' where c: "cache_session sql_env 0 None (d_world d_tables) = Some (True, None, w')" by auto
  have "sess_at (d_world d_tables) 0 = Some d_session" "cache_sessions (d_world d_tables)"
    by (simp_all add: sess_at_def d_world_def)
  with cached_session_row[of sql_env "\<lambda>x. map_of (fst x)", OF _ _ _ c] sql_session_db show ?thesis
    using c by (auto simp: sql_env_def d_session_def)
qed

text \<open>An AES key is cached, and another process over the same tables reads its keys.\<close>

definition d_key :: keyagent_key_real where
  "d_key = \<lparr>key_url = ''KMS:k1'', key_type = KEYAGENT_AESKEY, key_session = Some 0, key_attributes = [], key_cache_id = - 1\<rparr>"


end
