(* ===== verification/Invariants.thy ===== *)
theory Invariants
  imports Key
begin

text \<open>
  The invariant of the key agent's state, and the relation between its states before and
  after any operation that runs while a key is loaded.
\<close>

section \<open>The invariant\<close>

text \<open>An STM is entered under the quark of its name, and its session is a session.\<close>

definition stms_ok :: "'x world \<Rightarrow> bool" where
  "stms_ok w \<longleftrightarrow> ght_wf (stm_hash w) \<and>
     (\<forall>q stm. ght_lookup (stm_hash w) q = Some stm \<longrightarrow> q = g_quark_from_string (stm_label stm) \<and>
        (\<forall>p. stm_session stm = Some p \<longrightarrow> p < length (sess_mem w)))"

definition ops_ok :: "'x keyagent_apimodule_ops \<Rightarrow> bool" where
  "ops_ok ops \<longleftrightarrow> opt_ok challenge_cb_ok (ops_get_challenge ops) \<and>
     opt_ok session_cb_ok (ops_set_wrapping_key ops) \<and> opt_ok loadkey_cb_ok (ops_load_key ops)"

definition agent_ok :: "'x world \<Rightarrow> bool" where
  "agent_ok w \<longleftrightarrow> am_ok (am w) \<and> sess_ok w \<and> keys_ok w \<and> stms_ok w \<and> ops_ok (apimodule_ops w) \<and>
     ght_wf (apimodule_loadkey_hash w)"

text \<open>
  At most one session per STM is on offer: a session in the table is the current session of the
  STM it is named after.
\<close>

definition single_ok :: "'x world \<Rightarrow> bool" where
  "single_ok w \<longleftrightarrow> (\<forall>q p s. ght_lookup (session_hash w) q = Some p \<longrightarrow> sess_at w p = Some s \<longrightarrow>
     (\<exists>stm. ght_lookup (stm_hash w) (g_quark_from_string (ses_name s)) = Some stm \<and> stm_session stm = Some p))"

lemma single_ok_unique:
  assumes "single_ok w" and "ght_lookup (session_hash w) q = Some p" and "ght_lookup (session_hash w) q' = Some p'"
    and "sess_at w p = Some s" and "sess_at w p' = Some s'" and "ses_name s = ses_name s'"
  shows "p = p'"
proof -
  obtain stm where "ght_lookup (stm_hash w) (g_quark_from_string (ses_name s)) = Some stm" "stm_session stm = Some p"
    using assms(1,2,4) unfolding single_ok_def by blast
  moreover obtain stm' where "ght_lookup (stm_hash w) (g_quark_from_string (ses_name s')) = Some stm'"
    "stm_session stm' = Some p'"
    using assms(1,3,5) unfolding single_ok_def by blast
  ultimately show ?thesis using assms(6) by simp
qed

section \<open>Steps\<close>

text \<open>Of an STM only the session changes; of a request only the STM that served it.\<close>

definition same_stm :: "keyagent_stm_real \<Rightarrow> keyagent_stm_real \<Rightarrow> bool" where
  "same_stm s s' \<longleftrightarrow> (\<exists>x. s' = s\<lparr>stm_session := x\<rparr>)"

definition same_request :: "keyagent_request \<Rightarrow> keyagent_request \<Rightarrow> bool" where
  "same_request r r' \<longleftrightarrow> (\<exists>x. r' = r\<lparr>req_stm_name := x\<rparr>)"

definition stms_kept :: "'x world \<Rightarrow> 'x world \<Rightarrow> bool" where
  "stms_kept w w' \<longleftrightarrow> (\<forall>q. rel_option same_stm (ght_lookup (stm_hash w) q) (ght_lookup (stm_hash w') q))"

definition requests_kept :: "'x world \<Rightarrow> 'x world \<Rightarrow> bool" where
  "requests_kept w w' \<longleftrightarrow> (\<forall>i. rel_option same_request (ght_lookup (apimodule_loadkey_hash w) i)
     (ght_lookup (apimodule_loadkey_hash w') i))"

definition sessions_kept :: "'x world \<Rightarrow> 'x world \<Rightarrow> bool" where
  "sessions_kept w w' \<longleftrightarrow> (\<exists>xs. sess_names w' = sess_names w @ xs)"

definition agent_step :: "'x world \<Rightarrow> 'x world \<Rightarrow> bool" where
  "agent_step w w' \<longleftrightarrow> statics w' = statics w \<and> am_step (am w) (am w') \<and> stms_kept w w' \<and>
     requests_kept w w' \<and> sessions_kept w w' \<and> keys_kept w w'"

lemma same_stm_refl [simp, intro!]: "same_stm s s"
  unfolding same_stm_def by (rule exI[of _ "stm_session s"]) simp

lemma same_stm_trans: "same_stm a b \<Longrightarrow> same_stm b c \<Longrightarrow> same_stm a c"
  by (auto simp: same_stm_def)

lemma same_request_refl [simp, intro!]: "same_request r r"
  unfolding same_request_def by (rule exI[of _ "req_stm_name r"]) simp

lemma same_request_trans: "same_request a b \<Longrightarrow> same_request b c \<Longrightarrow> same_request a c"
  by (auto simp: same_request_def)

lemma rel_option_trans:
  assumes "\<And>a b c. R a b \<Longrightarrow> R b c \<Longrightarrow> R a c" and "rel_option R x y" and "rel_option R y z"
  shows "rel_option R x z"
  using assms(2,3) by (cases x; cases y; cases z) (auto intro: assms(1))

lemma rel_option_refl': "(\<And>a. R a a) \<Longrightarrow> rel_option R x x"
  by (cases x) auto

lemma stms_kept_refl [simp, intro!]: "stms_kept w w"
  by (simp add: stms_kept_def rel_option_refl')

lemma stms_kept_trans: "stms_kept u v \<Longrightarrow> stms_kept v w \<Longrightarrow> stms_kept u w"
  unfolding stms_kept_def by (blast intro: rel_option_trans[of same_stm] same_stm_trans)

lemma requests_kept_refl [simp, intro!]: "requests_kept w w"
  by (simp add: requests_kept_def rel_option_refl')

lemma requests_kept_trans: "requests_kept u v \<Longrightarrow> requests_kept v w \<Longrightarrow> requests_kept u w"
  unfolding requests_kept_def by (blast intro: rel_option_trans[of same_request] same_request_trans)

lemma sessions_kept_refl [simp, intro!]: "sessions_kept w w"
  by (simp add: sessions_kept_def)

lemma sessions_kept_trans: "sessions_kept u v \<Longrightarrow> sessions_kept v w \<Longrightarrow> sessions_kept u w"
  by (auto simp: sessions_kept_def)

lemma agent_step_refl [simp, intro!]: "agent_step w w"
  by (simp add: agent_step_def)

lemma agent_step_trans [trans]:
  assumes "agent_step u v" and "agent_step v w"
  shows "agent_step u w"
  using assms unfolding agent_step_def
  by (intro conjI; elim conjE)
    (simp, erule (1) am_step_trans, erule (1) stms_kept_trans, erule (1) requests_kept_trans,
      erule (1) sessions_kept_trans, erule (1) keys_kept_trans)

lemma agent_step_key: "key_step w w' \<Longrightarrow> keys_kept w w' \<Longrightarrow> agent_step w w'"
  unfolding agent_step_def key_step_def
  by (auto simp: stms_kept_def requests_kept_def rel_option_refl' sessions_kept_def moved_step
      dest: uncached_names)

lemma agent_step_cache: "cache_step w w' \<Longrightarrow> agent_step w w'"
  by (rule agent_step_key[OF cache_key_step']) (simp_all add: keys_kept_cong cache_step_def tables_def)

lemma agent_step_am: "am_step (am w) a \<Longrightarrow> agent_step w (w\<lparr>am := a\<rparr>)"
  by (simp add: agent_step_def stms_kept_def requests_kept_def rel_option_refl' sessions_kept_def keys_kept_cong)

lemma agent_step_stmD:
  assumes "agent_step w w'" and "ght_lookup (stm_hash w) q = Some stm"
  shows "\<exists>stm'. ght_lookup (stm_hash w') q = Some stm' \<and> same_stm stm stm'"
proof -
  have "rel_option same_stm (ght_lookup (stm_hash w) q) (ght_lookup (stm_hash w') q)"
    using assms(1) by (simp add: agent_step_def stms_kept_def)
  then show ?thesis using assms(2) by (simp add: option_rel_Some1)
qed

lemma agent_step_requestD:
  assumes "agent_step w w'" and "ght_lookup (apimodule_loadkey_hash w) i = Some r"
  shows "\<exists>r'. ght_lookup (apimodule_loadkey_hash w') i = Some r' \<and> same_request r r'"
proof -
  have "rel_option same_request (ght_lookup (apimodule_loadkey_hash w) i) (ght_lookup (apimodule_loadkey_hash w') i)"
    using assms(1) by (simp add: agent_step_def requests_kept_def)
  then show ?thesis using assms(2) by (simp add: option_rel_Some1)
qed

lemma agent_step_length: "agent_step w w' \<Longrightarrow> length (sess_mem w) \<le> length (sess_mem w')"
  by (metis agent_step_def sessions_kept_def length_append length_sess_names le_add1)

lemma staticsD:
  assumes "statics w' = statics w"
  shows "apimodule_ops w' = apimodule_ops w" and "rwlock w' = rwlock w" and "cache_keys w' = cache_keys w"
    and "cache_sessions w' = cache_sessions w" and "swk_type_hash w' = swk_type_hash w"
    and "npm_hash w' = npm_hash w" and "apimodule_enabled w' = apimodule_enabled w"
    and "kms_server_url w' = kms_server_url w"
  using assms by (simp_all add: statics_def)

lemma agent_step_statics: "agent_step w w' \<Longrightarrow> statics w' = statics w"
  by (simp add: agent_step_def)

text \<open>Steps that leave the STM table, the session table and the requests alone keep the invariants.\<close>

lemma agent_ok_key_step:
  assumes ok: "agent_ok w" and s: "key_step w w'" and k: "keys_ok w'"
  shows "agent_ok w'" and "single_ok w \<Longrightarrow> single_ok w'"
proof -
  have h: "statics w' = statics w" "session_hash w' = session_hash w" "stm_hash w' = stm_hash w"
    "apimodule_loadkey_hash w' = apimodule_loadkey_hash w" "sess_names w' = sess_names w" "moved (am w) (am w')"
    using s uncached_names[of w' w] by (simp_all add: key_step_def)
  have len: "length (sess_mem w') = length (sess_mem w)" using s by (rule key_step_length)
  have "am_ok (am w')" using ok moved_step[OF h(6)] by (auto simp: agent_ok_def dest: am_step_okD)
  moreover have "stms_ok w'" using ok h len by (simp add: agent_ok_def stms_ok_def)
  ultimately show "agent_ok w'" using ok k h staticsD(1)[OF h(1)] sess_ok_cong[OF h(2,5)]
    by (simp add: agent_ok_def)
  show "single_ok w'" if one: "single_ok w"
    unfolding single_ok_def
  proof (intro allI impI)
    fix q p s' assume p: "ght_lookup (session_hash w') q = Some p" "sess_at w' p = Some s'"
    obtain s0 where s0: "sess_at w p = Some s0"
      using sess_at_lt[OF p(2)] len by (auto simp: sess_at_def)
    have "ses_name s' = ses_name s0" using sess_names_at[OF p(2)] sess_names_at[OF s0] h(5) by simp
    then show "\<exists>stm. ght_lookup (stm_hash w') (g_quark_from_string (ses_name s')) = Some stm \<and> stm_session stm = Some p"
      using one p(1) s0 h(2,3) by (simp add: single_ok_def)
  qed
qed

lemma agent_ok_cache_step:
  assumes ok: "agent_ok w" and cs: "cache_step w w'"
  shows "agent_ok w'"
  by (rule agent_ok_key_step(1)[OF ok cache_key_step'[OF cs]])
    (use ok cs cache_step_keys(1) in \<open>auto simp: agent_ok_def\<close>)

lemma agent_ok_am:
  assumes "agent_ok w" and "am_step (am w) a"
  shows "agent_ok (w\<lparr>am := a\<rparr>)" and "single_ok w \<Longrightarrow> single_ok (w\<lparr>am := a\<rparr>)"
  using assms am_step_okD[OF assms(2)]
  by (auto simp: agent_ok_def sess_ok_def keys_ok_def key_ok_def stms_ok_def single_ok_def)

end
