(* ===== verification/Stm_Manager.thy ===== *)
theory Stm_Manager
  imports Invariants
begin

text \<open>
  \<open>key-agent/stm/stm_init.cpp\<close>: the table of secure token managers (STM), and the calls the
  agent makes into them.  An STM's operations are the symbols of the module it was loaded from.
\<close>

section \<open>Loading\<close>

text \<open>
  \<open>__initialize_stm\<close>.  A module that cannot be opened or misses a symbol is logged and
  skipped; so is one whose \<open>init\<close> reports an error, but logging it dereferences the error.
\<close>

definition initialize_stm :: "'x ka_env \<Rightarrow> string \<Rightarrow> 'x world \<Rightarrow> 'x world option" where
  "initialize_stm E filename w =
     (case g_module_open_stm E filename of
        None \<Rightarrow> Some w
      | Some m \<Rightarrow>
         (case (sym_stm_init m, sym_stm_create_challenge m, sym_stm_set_session m, sym_stm_load_key m) of
            (Some init, Some _, Some _, Some _) \<Rightarrow> do {
              ((name, err), w1) \<leftarrow> with_am (\<lambda>a. map_option (\<lambda>(n, e, a'). ((n, e), a')) (init (configdirectory w) None a)) w;
              (case name of
                 None \<Rightarrow> do { _ \<leftarrow> log_error err; Some w1 }
               | Some nm \<Rightarrow> Some (w1\<lparr>stm_hash := ght_insert (g_quark_from_string nm)
                   \<lparr>stm_label = nm, stm_module_name = filename, stm_initialized = True, stm_session = None,
                    stm_apimodule = False\<rparr> (stm_hash w1)\<rparr>)) }
          | _ \<Rightarrow> Some w))"

section \<open>Names\<close>

definition get_stm_name :: "bool \<Rightarrow> keyagent_stm_real \<Rightarrow> string \<Rightarrow> string" where
  "get_stm_name apimodule_check stm names =
     (if apimodule_check \<and> \<not> stm_apimodule stm then names
      else names @ (if names \<noteq> [] then '','' else []) @ stm_label stm)"

definition keyagent_stm_get_names :: "'x world \<Rightarrow> string" where
  "keyagent_stm_get_names w = fold (get_stm_name False) (ght_values (stm_hash w)) []"

definition keyagent_stm_get_apimodule_enabled_names :: "'x world \<Rightarrow> string" where
  "keyagent_stm_get_apimodule_enabled_names w = fold (get_stm_name True) (ght_values (stm_hash w)) []"

definition keyagent_stm_get_by_name :: "'x world \<Rightarrow> string \<Rightarrow> keyagent_stm_real option" where
  "keyagent_stm_get_by_name w name = ght_lookup (stm_hash w) (g_quark_from_string name)"

definition stm_store :: "string \<Rightarrow> keyagent_stm_real \<Rightarrow> 'x world \<Rightarrow> 'x world" where
  "stm_store name stm w = w\<lparr>stm_hash := ght_insert (g_quark_from_string name) stm (stm_hash w)\<rparr>"

definition keyagent_stm_apimodule_enable :: "string \<Rightarrow> 'x world \<Rightarrow> bool \<times> 'x world" where
  "keyagent_stm_apimodule_enable name w =
     (case keyagent_stm_get_by_name w name of
        None \<Rightarrow> (False, w)
      | Some stm \<Rightarrow> (True, (stm_store name (stm\<lparr>stm_apimodule := True\<rparr>) w)\<lparr>apimodule_enabled := True\<rparr>))"

section \<open>Calls into an STM\<close>

text \<open>An operation of a loaded STM, as a function on the state of the agent.\<close>

definition stm_module_op :: "'x ka_env \<Rightarrow> ('x stm_module \<Rightarrow> 'f option) \<Rightarrow> keyagent_stm_real \<Rightarrow> 'f option" where
  "stm_module_op E symb stm = do { m \<leftarrow> g_module_open_stm E (stm_module_name stm); symb m }"

definition call_stm ::
    "(gerr \<Rightarrow> 'x am \<Rightarrow> (bool \<times> gerr \<times> 'x am) option) \<Rightarrow> gerr \<Rightarrow> 'x world \<Rightarrow> (bool \<times> gerr \<times> 'x world) option" where
  "call_stm f err w = do { (r, err1, a) \<leftarrow> f err (am w); Some (r, err1, w\<lparr>am := a\<rparr>) }"

definition request_store :: "string \<Rightarrow> keyagent_request \<Rightarrow> 'x world \<Rightarrow> 'x world" where
  "request_store request_id rq w =
     w\<lparr>apimodule_loadkey_hash := ght_insert request_id rq (apimodule_loadkey_hash w)\<rparr>"

text \<open>The structures handed to the plug-in.\<close>

definition session_details_of ::
    "'x world \<Rightarrow> string \<Rightarrow> keyagent_request \<Rightarrow> keyagent_session_real \<Rightarrow> 'x stm_session_details" where
  "session_details_of w rid request s =
     \<lparr>sd_request_id = rid, set_wrapping_key_cb = ops_set_wrapping_key (apimodule_ops w),
      sd_apimodule_details = \<lparr>sd_label = Some (ses_name s), sd_module_data = req_module_data request,
        sd_swk_type = keyagent_session_lookup_swktype w (ses_swk_type s), sd_session = Some (ses_swk s)\<rparr>\<rparr>"

definition challenge_details_of ::
    "'x world \<Rightarrow> string \<Rightarrow> keyagent_request \<Rightarrow> string \<Rightarrow> bytes \<Rightarrow> 'x stm_create_challenge_details" where
  "challenge_details_of w rid request nm nonce =
     \<lparr>cd_request_id = rid, apimodule_get_challenge_cb = ops_get_challenge (apimodule_ops w),
      cd_apimodule_details = \<lparr>cd_label = Some nm, cd_nonce = take 32 nonce, cd_challenge = None,
        cd_module_data = req_module_data request\<rparr>\<rparr>"

definition loadkey_details_of ::
    "'x world \<Rightarrow> string \<Rightarrow> keyagent_request \<Rightarrow> string \<Rightarrow> keyagent_session_real \<Rightarrow> keyagent_key_real \<Rightarrow>
     bytes \<Rightarrow> bytes option \<Rightarrow> ck_ulong \<Rightarrow> 'x stm_loadkey_details" where
  "loadkey_details_of w rid request label s k wrapped iv tag =
     \<lparr>ld_request_id = rid, ld_swk_quark = keyagent_session_lookup_swktype w (ses_swk_type s),
      apimodule_load_key_cb = ops_load_key (apimodule_ops w),
      ld_apimodule_details = \<lparr>ld_label = Some label, ld_url = key_url k, ld_type = key_type k,
        ld_key = Some wrapped, ld_iv = iv, ld_tag_size = tag, ld_module_data = req_module_data request\<rparr>\<rparr>"

definition keyagent_stm_set_session ::
    "'x ka_env \<Rightarrow> string \<Rightarrow> nat option \<Rightarrow> gerr \<Rightarrow> 'x world \<Rightarrow> (bool \<times> gerr \<times> 'x world) option" where
  "keyagent_stm_set_session E request_id session err w =
     (case session of
        None \<Rightarrow> Some (False, k_set_error err STM_ERROR_INVALID_SESSION_DATA, w)
      | Some p \<Rightarrow> do {
          name \<leftarrow> keyagent_session_get_stmname w p;
          (case (keyagent_stm_get_by_name w name, ght_lookup (apimodule_loadkey_hash w) request_id) of
             (Some lstm, Some request) \<Rightarrow> do {
               let w1 = stm_store name (lstm\<lparr>stm_session := Some p\<rparr>) w;
               let w2 = request_store request_id (request\<lparr>req_stm_name := Some (stm_label lstm)\<rparr>) w1;
               s \<leftarrow> sess_at w2 p;
               op \<leftarrow> stm_module_op E sym_stm_set_session lstm;
               call_stm (op (session_details_of w2 request_id request s)) err w2 }
           | _ \<Rightarrow> Some (False, k_set_error err STM_ERROR_INVALID_SESSION_DATA, w)) })"

definition keyagent_stm_get_challenge ::
    "'x ka_env \<Rightarrow> string option \<Rightarrow> bytes \<Rightarrow> string option \<Rightarrow> gerr \<Rightarrow> 'x world \<Rightarrow>
     (bool \<times> bytes option \<times> gerr \<times> 'x world) option" where
  "keyagent_stm_get_challenge E request_id nonce name err w =
     (case (name, request_id) of
        (Some nm, Some rid) \<Rightarrow>
          (case (keyagent_stm_get_by_name w nm, ght_lookup (apimodule_loadkey_hash w) rid) of
             (Some lstm, Some request) \<Rightarrow> do {
               let w1 = request_store rid (request\<lparr>req_stm_name := Some (stm_label lstm)\<rparr>) w;
               op \<leftarrow> stm_module_op E sym_stm_create_challenge lstm;
               (ret, d, err1, a) \<leftarrow> op (challenge_details_of w1 rid request nm nonce) err (am w1);
               Some (ret, cd_challenge (cd_apimodule_details d), err1, w1\<lparr>am := a\<rparr>) }
           | _ \<Rightarrow> Some (False, None, k_set_error err STM_ERROR_INVALID_CHALLENGE_DATA, w))
      | _ \<Rightarrow> Some (False, None, k_set_error err STM_ERROR_INVALID_CHALLENGE_DATA, w))"

text \<open>
  The header \<open>keyagent_keytransfer_t\<close> in front of the key data: three 32-bit lengths.  The
  key data comes from the key server; reading past its end is undefined.
\<close>

definition keytransfer_field :: "nat \<Rightarrow> bytes \<Rightarrow> u32" where
  "keytransfer_field i keydata = rd32 (drop (4 * i) keydata)"

definition keytransfer_iv_length :: "bytes \<Rightarrow> u32" where
  "keytransfer_iv_length = keytransfer_field 0"
definition keytransfer_tag_size :: "bytes \<Rightarrow> u32" where
  "keytransfer_tag_size = keytransfer_field 1"
definition keytransfer_wrap_size :: "bytes \<Rightarrow> u32" where
  "keytransfer_wrap_size = keytransfer_field 2"

definition read_bytes :: "bytes \<Rightarrow> nat \<Rightarrow> nat \<Rightarrow> bytes option" where
  "read_bytes data off n = (if off + n \<le> length data then Some (take n (drop off data)) else None)"

definition stm_load_key_run ::
    "'x ka_env \<Rightarrow> string \<Rightarrow> keyagent_key_real \<Rightarrow> keyagent_stm_real \<Rightarrow> keyagent_request \<Rightarrow> nat \<Rightarrow> gerr \<Rightarrow>
     'x world \<Rightarrow> (bool \<times> gerr \<times> 'x world) option" where
  "stm_load_key_run E request_id k lstm request p err w = do {
     keydata \<leftarrow> ght_lookup (key_attributes k) KEYAGENT_ATTR_KEYDATA;
     _ \<leftarrow> read_bytes keydata 0 12;
     let ivl = keytransfer_iv_length keydata;
     if unat ivl > 64 then Some (False, k_set_error err STM_ERROR_INVALID_LOADKEY_DATA, w)
     else do {
       iv \<leftarrow> (if ivl \<noteq> 0 then map_option Some (read_bytes keydata 12 (unat ivl)) else Some None);
       wrapped \<leftarrow> read_bytes keydata (12 + unat ivl) (unat (keytransfer_wrap_size keydata));
       s \<leftarrow> sess_at w p;
       op \<leftarrow> stm_module_op E sym_stm_load_key lstm;
       call_stm (op (loadkey_details_of w request_id request (stm_label lstm) s k wrapped iv
                       (ucast (keytransfer_tag_size keydata)))) err w } }"

definition keyagent_stm_load_key ::
    "'x ka_env \<Rightarrow> string \<Rightarrow> keyagent_key_real \<Rightarrow> gerr \<Rightarrow> 'x world \<Rightarrow> (bool \<times> gerr \<times> 'x world) option" where
  "keyagent_stm_load_key E request_id k err w =
     (case key_session k of
        None \<Rightarrow> Some (False, k_set_error err KEYAGENT_ERROR_KEYINIT, w)
      | Some kp \<Rightarrow> do {
          name \<leftarrow> keyagent_key_get_stmname w k;
          (case (keyagent_stm_get_by_name w name, ght_lookup (apimodule_loadkey_hash w) request_id) of
             (Some lstm, Some request) \<Rightarrow>
               (case stm_session lstm of
                  None \<Rightarrow> Some (False, k_set_error err STM_ERROR_INVALID_LOADKEY_DATA, w)
                | Some p \<Rightarrow> stm_load_key_run E request_id k lstm request p err w)
           | _ \<Rightarrow> Some (False, k_set_error err STM_ERROR_INVALID_LOADKEY_DATA, w)) })"

section \<open>The repository's module\<close>

text \<open>The symbols of \<open>stm_sgx.so\<close>, and an installation whose STM modules are all that one.\<close>

definition sgx_stm_module :: "(string \<Rightarrow> errcode + keyfile) \<Rightarrow> 'x stm_module" where
  "sgx_stm_module load =
     \<lparr>sym_stm_init = Some (stm_init load), sym_stm_create_challenge = Some stm_create_challenge,
      sym_stm_set_session = Some stm_set_session, sym_stm_load_key = Some stm_load_key\<rparr>"

definition sgx_only :: "'x ka_env \<Rightarrow> 'x ka_env" where
  "sgx_only E = E\<lparr>g_module_open_stm :=
     (\<lambda>f. if file_exists E f then Some (sgx_stm_module (load_keyfile E)) else None)\<rparr>"

section \<open>What the calls do to the agent\<close>

lemma details_of_cb [simp]:
  "set_wrapping_key_cb (session_details_of w rid rq s) = ops_set_wrapping_key (apimodule_ops w)"
  "apimodule_get_challenge_cb (challenge_details_of w rid rq nm nonce) = ops_get_challenge (apimodule_ops w)"
  "cd_challenge (cd_apimodule_details (challenge_details_of w rid rq nm nonce)) = None"
  "apimodule_load_key_cb (loadkey_details_of w rid rq l s k wr iv tag) = ops_load_key (apimodule_ops w)"
  by (simp_all add: session_details_of_def challenge_details_of_def loadkey_details_of_def)

lemma stm_store_frame [simp]:
  "statics (stm_store n s w) = statics w" "session_hash (stm_store n s w) = session_hash w"
  "sess_mem (stm_store n s w) = sess_mem w" "sess_names (stm_store n s w) = sess_names w"
  "key_hash (stm_store n s w) = key_hash w" "am (stm_store n s w) = am w"
  "apimodule_loadkey_hash (stm_store n s w) = apimodule_loadkey_hash w"
  "apimodule_ops (stm_store n s w) = apimodule_ops w" "sess_at (stm_store n s w) p = sess_at w p"
  "stm_hash (stm_store n s w) = ght_insert (Some n) s (stm_hash w)"
  by (simp_all add: stm_store_def g_quark_from_string_def)

lemma request_store_frame [simp]:
  "statics (request_store i r w) = statics w" "session_hash (request_store i r w) = session_hash w"
  "sess_mem (request_store i r w) = sess_mem w" "sess_names (request_store i r w) = sess_names w"
  "key_hash (request_store i r w) = key_hash w" "am (request_store i r w) = am w"
  "stm_hash (request_store i r w) = stm_hash w" "apimodule_ops (request_store i r w) = apimodule_ops w"
  "sess_at (request_store i r w) p = sess_at w p"
  "apimodule_loadkey_hash (request_store i r w) = ght_insert i r (apimodule_loadkey_hash w)"
  by (simp_all add: request_store_def)

lemma stm_store_step:
  assumes "keyagent_stm_get_by_name w n = Some stm" and "same_stm stm stm'"
  shows "agent_step w (stm_store n stm' w)"
  using assms by (auto simp: agent_step_def stms_kept_def requests_kept_def rel_option_refl'
      sessions_kept_def keyagent_stm_get_by_name_def g_quark_from_string_def keys_kept_cong)

lemma request_store_step:
  assumes "ght_lookup (apimodule_loadkey_hash w) i = Some r" and "same_request r r'"
  shows "agent_step w (request_store i r' w)"
  using assms by (auto simp: agent_step_def stms_kept_def requests_kept_def rel_option_refl'
      sessions_kept_def keys_kept_cong)

lemma agent_ok_stm_store:
  assumes ok: "agent_ok w" and stm: "keyagent_stm_get_by_name w n = Some stm"
    and p: "p < length (sess_mem w)"
  shows "agent_ok (stm_store n (stm\<lparr>stm_session := Some p\<rparr>) w)"
proof -
  have "Some n = g_quark_from_string (stm_label stm)"
    using ok stm by (auto simp: agent_ok_def stms_ok_def keyagent_stm_get_by_name_def g_quark_from_string_def)
  then have "stms_ok (stm_store n (stm\<lparr>stm_session := Some p\<rparr>) w)"
    using ok p by (auto simp: agent_ok_def stms_ok_def)
  moreover have "keys_ok (stm_store n s w) = keys_ok w" "sess_ok (stm_store n s w) = sess_ok w" for s
    by (simp_all add: keys_ok_def key_ok_def sess_ok_def)
  ultimately show ?thesis using ok by (simp add: agent_ok_def)
qed

lemma agent_ok_request_store:
  assumes "agent_ok w"
  shows "agent_ok (request_store i r w)"
proof -
  have "keys_ok (request_store i r w) = keys_ok w" "sess_ok (request_store i r w) = sess_ok w"
    "stms_ok (request_store i r w) = stms_ok w"
    by (simp_all add: keys_ok_def key_ok_def sess_ok_def stms_ok_def)
  then show ?thesis using assms by (simp add: agent_ok_def)
qed

lemma single_ok_request_store: "single_ok (request_store i r w) = single_ok w"
  by (simp add: single_ok_def)

locale stm_modules =
  fixes E :: "'x ka_env"
  assumes module_ok: "g_module_open_stm E f = Some m \<Longrightarrow>
      opt_ok create_challenge_ok (sym_stm_create_challenge m) \<and>
      opt_ok set_session_ok (sym_stm_set_session m) \<and> opt_ok load_key_ok (sym_stm_load_key m)"
begin

lemma create_challenge_op: "stm_module_op E sym_stm_create_challenge stm = Some f \<Longrightarrow> create_challenge_ok f"
  by (auto simp: stm_module_op_def bind_eq_Some_conv dest!: module_ok)

lemma set_session_op: "stm_module_op E sym_stm_set_session stm = Some f \<Longrightarrow> set_session_ok f"
  by (auto simp: stm_module_op_def bind_eq_Some_conv dest!: module_ok)

lemma load_key_op: "stm_module_op E sym_stm_load_key stm = Some f \<Longrightarrow> load_key_ok f"
  by (auto simp: stm_module_op_def bind_eq_Some_conv dest!: module_ok)

text \<open>
  Setting a session either fails before anything is changed, or makes it the session of the
  STM it is named after and asks the plug-in, whose answer is the result.
\<close>

lemma stm_set_session_result:
  assumes ok: "agent_ok w" and s: "sess_at w p = Some s"
    and run: "keyagent_stm_set_session E rid (Some p) err w = Some (r, err', w')"
  shows "reports r err err' \<and>
    (if keyagent_stm_get_by_name w (ses_name s) = None \<or> ght_lookup (apimodule_loadkey_hash w) rid = None
     then \<not> r \<and> w' = w
     else \<exists>stm rq a. keyagent_stm_get_by_name w (ses_name s) = Some stm \<and>
       ght_lookup (apimodule_loadkey_hash w) rid = Some rq \<and> am_step (am w) a \<and>
       w' = (request_store rid (rq\<lparr>req_stm_name := Some (stm_label stm)\<rparr>)
              (stm_store (ses_name s) (stm\<lparr>stm_session := Some p\<rparr>) w))\<lparr>am := a\<rparr>)"
proof (cases "keyagent_stm_get_by_name w (ses_name s) = None \<or> ght_lookup (apimodule_loadkey_hash w) rid = None")
  case True
  then show ?thesis using run s
    by (auto simp: keyagent_stm_set_session_def keyagent_session_get_stmname_def split: option.splits)
next
  case False
  then obtain stm rq where f: "keyagent_stm_get_by_name w (ses_name s) = Some stm"
    "ght_lookup (apimodule_loadkey_hash w) rid = Some rq" by auto
  let ?w = "request_store rid (rq\<lparr>req_stm_name := Some (stm_label stm)\<rparr>)
              (stm_store (ses_name s) (stm\<lparr>stm_session := Some p\<rparr>) w)"
  from run s f obtain op where op: "stm_module_op E sym_stm_set_session stm = Some op"
    and c: "call_stm (op (session_details_of ?w rid rq s)) err ?w = Some (r, err', w')"
    by (auto simp: keyagent_stm_set_session_def keyagent_session_get_stmname_def bind_eq_Some_conv Let_def)
  from c obtain a where a: "op (session_details_of ?w rid rq s) err (am w) = Some (r, err', a)" "w' = ?w\<lparr>am := a\<rparr>"
    by (auto simp: call_stm_def bind_eq_Some_conv)
  have "am_step (am w) a \<and> reports r err err'"
    by (rule set_session_okD[OF set_session_op[OF op] _ _ a(1)]) (use ok in \<open>simp_all add: agent_ok_def ops_ok_def\<close>)
  then show ?thesis using f a(2) by auto
qed

lemma stm_set_session_step:
  assumes ok: "agent_ok w" and s: "sess_at w p = Some s"
    and run: "keyagent_stm_set_session E rid (Some p) err w = Some (r, err', w')"
  shows "agent_step w w'" and "agent_ok w'" and "session_hash w' = session_hash w" and "sess_mem w' = sess_mem w"
    and "reports r err err'"
proof -
  note res = stm_set_session_result[OF ok s run]
  show "reports r err err'" using res by blast
  have "agent_step w w' \<and> agent_ok w' \<and> session_hash w' = session_hash w \<and> sess_mem w' = sess_mem w"
  proof (cases "keyagent_stm_get_by_name w (ses_name s) = None \<or> ght_lookup (apimodule_loadkey_hash w) rid = None")
    case True
    then show ?thesis using res ok by auto
  next
    case False
    then obtain stm rq a where f: "keyagent_stm_get_by_name w (ses_name s) = Some stm"
       "ght_lookup (apimodule_loadkey_hash w) rid = Some rq" "am_step (am w) a"
      and w': "w' = (request_store rid (rq\<lparr>req_stm_name := Some (stm_label stm)\<rparr>)
              (stm_store (ses_name s) (stm\<lparr>stm_session := Some p\<rparr>) w))\<lparr>am := a\<rparr>"
      using res by auto
    let ?w1 = "stm_store (ses_name s) (stm\<lparr>stm_session := Some p\<rparr>) w"
    let ?w2 = "request_store rid (rq\<lparr>req_stm_name := Some (stm_label stm)\<rparr>) ?w1"
    have "same_stm stm (stm\<lparr>stm_session := Some p\<rparr>)" by (auto simp: same_stm_def)
    with f(1) have "agent_step w ?w1" by (rule stm_store_step)
    also have "agent_step ?w1 ?w2" by (rule request_store_step) (use f(2) in \<open>auto simp: same_request_def\<close>)
    also have "agent_step ?w2 w'" unfolding w' by (rule agent_step_am) (use f(3) in simp)
    finally have st: "agent_step w w'" .
    have "agent_ok ?w2"
      by (rule agent_ok_request_store[OF agent_ok_stm_store[OF ok f(1) sess_at_lt[OF s]]])
    then have "agent_ok w'" unfolding w' by (rule agent_ok_am) (use f(3) in simp)
    then show ?thesis using st w' by simp
  qed
  then show "agent_step w w'" "agent_ok w'" "session_hash w' = session_hash w" "sess_mem w' = sess_mem w" by auto
qed

lemma stm_get_challenge_step:
  assumes ok: "agent_ok w"
    and run: "keyagent_stm_get_challenge E rid nonce name err w = Some (r, ch, err', w')"
  shows "agent_step w w' \<and> agent_ok w' \<and> (single_ok w \<longrightarrow> single_ok w') \<and>
    (if r then ch \<noteq> None else err' \<noteq> None)"
proof (cases "\<exists>nm i stm rq. name = Some nm \<and> rid = Some i \<and> keyagent_stm_get_by_name w nm = Some stm \<and>
    ght_lookup (apimodule_loadkey_hash w) i = Some rq")
  case False
  then show ?thesis using run ok by (auto simp: keyagent_stm_get_challenge_def split: option.splits)
next
  case True
  then obtain nm i stm rq where f: "name = Some nm" "rid = Some i" "keyagent_stm_get_by_name w nm = Some stm"
    "ght_lookup (apimodule_loadkey_hash w) i = Some rq" by blast
  let ?w = "request_store i (rq\<lparr>req_stm_name := Some (stm_label stm)\<rparr>) w"
  from run f obtain op d a where op: "stm_module_op E sym_stm_create_challenge stm = Some op"
    and c: "op (challenge_details_of ?w i rq nm nonce) err (am w) = Some (r, d, err', a)" "ch = cd_challenge (cd_apimodule_details d)"
      "w' = ?w\<lparr>am := a\<rparr>"
    by (auto simp: keyagent_stm_get_challenge_def bind_eq_Some_conv Let_def)
  have s: "am_step (am w) a \<and> (if r then ch \<noteq> None else err' \<noteq> None)"
    unfolding c(2)
    by (rule create_challenge_okD[OF create_challenge_op[OF op] _ _ _ c(1)])
      (use ok in \<open>simp_all add: agent_ok_def ops_ok_def\<close>)
  have "agent_step w ?w" by (rule request_store_step) (use f in \<open>auto simp: same_request_def\<close>)
  also have "agent_step ?w w'" unfolding c by (rule agent_step_am) (use s in simp)
  finally have "agent_step w w'" .
  moreover have "agent_ok ?w" using ok by (rule agent_ok_request_store)
  ultimately show ?thesis
    using s agent_ok_am[of ?w a] c(3) by (auto simp: single_ok_request_store)
qed

lemma stm_load_key_run_step:
  assumes ok: "agent_ok w" and run: "stm_load_key_run E rid k stm rq p err w = Some (r, err', w')"
  shows "reports r err err' \<and> (\<exists>a. am_step (am w) a \<and> w' = w\<lparr>am := a\<rparr>)"
proof (cases "\<exists>op s wr iv tag a. stm_module_op E sym_stm_load_key stm = Some op \<and>
    op (loadkey_details_of w rid rq (stm_label stm) s k wr iv tag) err (am w) = Some (r, err', a) \<and> w' = w\<lparr>am := a\<rparr>")
  case False
  have "w' = w \<and> \<not> r \<and> err' \<noteq> None" using run False
    by (auto simp: stm_load_key_run_def bind_eq_Some_conv Let_def call_stm_def split: if_splits) blast+
  moreover have "\<exists>a. am_step (am w) a \<and> w = w\<lparr>am := a\<rparr>" by (rule exI[of _ "am w"]) simp
  ultimately show ?thesis by auto
next
  case True
  then obtain op s wr iv tag a where o: "stm_module_op E sym_stm_load_key stm = Some op"
    "op (loadkey_details_of w rid rq (stm_label stm) s k wr iv tag) err (am w) = Some (r, err', a)" "w' = w\<lparr>am := a\<rparr>"
    by blast
  have "am_step (am w) a \<and> reports r err err'"
    by (rule load_key_okD[OF load_key_op[OF o(1)] _ _ o(2)]) (use ok in \<open>simp_all add: agent_ok_def ops_ok_def\<close>)
  then show ?thesis using o(3) by blast
qed

lemma stm_load_key_step:
  assumes ok: "agent_ok w" and run: "keyagent_stm_load_key E rid k err w = Some (r, err', w')"
  shows "agent_step w w' \<and> agent_ok w' \<and> (single_ok w \<longrightarrow> single_ok w') \<and> reports r err err' \<and>
    key_hash w' = key_hash w"
proof (cases "\<exists>stm rq p. stm_load_key_run E rid k stm rq p err w = Some (r, err', w')")
  case False
  have "w' = w \<and> \<not> r \<and> err' \<noteq> None"
  proof (cases "key_session k")
    case None
    then show ?thesis using run by (auto simp: keyagent_stm_load_key_def)
  next
    case (Some kp)
    with run obtain name where "keyagent_key_get_stmname w k = Some name"
      by (auto simp: keyagent_stm_load_key_def bind_eq_Some_conv)
    then show ?thesis using run False Some
      by (cases "keyagent_stm_get_by_name w name"; cases "ght_lookup (apimodule_loadkey_hash w) rid";
          cases "stm_session (the (keyagent_stm_get_by_name w name))") (auto simp: keyagent_stm_load_key_def)
  qed
  then show ?thesis using ok by auto
next
  case True
  then obtain a where "reports r err err'" "am_step (am w) a" "w' = w\<lparr>am := a\<rparr>"
    using stm_load_key_run_step[OF ok] by blast
  then show ?thesis using agent_step_am[of w a] agent_ok_am[OF ok, of a] by auto
qed

end

lemma sgx_only_module:
  "g_module_open_stm (sgx_only E) f = Some m \<Longrightarrow> m = sgx_stm_module (load_keyfile E)"
  by (simp add: sgx_only_def split: if_splits)

interpretation sgx_modules: stm_modules "sgx_only E" for E
  by unfold_locales
    (auto dest!: sgx_only_module simp: sgx_stm_module_def stm_create_challenge_ok stm_set_session_ok stm_load_key_ok)

section \<open>Properties\<close>

text \<open>The key data the server sends: three lengths, the IV and the wrapped key.\<close>

definition keytransfer_payload :: "bytes \<Rightarrow> u32 \<Rightarrow> bytes \<Rightarrow> bytes" where
  "keytransfer_payload iv tag wrapped =
     le32 (of_nat (length iv)) @ le32 tag @ le32 (of_nat (length wrapped)) @ iv @ wrapped"

text \<open>What the STM reads out of key data is what a sender packed there.\<close>

lemma keytransfer_parts:
  assumes "read_bytes kd 0 12 \<noteq> None" and "keytransfer_iv_length kd \<noteq> 0"
    and "read_bytes kd 12 (unat (keytransfer_iv_length kd)) = Some iv"
    and "read_bytes kd (12 + unat (keytransfer_iv_length kd)) (unat (keytransfer_wrap_size kd)) = Some wrapped"
  shows "iv \<noteq> []" and "\<exists>rest. kd = keytransfer_payload iv (keytransfer_tag_size kd) wrapped @ rest"
proof -
  let ?n = "unat (keytransfer_iv_length kd)" and ?m = "unat (keytransfer_wrap_size kd)"
  have len: "12 \<le> length kd" "12 + ?n + ?m \<le> length kd"
    and iv: "iv = take ?n (drop 12 kd)" and wr: "wrapped = take ?m (drop (12 + ?n) kd)"
    using assms by (auto simp: read_bytes_def split: if_splits)
  have l: "length iv = ?n" "length wrapped = ?m" using len by (simp_all add: iv wr)
  show "iv \<noteq> []" using assms(2) l(1) by (auto simp: unat_eq_0)
  have "le32 (of_nat (length iv)) = take 4 kd" "le32 (keytransfer_tag_size kd) = take 4 (drop 4 kd)"
    "le32 (of_nat (length wrapped)) = take 4 (drop 8 kd)"
    using len(1) by (simp_all add: l keytransfer_iv_length_def keytransfer_tag_size_def keytransfer_wrap_size_def
        keytransfer_field_def le32_rd32)
  moreover have "take 4 kd @ take 4 (drop 4 kd) @ take 4 (drop 8 kd) = take 12 kd"
    using take_add[of 4 4 kd] take_add[of 8 4 kd] by simp
  ultimately have "keytransfer_payload iv (keytransfer_tag_size kd) wrapped = take 12 kd @ iv @ wrapped"
    by (simp add: keytransfer_payload_def)
  also have "\<dots> = take (12 + ?n + ?m) kd" by (simp add: iv wr take_add)
  finally show "\<exists>rest. kd = keytransfer_payload iv (keytransfer_tag_size kd) wrapped @ rest"
    by (intro exI[of _ "drop (12 + ?n + ?m) kd"]) simp
qed
text \<open>
  C11: what the server packs is what the STM unpacks: key data made of an IV of 1 to 64 bytes, a tag
  size and a wrapped key reaches the plug-in with exactly these three.
\<close>
theorem keytransfer_roundtrip:
  assumes "ght_lookup (key_attributes k) KEYAGENT_ATTR_KEYDATA = Some (keytransfer_payload iv tag wrapped)"
    and "iv \<noteq> []" and "length iv \<le> 64" and "length wrapped < 2 ^ 32" and "sess_at w p = Some s"
    and "stm_module_op E sym_stm_load_key stm = Some op"
  shows "stm_load_key_run E rid k stm rq p err w =
    call_stm (op (loadkey_details_of w rid rq (stm_label stm) s k wrapped (Some iv) (ucast tag))) err w"
proof -
  let ?d = "keytransfer_payload iv tag wrapped"
  have l: "unat (of_nat (length iv) :: u32) = length iv" "unat (of_nat (length wrapped) :: u32) = length wrapped"
    using assms(3,4) by (simp_all add: unat_of_nat take_bit_nat_eq_self)
  have f: "keytransfer_iv_length ?d = of_nat (length iv)" "keytransfer_tag_size ?d = tag"
    "keytransfer_wrap_size ?d = of_nat (length wrapped)"
    by (simp_all add: keytransfer_iv_length_def keytransfer_tag_size_def keytransfer_wrap_size_def
        keytransfer_field_def keytransfer_payload_def rd32_fields)
  have nz: "(of_nat (length iv) :: u32) \<noteq> 0" using assms(2) l(1) by (metis length_0_conv unat_0)
  have r: "read_bytes ?d 0 12 \<noteq> None" "read_bytes ?d 12 (length iv) = Some iv"
    "read_bytes ?d (12 + length iv) (length wrapped) = Some wrapped"
    by (simp_all add: read_bytes_def keytransfer_payload_def drop_append)
  then show ?thesis using assms(1,3,5,6) f l nz
    by (auto simp: stm_load_key_run_def run_simps)
qed

lemma stm_names_fold:
  "acc \<noteq> [] \<Longrightarrow> fold (get_stm_name chk) stms acc =
     acc @ concat (map (\<lambda>l. '','' @ l) (map stm_label (filter (\<lambda>s. \<not> chk \<or> stm_apimodule s) stms)))"
  by (induction stms arbitrary: acc) (auto simp: get_stm_name_def)

lemma stm_names_join:
  assumes "\<forall>stm \<in> set stms. stm_label stm \<noteq> []"
  shows "fold (get_stm_name chk) stms [] =
    g_strjoinv '','' (map stm_label (filter (\<lambda>s. \<not> chk \<or> stm_apimodule s) stms))"
  using assms
proof (induction stms)
  case Nil
  then show ?case by simp
next
  case (Cons s stms)
  show ?case
  proof (cases "chk \<and> \<not> stm_apimodule s")
    case True
    then show ?thesis using Cons by (simp add: get_stm_name_def)
  next
    case False
    then have "fold (get_stm_name chk) (s # stms) [] = fold (get_stm_name chk) stms (stm_label s)"
      by (auto simp: get_stm_name_def)
    then show ?thesis using False Cons.prems by (auto simp: stm_names_fold g_strjoinv_concat)
  qed
qed

text \<open>
  C24: the list of STM names in a request is the names of the STMs, or of those enabled for an API
  module, joined by commas, when no name is empty.
\<close>
theorem stm_names_joined:
  assumes "\<forall>stm \<in> set (ght_values (stm_hash w)). stm_label stm \<noteq> []"
  shows "keyagent_stm_get_names w = g_strjoinv '','' (map stm_label (ght_values (stm_hash w))) \<and>
    keyagent_stm_get_apimodule_enabled_names w =
      g_strjoinv '','' (map stm_label (filter stm_apimodule (ght_values (stm_hash w))))"
  using stm_names_join[OF assms, of False] stm_names_join[OF assms, of True]
  by (simp add: keyagent_stm_get_names_def keyagent_stm_get_apimodule_enabled_names_def)

end
