(* ===== verification/Session_Create.thy ===== *)
theory Session_Create
  imports Stm_Manager
begin

text \<open>
  \<open>keyagent_session_create\<close> of \<open>key-agent/src/session.cpp\<close>: the key server has opened a
  session; it replaces the session its STM had, is entered into the table, cached, and handed
  to the STM with its wrapping key.
\<close>

section \<open>Removing a session from the table\<close>

definition keyagent_session_hash_value_free :: "'x ka_env \<Rightarrow> nat \<Rightarrow> 'x world \<Rightarrow> 'x world option" where
  "keyagent_session_hash_value_free E p w = keyagent_key_remove_by_session E p w"

definition session_hash_remove :: "'x ka_env \<Rightarrow> quark \<Rightarrow> 'x world \<Rightarrow> 'x world option" where
  "session_hash_remove E q w = (case ght_lookup (session_hash w) q of
      None \<Rightarrow> Some w
    | Some p \<Rightarrow> keyagent_session_hash_value_free E p (w\<lparr>session_hash := ght_remove q (session_hash w)\<rparr>))"

section \<open>Creating a session\<close>

text \<open>The STM's session is dropped from the table unless it has the new id.\<close>

definition session_evict :: "'x ka_env \<Rightarrow> keyagent_stm_real \<Rightarrow> string \<Rightarrow> 'x world \<Rightarrow> 'x world option" where
  "session_evict E stm session_id w = (case stm_session stm of
      None \<Rightarrow> Some w
    | Some cur \<Rightarrow> do {
        s \<leftarrow> sess_at w cur;
        if g_quark_from_string (ses_session_id s) \<noteq> g_quark_from_string session_id
        then session_hash_remove E (g_quark_from_string (ses_session_id s)) w else Some w })"

text \<open>
  The session found before, with its wrapping key brought up to date; or a new one, in the table.
\<close>

definition session_enter ::
    "string \<Rightarrow> string \<Rightarrow> bytes \<Rightarrow> string \<Rightarrow> gint \<Rightarrow> nat option \<Rightarrow> 'x world \<Rightarrow> (nat \<times> 'x world) option" where
  "session_enter label session_id swk swk_type cache_id session w = (case session of
      Some p \<Rightarrow> do {
        s \<leftarrow> sess_at w p;
        Some (p, if ses_swk s \<noteq> swk then sess_upd p (s\<lparr>ses_swk := swk\<rparr>) w else w) }
    | None \<Rightarrow>
        (let (p, w1) = sess_alloc \<lparr>ses_swk = swk, ses_name = label, ses_session_id = session_id,
                                   ses_swk_type = swk_type, ses_cache_id = cache_id\<rparr> w
         in Some (p, w1\<lparr>session_hash := ght_insert (g_quark_from_string session_id) p (session_hash w1)\<rparr>)))"

text \<open>The label \<open>out\<close>; the result of caching is ignored.\<close>

definition session_out ::
    "'x ka_env \<Rightarrow> string \<Rightarrow> nat \<Rightarrow> gint \<Rightarrow> gerr \<Rightarrow> 'x world \<Rightarrow> (bool \<times> gerr \<times> 'x world) option" where
  "session_out E request_id p cache_id err w = do {
     (_, err1, w1) \<leftarrow> (if cache_id = - 1 then cache_session E p err w else Some (True, err, w));
     keyagent_stm_set_session E request_id (Some p) err1 w1 }"

definition keyagent_session_create_with_cacheid ::
    "'x ka_env \<Rightarrow> string \<Rightarrow> string \<Rightarrow> string \<Rightarrow> bytes \<Rightarrow> string \<Rightarrow> gint \<Rightarrow> gerr \<Rightarrow> 'x world \<Rightarrow>
     (bool \<times> gerr \<times> 'x world) option" where
  "keyagent_session_create_with_cacheid E request_id label session_id swk swk_type cache_id err w =
     (let session = keyagent_session_lookup w session_id in
      if keyagent_session_lookup_swktype w swk_type = None
      then Some (False, k_set_error err KEYAGENT_ERROR_SESSION_CREATE_INVALID_SWK_TYPE, w)
      else case ght_lookup (stm_hash w) (g_quark_from_string label) of
        None \<Rightarrow> Some (False, k_set_error err KEYAGENT_ERROR_SESSION_CREATE_INVALID_LABEL, w)
      | Some stm \<Rightarrow> do {
          w1 \<leftarrow> session_evict E stm session_id w;
          (p, w2) \<leftarrow> session_enter label session_id swk swk_type cache_id session w1;
          session_out E request_id p cache_id err w2 })"

definition keyagent_session_create ::
    "'x ka_env \<Rightarrow> string \<Rightarrow> string \<Rightarrow> string \<Rightarrow> bytes \<Rightarrow> string \<Rightarrow> gerr \<Rightarrow> 'x world \<Rightarrow>
     (bool \<times> gerr \<times> 'x world) option" where
  "keyagent_session_create E request_id label session_id swk swk_type err w =
     keyagent_session_create_with_cacheid E request_id label session_id swk swk_type (- 1) err w"

section \<open>What it does to the tables\<close>

lemma keys_ok_session_hash [simp]: "keys_ok (w\<lparr>session_hash := h\<rparr>) = keys_ok w"
  by (simp add: keys_ok_def key_ok_def)

lemma stms_ok_session_hash [simp]: "stms_ok (w\<lparr>session_hash := h\<rparr>) = stms_ok w"
  by (simp add: stms_ok_def)

lemma session_hash_remove_eval:
  assumes "keys_ok w"
  shows "session_hash_remove E q w = Some (w\<lparr>session_hash :=
    (if ght_lookup (session_hash w) q = None then session_hash w else ght_remove q (session_hash w))\<rparr>)"
  using assms by (auto simp: session_hash_remove_def keyagent_session_hash_value_free_def
      key_remove_by_session_noop split: option.splits)

text \<open>
  The sessions that stay on offer when the STM \<open>stm\<close> gets the session \<open>sid\<close>.
\<close>

definition evict_quark :: "'x world \<Rightarrow> keyagent_stm_real \<Rightarrow> string \<Rightarrow> quark \<Rightarrow> bool" where
  "evict_quark w stm sid q \<longleftrightarrow> (\<exists>cur s. stm_session stm = Some cur \<and> sess_at w cur = Some s \<and>
     ses_session_id s \<noteq> sid \<and> q = g_quark_from_string (ses_session_id s))"

lemma session_evict_spec:
  assumes ok: "agent_ok w" and run: "session_evict E stm sid w = Some w1"
  shows "\<exists>h. w1 = w\<lparr>session_hash := h\<rparr> \<and> ght_wf h \<and>
    (\<forall>q. ght_lookup h q = (if evict_quark w stm sid q then None else ght_lookup (session_hash w) q))"
proof -
  have wf: "ght_wf (session_hash w)" and ko: "keys_ok w" using ok by (simp_all add: agent_ok_def sess_ok_def)
  show ?thesis
  proof (cases "\<exists>cur s. stm_session stm = Some cur \<and> sess_at w cur = Some s \<and> ses_session_id s \<noteq> sid")
    case False
    have "w1 = w"
    proof (cases "stm_session stm")
      case None
      then show ?thesis using run by (simp add: session_evict_def)
    next
      case (Some cur)
      with run obtain s where s: "sess_at w cur = Some s" by (auto simp: session_evict_def bind_eq_Some_conv)
      with False Some have "ses_session_id s = sid" by blast
      then show ?thesis using run Some s by (simp add: session_evict_def)
    qed
    then show ?thesis using wf False by (intro exI[of _ "session_hash w"]) (auto simp: evict_quark_def)
  next
    case True
    then obtain cur s where gone: "stm_session stm = Some cur" "sess_at w cur = Some s" "ses_session_id s \<noteq> sid"
      by blast
    let ?q = "g_quark_from_string (ses_session_id s)"
    let ?h = "if ght_lookup (session_hash w) ?q = None then session_hash w else ght_remove ?q (session_hash w)"
    have "w1 = w\<lparr>session_hash := ?h\<rparr>"
      using run gone session_hash_remove_eval[OF ko] by (simp add: session_evict_def)
    moreover have "ght_wf ?h" using wf by simp
    moreover have "evict_quark w stm sid q \<longleftrightarrow> q = ?q" for q
      using gone(1-3) by (auto simp: evict_quark_def)
    ultimately show ?thesis using wf by (intro exI[of _ ?h]) auto
  qed
qed

lemma agent_ok_session_hash:
  assumes "agent_ok w" and "ght_wf h"
    and "\<And>q p. ght_lookup h q = Some p \<Longrightarrow> \<exists>s. sess_at w p = Some s \<and> q = g_quark_from_string (ses_session_id s)"
  shows "agent_ok (w\<lparr>session_hash := h\<rparr>)"
  using assms by (simp add: agent_ok_def sess_ok_def)

lemma agent_step_session_hash: "agent_step w (w\<lparr>session_hash := h\<rparr>)"
  by (simp add: agent_step_def stms_kept_def requests_kept_def rel_option_refl' sessions_kept_def keys_kept_cong)

lemma sess_names_sess_upd:
  "sess_at w p = Some s \<Longrightarrow> ses_name s' = ses_name s \<Longrightarrow> ses_session_id s' = ses_session_id s \<Longrightarrow>
     ses_swk_type s' = ses_swk_type s \<Longrightarrow> sess_names (sess_upd p s' w) = sess_names w"
  by (auto simp: sess_names_def sess_upd_def sess_at_def map_update split: if_splits
      intro!: nth_equalityI simp: nth_list_update)

lemma sess_upd_frame [simp]:
  "statics (sess_upd p s w) = statics w" "session_hash (sess_upd p s w) = session_hash w"
  "stm_hash (sess_upd p s w) = stm_hash w" "key_hash (sess_upd p s w) = key_hash w"
  "apimodule_loadkey_hash (sess_upd p s w) = apimodule_loadkey_hash w" "am (sess_upd p s w) = am w"
  "apimodule_ops (sess_upd p s w) = apimodule_ops w"
  "length (sess_mem (sess_upd p s w)) = length (sess_mem w)"
  by (simp_all add: sess_upd_def)

text \<open>Entering the session: the table has it under its id, with the wrapping key given.\<close>

definition entered ::
    "'x world \<Rightarrow> string \<Rightarrow> string \<Rightarrow> bytes \<Rightarrow> nat option \<Rightarrow> nat \<Rightarrow> 'x world \<Rightarrow> bool" where
  "entered w label sid key session p w2 \<longleftrightarrow>
     (\<exists>s. sess_at w2 p = Some s \<and> ses_swk s = key \<and> ses_session_id s = sid \<and> (session = None \<longrightarrow> ses_name s = label)) \<and>
     (\<forall>q. ght_lookup (session_hash w2) q = (if q = Some sid then Some p else ght_lookup (session_hash w) q)) \<and>
     (\<forall>p'<length (sess_mem w). sess_names w2 ! p' = sess_names w ! p') \<and>
     (\<forall>p0. session = Some p0 \<longrightarrow> p0 = p \<and> p < length (sess_mem w)) \<and>
     stm_hash w2 = stm_hash w \<and> apimodule_loadkey_hash w2 = apimodule_loadkey_hash w \<and>
     key_hash w2 = key_hash w \<and> am w2 = am w"

lemma session_enter_found:
  assumes ok: "agent_ok w" and ses: "keyagent_session_lookup w sid = Some p1"
    and run: "session_enter label sid key ty cid (Some p1) w = Some (p, w2)"
  shows "agent_step w w2 \<and> agent_ok w2 \<and> entered w label sid key (Some p1) p w2"
proof -
  have so: "sess_ok w" using ok by (simp add: agent_ok_def)
  obtain s where s: "sess_at w p1 = Some s" and id: "ses_session_id s = sid"
    using sess_ok_lookup[OF so, of sid p1] ses by auto
  have p: "p1 = p" and w2: "w2 = (if ses_swk s \<noteq> key then sess_upd p (s\<lparr>ses_swk := key\<rparr>) w else w)"
    using run s by (auto simp: session_enter_def)
  have h: "ght_lookup (session_hash w) (Some sid) = Some p"
    using ses p by (simp add: keyagent_session_lookup_def g_quark_from_string_def)
  have lt: "p < length (sess_mem w)" using s p sess_at_lt by blast
  have names: "sess_names w2 = sess_names w"
    using sess_names_sess_upd[of w p s "s\<lparr>ses_swk := key\<rparr>"] s p by (simp add: w2)
  have f: "statics w2 = statics w" "session_hash w2 = session_hash w" "stm_hash w2 = stm_hash w"
    "key_hash w2 = key_hash w" "apimodule_loadkey_hash w2 = apimodule_loadkey_hash w" "am w2 = am w"
    "length (sess_mem w2) = length (sess_mem w)"
    by (simp_all add: w2)
  have "agent_ok w2" using ok f sess_ok_cong[OF f(2) names] keys_ok_cong[OF f(4)] staticsD(1)[OF f(1)]
    by (simp add: agent_ok_def stms_ok_def)
  moreover have "agent_step w w2" using f names
    by (simp add: agent_step_def stms_kept_def requests_kept_def rel_option_refl' sessions_kept_def keys_kept_cong)
  moreover have "\<exists>s. sess_at w2 p = Some s \<and> ses_swk s = key \<and> ses_session_id s = sid"
    using s id p lt by (auto simp: w2 sess_at_upd)
  ultimately show ?thesis using f names h p lt by (auto simp: entered_def)
qed

lemma session_enter_fresh:
  assumes ok: "agent_ok w"
    and run: "session_enter label sid key ty cid None w = Some (p, w2)"
  shows "agent_step w w2 \<and> agent_ok w2 \<and> entered w label sid key None p w2"
proof -
  define s where "s = \<lparr>ses_swk = key, ses_name = label, ses_session_id = sid, ses_swk_type = ty, ses_cache_id = cid\<rparr>"
  have p: "p = length (sess_mem w)"
    and w2: "w2 = w\<lparr>sess_mem := sess_mem w @ [s], session_hash := ght_insert (Some sid) p (session_hash w)\<rparr>"
    using run by (auto simp: session_enter_def sess_alloc_def s_def g_quark_from_string_def)
  have so: "sess_ok w" using ok by (simp add: agent_ok_def)
  have old: "sess_at w p1 = Some s1 \<Longrightarrow> sess_at w2 p1 = Some s1" for p1 s1
    by (auto simp: sess_at_def w2 nth_append split: if_splits)
  have new: "sess_at w2 p = Some s" by (simp add: sess_at_def w2 p)
  have "sess_ok w2" unfolding sess_ok_def
  proof (intro conjI allI impI)
    show "ght_wf (session_hash w2)" using so by (simp add: w2 sess_ok_def)
    fix q p1 assume "ght_lookup (session_hash w2) q = Some p1"
    then have "(if q = Some sid then Some p else ght_lookup (session_hash w) q) = Some p1"
      unfolding w2 by simp
    then consider "q = Some sid" "p1 = p" | "ght_lookup (session_hash w) q = Some p1"
      by (cases "q = Some sid") simp_all
    then show "\<exists>s. sess_at w2 p1 = Some s \<and> q = g_quark_from_string (ses_session_id s)"
    proof cases
      case 1
      then show ?thesis using new by (simp add: s_def g_quark_from_string_def)
    next
      case 2
      then obtain s1 where "sess_at w p1 = Some s1" "q = g_quark_from_string (ses_session_id s1)"
        using so unfolding sess_ok_def by blast
      then show ?thesis using old by blast
    qed
  qed
  moreover have "stms_ok w2" using ok by (fastforce simp: agent_ok_def stms_ok_def w2)
  moreover have "keys_ok w2" using ok keys_ok_cong[of w2 w] by (simp add: agent_ok_def w2)
  ultimately have "agent_ok w2" using ok by (simp add: agent_ok_def w2)
  moreover have "agent_step w w2"
    by (simp add: agent_step_def stms_kept_def requests_kept_def rel_option_refl' sessions_kept_def keys_kept_cong
        w2 statics_def sess_names_def)
  moreover have "entered w label sid key None p w2"
    using new by (simp add: entered_def s_def) (simp add: w2 sess_names_def nth_append)
  ultimately show ?thesis by blast
qed

lemma session_enter_spec:
  assumes ok: "agent_ok w" and ses: "session = keyagent_session_lookup w sid"
    and run: "session_enter label sid key ty cid session w = Some (p, w2)"
  shows "agent_step w w2 \<and> agent_ok w2 \<and> entered w label sid key session p w2"
proof (cases session)
  case None
  then show ?thesis using session_enter_fresh[OF ok] run by blast
next
  case (Some p1)
  then show ?thesis using session_enter_found[OF ok] ses run by metis
qed

lemma cache_step_sess_at:
  assumes "cache_step w w'" and "sess_at w p = Some s"
  shows "\<exists>i. sess_at w' p = Some (s\<lparr>ses_cache_id := i\<rparr>)"
proof -
  have u: "uncached w' = uncached w" using assms(1) by (simp add: cache_step_def)
  then have len: "length (sess_mem w') = length (sess_mem w)" by (rule length_uncached)
  have p: "p < length (sess_mem w)" "s = sess_mem w ! p" using assms(2) by (auto simp: sess_at_def split: if_splits)
  let ?s = "sess_mem w' ! p"
  have "uncached w' ! p = uncached w ! p" using u by simp
  then have "?s\<lparr>ses_cache_id := 0\<rparr> = s\<lparr>ses_cache_id := 0\<rparr>" using p len by (simp add: uncached_def)
  then have "?s = s\<lparr>ses_cache_id := ses_cache_id ?s\<rparr>"
    by (cases "?s"; cases s) simp
  then show ?thesis using p len by (auto simp: sess_at_def)
qed

text \<open>Whatever the cache does, the session is handed to the STM as it was entered.\<close>

lemma session_out_parts:
  assumes ok: "agent_ok w" and s: "sess_at w p = Some s" and run: "session_out E rid p cid err w = Some (r, err', w')"
  obtains err1 w1 i where "cache_step w w1" "agent_ok w1" "sess_at w1 p = Some (s\<lparr>ses_cache_id := i\<rparr>)"
    "keyagent_stm_set_session E rid (Some p) err1 w1 = Some (r, err', w')"
proof -
  from run obtain r1 err1 w1 where
    c: "(if cid = - 1 then cache_session E p err w else Some (True, err, w)) = Some (r1, err1, w1)"
    and st: "keyagent_stm_set_session E rid (Some p) err1 w1 = Some (r, err', w')"
    by (auto simp: session_out_def bind_eq_Some_conv)
  have cs: "cache_step w w1" using c cache_session_step by (fastforce split: if_splits)
  obtain i where "sess_at w1 p = Some (s\<lparr>ses_cache_id := i\<rparr>)" using cache_step_sess_at[OF cs s] by blast
  then show ?thesis using that cs agent_ok_cache_step[OF ok cs] st by blast
qed

context stm_modules begin

lemma session_out_spec:
  assumes ok: "agent_ok w" and s: "sess_at w p = Some s"
    and run: "session_out E rid p cid err w = Some (r, err', w')"
  shows "agent_step w w' \<and> agent_ok w' \<and> (\<not> r \<longrightarrow> err' \<noteq> None) \<and> session_hash w' = session_hash w \<and>
    sess_names w' = sess_names w \<and> (\<exists>i. sess_at w' p = Some (s\<lparr>ses_cache_id := i\<rparr>)) \<and>
    (if keyagent_stm_get_by_name w (ses_name s) = None \<or> ght_lookup (apimodule_loadkey_hash w) rid = None
     then \<not> r \<and> stm_hash w' = stm_hash w
     else \<forall>q. ght_lookup (stm_hash w') q =
       (if q = Some (ses_name s) then map_option (stm_session_update (\<lambda>_. Some p)) (ght_lookup (stm_hash w) q)
        else ght_lookup (stm_hash w) q))"
proof -
  obtain err1 w1 i where cs: "cache_step w w1" and ok1: "agent_ok w1" and s1: "sess_at w1 p = Some (s\<lparr>ses_cache_id := i\<rparr>)"
    and st: "keyagent_stm_set_session E rid (Some p) err1 w1 = Some (r, err', w')"
    using run by (rule session_out_parts[OF ok s])
  have f: "session_hash w1 = session_hash w" "stm_hash w1 = stm_hash w"
    "apimodule_loadkey_hash w1 = apimodule_loadkey_hash w" "sess_names w1 = sess_names w"
    using cs tablesD[of w1 w] uncached_names[of w1 w] by (simp_all add: cache_step_def)
  note g = stm_set_session_step[OF ok1 s1 st] and res = stm_set_session_result[OF ok1 s1 st]
  have names: "sess_names w' = sess_names w" using g(4) f(4) by (simp add: sess_names_def)
  have step: "agent_step w w'" using agent_step_trans[OF agent_step_cache[OF cs] g(1)] .
  have s': "sess_at w' p = Some (s\<lparr>ses_cache_id := i\<rparr>)" using s1 sess_at_cong[OF g(4)] by simp
  have err: "\<not> r \<longrightarrow> err' \<noteq> None" using g(5) by (cases r) auto
  have tab: "if keyagent_stm_get_by_name w (ses_name s) = None \<or> ght_lookup (apimodule_loadkey_hash w) rid = None
     then \<not> r \<and> stm_hash w' = stm_hash w
     else \<forall>q. ght_lookup (stm_hash w') q =
       (if q = Some (ses_name s) then map_option (stm_session_update (\<lambda>_. Some p)) (ght_lookup (stm_hash w) q)
        else ght_lookup (stm_hash w) q)"
    using res f by (auto simp: keyagent_stm_get_by_name_def g_quark_from_string_def)
  show ?thesis using g(2,3) f(1) names step s' err tab by auto
qed

text \<open>
  Creating a session: the invariant stays, a failure leaves an error, and after a success the
  session is the one on offer under its id, with the key given, and is its STM's session.
\<close>

lemma session_create_parts:
  assumes run: "keyagent_session_create_with_cacheid E rid label sid key ty cid err w = Some (r, err', w')"
  obtains (rejected) "w' = w" "\<not> r" "err' \<noteq> None"
  | (entered) stm w1 p w2 where "ght_lookup (stm_hash w) (Some label) = Some stm"
      "session_evict E stm sid w = Some w1"
      "session_enter label sid key ty cid (keyagent_session_lookup w sid) w1 = Some (p, w2)"
      "session_out E rid p cid err w2 = Some (r, err', w')"
proof (cases "keyagent_session_lookup_swktype w ty = None \<or> ght_lookup (stm_hash w) (Some label) = None")
  case True
  then show ?thesis using run rejected
    by (auto simp: keyagent_session_create_with_cacheid_def Let_def g_quark_from_string_def split: branch_splits)
next
  case False
  then obtain stm where "ght_lookup (stm_hash w) (Some label) = Some stm" by auto
  then show ?thesis using run False entered
    by (auto simp: keyagent_session_create_with_cacheid_def Let_def g_quark_from_string_def bind_eq_Some_conv)
qed

end

lemma evict_keeps_session:
  assumes "agent_ok w" and "session_evict E stm sid w = Some w1"
  shows "keyagent_session_lookup w1 sid = keyagent_session_lookup w sid"
proof -
  from session_evict_spec[OF assms] obtain h where h: "w1 = w\<lparr>session_hash := h\<rparr>"
    "\<And>q. ght_lookup h q = (if evict_quark w stm sid q then None else ght_lookup (session_hash w) q)" by blast
  have "\<not> evict_quark w stm sid (g_quark_from_string sid)" by (auto simp: evict_quark_def)
  then show ?thesis using h by (simp add: keyagent_session_lookup_def)
qed

lemma evict_step:
  assumes ok: "agent_ok w" and run: "session_evict E stm sid w = Some w1"
  shows "agent_step w w1 \<and> agent_ok w1"
proof -
  from session_evict_spec[OF assms] obtain h where h: "w1 = w\<lparr>session_hash := h\<rparr>" "ght_wf h"
    "\<And>q. ght_lookup h q = (if evict_quark w stm sid q then None else ght_lookup (session_hash w) q)" by blast
  have "agent_ok w1" unfolding h(1)
  proof (rule agent_ok_session_hash[OF ok h(2)])
    fix q p assume "ght_lookup h q = Some p"
    then have "ght_lookup (session_hash w) q = Some p" by (simp add: h(3) split: if_splits)
    then show "\<exists>s. sess_at w p = Some s \<and> q = g_quark_from_string (ses_session_id s)"
      using ok unfolding agent_ok_def sess_ok_def by blast
  qed
  then show ?thesis using agent_step_session_hash h(1) by blast
qed

context stm_modules begin

lemma session_create_spec:
  assumes ok: "agent_ok w"
    and run: "keyagent_session_create_with_cacheid E rid label sid key ty cid err w = Some (r, err', w')"
  shows "agent_step w w' \<and> agent_ok w' \<and> (\<not> r \<longrightarrow> err' \<noteq> None) \<and>
    (r \<longrightarrow> (\<exists>p s stm. keyagent_session_lookup w' sid = Some p \<and> sess_at w' p = Some s \<and> ses_swk s = key \<and>
       ses_session_id s = sid \<and> keyagent_stm_get_by_name w' (ses_name s) = Some stm \<and> stm_session stm = Some p))"
  using run
proof (cases rule: session_create_parts)
  case rejected
  then show ?thesis using ok by simp
next
  case (entered stm w1 p w2)
  note ev = evict_step[OF ok entered(2)]
  have en: "agent_step w1 w2 \<and> agent_ok w2 \<and>
      Session_Create.entered w1 label sid key (keyagent_session_lookup w sid) p w2"
    by (rule session_enter_spec[OF _ _ entered(3)]) (use ev evict_keeps_session[OF ok entered(2)] in simp_all)
  then obtain s where s: "sess_at w2 p = Some s" "ses_swk s = key" "ses_session_id s = sid"
    and h2: "ght_lookup (session_hash w2) (Some sid) = Some p"
    unfolding entered_def by auto
  have ok2: "agent_ok w2" using en by blast
  note out = session_out_spec[OF ok2 s(1) entered(4)]
  have step: "agent_step w w'" using ev en out by (blast intro: agent_step_trans)
  have "\<exists>p s stm. keyagent_session_lookup w' sid = Some p \<and> sess_at w' p = Some s \<and> ses_swk s = key \<and>
       ses_session_id s = sid \<and> keyagent_stm_get_by_name w' (ses_name s) = Some stm \<and> stm_session stm = Some p" if r
  proof -
    obtain i where s': "sess_at w' p = Some (s\<lparr>ses_cache_id := i\<rparr>)" using out by blast
    from out that obtain stm0 where "ght_lookup (stm_hash w2) (Some (ses_name s)) = Some stm0"
      "ght_lookup (stm_hash w') (Some (ses_name s)) = Some (stm0\<lparr>stm_session := Some p\<rparr>)"
      by (auto simp: keyagent_stm_get_by_name_def g_quark_from_string_def split: if_splits)
    then show ?thesis using s' s h2 out
      by (auto simp: keyagent_session_lookup_def keyagent_stm_get_by_name_def g_quark_from_string_def)
  qed
  then show ?thesis using step out by blast
qed

end

text \<open>The STM a session created under \<open>sid\<close> goes to, and the session it displaces there.\<close>

definition target_stm :: "'x world \<Rightarrow> keyagent_stm_real \<Rightarrow> string \<Rightarrow> string \<Rightarrow> keyagent_stm_real \<Rightarrow> bool" where
  "target_stm w stm sid nm stm0 \<longleftrightarrow> ght_lookup (stm_hash w) (Some nm) = Some stm0 \<and>
     (case keyagent_session_lookup w sid of None \<Rightarrow> stm0 = stm | Some p \<Rightarrow> stm_session stm0 = Some p)"

lemma other_session_other_stm:
  assumes ok: "agent_ok w" and one: "single_ok w" and target: "target_stm w stm sid nm stm0"
    and hq: "ght_lookup (session_hash w) q = Some p'" and s0: "sess_at w p' = Some s0"
    and q: "q \<noteq> Some sid" "\<not> evict_quark w stm sid q"
  shows "ses_name s0 \<noteq> nm"
proof
  assume eq: "ses_name s0 = nm"
  have so: "sess_ok w" using ok by (simp add: agent_ok_def)
  have "\<exists>s. sess_at w p' = Some s \<and> q = g_quark_from_string (ses_session_id s)" using so hq unfolding sess_ok_def by blast
  then have id: "q = Some (ses_session_id s0)" using s0 by (simp add: g_quark_from_string_def)
  obtain stm1 where "ght_lookup (stm_hash w) (Some (ses_name s0)) = Some stm1" "stm_session stm1 = Some p'"
    using one hq s0 unfolding single_ok_def g_quark_from_string_def by metis
  then have cur: "stm_session stm0 = Some p'" using target eq by (simp add: target_stm_def)
  show False
  proof (cases "keyagent_session_lookup w sid")
    case None
    then show False using target cur q id s0 by (auto simp: target_stm_def evict_quark_def g_quark_from_string_def)
  next
    case (Some p0)
    then have "keyagent_session_lookup w sid = Some p'" using target cur by (simp add: target_stm_def)
    then obtain s1 where "sess_at w p' = Some s1" "ses_session_id s1 = sid" using sess_ok_lookup[OF so] by blast
    then show False using s0 id q(1) by simp
  qed
qed

text \<open>Entering keeps the names of the sessions there were; one found again keeps its own.\<close>

lemma entered_names:
  assumes "entered w1 label sid key session p w2" and "sess_mem w1 = sess_mem w" and "sess_names w' = sess_names w2"
    and "p1 < length (sess_mem w)" and "sess_at w' p1 = Some s2"
  shows "\<exists>s1. sess_at w p1 = Some s1 \<and> ses_name s1 = ses_name s2 \<and> ses_session_id s1 = ses_session_id s2"
proof -
  have "sess_names w' ! p1 = (ses_name s2, ses_session_id s2, ses_swk_type s2)" using assms(5) by (rule sess_names_at)
  moreover have "sess_names w2 ! p1 = sess_names w ! p1"
    using assms(1,2,4) unfolding entered_def by (simp add: sess_names_def)
  ultimately show ?thesis using assms(3,4) sess_names_at[of w p1] by (auto simp: sess_at_def)
qed

lemma entered_target:
  assumes ok: "agent_ok w" and one: "single_ok w" and label: "ght_lookup (stm_hash w) (Some label) = Some stm"
    and en: "entered w1 label sid key (keyagent_session_lookup w sid) p w2" and mem: "sess_mem w1 = sess_mem w"
    and s: "sess_at w2 p = Some s"
  shows "\<exists>stm0. target_stm w stm sid (ses_name s) stm0"
proof (cases "keyagent_session_lookup w sid")
  case None
  then show ?thesis using en s label by (auto simp: entered_def target_stm_def)
next
  case (Some p0)
  then have p0: "p0 = p" "p < length (sess_mem w)" using en mem unfolding entered_def by auto
  obtain s1 where s1: "sess_at w p = Some s1" "ses_name s1 = ses_name s" using entered_names[OF en mem refl p0(2) s] by blast
  have "ght_lookup (session_hash w) (g_quark_from_string sid) = Some p"
    using Some p0 by (simp add: keyagent_session_lookup_def)
  with one s1(1) obtain stm0 where "ght_lookup (stm_hash w) (g_quark_from_string (ses_name s1)) = Some stm0"
    "stm_session stm0 = Some p" unfolding single_ok_def by blast
  then show ?thesis using s1 Some p0 by (auto simp: target_stm_def g_quark_from_string_def)
qed

context stm_modules begin

text \<open>
  With the request known, creating a session leaves at most one session per STM on offer.
\<close>

lemma session_create_single:
  assumes ok: "agent_ok w" and one: "single_ok w"
    and rq: "ght_lookup (apimodule_loadkey_hash w) rid \<noteq> None"
    and run: "keyagent_session_create_with_cacheid E rid label sid key ty cid err w = Some (r, err', w')"
  shows "single_ok w'"
  using run
proof (cases rule: session_create_parts)
  case rejected
  then show ?thesis using one by simp
next
  case (entered stm w1 p w2)
  from session_evict_spec[OF ok entered(2)] obtain h where w1: "w1 = w\<lparr>session_hash := h\<rparr>"
    and h: "\<And>q. ght_lookup h q = (if evict_quark w stm sid q then None else ght_lookup (session_hash w) q)" by blast
  have en: "agent_ok w2" "Session_Create.entered w1 label sid key (keyagent_session_lookup w sid) p w2"
    using session_enter_spec[OF _ _ entered(3)] evict_step[OF ok entered(2)] evict_keeps_session[OF ok entered(2)] by simp_all
  have mem: "sess_mem w1 = sess_mem w" by (simp add: w1)
  obtain s where s: "sess_at w2 p = Some s" using en(2) unfolding entered_def by blast
  note out = session_out_spec[OF en(1) s entered(4)]
  obtain stm0 where target: "target_stm w stm sid (ses_name s) stm0"
    using entered_target[OF ok one entered(1) en(2) mem s] by blast
  have e2: "ght_lookup (session_hash w') q = (if q = Some sid then Some p else ght_lookup h q)"
    "stm_hash w2 = stm_hash w" "apimodule_loadkey_hash w2 = apimodule_loadkey_hash w" for q
    using en(2) out by (auto simp: entered_def w1)
  have tab: "ght_lookup (stm_hash w') q =
       (if q = Some (ses_name s) then map_option (stm_session_update (\<lambda>_. Some p)) (ght_lookup (stm_hash w) q)
        else ght_lookup (stm_hash w) q)" for q
    using out target rq e2(2,3) by (auto simp: keyagent_stm_get_by_name_def g_quark_from_string_def target_stm_def)
  show ?thesis unfolding single_ok_def
  proof (intro allI impI)
    fix q p' s' assume q: "ght_lookup (session_hash w') q = Some p'" and s': "sess_at w' p' = Some s'"
    show "\<exists>stm. ght_lookup (stm_hash w') (g_quark_from_string (ses_name s')) = Some stm \<and> stm_session stm = Some p'"
    proof (cases "q = Some sid")
      case True
      then have "p' = p" "ses_name s' = ses_name s" using q e2(1) s' out by auto
      then show ?thesis using tab target by (simp add: g_quark_from_string_def target_stm_def)
    next
      case False
      then have hq: "ght_lookup (session_hash w) q = Some p'" "\<not> evict_quark w stm sid q"
        using q e2(1) h by (auto split: if_splits)
      then obtain s0 where s0: "sess_at w p' = Some s0" using ok unfolding agent_ok_def sess_ok_def by blast
      have nm: "ses_name s0 = ses_name s'"
        using entered_names[OF en(2) mem _ sess_at_lt[OF s0] s'] out s0 by auto
      have "ses_name s' \<noteq> ses_name s"
        using other_session_other_stm[OF ok one target hq(1) s0 False hq(2)] nm by simp
      moreover obtain stm1 where "ght_lookup (stm_hash w) (g_quark_from_string (ses_name s')) = Some stm1"
        "stm_session stm1 = Some p'" using one hq(1) s0 nm unfolding single_ok_def by metis
      ultimately show ?thesis using tab by (simp add: g_quark_from_string_def)
    qed
  qed
qed

end

end
