(* ===== verification/Npm_Interface.thy ===== *)
theory Npm_Interface
  imports Session_Create
begin

text \<open>
  The interface between the key agent and its network plug-ins (NPM): the callbacks and details
  of \<open>key-agent/types.h\<close>, and what a plug-in may rely on when it calls back.
\<close>

record 'x npm_callbacks =
  cb_stm_set_session :: "string \<Rightarrow> nat option \<Rightarrow> gerr \<Rightarrow> 'x world \<Rightarrow> (bool \<times> gerr \<times> 'x world) option"
  cb_stm_get_challenge :: "string option \<Rightarrow> bytes \<Rightarrow> string option \<Rightarrow> gerr \<Rightarrow> 'x world \<Rightarrow>
    (bool \<times> bytes option \<times> gerr \<times> 'x world) option"
  cb_session_get_ids :: "'x world \<Rightarrow> string option option"
  cb_session_create :: "string \<Rightarrow> string \<Rightarrow> string \<Rightarrow> bytes \<Rightarrow> string \<Rightarrow> gerr \<Rightarrow> 'x world \<Rightarrow>
    (bool \<times> gerr \<times> 'x world) option"
  cb_session_lookup_swktype :: "'x world \<Rightarrow> string \<Rightarrow> quark"
  cb_key_create :: "string \<Rightarrow> keyagent_keytype \<Rightarrow> (string, bytes) ghash option \<Rightarrow> string option \<Rightarrow>
    gerr \<Rightarrow> 'x world \<Rightarrow> (quark \<times> gerr \<times> 'x world) option"

record 'x keyagent_keyload_details =
  kl_request_id :: string
  kl_url :: string
  kl_stm_names :: string
  kl_ssl_opts :: keyagent_ssl_opts
  kl_cbs :: "'x npm_callbacks"

text \<open>\<open>LOOKUP_KEYAGENT_INTERNAL_NPM_OPS\<close>.\<close>

definition internal_npm_ops :: "'x ka_env \<Rightarrow> 'x npm_callbacks" where
  "internal_npm_ops E =
     \<lparr>cb_stm_set_session = keyagent_stm_set_session E, cb_stm_get_challenge = keyagent_stm_get_challenge E,
      cb_session_get_ids = keyagent_session_get_ids, cb_session_create = keyagent_session_create E,
      cb_session_lookup_swktype = keyagent_session_lookup_swktype, cb_key_create = keyagent_key_create E\<rparr>"

section \<open>What a plug-in may rely on\<close>

text \<open>
  During a load the agent is in a good state and knows the request; each callback keeps this
  and is a step of the agent.
\<close>

definition loading_ok :: "string \<Rightarrow> 'x world \<Rightarrow> bool" where
  "loading_ok rid w \<longleftrightarrow> agent_ok w \<and> single_ok w \<and> ght_lookup (apimodule_loadkey_hash w) rid \<noteq> None"

definition load_step :: "string \<Rightarrow> 'x world \<Rightarrow> 'x world \<Rightarrow> bool" where
  "load_step rid w w' \<longleftrightarrow> agent_step w w' \<and> (loading_ok rid w \<longrightarrow> loading_ok rid w')"

lemma load_step_refl [simp, intro!]: "load_step rid w w"
  by (simp add: load_step_def)

lemma load_step_trans [trans]: "load_step rid u v \<Longrightarrow> load_step rid v w \<Longrightarrow> load_step rid u w"
  by (auto simp: load_step_def intro: agent_step_trans)

lemma load_step_ok: "load_step rid w w' \<Longrightarrow> loading_ok rid w \<Longrightarrow> loading_ok rid w'"
  by (simp add: load_step_def)

lemma load_stepI:
  assumes "agent_step w w'" and "agent_ok w'" and "single_ok w'"
  shows "load_step rid w w'"
  using assms agent_step_requestD[OF assms(1)] by (fastforce simp: load_step_def loading_ok_def)

lemma load_step_out: "load_step rid w (w\<lparr>am := (am w)\<lparr>ext := x\<rparr>\<rparr>)"
  unfolding load_step_def loading_ok_def
  by (auto intro!: agent_step_am agent_ok_am)

locale npm_host =
  fixes cbs :: "'x npm_callbacks"
    and rid :: string
  assumes get_challenge: "loading_ok rid w \<Longrightarrow>
      cb_stm_get_challenge cbs (Some rid) nonce nm err w = Some (r, ch, err', w') \<Longrightarrow>
      load_step rid w w' \<and> (if r then ch \<noteq> None else err' \<noteq> None)"
    and get_ids: "loading_ok rid w \<Longrightarrow> cb_session_get_ids cbs w \<noteq> None"
    and session_create: "loading_ok rid w \<Longrightarrow>
      cb_session_create cbs rid label sid key ty err w = Some (r, err', w') \<Longrightarrow>
      load_step rid w w' \<and> (\<not> r \<longrightarrow> err' \<noteq> None)"
    and key_create: "loading_ok rid w \<Longrightarrow>
      cb_key_create cbs url kty attrs ses err w = Some (q, err', w') \<Longrightarrow>
      load_step rid w w' \<and> (if q = None then err' \<noteq> None \<and> w' = w else keyagent_key_lookup w' url \<noteq> None)"

section \<open>The agent's callbacks\<close>

context stm_modules begin

lemma host_get_challenge:
  assumes "loading_ok rid w" and "keyagent_stm_get_challenge E (Some rid) nonce nm err w = Some (r, ch, err', w')"
  shows "load_step rid w w' \<and> (if r then ch \<noteq> None else err' \<noteq> None)"
proof -
  have ok: "agent_ok w" "single_ok w" using assms(1) by (simp_all add: loading_ok_def)
  note s = stm_get_challenge_step[OF ok(1) assms(2)]
  have "load_step rid w w'" by (rule load_stepI) (use s ok in auto)
  then show ?thesis using s by blast
qed

lemma host_session_create:
  assumes "loading_ok rid w" and "keyagent_session_create E rid label sid key ty err w = Some (r, err', w')"
  shows "load_step rid w w' \<and> (\<not> r \<longrightarrow> err' \<noteq> None)"
proof -
  have ok: "agent_ok w" "single_ok w" "ght_lookup (apimodule_loadkey_hash w) rid \<noteq> None"
    using assms(1) by (simp_all add: loading_ok_def)
  note run = assms(2)[unfolded keyagent_session_create_def]
  note s = session_create_spec[OF ok(1) run] and one = session_create_single[OF ok run]
  have "load_step rid w w'" by (rule load_stepI) (use s one in auto)
  then show ?thesis using s by blast
qed

end

lemma host_get_ids: "loading_ok rid w \<Longrightarrow> keyagent_session_get_ids w \<noteq> None"
proof -
  assume "loading_ok rid w"
  then have so: "sess_ok w" by (simp add: loading_ok_def agent_ok_def)
  have "p < length (sess_mem w)" if "p \<in> set (ght_values (session_hash w))" for p
  proof -
    obtain q where "ght_lookup (session_hash w) q = Some p"
      using so \<open>p \<in> _\<close> ght_values_in unfolding sess_ok_def by metis
    then obtain s where "sess_at w p = Some s" using so unfolding sess_ok_def by blast
    then show ?thesis by (rule sess_at_lt)
  qed
  then show ?thesis by (simp add: session_get_ids_join)
qed

lemma host_key_create:
  assumes "loading_ok rid w" and "keyagent_key_create E url kty attrs ses err w = Some (q, err', w')"
  shows "load_step rid w w' \<and> (if q = None then err' \<noteq> None \<and> w' = w else keyagent_key_lookup w' url \<noteq> None)"
proof -
  have ok: "agent_ok w" "single_ok w" "sess_ok w" "keys_ok w" using assms(1) by (simp_all add: loading_ok_def agent_ok_def)
  note s = key_create_spec[OF ok(3,4) assms(2)[unfolded keyagent_key_create_def]]
  have ks: "key_step w w'" "keys_ok w'" "keys_kept w w'" using s by auto
  have "load_step rid w w'"
    by (rule load_stepI) (rule agent_step_key[OF ks(1,3)] agent_ok_key_step[OF ok(1) ks(1,2)] ok(2))+
  then show ?thesis using s by auto
qed

lemmas internal_npm_ops_simps = internal_npm_ops_def npm_callbacks.select_convs

context stm_modules begin

lemma npm_host_internal: "npm_host (internal_npm_ops E) rid"
  by unfold_locales
    (unfold internal_npm_ops_simps,
      (rule host_get_challenge host_get_ids host_session_create host_key_create; assumption)+)

end

interpretation sgx_host: npm_host "internal_npm_ops (sgx_only E)" rid for E rid
  by (rule sgx_modules.npm_host_internal)

end
