(* ===== verification/Npm_Kms.thy ===== *)
theory Npm_Kms
  imports Npm_Interface
begin

text \<open>
  \<open>npm/kms/src/intf.cpp\<close>: the network plug-in of the key broker service (KBS).  It asks the
  server for a key; when the server challenges it, it has the STM answer the challenge, opens a
  session and asks again, once.

  The JSON library, base64 and libcurl are arguments.  A JSON access that throws is \<open>None\<close>;
  every access is inside a \<open>try\<close> block that turns the exception into an error.
\<close>

record 'j json_ops =
  js_parse :: "bytes \<Rightarrow> 'j"
  js_is_member :: "'j \<Rightarrow> string \<Rightarrow> bool option"
  js_member :: "'j \<Rightarrow> string \<Rightarrow> 'j option"
  js_element :: "'j \<Rightarrow> nat \<Rightarrow> 'j option"
  js_as_string :: "'j \<Rightarrow> string option"
  js_write :: "(string \<times> string) list \<Rightarrow> string"

text \<open>
  \<open>stale\<close>: \<open>keytype_str\<close> points into a string that has been destroyed when it is compared;
  what is read then, or \<open>None\<close> when the read faults.
\<close>

record ('x, 'j) kms_env =
  k_curl :: "'x curl_ops"
  k_json :: "'j json_ops"
  g_base64_decode :: "string \<Rightarrow> bytes"
  g_base64_encode :: "bytes \<Rightarrow> string"
  stale :: "string \<Rightarrow> string option"
  k_undef :: bytes

section \<open>Helpers\<close>

definition get_json_value :: "'j json_ops \<Rightarrow> 'j \<Rightarrow> string \<Rightarrow> string option" where
  "get_json_value J value k = do {
     m \<leftarrow> js_is_member J value k;
     if \<not> m then None else do { v \<leftarrow> js_member J value k; js_as_string J v } }"

text \<open>A \<open>std::string\<close> read through \<open>c_str\<close>.\<close>

definition get_json_cstr :: "'j json_ops \<Rightarrow> 'j \<Rightarrow> string \<Rightarrow> string option" where
  "get_json_cstr J value k = map_option c_str (get_json_value J value k)"

text \<open>Run over the response headers: the last one that matches wins.\<close>

definition get_session_id_from_header :: "string \<Rightarrow> string list option \<Rightarrow> string list option" where
  "get_session_id_from_header str tokens =
     (if g_str_has_prefix str ''Session-Id:'' \<or> g_str_has_prefix str ''session-id:''
      then Some (g_strsplit CHR '':'' str) else tokens)"

definition parse_data :: "'j json_ops \<Rightarrow> bytes \<Rightarrow> 'j" where
  "parse_data J data = js_parse J data"

definition decode64_json_attr :: "('x, 'j) kms_env \<Rightarrow> 'j \<Rightarrow> string \<Rightarrow> bytes" where
  "decode64_json_attr M json_data name = (case get_json_cstr (k_json M) json_data name of
      None \<Rightarrow> []
    | Some val \<Rightarrow> g_base64_decode M val)"

definition https_send ::
    "('x, 'j) kms_env \<Rightarrow> string \<Rightarrow> string list \<Rightarrow> string option \<Rightarrow> string list option \<Rightarrow> keyagent_ssl_opts \<Rightarrow>
     'x world \<Rightarrow> ((int \<times> string list option \<times> bytes) \<times> 'x world) option" where
  "https_send M url headers post res_headers ssl w = do {
     (st, hs, body, x) \<leftarrow> skc_https_send (k_curl M) url headers post res_headers [] (Some ssl) None (kms_debug w)
                              (ext (am w));
     Some ((st, hs, body), w\<lparr>am := (am w)\<lparr>ext := x\<rparr>\<rparr>) }"

definition json_headers :: "string list" where
  "json_headers = [''Accept: application/json'', ''Content-Type: application/json'']"

section \<open>Opening a session\<close>

text \<open>
  The nonce: the decoded bytes without the dashes, written into 32 bytes of stack.  More than 32
  of them overrun the array.
\<close>

fun copy_nonce :: "bytes \<Rightarrow> bytes \<Rightarrow> bytes option" where
  "copy_nonce nonce [] = Some nonce"
| "copy_nonce nonce (b # bs) =
     (if b \<noteq> byte_of_char CHR ''-'' then (if length nonce < 32 then copy_nonce (nonce @ [b]) bs else None)
      else copy_nonce nonce bs)"

definition session_nonce :: "('x, 'j) kms_env \<Rightarrow> bytes \<Rightarrow> bytes option" where
  "session_nonce M decoded = do {
     n \<leftarrow> copy_nonce [] decoded;
     Some (take 32 (n @ k_undef M @ replicate 32 0)) }"

record challenge_request =
  cr_url :: string
  cr_method :: string
  cr_type :: string
  cr_session_id :: string

definition parse_challenge :: "'j json_ops \<Rightarrow> 'j \<Rightarrow> challenge_request option" where
  "parse_challenge J t = do {
     link \<leftarrow> js_member J t ''link'';
     reply \<leftarrow> js_member J link ''challenge-replyto'';
     url \<leftarrow> get_json_cstr J reply ''href'';
     meth \<leftarrow> get_json_cstr J reply ''method'';
     ty \<leftarrow> get_json_cstr J t ''challenge_type'';
     sid \<leftarrow> get_json_cstr J t ''challenge'';
     Some \<lparr>cr_url = url, cr_method = meth, cr_type = ty, cr_session_id = sid\<rparr> }"

text \<open>The session reply: wrapped SWK and its type; the status is read and not used.\<close>

definition parse_session_reply :: "('x, 'j) kms_env \<Rightarrow> 'j \<Rightarrow> (bytes \<times> string) option" where
  "parse_session_reply M t = do {
     _ \<leftarrow> get_json_cstr (k_json M) t ''status'';
     d \<leftarrow> js_member (k_json M) t ''data'';
     ty \<leftarrow> get_json_cstr (k_json M) d ''type'';
     Some (decode64_json_attr M d ''swk'', ty) }"

definition challenge_reply :: "('x, 'j) kms_env \<Rightarrow> challenge_request \<Rightarrow> bytes \<Rightarrow> string" where
  "challenge_reply M cr ch =
     c_str (js_write (k_json M) [(''challenge_type'', cr_type cr), (''challenge'', cr_session_id cr),
              (''quote'', g_base64_encode M ch)])"

text \<open>From the challenge reply's answer on: the status, the parse, the session.\<close>

definition finish_session ::
    "('x, 'j) kms_env \<Rightarrow> 'x keyagent_keyload_details \<Rightarrow> challenge_request \<Rightarrow> int \<Rightarrow> bytes \<Rightarrow> gerr \<Rightarrow>
     'x world \<Rightarrow> (bool \<times> gerr \<times> 'x world) option" where
  "finish_session M details cr res_status body err w =
     (if res_status = - 1 \<or> res_status = 0 then Some (False, k_set_error err NPM_ERROR_KEYSERVER_ERROR, w)
      else if res_status \<noteq> 201 then Some (False, k_set_error err NPM_ERROR_INVALID_STATUS, w)
      else case parse_session_reply M (parse_data (k_json M) body) of
        None \<Rightarrow> Some (False, k_set_error err NPM_ERROR_JSON_PARSE, w)
      | Some (protected_swk, swktype) \<Rightarrow> do {
          (ret, err1, w1) \<leftarrow> cb_session_create (kl_cbs details) (kl_request_id details) (cr_type cr)
             (c_str_of_bytes (g_base64_decode M (cr_session_id cr))) protected_swk swktype err w;
          Some (ret, if \<not> ret \<and> err1 = None then k_set_error err1 NPM_ERROR_INVALID_STATUS else err1, w1) })"

definition start_session ::
    "('x, 'j) kms_env \<Rightarrow> 'x keyagent_keyload_details \<Rightarrow> 'j \<Rightarrow> gerr \<Rightarrow> 'x world \<Rightarrow> (bool \<times> gerr \<times> 'x world) option" where
  "start_session M details transfer_data err w =
     (case parse_challenge (k_json M) transfer_data of
        None \<Rightarrow> Some (False, k_set_error err NPM_ERROR_JSON_PARSE, w)
      | Some cr \<Rightarrow>
          if cr_method cr \<noteq> ''post'' then Some (False, err, w)
          else do {
            nonce \<leftarrow> session_nonce M (g_base64_decode M (cr_session_id cr));
            (ok, challenge, err1, w1) \<leftarrow> cb_stm_get_challenge (kl_cbs details) (Some (kl_request_id details)) nonce
               (Some (cr_type cr)) err w;
            if \<not> ok then Some (False, err1, w1)
            else do {
              ch \<leftarrow> challenge;
              ((res_status, _, body), w2) \<leftarrow> https_send M (cr_url cr) json_headers
                     (Some (challenge_reply M cr ch)) None (kl_ssl_opts details) w1;
              finish_session M details cr res_status body err1 w2 } })"

section \<open>Loading a key\<close>

definition key_url_of :: "string \<Rightarrow> string option \<Rightarrow> string" where
  "key_url_of server key = server @ ''/v1/keys/'' @ g_string_new key @ ''/dhsm2-transfer''"

definition transfer_headers :: "string \<Rightarrow> string option \<Rightarrow> string list" where
  "transfer_headers stm_names session_ids =
     json_headers @ [''Accept-Challenge: '' @ stm_names] @
     (case session_ids of Some ids \<Rightarrow> (if ids \<noteq> [] then [''Session-Id: '' @ ids] else []) | None \<Rightarrow> [])"

definition keytype_of_string :: "string \<Rightarrow> keyagent_keytype" where
  "keytype_of_string s = (if s = ''RSA'' then KEYAGENT_RSAKEY else if s = ''AES'' then KEYAGENT_AESKEY
     else KEYAGENT_INVALIDKEY)"

text \<open>
  The key transfer: type and attributes of the key.  The algorithm is compared after the string that
  held it has been destroyed: \<open>stale\<close> is what is read then, and the type \<open>None\<close> a read that faults.
\<close>

definition parse_transfer ::
    "('x, 'j) kms_env \<Rightarrow> 'j \<Rightarrow> (keyagent_keytype option \<times> (string, bytes) ghash) option" where
  "parse_transfer M t = do {
     d \<leftarrow> js_member (k_json M) t ''data'';
     _ \<leftarrow> get_json_value (k_json M) d ''id'';
     alg \<leftarrow> get_json_value (k_json M) d ''algorithm'';
     Some (map_option keytype_of_string (stale M (c_str alg)),
           ght_insert KEYAGENT_ATTR_KEYDATA (decode64_json_attr M d ''payload'') ght_empty) }"

text \<open>Status 200: the key comes with the session that protects it.\<close>

definition accept_key ::
    "('x, 'j) kms_env \<Rightarrow> 'x keyagent_keyload_details \<Rightarrow> string list \<Rightarrow> 'j \<Rightarrow> gerr \<Rightarrow> 'x world \<Rightarrow>
     (bool \<times> gerr \<times> 'x world) option" where
  "accept_key M details res_headers t err w =
     (case parse_transfer M t of
        None \<Rightarrow> Some (False, k_set_error err NPM_ERROR_JSON_PARSE, w)
      | Some (ty, attrs) \<Rightarrow> do {
         keytype \<leftarrow> ty;
         (case fold get_session_id_from_header res_headers None of
            None \<Rightarrow> Some (False, k_set_error err NPM_ERROR_INVALID_SESSION_DATA, w)
          | Some tokens \<Rightarrow>
             (case map_option g_strstrip (strv_nth tokens 2) of
                None \<Rightarrow> Some (False, k_set_error err NPM_ERROR_INVALID_SESSION_DATA, w)
              | Some session_id \<Rightarrow> do {
                  (q, err1, w1) \<leftarrow> cb_key_create (kl_cbs details) (kl_url details) keytype (Some attrs)
                     (Some session_id) err w;
                  Some (q \<noteq> None, err1, w1) })) })"

text \<open>Status 401: whether the fault is the one that a session cures.\<close>

definition parse_fault :: "'j json_ops \<Rightarrow> 'j \<Rightarrow> bool option" where
  "parse_fault J t = do {
     status \<leftarrow> get_json_value J t ''status'';
     faults \<leftarrow> js_member J t ''faults'';
     f \<leftarrow> js_element J faults 0;
     type \<leftarrow> get_json_value J f ''type'';
     Some (status = ''failure'' \<and> type = ''not-authorized'') }"

text \<open>
  One request for the key: where it goes and with which headers, and the exchange.  Result: the HTTP
  status, the response headers, the parsed body.
\<close>

definition transfer_request ::
    "'x keyagent_keyload_details \<Rightarrow> 'x world \<Rightarrow> (string \<times> string list) option" where
  "transfer_request details w = do {
     session_ids \<leftarrow> cb_session_get_ids (kl_cbs details) w;
     server \<leftarrow> kms_server_url w;
     Some (key_url_of server (strv_nth (g_strsplit CHR '':'' (kl_url details)) 1),
           transfer_headers (kl_stm_names details) session_ids) }"

definition request_key ::
    "('x, 'j) kms_env \<Rightarrow> 'x keyagent_keyload_details \<Rightarrow> 'x world \<Rightarrow> ((int \<times> string list \<times> 'j) \<times> 'x world) option" where
  "request_key M details w = do {
     (url, headers) \<leftarrow> transfer_request details w;
     ((res_status, hs, body), w1) \<leftarrow> https_send M url headers None (Some []) (kl_ssl_opts details) w;
     Some ((res_status, case hs of None \<Rightarrow> [] | Some l \<Rightarrow> l, parse_data (k_json M) body), w1) }"

function npm_loadkey ::
    "('x, 'j) kms_env \<Rightarrow> 'x keyagent_keyload_details \<Rightarrow> nat \<Rightarrow> gerr \<Rightarrow> 'x world \<Rightarrow> (bool \<times> gerr \<times> 'x world) option" where
  "npm_loadkey M details tries err w =
     (if tries > 1 then Some (False, k_set_error err NPM_ERROR_LOAD_KEY, w)
      else if strv_nth (g_strsplit CHR '':'' (kl_url details)) 0 \<noteq> Some KMS_PREFIX_TOKEN
      then Some (False, k_set_error err NPM_ERROR_LOAD_KEY, w)
      else case request_key M details w of
        None \<Rightarrow> None
      | Some ((res_status, res_headers, t), w1) \<Rightarrow>
          if res_status = - 1 \<or> res_status = 0 then Some (False, k_set_error err NPM_ERROR_KEYSERVER_ERROR, w1)
          else if res_status = 401 then
            (case parse_fault (k_json M) t of
               None \<Rightarrow> Some (False, k_set_error err NPM_ERROR_JSON_PARSE, w1)
             | Some curable \<Rightarrow>
                 if curable then
                   (case start_session M details t err w1 of
                      None \<Rightarrow> None
                    | Some (ok, err2, w2) \<Rightarrow>
                        if ok then npm_loadkey M details (tries + 1) err2 w2 else Some (False, err2, w2))
                 else Some (False, err, w1))
          else if res_status = 200 then accept_key M details res_headers t err w1
          else Some (False, k_set_error err NPM_ERROR_INVALID_STATUS, w1))"
  by pat_completeness auto
termination by (relation "measure (\<lambda>(M, details, tries, err, w). 2 - tries)") auto

declare npm_loadkey.simps [simp del]

text \<open>
  One round of a load: a request for the key; a challenge that can be cured opens a session and
  goes on with \<open>next\<close>.
\<close>

definition load_round ::
    "('x, 'j) kms_env \<Rightarrow> 'x keyagent_keyload_details \<Rightarrow>
     (gerr \<Rightarrow> 'x world \<Rightarrow> (bool \<times> gerr \<times> 'x world) option) \<Rightarrow>
     gerr \<Rightarrow> 'x world \<Rightarrow> (bool \<times> gerr \<times> 'x world) option" where
  "load_round M details next err w = do {
     ((res_status, res_headers, t), w1) \<leftarrow> request_key M details w;
     if res_status = - 1 \<or> res_status = 0 then Some (False, k_set_error err NPM_ERROR_KEYSERVER_ERROR, w1)
     else if res_status = 401 then
       (case parse_fault (k_json M) t of
          None \<Rightarrow> Some (False, k_set_error err NPM_ERROR_JSON_PARSE, w1)
        | Some False \<Rightarrow> Some (False, err, w1)
        | Some True \<Rightarrow> do {
            (ok, err2, w2) \<leftarrow> start_session M details t err w1;
            if ok then next err2 w2 else Some (False, err2, w2) })
     else if res_status = 200 then accept_key M details res_headers t err w1
     else Some (False, k_set_error err NPM_ERROR_INVALID_STATUS, w1) }"

lemma npm_loadkey_round:
  "tries \<le> 1 \<Longrightarrow> strv_nth (g_strsplit CHR '':'' (kl_url details)) 0 = Some KMS_PREFIX_TOKEN \<Longrightarrow>
     npm_loadkey M details tries err w = load_round M details (npm_loadkey M details (tries + 1)) err w"
  by (subst npm_loadkey.simps) (auto simp: load_round_def split: option.split bool.split)

definition npm_key_load ::
    "('x, 'j) kms_env \<Rightarrow> 'x keyagent_keyload_details \<Rightarrow> gerr \<Rightarrow> 'x world \<Rightarrow> (bool \<times> gerr \<times> 'x world) option" where
  "npm_key_load M details err w = npm_loadkey M details 0 err w"

section \<open>Starting and registering\<close>

definition npm_finalize :: "'x world \<Rightarrow> 'x world" where
  "npm_finalize w = w\<lparr>kms_server_url := None\<rparr>"

definition npm_init ::
    "(string \<Rightarrow> errcode + keyfile) \<Rightarrow> string \<Rightarrow> gerr \<Rightarrow> 'x world \<Rightarrow> string option \<times> gerr \<times> 'x world" where
  "npm_init load config_directory err w =
     (let (cfg, err1) = key_config_openfile load (Some (g_build_filename config_directory ''kms_npm.ini'')) err in
      if err1 \<noteq> None then (None, err1, npm_finalize w) else
      (let (server, err2) = key_config_get_string cfg ''core'' ''server'' err1 in
       if err2 \<noteq> None then (None, err2, npm_finalize w)
       else (Some KMS_PREFIX_TOKEN, err2,
             w\<lparr>kms_server_url := Some (g_string_new server),
               kms_debug := (key_config_get_boolean_optional cfg ''core'' ''debug'' 0 \<noteq> 0)\<rparr>)))"

definition npm_register :: "string \<Rightarrow> gerr \<Rightarrow> bool \<times> gerr" where
  "npm_register url err =
     (let tokens = g_strsplit CHR '':'' url in
      if strv_nth tokens 0 \<noteq> Some KMS_PREFIX_TOKEN \<or> strv_nth tokens 1 = None \<or> strv_nth tokens 1 = Some []
      then (False, k_set_error err NPM_ERROR_REGISTER) else (True, err))"

section \<open>Parsing\<close>

lemma copy_nonce_eval:
  "copy_nonce n bs = (let m = n @ filter (\<lambda>b. b \<noteq> byte_of_char CHR ''-'') bs in
     if length n \<le> 32 \<and> length m \<le> 32 \<or> filter (\<lambda>b. b \<noteq> byte_of_char CHR ''-'') bs = [] then Some m else None)"
proof (induction bs arbitrary: n)
  case Nil
  then show ?case by simp
next
  case (Cons b bs)
  then show ?case by (auto simp: Let_def)
qed

text \<open>The nonce is the decoded challenge without dashes, and overruns its buffer beyond 32 bytes.\<close>

lemma session_nonce_overflow_iff:
  "session_nonce M bs = None \<longleftrightarrow> 32 < length (filter (\<lambda>b. b \<noteq> byte_of_char CHR ''-'') bs)"
  by (auto simp: session_nonce_def copy_nonce_eval Let_def)

lemma session_nonce_exact:
  "length (filter (\<lambda>b. b \<noteq> byte_of_char CHR ''-'') bs) = 32 \<Longrightarrow>
     session_nonce M bs = Some (filter (\<lambda>b. b \<noteq> byte_of_char CHR ''-'') bs)"
  by (simp add: session_nonce_def copy_nonce_eval Let_def)

section \<open>A load and the agent\<close>

context npm_host begin

lemma https_send_step: "https_send M url hs post rh ssl w = Some (res, w') \<Longrightarrow> load_step rid w w'"
  using load_step_out by (auto simp: https_send_def bind_eq_Some_conv)

lemma request_key_step:
  assumes "request_key M details w = Some (res, w')"
  shows "load_step rid w w'"
proof -
  from assms obtain url hs r where "https_send M url hs None (Some []) (kl_ssl_opts details) w = Some (r, w')"
    by (auto simp: request_key_def bind_eq_Some_conv)
  then show ?thesis using https_send_step by blast
qed

lemma finish_session_step:
  assumes c: "kl_cbs details = cbs" "kl_request_id details = rid" and ok: "loading_ok rid w"
    and run: "finish_session M details cr st body err w = Some (r, err', w')"
  shows "load_step rid w w' \<and> (\<not> r \<longrightarrow> err' \<noteq> None)"
proof (cases "st = - 1 \<or> st = 0 \<or> st \<noteq> 201 \<or> parse_session_reply M (parse_data (k_json M) body) = None")
  case True
  then show ?thesis using run by (auto simp: finish_session_def split: if_splits)
next
  case False
  then obtain swk ty where "parse_session_reply M (parse_data (k_json M) body) = Some (swk, ty)" by auto
  with False run obtain err1 where
    "cb_session_create cbs rid (cr_type cr) (c_str_of_bytes (g_base64_decode M (cr_session_id cr))) swk ty err w
      = Some (r, err1, w')" and "err' = (if \<not> r \<and> err1 = None then k_set_error err1 NPM_ERROR_INVALID_STATUS else err1)"
    by (auto simp: finish_session_def c bind_eq_Some_conv)
  then show ?thesis using session_create[OF ok] by auto
qed

text \<open>
  A session that was not started is reported, unless the server asks for another method than
  \<open>post\<close>.
\<close>

lemma start_session_step:
  assumes c: "kl_cbs details = cbs" "kl_request_id details = rid" and ok: "loading_ok rid w"
    and run: "start_session M details t err w = Some (r, err', w')"
  shows "load_step rid w w' \<and> (\<not> r \<longrightarrow> err' \<noteq> None \<or>
    (\<exists>cr. parse_challenge (k_json M) t = Some cr \<and> cr_method cr \<noteq> ''post'' \<and> w' = w))"
proof (cases "\<exists>cr. parse_challenge (k_json M) t = Some cr \<and> cr_method cr = ''post''")
  case False
  then show ?thesis using run by (auto simp: start_session_def split: option.splits)
next
  case True
  then obtain cr where cr: "parse_challenge (k_json M) t = Some cr" "cr_method cr = ''post''" by blast
  from run cr obtain nonce g ch err1 w1 where
    g: "cb_stm_get_challenge cbs (Some rid) nonce (Some (cr_type cr)) err w = Some (g, ch, err1, w1)"
    and rest: "(if \<not> g then Some (False, err1, w1) else do {
              ch \<leftarrow> ch;
              ((res_status, _, body), w2) \<leftarrow> https_send M (cr_url cr) json_headers
                     (Some (challenge_reply M cr ch)) None (kl_ssl_opts details) w1;
              finish_session M details cr res_status body err1 w2 }) = Some (r, err', w')"
    by (auto simp: start_session_def c bind_eq_Some_conv)
  note s1 = get_challenge[OF ok g]
  show ?thesis
  proof (cases g)
    case False
    then show ?thesis using rest s1 by auto
  next
    case True
    then obtain chb where "ch = Some chb" using s1 by auto
    with rest True obtain st hs body w2 where h: "https_send M (cr_url cr) json_headers
        (Some (challenge_reply M cr chb)) None (kl_ssl_opts details) w1 = Some ((st, hs, body), w2)"
      and f: "finish_session M details cr st body err1 w2 = Some (r, err', w')"
      by (auto simp: bind_eq_Some_conv)
    have s2: "load_step rid w w2" using s1 https_send_step[OF h] by (blast intro: load_step_trans)
    from finish_session_step[OF c load_step_ok[OF s2 ok] f] s2 show ?thesis
      by (blast intro: load_step_trans)
  qed
qed

lemma accept_key_step:
  assumes c: "kl_cbs details = cbs" and ok: "loading_ok rid w"
    and run: "accept_key M details hs t err w = Some (r, err', w')"
  shows "load_step rid w w' \<and> (if r then keyagent_key_lookup w' (kl_url details) \<noteq> None else err' \<noteq> None)"
proof (cases "parse_transfer M t")
  case None
  then show ?thesis using run by (auto simp: accept_key_def)
next
  case (Some p)
  with run obtain kty attrs where p: "p = (Some kty, attrs)"
    by (cases p) (auto simp: accept_key_def bind_eq_Some_conv)
  show ?thesis
  proof (cases "\<exists>tokens s. fold get_session_id_from_header hs None = Some tokens \<and> strv_nth tokens 2 = Some s")
    case False
    then show ?thesis using run Some p by (auto simp: accept_key_def split: option.splits)
  next
    case True
    then obtain tokens s where "fold get_session_id_from_header hs None = Some tokens" "strv_nth tokens 2 = Some s"
      by blast
    with run Some p obtain q where k: "cb_key_create cbs (kl_url details) kty (Some attrs) (Some (g_strstrip s)) err w
        = Some (q, err', w')" and "r \<longleftrightarrow> q \<noteq> None"
      by (auto simp: accept_key_def c bind_eq_Some_conv)
    then show ?thesis using key_create[OF ok k] by (auto split: if_splits)
  qed
qed

text \<open>
  A load only makes steps of the agent, and when it succeeds the key is in the table.
\<close>

lemma load_round_step:
  assumes c: "kl_cbs details = cbs" "kl_request_id details = rid" and ok: "loading_ok rid w"
    and rest: "\<And>err v r err' v'. loading_ok rid v \<Longrightarrow> next_round err v = Some (r, err', v') \<Longrightarrow>
      load_step rid v v' \<and> (r \<longrightarrow> keyagent_key_lookup v' (kl_url details) \<noteq> None)"
    and run: "load_round M details next_round err w = Some (r, err', w')"
  shows "load_step rid w w' \<and> (r \<longrightarrow> keyagent_key_lookup w' (kl_url details) \<noteq> None)"
proof -
  from run obtain st hs t w1 where rq: "request_key M details w = Some ((st, hs, t), w1)"
    by (auto simp: load_round_def bind_eq_Some_conv)
  have s1: "load_step rid w w1" using rq by (rule request_key_step)
  have ok1: "loading_ok rid w1" using s1 ok by (rule load_step_ok)
  consider (curable) "st = 401" "parse_fault (k_json M) t = Some True" | (key) "st = 200" | (failed) "w' = w1" "\<not> r"
    using run rq by (auto simp: load_round_def split: if_splits option.splits bool.splits)
  then show ?thesis
  proof cases
    case curable
    with run rq obtain sok err2 w2 where ss: "start_session M details t err w1 = Some (sok, err2, w2)"
      and n: "(if sok then next_round err2 w2 else Some (False, err2, w2)) = Some (r, err', w')"
      by (auto simp: load_round_def bind_eq_Some_conv)
    have s2: "load_step rid w w2" using start_session_step[OF c ok1 ss] s1 by (blast intro: load_step_trans)
    show ?thesis using n rest[OF load_step_ok[OF s2 ok]] s2 by (auto split: if_splits intro: load_step_trans)
  next
    case key
    then have "accept_key M details hs t err w1 = Some (r, err', w')" using run rq by (simp add: load_round_def)
    from accept_key_step[OF c(1) ok1 this] s1 show ?thesis by (auto intro: load_step_trans split: if_splits)
  next
    case failed
    then show ?thesis using s1 by simp
  qed
qed

lemma npm_loadkey_step:
  assumes c: "kl_cbs details = cbs" "kl_request_id details = rid" and ok: "loading_ok rid w"
    and run: "npm_loadkey M details tries err w = Some (r, err', w')"
  shows "load_step rid w w' \<and> (r \<longrightarrow> keyagent_key_lookup w' (kl_url details) \<noteq> None)"
  using ok run
proof (induction "2 - tries" arbitrary: tries err w r err' w')
  case 0
  then show ?case using npm_loadkey.simps[of M details tries err w] by simp
next
  case (Suc n)
  show ?case
  proof (cases "strv_nth (g_strsplit CHR '':'' (kl_url details)) 0 = Some KMS_PREFIX_TOKEN")
    case False
    then show ?thesis using Suc.prems(2) npm_loadkey.simps[of M details tries err w] by (auto split: if_splits)
  next
    case True
    have "tries \<le> 1" and n: "n = 2 - (tries + 1)" using Suc.hyps(2) by simp_all
    then have "load_round M details (npm_loadkey M details (tries + 1)) err w = Some (r, err', w')"
      using Suc.prems(2) npm_loadkey_round[OF _ True] by metis
    from load_round_step[OF c Suc.prems(1) Suc.hyps(1)[OF n] this] show ?thesis .
  qed
qed

end

section \<open>The contract of a network plug-in\<close>

text \<open>
  Called with callbacks that keep their promises, a plug-in keeps the agent in a good state and
  reports success only when the key is there.  Registering does not touch the agent.
\<close>

definition key_load_ok ::
    "('x keyagent_keyload_details \<Rightarrow> gerr \<Rightarrow> 'x world \<Rightarrow> (bool \<times> gerr \<times> 'x world) option) \<Rightarrow> bool" where
  "key_load_ok f \<longleftrightarrow> (\<forall>details err w r err' w'. npm_host (kl_cbs details) (kl_request_id details) \<longrightarrow>
     loading_ok (kl_request_id details) w \<longrightarrow> f details err w = Some (r, err', w') \<longrightarrow>
     load_step (kl_request_id details) w w' \<and> (r \<longrightarrow> keyagent_key_lookup w' (kl_url details) \<noteq> None))"

definition register_ok :: "(string \<Rightarrow> gerr \<Rightarrow> bool \<times> gerr) \<Rightarrow> bool" where
  "register_ok f \<longleftrightarrow> (\<forall>url err r err'. f url err = (r, err') \<longrightarrow> reports r err err')"

lemma key_load_okD:
  "key_load_ok f \<Longrightarrow> npm_host (kl_cbs details) (kl_request_id details) \<Longrightarrow> loading_ok (kl_request_id details) w \<Longrightarrow>
     f details err w = Some (r, err', w') \<Longrightarrow>
     load_step (kl_request_id details) w w' \<and> (r \<longrightarrow> keyagent_key_lookup w' (kl_url details) \<noteq> None)"
  unfolding key_load_ok_def by blast

locale npm_plugin =
  fixes register :: "string \<Rightarrow> gerr \<Rightarrow> bool \<times> gerr"
    and key_load :: "'x keyagent_keyload_details \<Rightarrow> gerr \<Rightarrow> 'x world \<Rightarrow> (bool \<times> gerr \<times> 'x world) option"
  assumes register: "register_ok register"
    and key_load: "key_load_ok key_load"
begin

lemma refused_reports: "register url None = (False, err') \<Longrightarrow> err' \<noteq> None"
  using register unfolding register_ok_def by (metis reports_simps(2))

lemma loaded_present:
  "npm_host (kl_cbs details) (kl_request_id details) \<Longrightarrow> loading_ok (kl_request_id details) w \<Longrightarrow>
     key_load details err w = Some (True, err', w') \<Longrightarrow> keyagent_key_lookup w' (kl_url details) \<noteq> None"
  using key_load_okD[OF key_load] by blast

end

lemma npm_key_load_ok: "key_load_ok (npm_key_load M)"
  unfolding key_load_ok_def npm_key_load_def
  by (blast dest: npm_host.npm_loadkey_step[OF _ refl refl])

lemma npm_register_ok: "register_ok npm_register"
  by (auto simp: register_ok_def npm_register_def Let_def split: if_splits)

interpretation kms: npm_plugin npm_register "npm_key_load M" for M
  by unfold_locales (rule npm_register_ok npm_key_load_ok)+

text \<open>The URLs the plug-in takes: the prefix, a colon, and a non-empty key id before the next one.\<close>

lemma npm_register_accepts:
  "fst (npm_register url err) \<longleftrightarrow>
     (\<exists>k ks. g_strsplit CHR '':'' url = KMS_PREFIX_TOKEN # k # ks \<and> k \<noteq> [])"
proof (cases "g_strsplit CHR '':'' url")
  case Nil
  then show ?thesis by (simp add: npm_register_def)
next
  case (Cons a as)
  then show ?thesis by (cases as) (auto simp: npm_register_def Let_def)
qed

lemma npm_register_url:
  assumes "k \<noteq> []" and "CHR '':'' \<notin> set k"
  shows "fst (npm_register (KMS_PREFIX_TOKEN @ '':'' @ k) err)"
proof -
  have "split_pieces CHR '':'' (KMS_PREFIX_TOKEN @ CHR '':'' # k) = KMS_PREFIX_TOKEN # split_pieces CHR '':'' k"
    by (rule split_pieces_append_sep) (simp add: KMS_PREFIX_TOKEN_def)
  then have "g_strsplit CHR '':'' (KMS_PREFIX_TOKEN @ '':'' @ k) = [KMS_PREFIX_TOKEN, k]"
    using assms by (simp add: g_strsplit_def split_pieces_free)
  then show ?thesis using assms by (simp add: npm_register_accepts)
qed

section \<open>Properties\<close>

lemma npm_loadkey_exhausted: "npm_loadkey M details 2 = (\<lambda>err w. Some (False, k_set_error err NPM_ERROR_LOAD_KEY, w))"
  by (intro ext, subst npm_loadkey.simps) simp

lemma npm_key_load_rounds:
  assumes "strv_nth (g_strsplit CHR '':'' (kl_url details)) 0 = Some KMS_PREFIX_TOKEN"
  shows "npm_key_load M details = load_round M details (load_round M details (npm_loadkey M details 2))"
proof -
  have "npm_loadkey M details 1 = load_round M details (npm_loadkey M details 2)"
    using npm_loadkey_round[OF _ assms, of 1] by (intro ext) (simp add: numeral_2_eq_2)
  moreover have "npm_loadkey M details 0 = load_round M details (npm_loadkey M details 1)"
    using npm_loadkey_round[OF _ assms, of 0] by (intro ext) simp
  moreover have "npm_key_load M details = npm_loadkey M details 0" by (intro ext) (simp add: npm_key_load_def)
  ultimately show ?thesis by simp
qed

text \<open>
  C10: a load makes at most two rounds: a server that challenges the agent again after the second
  session was opened gets no third request, and the load ends with an error.
\<close>
theorem npm_load_two_rounds:
  assumes "strv_nth (g_strsplit CHR '':'' (kl_url details)) 0 = Some KMS_PREFIX_TOKEN"
  shows "npm_key_load M details = load_round M details (load_round M details
    (\<lambda>err w. Some (False, k_set_error err NPM_ERROR_LOAD_KEY, w)))"
  using npm_key_load_rounds[OF assms] by (simp add: npm_loadkey_exhausted)

text \<open>
  C14: the nonce sent to the STM is the decoded challenge without its dashes; its 32-byte buffer is
  overrun exactly by challenges with more bytes than that, and one with exactly 32 is passed on whole.
\<close>
theorem nonce_bounds:
  "session_nonce M bs = (let n = filter (\<lambda>b. b \<noteq> byte_of_char CHR ''-'') bs in
     if 32 < length n then None else Some (n @ take (32 - length n) (k_undef M @ replicate 32 0)))"
  by (auto simp: session_nonce_def copy_nonce_eval Let_def)

text \<open>
  The plug-in registers exactly the URLs of at least two pieces whose first is the prefix and
  whose second is not empty, and it refuses every other with an error.
\<close>
lemma npm_register_exact:
  "npm_register url err = (if \<exists>k ks. g_strsplit CHR '':'' url = KMS_PREFIX_TOKEN # k # ks \<and> k \<noteq> []
     then (True, err) else (False, Some NPM_ERROR_REGISTER))"
  using npm_register_accepts[of url err] by (auto simp: npm_register_def Let_def k_set_error_def split: if_splits)

lemma key_create_total:
  "\<not> cache_keys w \<Longrightarrow> \<exists>q err' w'. keyagent_key_create E url ty ats sid err w = Some (q, err', w')"
  by (auto simp: keyagent_key_create_def keyagent_key_create_with_cacheid_def key_create_out_def cache_key_def
      cache_key_body_def cache_generate_fake_id_def key_store_def Let_def split: option.splits)

lemma accept_key_total:
  assumes "\<And>ty ats sid. \<exists>q e v. cb_key_create (kl_cbs details) (kl_url details) ty ats sid err w = Some (q, e, v)"
    and "\<And>ats. parse_transfer M t \<noteq> Some (None, ats)"
  shows "accept_key M details hs t err w \<noteq> None"
proof (cases "parse_transfer M t")
  case None
  then show ?thesis by (simp add: accept_key_def)
next
  case (Some p)
  then obtain ty ats where p: "p = (Some ty, ats)" using assms(2) by (cases p; cases "fst p") auto
  show ?thesis
  proof (cases "fold get_session_id_from_header hs None")
    case None
    then show ?thesis using Some p by (simp add: accept_key_def)
  next
    case tk: (Some tokens)
    show ?thesis
    proof (cases "strv_nth tokens 2")
      case None
      then show ?thesis using Some p tk by (simp add: accept_key_def)
    next
      case sid: (Some sid)
      obtain q e v where "cb_key_create (kl_cbs details) (kl_url details) ty (Some ats) (Some (g_strstrip sid)) err w = Some (q, e, v)"
        using assms by blast
      then show ?thesis using Some p tk sid by (simp add: accept_key_def)
    qed
  qed
qed

end
