(* ===== verification/Keyagent.thy ===== *)
theory Keyagent
  imports Npm_Kms
begin

text \<open>
  \<open>key-agent/src/intf.cpp\<close>, \<open>key-agent/npm/npm_init.cpp\<close> and \<open>key-agent/src/cert.cpp\<close>:
  starting the key agent from its configuration, loading its plug-ins, and loading a key.
\<close>

section \<open>Network plug-ins\<close>

text \<open>A loaded NPM module: its four symbols.  The function \<open>N\<close> below is \<open>g_module_open\<close>.\<close>

record 'x npm_module =
  sym_npm_init :: "(string \<Rightarrow> gerr \<Rightarrow> 'x world \<Rightarrow> string option \<times> gerr \<times> 'x world) option"
  sym_npm_register :: "(string \<Rightarrow> gerr \<Rightarrow> bool \<times> gerr) option"
  sym_npm_key_load :: "('x keyagent_keyload_details \<Rightarrow> gerr \<Rightarrow> 'x world \<Rightarrow> (bool \<times> gerr \<times> 'x world) option) option"
  sym_npm_finalize :: "('x world \<Rightarrow> 'x world) option"

definition initialize_npm :: "(string \<Rightarrow> 'x npm_module option) \<Rightarrow> string \<Rightarrow> 'x world \<Rightarrow> 'x world option" where
  "initialize_npm N filename w =
     (case N filename of
        None \<Rightarrow> Some w
      | Some m \<Rightarrow>
         (case (sym_npm_init m, sym_npm_register m, sym_npm_key_load m, sym_npm_finalize m) of
            (Some init, Some _, Some _, Some _) \<Rightarrow>
              (let (name, err, w1) = init (configdirectory w) None w in
               case name of
                 None \<Rightarrow> do { _ \<leftarrow> log_error err; Some w1 }
               | Some nm \<Rightarrow> Some (w1\<lparr>npm_hash := ght_insert nm
                   \<lparr>npm_label = nm, npm_module_name = filename, npm_initialized = True\<rparr> (npm_hash w1)\<rparr>))
          | _ \<Rightarrow> Some w))"

definition npm_module_op :: "(string \<Rightarrow> 'x npm_module option) \<Rightarrow> ('x npm_module \<Rightarrow> 'f option) \<Rightarrow> keyagent_npm_real \<Rightarrow> 'f option" where
  "npm_module_op N symb npm = do { m \<leftarrow> N (npm_module_name npm); symb m }"

section \<open>Initialisation\<close>

definition handle_wildcards :: "'x ka_env \<Rightarrow> string \<Rightarrow> string list" where
  "handle_wildcards E location =
     (let path = g_path_get_dirname E location; pattern = g_path_get_basename E location in
      case dir_entries E path of
        None \<Rightarrow> []
      | Some names \<Rightarrow> fold (\<lambda>name res. if g_pattern_match_string E pattern name
                              then res @ [path @ ''/'' @ name] else res) names [])"

fun initialize_npms :: "(string \<Rightarrow> 'x npm_module option) \<Rightarrow> string list \<Rightarrow> 'x world \<Rightarrow> 'x world option" where
  "initialize_npms N [] w = Some w"
| "initialize_npms N (f # fs) w = do { w1 \<leftarrow> initialize_npm N f w; initialize_npms N fs w1 }"

fun initialize_stms :: "'x ka_env \<Rightarrow> string list \<Rightarrow> 'x world \<Rightarrow> 'x world option" where
  "initialize_stms E [] w = Some w"
| "initialize_stms E (f # fs) w = do { w1 \<leftarrow> initialize_stm E f w; initialize_stms E fs w1 }"

definition cfg_string :: "'x world \<Rightarrow> string \<Rightarrow> string \<Rightarrow> gerr \<Rightarrow> string \<times> gerr" where
  "cfg_string w section key err =
     (let (v, err1) = key_config_get_string (config w) section key err in (g_string_new v, err1))"

text \<open>
  The credentials: certificate, its key and the CA certificate; then the key format, with the
  checks on the files.  Result: the error, if any, and the state.
\<close>

definition init_certificates :: "'x world \<Rightarrow> gerr \<times> 'x world" where
  "init_certificates w =
     (let (c, e1) = cfg_string w ''keyserver_credentials'' ''certificate'' None; w1 = w\<lparr>cert := c\<rparr> in
      if e1 \<noteq> None then (e1, w1) else
      (let (ck, e2) = cfg_string w1 ''keyserver_credentials'' ''certificate_key'' None; w2 = w1\<lparr>certkey := ck\<rparr> in
       if e2 \<noteq> None then (e2, w2) else
       (let (ca, e3) = cfg_string w2 ''keyserver_credentials'' ''ca_certificate'' None
        in (e3, w2\<lparr>cacert := ca\<rparr>))))"

definition keyformat_of :: "string option \<Rightarrow> keyagent_keyserver_key_format option" where
  "keyformat_of s = (if s = Some ''PKCS11'' then Some KEYAGENT_KEY_FORMAT_PKCS11
     else if s = Some ''PEMFILE'' then Some KEYAGENT_KEY_FORMAT_PEM else None)"

definition init_keyformat :: "'x ka_env \<Rightarrow> 'x world \<Rightarrow> gerr \<times> 'x world" where
  "init_keyformat E w =
     (let (fmt, e1) = key_config_get_string (config w) ''keyserver_credentials'' ''keyformat'' None in
      if e1 \<noteq> None then (e1, w) else
      (case keyformat_of fmt of None \<Rightarrow> (g_set_error e1 KEYAGENT_ERROR_INVALID_KEYFORMAT, w) | Some kf \<Rightarrow>
       (let w1 = w\<lparr>keyformat := kf\<rparr> in
        if \<not> file_exists E (cert w1) \<or> \<not> file_exists E (cacert w1) \<or>
           (kf = KEYAGENT_KEY_FORMAT_PEM \<and> \<not> file_exists E (certkey w1))
        then (g_set_error e1 KEYAGENT_ERROR_INVALID_CONF_VALUE, w1)
        else
        (let (sv, e2) = key_config_get_boolean (config w1) ''keyserver_credentials'' ''ssl_verify'' e1
         in (e2, w1\<lparr>ka_ssl_verify := sv\<rparr>)))))"

definition init_credentials :: "'x ka_env \<Rightarrow> 'x world \<Rightarrow> gerr \<times> 'x world" where
  "init_credentials E w =
     (let (e1, w1) = init_certificates w in if e1 \<noteq> None then (e1, w1) else init_keyformat E w1)"

definition init_tables :: "'x world \<Rightarrow> 'x world" where
  "init_tables w = w\<lparr>npm_hash := ght_empty, stm_hash := ght_empty, key_hash := ght_empty,
     session_hash := ght_empty, apimodule_loadkey_hash := ght_empty\<rparr>"

text \<open>The plug-ins and the database.\<close>

definition init_plugins ::
    "(string \<Rightarrow> 'x npm_module option) \<Rightarrow> 'x ka_env \<Rightarrow> string \<Rightarrow> string \<Rightarrow> 'x world \<Rightarrow> (bool \<times> gerr \<times> 'x world) option" where
  "init_plugins N E npm_dir stm_dir w =
     (let npms = handle_wildcards E (npm_dir @ ''/npm_*.so''); stms = handle_wildcards E (stm_dir @ ''/stm_*.so'') in
      if npms = [] then Some (False, g_set_error None KEYAGENT_ERROR_INVALID_CONF_VALUE, w) else do {
        w1 \<leftarrow> initialize_npms N npms w;
        if stms = [] then Some (False, g_set_error None KEYAGENT_ERROR_INVALID_CONF_VALUE, w1) else do {
          let (_, w2) = keyagent_session_init w1;
          w3 \<leftarrow> initialize_stms E stms w2;
          cache_init E None w3 } })"

definition do_keyagent_init ::
    "(string \<Rightarrow> 'x npm_module option) \<Rightarrow> 'x ka_env \<Rightarrow> string option \<Rightarrow> 'x world \<Rightarrow> (bool \<times> gerr \<times> 'x world) option" where
  "do_keyagent_init N E filename w =
     (case filename of None \<Rightarrow> Some (False, g_set_error None KEYAGENT_ERROR_INVALID_CONF_VALUE, w) | Some f \<Rightarrow>
     (let (cfg, e0) = key_config_openfile (load_keyfile E) (Some f) None;
          w1 = w\<lparr>rwlock := False, configdirectory := g_path_get_dirname E f, config := cfg\<rparr> in
      if e0 \<noteq> None then Some (False, e0, w1) else
      (let (npm_dir, e1) = cfg_string w1 ''core'' ''npm-directory'' None in
       if e1 \<noteq> None then Some (False, e1, w1) else
       (let (stm_dir, e2) = cfg_string w1 ''core'' ''stm-directory'' None in
        if e2 \<noteq> None then Some (False, e2, w1) else
        (let (e3, w2) = init_credentials E w1 in
         if e3 \<noteq> None then Some (False, e3, w2) else init_plugins N E npm_dir stm_dir (init_tables w2))))))"

text \<open>
  Once only; the error of that run is kept, handed to every caller and logged.  \<open>g_propagate_error\<close> makes
  the caller its owner, or frees it when the caller's slot is set, while the static variable goes on
  pointing to it.  No caller in the repository
  releases it; one that does leaves \<open>RELEASED\<close> there (\<open>caller_frees_start_error\<close> below).
\<close>

definition keyagent_init ::
    "(string \<Rightarrow> 'x npm_module option) \<Rightarrow> 'x ka_env \<Rightarrow> string option \<Rightarrow> gerr \<Rightarrow> 'x world \<Rightarrow>
     (bool \<times> gerr \<times> 'x world) option" where
  "keyagent_init N E filename err w = do {
     w1 \<leftarrow> (if ka_init_done w then Some w else do {
              (_, e, w0) \<leftarrow> do_keyagent_init N E filename w;
              Some (w0\<lparr>ka_init_error := e, ka_init_done := True\<rparr>) });
     if ka_init_error w1 \<noteq> None then do {
       _ \<leftarrow> (if err = None then log_error (ka_init_error w1) else None);
       Some (False, g_propagate_error err (ka_init_error w1), w1) }
     else Some (True, err, w1) }"

definition caller_frees_start_error :: "'x world \<Rightarrow> 'x world" where
  "caller_frees_start_error w = w\<lparr>ka_init_error := map_option (\<lambda>_. RELEASED) (ka_init_error w)\<rparr>"

definition keyagent_get_certificate_files :: "string option \<Rightarrow> string option \<Rightarrow> gerr \<Rightarrow> bool \<times> (string \<times> string) option \<times> gerr" where
  "keyagent_get_certificate_files c ck err =
     (case (c, ck) of (Some a, Some b) \<Rightarrow> (True, Some (a, b), err)
      | _ \<Rightarrow> (False, None, g_set_error err KEYAGENT_ERROR_INVALID_CERT_INFO))"

definition keyagent_apimodule_register ::
    "string option \<Rightarrow> 'x keyagent_apimodule_ops \<Rightarrow> 'x world \<Rightarrow> bool \<times> 'x world" where
  "keyagent_apimodule_register label ops w =
     (let w1 = w\<lparr>apimodule_ops := ops\<rparr>
      in case label of None \<Rightarrow> (True, w1) | Some l \<Rightarrow> keyagent_stm_apimodule_enable l w1)"

section \<open>Loading a key\<close>

definition load_ssl_opts :: "'x world \<Rightarrow> keyagent_ssl_opts" where
  "load_ssl_opts w =
     \<lparr>certfile = Some (cert w), ca_certfile = Some (cacert w), certtype = Some FORMAT_PEM,
      keyname = Some (certkey w),
      keytype_str = Some (if keyformat w = KEYAGENT_KEY_FORMAT_PEM then FORMAT_PEM else FORMAT_ENG),
      key_password = None, ssl_verify = ka_ssl_verify w, ssl_version = 0\<rparr>"

definition load_details :: "'x ka_env \<Rightarrow> string \<Rightarrow> string \<Rightarrow> 'x world \<Rightarrow> 'x keyagent_keyload_details" where
  "load_details E rid url w =
     \<lparr>kl_request_id = rid, kl_url = url,
      kl_stm_names = (if apimodule_enabled w then keyagent_stm_get_apimodule_enabled_names w
                      else keyagent_stm_get_names w),
      kl_ssl_opts = load_ssl_opts w, kl_cbs = internal_npm_ops E\<rparr>"

text \<open>
  The end of \<open>_loadkey\<close>: when the STM set \<open>tmp_error\<close>, the error is handed on by
  \<open>g_propagate_error\<close>, which moves it into the caller's slot, and then released by the \<open>g_autoptr\<close>:
  the slot points to a freed error.  A slot that is already set keeps its error and
  \<open>g_propagate_error\<close> releases \<open>tmp_error\<close> itself, which the \<open>g_autoptr\<close> then does again.
\<close>

definition propagate_and_release :: "gerr \<Rightarrow> gerr \<Rightarrow> gerr option" where
  "propagate_and_release err tmp_error =
     (case tmp_error of
        None \<Rightarrow> Some err
      | Some _ \<Rightarrow> (if err = None then Some (Some RELEASED) else None))"

text \<open>
  A plug-in called with a slot that points to a freed error: it may test the slot, but when it sets it,
  \<open>g_clear_error\<close> frees the error again.
\<close>

definition call_with_slot ::
    "(gerr \<Rightarrow> 'x world \<Rightarrow> (bool \<times> gerr \<times> 'x world) option) \<Rightarrow> gerr \<Rightarrow> 'x world \<Rightarrow> (bool \<times> gerr \<times> 'x world) option" where
  "call_with_slot f err w = do {
     (r, err1, w1) \<leftarrow> f err w;
     if err = Some RELEASED \<and> err1 \<noteq> err then None else Some (r, err1, w1) }"

definition request_remove :: "string \<Rightarrow> 'x world \<Rightarrow> 'x world" where
  "request_remove rid w = w\<lparr>apimodule_loadkey_hash := ght_remove rid (apimodule_loadkey_hash w)\<rparr>"

text \<open>The key is looked up and given to its STM, whatever the plug-in answered.\<close>

definition load_into_stm ::
    "'x ka_env \<Rightarrow> string \<Rightarrow> string \<Rightarrow> gerr \<Rightarrow> 'x world \<Rightarrow> (bool \<times> gerr \<times> 'x world) option" where
  "load_into_stm E rid url tmp_error w =
     (if tmp_error = None then
        (case keyagent_key_lookup w url of
           None \<Rightarrow> Some (True, tmp_error, w)
         | Some k \<Rightarrow> keyagent_stm_load_key E rid k tmp_error w)
      else Some (True, tmp_error, w))"

text \<open>From the registration on: the request, the plug-in's load, the STM.\<close>

definition load_registered ::
    "(string \<Rightarrow> 'x npm_module option) \<Rightarrow> 'x ka_env \<Rightarrow> string \<Rightarrow> nat option \<Rightarrow> keyagent_npm_real \<Rightarrow> gerr \<Rightarrow> gerr \<Rightarrow>
     'x world \<Rightarrow> (bool \<times> gerr \<times> 'x world) option" where
  "load_registered N E url module_data npm tmp_error err w = do {
     let (rid, w1) = out (keyagent_generate_request_id (g_random_int E)) w;
     let w2 = request_store rid \<lparr>req_module_data = module_data, req_npm_name = npm_label npm,
                                  req_stm_name = None\<rparr> w1;
     key_load \<leftarrow> npm_module_op N sym_npm_key_load npm;
     (_, err1, w3) \<leftarrow> call_with_slot (key_load (load_details E rid url w2)) err w2;
     (ret, tmp_error1, w4) \<leftarrow> load_into_stm E rid url tmp_error w3;
     let w5 = request_remove rid w4;
     err2 \<leftarrow> propagate_and_release err1 tmp_error1;
     Some (ret, err2, w5) }"

definition loadkey_with_npm ::
    "(string \<Rightarrow> 'x npm_module option) \<Rightarrow> 'x ka_env \<Rightarrow> string \<Rightarrow> nat option \<Rightarrow> keyagent_npm_real \<Rightarrow> gerr \<Rightarrow>
     'x world \<Rightarrow> (bool \<times> gerr \<times> 'x world) option" where
  "loadkey_with_npm N E url module_data npm err w =
     (if \<not> npm_initialized npm then Some (False, err, w) else do {
        reg \<leftarrow> npm_module_op N sym_npm_register npm;
        let (registered, tmp_error) = reg url None;
        if \<not> registered then Some (False, err, w)
        else load_registered N E url module_data npm tmp_error err w })"

text \<open>\<open>g_hash_table_find\<close>: the plug-ins in turn, until one answers TRUE.\<close>

fun find_npm ::
    "(string \<Rightarrow> 'x npm_module option) \<Rightarrow> 'x ka_env \<Rightarrow> string \<Rightarrow> nat option \<Rightarrow> keyagent_npm_real list \<Rightarrow> gerr \<Rightarrow>
     'x world \<Rightarrow> (bool \<times> gerr \<times> 'x world) option" where
  "find_npm N E url md [] err w = Some (False, err, w)"
| "find_npm N E url md (n # ns) err w = do {
     (r, err1, w1) \<leftarrow> loadkey_with_npm N E url md n err w;
     if r then Some (True, err1, w1) else find_npm N E url md ns err1 w1 }"

text \<open>Under the writer lock, which blocks for ever when it is held.\<close>

definition loadkey_locked ::
    "(string \<Rightarrow> 'x npm_module option) \<Rightarrow> 'x ka_env \<Rightarrow> string \<Rightarrow> nat option \<Rightarrow> gerr \<Rightarrow>
     'x world \<Rightarrow> (bool \<times> gerr \<times> 'x world) option" where
  "loadkey_locked N E url module_data err w =
     (if keyagent_key_lookup w url \<noteq> None then Some (True, err, w) else do {
        (found, err1, w1) \<leftarrow> find_npm N E url module_data (ght_values (npm_hash w)) err w;
        if \<not> found then do {
          err2 \<leftarrow> k_reset_error err1 KEYAGENT_ERROR_NPM_URL_UNSUPPORTED;
          Some (False, err2, w1) }
        else Some (keyagent_key_lookup w1 url \<noteq> None, err1, w1) })"

text \<open>
  The first two tokens of the URL must not be empty; for the empty URL the second one is read
  past the end of the vector.
\<close>

definition keyagent_loadkey_with_moduledata ::
    "(string \<Rightarrow> 'x npm_module option) \<Rightarrow> 'x ka_env \<Rightarrow> string \<Rightarrow> nat option \<Rightarrow> gerr \<Rightarrow>
     'x world \<Rightarrow> (bool \<times> gerr \<times> 'x world) option" where
  "keyagent_loadkey_with_moduledata N E url module_data err w =
     (let tokens = g_strsplit CHR '':'' url in
      if tokens = [] then None
      else if strv_nth tokens 0 = Some [] \<or> strv_nth tokens 1 = Some [] then Some (False, err, w)
      else if rwlock w then None
      else do {
        (r, err1, w1) \<leftarrow> loadkey_locked N E url module_data err (w\<lparr>rwlock := True\<rparr>);
        Some (r, err1, w1\<lparr>rwlock := False\<rparr>) })"

section \<open>Loading and the state of the agent\<close>

text \<open>
  Between two loads no request is open, and the writer lock is free.
\<close>

definition agent_idle :: "'x world \<Rightarrow> bool" where
  "agent_idle w \<longleftrightarrow> agent_ok w \<and> single_ok w \<and> (\<forall>i. ght_lookup (apimodule_loadkey_hash w) i = None)"

text \<open>What a load changes, seen from outside it.\<close>

definition ka_step :: "'x world \<Rightarrow> 'x world \<Rightarrow> bool" where
  "ka_step w w' \<longleftrightarrow> statics w' = statics w \<and> am_step (am w) (am w') \<and> stms_kept w w' \<and>
     sessions_kept w w' \<and> keys_kept w w'"

lemma ka_step_refl [simp, intro!]: "ka_step w w"
  by (simp add: ka_step_def)

lemma ka_step_trans [trans]:
  assumes "ka_step u v" and "ka_step v w"
  shows "ka_step u w"
  using assms unfolding ka_step_def
  by (intro conjI; elim conjE)
    (simp, erule (1) am_step_trans, erule (1) stms_kept_trans, erule (1) sessions_kept_trans,
      erule (1) keys_kept_trans)

lemma agent_ka_step: "agent_step w w' \<Longrightarrow> ka_step w w'"
  by (simp add: agent_step_def ka_step_def)

lemma ka_step_requests [simp, intro!]: "ka_step w (w\<lparr>apimodule_loadkey_hash := h\<rparr>)"
  by (simp add: ka_step_def stms_kept_def rel_option_refl' sessions_kept_def keys_kept_cong)

lemma ka_step_request_store [simp, intro!]: "ka_step w (request_store i r w)"
  by (simp add: request_store_def)

lemma agent_ok_requests:
  "agent_ok w \<Longrightarrow> ght_wf h \<Longrightarrow> agent_ok (w\<lparr>apimodule_loadkey_hash := h\<rparr>)"
  by (simp add: agent_ok_def sess_ok_def keys_ok_def key_ok_def stms_ok_def)

lemma single_ok_requests [simp]: "single_ok (w\<lparr>apimodule_loadkey_hash := h\<rparr>) = single_ok w"
  by (simp add: single_ok_def)

text \<open>
  The STM was given the key for this URL, and accepted it, in a load started in \<open>w\<close> under a request
  with this module data.
\<close>

definition stm_accepted :: "'x ka_env \<Rightarrow> string \<Rightarrow> nat option \<Rightarrow> 'x world \<Rightarrow> 'x world \<Rightarrow> bool" where
  "stm_accepted E url md w w' \<longleftrightarrow> (\<exists>rid rq k w3 w4. am_step (am w) (am w3) \<and> apimodule_ops w3 = apimodule_ops w \<and>
     ght_lookup (apimodule_loadkey_hash w3) rid = Some rq \<and> req_module_data rq = md \<and>
     keyagent_key_lookup w3 url = Some k \<and>
     keyagent_stm_load_key E rid k None w3 = Some (True, None, w4) \<and> am w' = am w4 \<and>
     keyagent_key_lookup w' url = Some k)"

lemma stm_accepted_later:
  assumes s: "ka_step u v" and a: "stm_accepted E url md v w"
  shows "stm_accepted E url md u w"
proof -
  have "am_step (am u) (am v)" "apimodule_ops v = apimodule_ops u"
    using s staticsD(1)[of v u] by (simp_all add: ka_step_def)
  then show ?thesis using a unfolding stm_accepted_def by (metis am_step_trans)
qed

text \<open>The request with the module's data, entered at the start of a load.\<close>

definition enter_request :: "'x ka_env \<Rightarrow> nat option \<Rightarrow> keyagent_npm_real \<Rightarrow> 'x world \<Rightarrow> string \<times> 'x world" where
  "enter_request E md npm w = (let (rid, w1) = out (keyagent_generate_request_id (g_random_int E)) w
     in (rid, request_store rid \<lparr>req_module_data = md, req_npm_name = npm_label npm, req_stm_name = None\<rparr> w1))"

lemma enter_request_frame:
  assumes "enter_request E md npm w = (rid, w2)"
  shows "statics w2 = statics w" and "session_hash w2 = session_hash w" and "key_hash w2 = key_hash w"
    and "uri_mem (am w2) = uri_mem (am w)" and "token_hash (am w2) = token_hash (am w)"
    and "ka_step w w2" and "am_step (am w) (am w2)" and "agent_idle w \<Longrightarrow> loading_ok rid w2"
    and "agent_idle w \<Longrightarrow> ght_lookup (apimodule_loadkey_hash w2) i =
      (if i = rid then Some \<lparr>req_module_data = md, req_npm_name = npm_label npm, req_stm_name = None\<rparr> else None)"
proof -
  from assms obtain x where w2: "w2 = request_store rid
     \<lparr>req_module_data = md, req_npm_name = npm_label npm, req_stm_name = None\<rparr> (w\<lparr>am := (am w)\<lparr>ext := x\<rparr>\<rparr>)"
    by (auto simp: enter_request_def out_beta)
  show "statics w2 = statics w" "session_hash w2 = session_hash w" "key_hash w2 = key_hash w"
    "uri_mem (am w2) = uri_mem (am w)" "token_hash (am w2) = token_hash (am w)" "am_step (am w) (am w2)"
    by (simp_all add: w2)
  show "ka_step w w2"
    unfolding w2 by (rule ka_step_trans[OF agent_ka_step[OF agent_step_am[OF am_step_ext]] ka_step_request_store])
  assume idle: "agent_idle w"
  then have a: "agent_ok w" "single_ok w" by (simp_all add: agent_idle_def)
  show "loading_ok rid w2"
    using agent_ok_am[OF a(1) am_step_ext[of "am w" x]] a(2)
    by (simp add: loading_ok_def w2 agent_ok_request_store single_ok_request_store)
  show "ght_lookup (apimodule_loadkey_hash w2) i =
      (if i = rid then Some \<lparr>req_module_data = md, req_npm_name = npm_label npm, req_stm_name = None\<rparr> else None)"
    using idle by (simp add: agent_idle_def w2)
qed

locale agent = stm_modules E for E :: "'x ka_env" +
  fixes N :: "string \<Rightarrow> 'x npm_module option"
  assumes npm_ok: "N f = Some m \<Longrightarrow>
      opt_ok register_ok (sym_npm_register m) \<and> opt_ok key_load_ok (sym_npm_key_load m)"
begin

lemma npm_register_op: "npm_module_op N sym_npm_register npm = Some f \<Longrightarrow> register_ok f"
  by (auto simp: npm_module_op_def bind_eq_Some_conv dest!: npm_ok)

lemma npm_key_load_op: "npm_module_op N sym_npm_key_load npm = Some f \<Longrightarrow> key_load_ok f"
  by (auto simp: npm_module_op_def bind_eq_Some_conv dest!: npm_ok)

lemma load_into_stm_step:
  assumes ok: "loading_ok rid w" and run: "load_into_stm E rid url None w = Some (r, err', w')"
  shows "load_step rid w w' \<and> reports r None err' \<and> key_hash w' = key_hash w \<and>
    (keyagent_key_lookup w url \<noteq> None \<longrightarrow>
      (\<exists>k. keyagent_key_lookup w url = Some k \<and> keyagent_stm_load_key E rid k None w = Some (r, err', w')))"
proof (cases "keyagent_key_lookup w url")
  case None
  then show ?thesis using run by (simp add: load_into_stm_def)
next
  case (Some k)
  then have l: "keyagent_stm_load_key E rid k None w = Some (r, err', w')"
    using run by (simp add: load_into_stm_def)
  have w: "agent_ok w" "single_ok w" using ok by (simp_all add: loading_ok_def)
  note s = stm_load_key_step[OF w(1) l]
  have "load_step rid w w'" by (rule load_stepI) (use s w in auto)
  then show ?thesis using s l Some by auto
qed

text \<open>
  One load in steps: the request is entered in \<open>w2\<close>, the plug-in ends in \<open>w3\<close>, the STM in \<open>w4\<close>, and the
  request is taken out again.  It answers what the STM did; after a refusal the caller's slot points to
  a freed error.
\<close>

lemma load_registered_parts:
  assumes ok: "agent_idle w"
    and run: "load_registered N E url md npm None err w = Some (r, err', w')"
  obtains rid w2 kl b err1 w3 e w4 where "enter_request E md npm w = (rid, w2)"
    and "npm_module_op N sym_npm_key_load npm = Some kl" and "kl (load_details E rid url w2) err w2 = Some (b, err1, w3)"
    and "load_step rid w2 w3" and "load_into_stm E rid url None w3 = Some (r, if r then None else Some e, w4)"
    and "r \<or> err' = Some RELEASED" and "w' = request_remove rid w4"
proof -
  obtain rid w1 where rid: "out (keyagent_generate_request_id (g_random_int E)) w = (rid, w1)"
    by (cases "out (keyagent_generate_request_id (g_random_int E)) w")
  define w2 where "w2 = request_store rid \<lparr>req_module_data = md, req_npm_name = npm_label npm, req_stm_name = None\<rparr> w1"
  from run rid obtain kl b err1 w3 tmp w4 where kl: "npm_module_op N sym_npm_key_load npm = Some kl"
    and k: "kl (load_details E rid url w2) err w2 = Some (b, err1, w3)"
    and l: "load_into_stm E rid url None w3 = Some (r, tmp, w4)" and w': "w' = request_remove rid w4"
    and p: "propagate_and_release err1 tmp = Some err'"
    by (auto simp: load_registered_def call_with_slot_def bind_eq_Some_conv w2_def[symmetric] split: if_splits)
  have e: "enter_request E md npm w = (rid, w2)" using rid by (simp add: enter_request_def w2_def)
  note l2 = enter_request_frame(8)[OF e ok]
  have s: "load_step rid w2 w3"
    using key_load_okD[OF npm_key_load_op[OF kl] _ _ k] l2 npm_host_internal by (simp add: load_details_def)
  have rep: "reports r None tmp" using load_into_stm_step[OF load_step_ok[OF s l2] l] by blast
  have "r \<or> err' = Some RELEASED"
    using p rep by (cases r) (auto simp: propagate_and_release_def split: option.splits if_splits)
  moreover obtain e where "tmp = (if r then None else Some e)" using rep by (cases r; cases tmp) auto
  ultimately show ?thesis using that[OF e kl k s _ _ w'] l by blast
qed

lemma load_registered_spec:
  assumes ok: "agent_idle w"
    and run: "load_registered N E url md npm None err w = Some (r, err', w')"
  shows "agent_idle w' \<and> ka_step w w' \<and>
    (r \<longrightarrow> keyagent_key_lookup w' url = None \<or> stm_accepted E url md w w')"
proof -
  obtain rid w2 kl b err1 w3 e0 w4 where e: "enter_request E md npm w = (rid, w2)"
    and "npm_module_op N sym_npm_key_load npm = Some kl" and "kl (load_details E rid url w2) err w2 = Some (b, err1, w3)"
    and s3: "load_step rid w2 w3" and l: "load_into_stm E rid url None w3 = Some (r, if r then None else Some e0, w4)"
    and "r \<or> err' = Some RELEASED" and w': "w' = request_remove rid w4"
    by (rule load_registered_parts[OF assms])
  note w2 = enter_request_frame(6,7)[OF e] enter_request_frame(9)[OF e ok]
  have l2: "loading_ok rid w2" using e ok by (rule enter_request_frame(8))
  have l3: "loading_ok rid w3" using s3 l2 by (rule load_step_ok)
  note s4 = load_into_stm_step[OF l3 l]
  have s24: "load_step rid w2 w4" using s3 s4 by (blast intro: load_step_trans)
  have l4: "loading_ok rid w4" using s24 l2 by (rule load_step_ok)
  have rq: "ght_lookup (apimodule_loadkey_hash w4) i = None" if "i \<noteq> rid" for i
  proof -
    have "rel_option same_request (ght_lookup (apimodule_loadkey_hash w2) i) (ght_lookup (apimodule_loadkey_hash w4) i)"
      using s24 by (simp add: load_step_def agent_step_def requests_kept_def)
    then show ?thesis using that by (simp add: w2(3))
  qed
  have wf4: "ght_wf (apimodule_loadkey_hash w4)" using l4 by (simp add: loading_ok_def agent_ok_def)
  have "agent_idle w'"
    using l4 rq wf4 by (simp add: agent_idle_def w' request_remove_def loading_ok_def agent_ok_requests)
  moreover have "ka_step w w'"
  proof -
    have "ka_step w2 w4" using s24 by (simp add: load_step_def agent_ka_step)
    with w2(1) have "ka_step w w4" by (rule ka_step_trans)
    also have "ka_step w4 w'" by (simp add: w' request_remove_def)
    finally show ?thesis .
  qed
  moreover have "keyagent_key_lookup w' url = None \<or> stm_accepted E url md w w'" if r
  proof (cases "keyagent_key_lookup w3 url")
    case None
    then show ?thesis using s4 by (simp add: w' request_remove_def keyagent_key_lookup_def)
  next
    case (Some k0)
    then have acc: "keyagent_stm_load_key E rid k0 None w3 = Some (True, None, w4)" using s4 that by auto
    have "\<exists>rq'. ght_lookup (apimodule_loadkey_hash w3) rid = Some rq' \<and>
        same_request \<lparr>req_module_data = md, req_npm_name = npm_label npm, req_stm_name = None\<rparr> rq'"
      by (rule agent_step_requestD[of w2]) (use s3 in \<open>simp_all add: load_step_def w2(3)\<close>)
    then obtain rq where rq: "ght_lookup (apimodule_loadkey_hash w3) rid = Some rq" "req_module_data rq = md"
      by (auto simp: same_request_def)
    have st: "statics w3 = statics w2" "am_step (am w2) (am w3)" using s3 by (simp_all add: load_step_def agent_step_def)
    have fr: "am_step (am w) (am w3)" using w2(2) st(2) by (rule am_step_trans)
    have ops: "apimodule_ops w3 = apimodule_ops w"
      using staticsD(1)[OF st(1)] staticsD(1)[OF enter_request_frame(1)[OF e]] by simp
    have "keyagent_key_lookup w' url = Some k0"
      using s4 Some by (simp add: w' request_remove_def keyagent_key_lookup_def)
    then show ?thesis using Some acc rq fr ops unfolding stm_accepted_def
      by (intro disjI2 exI[of _ rid] exI[of _ rq] exI[of _ k0] exI[of _ w3] exI[of _ w4])
        (simp add: w' request_remove_def)
  qed
  ultimately show ?thesis by blast
qed

text \<open>One plug-in's turn: when it answers TRUE, the key is not there, or its STM has accepted it.\<close>

lemma loadkey_with_npm_spec:
  assumes ok: "agent_idle w"
    and run: "loadkey_with_npm N E url md npm err w = Some (r, err', w')"
  shows "agent_idle w' \<and> ka_step w w' \<and>
    (r \<longrightarrow> keyagent_key_lookup w' url = None \<or> stm_accepted E url md w w')"
proof (cases "npm_initialized npm")
  case False
  then show ?thesis using ok run by (simp add: loadkey_with_npm_def)
next
  case True
  with run obtain reg where reg: "npm_module_op N sym_npm_register npm = Some reg"
    by (auto simp: loadkey_with_npm_def bind_eq_Some_conv)
  obtain b e where be: "reg url None = (b, e)" by (cases "reg url None")
  have rep: "reports b None e" using npm_register_op[OF reg] be unfolding register_ok_def by blast
  show ?thesis
  proof (cases b)
    case False
    then show ?thesis using ok run True reg be by (simp add: loadkey_with_npm_def)
  next
    case b: True
    then have "load_registered N E url md npm None err w = Some (r, err', w')"
      using run True reg be rep by (simp add: loadkey_with_npm_def)
    then show ?thesis by (rule load_registered_spec[OF ok])
  qed
qed

lemma find_npm_spec:
  "agent_idle w \<Longrightarrow> find_npm N E url md ns err w = Some (r, err', w') \<Longrightarrow>
     agent_idle w' \<and> ka_step w w' \<and> (r \<longrightarrow> keyagent_key_lookup w' url = None \<or> stm_accepted E url md w w')"
proof (induction ns arbitrary: err w)
  case Nil
  then show ?case by simp
next
  case (Cons n ns)
  from Cons.prems(2) obtain r1 err1 w1 where l: "loadkey_with_npm N E url md n err w = Some (r1, err1, w1)"
    by (auto simp: bind_eq_Some_conv)
  note s = loadkey_with_npm_spec[OF Cons.prems(1) l]
  show ?case
  proof (cases r1)
    case True
    then show ?thesis using Cons.prems(2) l s by simp
  next
    case False
    then show ?thesis using Cons.prems(2) l s Cons.IH[of w1 err1] by (auto intro: ka_step_trans stm_accepted_later)
  qed
qed

text \<open>A plug-in that answered TRUE was given the load.\<close>

lemma loadkey_with_npm_registered:
  assumes "loadkey_with_npm N E url md npm err w = Some (True, err', w')"
  shows "load_registered N E url md npm None err w = Some (True, err', w')"
proof -
  from assms obtain reg where reg: "npm_initialized npm" "npm_module_op N sym_npm_register npm = Some reg"
    by (auto simp: loadkey_with_npm_def bind_eq_Some_conv split: if_splits)
  obtain b e where be: "reg url None = (b, e)" by (cases "reg url None")
  have "reports b None e" using npm_register_op[OF reg(2)] be unfolding register_ok_def by blast
  then show ?thesis using assms reg be by (cases b) (auto simp: loadkey_with_npm_def)
qed

text \<open>When a plug-in refuses the URL or its STM the key, a lone plug-in's search comes to nothing.\<close>

lemma find_npm_one:
  "find_npm N E url md [n] err w = Some (True, err', w') \<Longrightarrow> load_registered N E url md n None err w = Some (True, err', w')"
  by (auto simp: bind_eq_Some_conv split: if_splits intro: loadkey_with_npm_registered)

lemma loadkey_locked_spec:
  assumes ok: "agent_idle w" and run: "loadkey_locked N E url md err w = Some (r, err', w')"
  shows "agent_idle w' \<and> ka_step w w' \<and> (r \<longrightarrow> keyagent_key_lookup w' url \<noteq> None \<and>
    (keyagent_key_lookup w url = None \<longrightarrow> stm_accepted E url md w w'))"
proof (cases "keyagent_key_lookup w url")
  case (Some k)
  then show ?thesis using ok run by (simp add: loadkey_locked_def)
next
  case None
  from run None obtain found err1 w1 where f: "find_npm N E url md (ght_values (npm_hash w)) err w = Some (found, err1, w1)"
    by (auto simp: loadkey_locked_def bind_eq_Some_conv)
  from find_npm_spec[OF ok f] run None f show ?thesis
    by (cases found) (auto simp: loadkey_locked_def bind_eq_Some_conv)
qed

end

lemma rwlock_frame [simp]:
  "agent_idle (w\<lparr>rwlock := b\<rparr>) = agent_idle w"
  "keyagent_key_lookup (w\<lparr>rwlock := b\<rparr>) url = keyagent_key_lookup w url"
  by (simp_all add: agent_idle_def agent_ok_def sess_ok_def keys_ok_def key_ok_def stms_ok_def single_ok_def
      keyagent_key_lookup_def)

lemma stm_accepted_rwlock [simp]:
  "stm_accepted E url md v (w\<lparr>rwlock := b\<rparr>) = stm_accepted E url md v w"
  "stm_accepted E url md (v\<lparr>rwlock := b\<rparr>) w = stm_accepted E url md v w"
  by (simp_all add: stm_accepted_def)

lemma statics_rwlock:
  "statics v = statics (w\<lparr>rwlock := c\<rparr>) \<Longrightarrow> statics (v\<lparr>rwlock := rwlock w\<rparr>) = statics w"
  by (simp add: statics_def)

lemma sess_names_rwlock [simp]: "sess_names (w\<lparr>rwlock := b\<rparr>) = sess_names w"
  by (simp add: sess_names_def)

lemma ka_step_rwlock:
  assumes "ka_step (w\<lparr>rwlock := c\<rparr>) v"
  shows "ka_step w (v\<lparr>rwlock := rwlock w\<rparr>)"
proof -
  have "statics (v\<lparr>rwlock := rwlock w\<rparr>) = statics w"
    using assms by (intro statics_rwlock[where v = v and w = w and c = c]) (simp add: ka_step_def)
  then show ?thesis using assms
    by (simp add: ka_step_def stms_kept_def sessions_kept_def keys_kept_def)
qed

context agent begin

text \<open>
  Loading a key: the agent stays in a good state, the lock is free again whatever happened, and
  TRUE means the key is there, and was either there before or accepted by its STM now.
\<close>

lemma loadkey_spec:
  assumes ok: "agent_idle w"
    and run: "keyagent_loadkey_with_moduledata N E url md err w = Some (r, err', w')"
  shows "agent_idle w' \<and> ka_step w w' \<and> (r \<longrightarrow> keyagent_key_lookup w' url \<noteq> None \<and>
    (keyagent_key_lookup w url = None \<longrightarrow> stm_accepted E url md w w'))"
proof (cases "strv_nth (g_strsplit CHR '':'' url) 0 = Some [] \<or> strv_nth (g_strsplit CHR '':'' url) 1 = Some []")
  case True
  then show ?thesis using ok run
    by (auto simp: keyagent_loadkey_with_moduledata_def Let_def split: if_splits)
next
  case False
  with run have free: "\<not> rwlock w" and "\<exists>w1. loadkey_locked N E url md err (w\<lparr>rwlock := True\<rparr>) = Some (r, err', w1) \<and>
      w' = w1\<lparr>rwlock := False\<rparr>"
    by (auto simp: keyagent_loadkey_with_moduledata_def run_simps split: if_splits)
  then obtain w1 where l: "loadkey_locked N E url md err (w\<lparr>rwlock := True\<rparr>) = Some (r, err', w1)"
    and w': "w' = w1\<lparr>rwlock := rwlock w\<rparr>" by auto
  have "agent_idle (w\<lparr>rwlock := True\<rparr>)" using ok by simp
  note s = loadkey_locked_spec[OF this l]
  then have "ka_step w w'" unfolding w' by (blast intro: ka_step_rwlock)
  then show ?thesis using s by (simp add: w')
qed

lemma loadkey_registered:
  assumes "ght_values (npm_hash w) = [npm]" and "keyagent_key_lookup w url = None"
    and "keyagent_loadkey_with_moduledata N E url md err w = Some (True, err', w')"
  shows "\<exists>w1. load_registered N E url md npm None err (w\<lparr>rwlock := True\<rparr>) = Some (True, err', w1) \<and>
    keyagent_key_lookup w1 url \<noteq> None \<and> w' = w1\<lparr>rwlock := False\<rparr>"
proof -
  from assms(3) obtain w1 where l: "loadkey_locked N E url md err (w\<lparr>rwlock := True\<rparr>) = Some (True, err', w1)"
    and w': "w' = w1\<lparr>rwlock := False\<rparr>"
    by (auto simp: keyagent_loadkey_with_moduledata_def run_simps split: if_splits)
  have "keyagent_key_lookup (w\<lparr>rwlock := True\<rparr>) url = None" using assms(2) by (simp add: keyagent_key_lookup_def)
  with l have "find_npm N E url md [npm] err (w\<lparr>rwlock := True\<rparr>) = Some (True, err', w1)"
    and "keyagent_key_lookup w1 url \<noteq> None"
    by (auto simp del: find_npm.simps simp: loadkey_locked_def run_simps assms(1) split: if_splits)
  then show ?thesis using find_npm_one w' by blast
qed

end

text \<open>An installation whose NPM modules are all the KMS one.\<close>

definition kms_npm_module :: "(string \<Rightarrow> errcode + keyfile) \<Rightarrow> ('x, 'j) kms_env \<Rightarrow> 'x npm_module" where
  "kms_npm_module load M =
     \<lparr>sym_npm_init = Some (npm_init load), sym_npm_register = Some npm_register,
      sym_npm_key_load = Some (npm_key_load M), sym_npm_finalize = Some npm_finalize\<rparr>"

definition kms_only :: "'x ka_env \<Rightarrow> ('x, 'j) kms_env \<Rightarrow> string \<Rightarrow> 'x npm_module option" where
  "kms_only E M = (\<lambda>f. if file_exists E f then Some (kms_npm_module (load_keyfile E) M) else None)"

interpretation sgx_kms: agent "sgx_only E" "kms_only E' M" for E E' M
  by unfold_locales
    (auto simp: kms_only_def kms_npm_module_def npm_register_ok npm_key_load_ok split: if_splits)

section \<open>Properties\<close>

lemma keyagent_init_result:
  assumes "keyagent_init N E f None w = Some (r, err', w')"
  shows "ka_init_done w' \<and> err' = ka_init_error w' \<and> (r \<longleftrightarrow> err' = None) \<and> ka_init_error w' \<noteq> Some RELEASED"
proof -
  from assms obtain w1 where
    i: "(if ka_init_done w then Some w else do {
              (_, e, w0) \<leftarrow> do_keyagent_init N E f w;
              Some (w0\<lparr>ka_init_error := e, ka_init_done := True\<rparr>) }) = Some w1"
    and res: "(if ka_init_error w1 \<noteq> None then do {
          _ \<leftarrow> (if (None :: gerr) = None then log_error (ka_init_error w1) else None);
          Some (False, g_propagate_error None (ka_init_error w1), w1) }
        else Some (True, None, w1)) = Some (r, err', w')"
    unfolding keyagent_init_def by (auto simp: bind_eq_Some_conv)
  have "ka_init_done w1" using i by (auto simp: bind_eq_Some_conv split: if_splits)
  then show ?thesis using res
    by (cases "ka_init_error w1"; cases "ka_init_error w'") (auto simp: g_propagate_error_def bind_eq_Some_conv log_error_iff)
qed

text \<open>
  A second \<open>keyagent_init\<close>, with any file, has the outcome of the first and
  changes nothing; it fails exactly when the first one left an error.
\<close>
lemma keyagent_init_once:
  assumes "keyagent_init N E filename None w = Some (r, err', w')"
  shows "keyagent_init N E other None w' = Some (r, err', w') \<and> (r \<longleftrightarrow> err' = None)"
  using keyagent_init_result[OF assms]
  by (cases "ka_init_error w'") (auto simp: keyagent_init_def g_propagate_error_def log_error_def)

text \<open>After a failed start, a caller that frees its error makes the next one use it: it does not return.\<close>

lemma keyagent_init_freed_error:
  assumes "keyagent_init N E filename None w = Some (False, err', w')"
  shows "keyagent_init N E other err (caller_frees_start_error w') = None"
  using keyagent_init_result[OF assms]
  by (auto simp: keyagent_init_def caller_frees_start_error_def log_error_def)

text \<open>
  A key that is there is not asked for again: loading it under a well-formed URL with the lock
  free answers TRUE at once and changes nothing.
\<close>

lemma loadkey_present:
  assumes "g_strsplit CHR '':'' url = a # b # cs" and "a \<noteq> []" and "b \<noteq> []" and "\<not> rwlock w"
    and "keyagent_key_lookup w url \<noteq> None"
  shows "keyagent_loadkey_with_moduledata N E url md err w = Some (True, err, w)"
proof -
  have "w\<lparr>rwlock := False\<rparr> = w" using assms(4) by simp
  then show ?thesis using assms
    by (simp add: keyagent_loadkey_with_moduledata_def loadkey_locked_def)
qed

text \<open>
  Credentials are accepted only when the certificate files are there, and the key file as well
  when it is a file.
\<close>
lemma credentials_checked:
  assumes "init_credentials E w = (None, w')"
  shows "file_exists E (cert w') \<and> file_exists E (cacert w') \<and>
    (keyformat w' = KEYAGENT_KEY_FORMAT_PEM \<longrightarrow> file_exists E (certkey w'))"
  using assms by (auto simp: init_credentials_def init_keyformat_def Let_def split: prod.splits if_splits option.splits)

text \<open>
  The plug-ins loaded are the files of the directory whose names match, in the order the
  directory lists them.
\<close>
lemma wildcards_filter:
  "handle_wildcards E location = (case dir_entries E (g_path_get_dirname E location) of None \<Rightarrow> []
     | Some names \<Rightarrow> map (\<lambda>n. g_path_get_dirname E location @ ''/'' @ n)
         (filter (g_pattern_match_string E (g_path_get_basename E location)) names))"
proof -
  have "fold (\<lambda>name res. if P name then res @ [path @ ''/'' @ name] else res) names acc =
      acc @ map (\<lambda>n. path @ ''/'' @ n) (filter P names)" for P path names acc
    by (induction names arbitrary: acc) auto
  then show ?thesis by (simp add: handle_wildcards_def Let_def split: option.split)
qed

text \<open>The plug-in table with the KMS plug-in alone, as starting the agent leaves it.\<close>

definition kms_loaded :: "'x ka_env \<Rightarrow> 'x world \<Rightarrow> keyagent_npm_real \<Rightarrow> bool" where
  "kms_loaded E w npm \<longleftrightarrow> npm_hash w = [(KMS_PREFIX_TOKEN, npm)] \<and> npm_label npm = KMS_PREFIX_TOKEN \<and>
     npm_initialized npm \<and> file_exists E (npm_module_name npm)"

lemma kms_loaded_parts:
  assumes "kms_loaded E w npm"
  shows "ght_values (npm_hash w) = [npm]" and "npm_initialized npm"
    and "npm_module_op (kms_only E M) sym_npm_register npm = Some npm_register"
    and "npm_module_op (kms_only E M) sym_npm_key_load npm = Some (npm_key_load M)"
  using assms by (simp_all add: kms_loaded_def ght_values_def npm_module_op_def kms_only_def kms_npm_module_def)

text \<open>
  C19: a key that its STM refuses crashes the process.  When the KMS plug-in's load has brought the key into
  the agent's table, the load of the key returns exactly when the STM accepts it, and then with TRUE.  A
  refusal sets an error that is moved into the caller's slot and released, the search for a plug-in goes on
  and finds no other, and the report that the URL is not supported releases the error in the slot again.
\<close>
theorem refused_key_crashes:
  assumes "agent_idle w" and "\<not> rwlock w" and "kms_loaded E' w npm" and "keyagent_key_lookup w url = None"
    and "fst (npm_register url None)" and "err \<noteq> Some RELEASED"
    and "enter_request (sgx_only E) md npm (w\<lparr>rwlock := True\<rparr>) = (rid, w2)"
    and "npm_key_load M (load_details (sgx_only E) rid url w2) err w2 = Some (b, err1, w3)"
    and "keyagent_key_lookup w3 url = Some k"
    and "keyagent_stm_load_key (sgx_only E) rid k None w3 = Some (r, e, w4)"
  shows "keyagent_loadkey_with_moduledata (kms_only E' M) (sgx_only E) url md err w =
    (if r then Some (True, err1, request_remove rid w4\<lparr>rwlock := False\<rparr>) else None)"
proof -
  let ?w = "w\<lparr>rwlock := True\<rparr>" and ?N = "kms_only E' M" and ?E = "sgx_only E"
  note n = kms_loaded_parts(1,2)[OF assms(3)] kms_loaded_parts(3,4)[OF assms(3), of M]
  obtain x xs where url: "g_strsplit CHR '':'' url = KMS_PREFIX_TOKEN # x # xs" "x \<noteq> []"
    using assms(5) unfolding npm_register_accepts by blast
  have reg: "npm_register url None = (True, None)" using url npm_register_accepts[of url None] by (simp add: npm_register_def Let_def)
  have idle: "agent_idle ?w" using assms(1) by simp
  have lo2: "loading_ok rid w2" by (rule enter_request_frame(8)[OF assms(7) idle])
  have "load_step rid w2 w3"
    using key_load_okD[OF npm_key_load_ok _ _ assms(8)] lo2 by (simp add: load_details_def sgx_modules.npm_host_internal)
  then have lo3: "loading_ok rid w3" using lo2 by (rule load_step_ok)
  have st: "load_into_stm ?E rid url None w3 = Some (r, e, w4)" using assms(9,10) by (simp add: load_into_stm_def)
  note s = sgx_kms.load_into_stm_step[OF lo3 st]
  have run: "load_registered ?N ?E url md npm None err ?w =
      do { err2 \<leftarrow> propagate_and_release err1 e; Some (r, err2, request_remove rid w4) }"
    using assms(6-8) n(4) st
    by (auto simp: load_registered_def enter_request_def call_with_slot_def Let_def split: prod.splits)
  have with_npm: "loadkey_with_npm ?N ?E url md npm err ?w = load_registered ?N ?E url md npm None err ?w"
    using n(2,3) reg by (simp add: loadkey_with_npm_def)
  have absent: "keyagent_key_lookup ?w url = None" using assms(4) by simp
  show ?thesis
  proof (cases r)
    case True
    then have "keyagent_key_lookup (request_remove rid w4) url \<noteq> None"
      using s assms(9) by (simp add: request_remove_def keyagent_key_lookup_def)
    then have "loadkey_locked ?N ?E url md err ?w = Some (True, err1, request_remove rid w4)"
      using absent s True with_npm run n(1) by (simp add: loadkey_locked_def propagate_and_release_def)
    then show ?thesis using True url assms(2) by (simp add: keyagent_loadkey_with_moduledata_def KMS_PREFIX_TOKEN_def)
  next
    case False
    then have "e \<noteq> None" using s by (cases e) auto
    then have "loadkey_locked ?N ?E url md err ?w = None"
      using absent False with_npm run n(1) by (auto simp: loadkey_locked_def propagate_and_release_def k_reset_error_def)
    then show ?thesis using False url assms(2) by (simp add: keyagent_loadkey_with_moduledata_def KMS_PREFIX_TOKEN_def)
  qed
qed

end
