(* ===== verification/Pkcs11_Module.thy ===== *)
theory Pkcs11_Module
  imports Keyagent
begin

text \<open>
  The exported entry points of \<open>api-module/pkcs11/src/pkcs11-apimodule.cpp\<close>: what a program that
  loads the module as its PKCS#11 library calls, and how a key is fetched on demand.
\<close>

section \<open>Surroundings\<close>

text \<open>
  \<open>sk_lib\<close> is the library below, \<open>g_module_open_p11\<close> opens it (\<open>None\<close>: cannot be opened;
  \<open>Some None\<close>: no \<open>C_GetFunctionList\<close>; otherwise what that returns), \<open>file_lines\<close> is
  \<open>fopen\<close> and \<open>getline\<close>: the lines of a file, none of them empty.
\<close>

record 'x skc_env =
  sk_ka :: "'x ka_env"
  sk_npm :: "string \<Rightarrow> 'x npm_module option"
  sk_lib :: "'x cryptoki"
  sk_layout :: rsa_params_layout
  p11_kit_uri_parse :: "string \<Rightarrow> p11_uri option"
  file_lines :: "string \<Rightarrow> string list option"
  g_getenv :: "string \<Rightarrow> string option"
  SKC_CONF_PATH :: string
  g_module_open_p11 :: "string \<Rightarrow> ck_ulong option option"
  g_module_close :: "string \<Rightarrow> bool"

section \<open>Fetching a key on demand\<close>

text \<open>
  The token of the URI: the one in the table, or one found on the device; \<open>fp\<close> is the address of
  the local variable \<open>uri_data\<close>.
\<close>

definition ondemand_token ::
    "'x skc_env \<Rightarrow> nat \<Rightarrow> apimodule_uri_data \<Rightarrow> string \<Rightarrow> gerr \<Rightarrow> 'x am \<Rightarrow>
     ((apimodule_token option \<times> apimodule_uri_data \<times> gerr) \<times> 'x am) option" where
  "ondemand_token S fp d tlab err a =
     (case lookup_apimodule_token a (c_str tlab) of
        Some t \<Rightarrow> Some ((Some t, d, err), a)
      | None \<Rightarrow> do {
          (t, d1, err1, a1) \<leftarrow> init_apimodule_token (sk_lib S) d False err a;
          Some ((t, d1, err1), uri_data_write fp d1 a1) })"

text \<open>
  With a token: its PIN must be the URI's, and the key must not be there yet.  The result is the
  return value to end with, or \<open>None\<close> to go on.
\<close>

definition ondemand_present ::
    "'x skc_env \<Rightarrow> apimodule_token \<Rightarrow> apimodule_uri_data \<Rightarrow> 'x am \<Rightarrow> (ck_ulong option \<times> 'x am) option" where
  "ondemand_present S t d a = do {
     p \<leftarrow> pin d;
     if c_str (tok_pin t) \<noteq> c_str p then Some (Some CKR_GENERAL_ERROR, a) else do {
     (rv, present, a1) \<leftarrow> apimodule_findobject (sk_lib S) (tok_session t) d a;
     Some (if rv \<noteq> CKR_OK \<or> present then Some rv else None, a1) }}"

text \<open>The URL handed to the key agent.\<close>

definition ondemand_url :: "apimodule_uri_data \<Rightarrow> string \<Rightarrow> string option" where
  "ondemand_url d uri = do {
     tlab \<leftarrow> token_label d;
     kid \<leftarrow> key_id d;
     kl \<leftarrow> key_label d;
     Some (g_strjoinv '':'' [c_str tlab, c_str kid, c_str kl, uri]) }"

text \<open>Asking the key agent; a failure without an error is dereferenced by the log call.\<close>

definition ondemand_load ::
    "'x skc_env \<Rightarrow> nat \<Rightarrow> apimodule_uri_data \<Rightarrow> string \<Rightarrow> gerr \<Rightarrow> 'x world \<Rightarrow> (ck_ulong \<times> 'x world) option" where
  "ondemand_load S fp d uri err w = do {
     url \<leftarrow> ondemand_url d uri;
     (r, err1, w1) \<leftarrow> keyagent_loadkey_with_moduledata (sk_npm S) (sk_ka S) url (Some fp) err w;
     if r then Some (CKR_OK, w1) else do { _ \<leftarrow> log_error err1; Some (CKR_ARGUMENTS_BAD, w1) } }"

text \<open>The body between the parse and the cleanup, on a parsed URI.\<close>

definition ondemand_body ::
    "'x skc_env \<Rightarrow> nat \<Rightarrow> apimodule_uri_data \<Rightarrow> string \<Rightarrow> 'x world \<Rightarrow> (ck_ulong \<times> 'x world) option" where
  "ondemand_body S fp d uri w = do {
     tlab \<leftarrow> token_label d;
     ((tok, d1, err1), w1) \<leftarrow> with_am (ondemand_token S fp d tlab None) w;
     (case tok of
        None \<Rightarrow> ondemand_load S fp d1 uri err1 w1
      | Some t \<Rightarrow> do {
          (rv, w2) \<leftarrow> with_am (ondemand_present S t d1) w1;
          (case rv of Some v \<Rightarrow> Some (v, w2) | None \<Rightarrow> ondemand_load S fp d1 uri err1 w2) }) }"

definition uri_mem_set :: "nat \<Rightarrow> apimodule_uri_data option \<Rightarrow> 'x world \<Rightarrow> 'x world" where
  "uri_mem_set fp d w = w\<lparr>am := (am w)\<lparr>uri_mem := (uri_mem (am w))(fp := d)\<rparr>\<rparr>"

text \<open>
  Without a URI the cleanup releases what an uninitialised struct points to.  Before the library
  below is loaded there is no function list to call through.  At the end the variable is gone.
\<close>

definition C_OnDemand_KeyLoad :: "'x skc_env \<Rightarrow> nat \<Rightarrow> string option \<Rightarrow> 'x world \<Rightarrow> (ck_ulong \<times> 'x world) option" where
  "C_OnDemand_KeyLoad S fp uri_string w = do {
     uri \<leftarrow> uri_string;
     let (ok, d) = apimodule_uri_to_uri_data (p11_kit_uri_parse S) (Some uri) apimodule_uri_data_init;
     if \<not> ok then Some (CKR_ARGUMENTS_BAD, w)
     else if \<not> func_list_set w then None
     else do {
       (rv, w1) \<leftarrow> ondemand_body S fp d uri (uri_mem_set fp (Some d) w);
       Some (rv, uri_mem_set fp None w1) } }"

definition apimodule_load_uri :: "'x skc_env \<Rightarrow> nat \<Rightarrow> string option \<Rightarrow> 'x world \<Rightarrow> (bool \<times> 'x world) option" where
  "apimodule_load_uri S fp uri w =
     (if uri = None \<or> uri = Some [] then Some (False, w) else do {
        (rv, w1) \<leftarrow> C_OnDemand_KeyLoad S fp uri w;
        Some (rv = CKR_OK, w1) })"

section \<open>Starting and stopping the library below\<close>

text \<open>
  The lines of the preload file, until one cannot be loaded.  \<open>ret\<close> is FALSE for a file
  without lines.
\<close>

fun preload_lines ::
    "'x skc_env \<Rightarrow> nat \<Rightarrow> string list \<Rightarrow> bool \<Rightarrow> gerr \<Rightarrow> 'x world \<Rightarrow> (bool \<times> gerr \<times> 'x world) option" where
  "preload_lines S fp [] ret err w = Some (ret, err, w)"
| "preload_lines S fp (uri # uris) ret err w = do {
     (rv, w1) \<leftarrow> C_OnDemand_KeyLoad S fp (Some (c_str uri)) w;
     if rv \<noteq> CKR_OK
     then Some (False, if err = None then g_set_error err APIMODULE_ERROR_INVALID_CONF_VALUE else err, w1)
     else preload_lines S fp uris True err w1 }"

definition apimodule_preload_keys ::
    "'x skc_env \<Rightarrow> nat \<Rightarrow> gerr \<Rightarrow> 'x world \<Rightarrow> (bool \<times> gerr \<times> 'x world) option" where
  "apimodule_preload_keys S fp err w =
     (if pre_load_keyfile w = Some ''NIL'' then Some (False, err, w) else do {
        f \<leftarrow> pre_load_keyfile w;
        (case file_lines S f of
           None \<Rightarrow> Some (False, g_set_error err APIMODULE_ERROR_INVALID_CONF_VALUE, w)
         | Some lines \<Rightarrow> preload_lines S fp lines False err w) })"

text \<open>
  The wrapper: the first start that succeeds preloads the keys.  The counter is incremented before
  the keys are loaded.  A failure is logged through its error, which may not be there.
\<close>

definition C_Initialize :: "'x skc_env \<Rightarrow> nat \<Rightarrow> 'x world \<Rightarrow> (ck_ulong \<times> 'x world) option" where
  "C_Initialize S fp w =
     (if \<not> func_list_set w \<or> \<not> exports_C_Initialize (sk_lib S) then None
      else
       (let (ret, w1) = out (c_initialize (sk_lib S)) w in
        if ret = CKR_OK \<or> ret = CKR_CRYPTOKI_ALREADY_INITIALIZED then
         (let old = preload_keys_flag (am w1);
              w2 = w1\<lparr>am := (am w1)\<lparr>preload_keys_flag := old + 1\<rparr>\<rparr> in
          if old \<noteq> 0 then Some (ret, w2) else do {
            (ok, error, w3) \<leftarrow> apimodule_preload_keys S fp None w2;
            if ok then Some (ret, w3) else do { _ \<leftarrow> log_error error; Some (ret, w3) } })
        else Some (ret, w1)))"

definition C_Finalize :: "'x skc_env \<Rightarrow> 'x world \<Rightarrow> (ck_ulong \<times> 'x world) option" where
  "C_Finalize S w =
     (if \<not> func_list_set w \<or> \<not> exports_C_Finalize (sk_lib S) then None else Some (out (c_finalize (sk_lib S)) w))"

text \<open>
  In a child process: the library is restarted, and the token of the first URI of the preload file
  is opened again.
\<close>

definition prepare_child_login ::
    "'x skc_env \<Rightarrow> apimodule_uri_data \<Rightarrow> 'x am \<Rightarrow> (unit \<times> 'x am) option" where
  "prepare_child_login S d a = do {
     (rv, present, d1, a1) \<leftarrow> apimodule_findtoken (sk_lib S) d a;
     if rv \<noteq> CKR_OK \<or> \<not> present then Some ((), a1) else do {
     let ((rv2, hs), a2) = with_ext (C_OpenSession (sk_lib S) (slot_id d1) CKF_RW_SERIAL_SESSION) a1;
     if rv2 \<noteq> CKR_OK then Some ((), a2) else do {
     p \<leftarrow> pin d1;
     let (_, a3) = with_ext (C_Login (sk_lib S) hs CKU_USER p) a2;
     Some ((), a3) }}}"

definition apimodule_prepare_child :: "'x skc_env \<Rightarrow> nat \<Rightarrow> 'x world \<Rightarrow> 'x world option" where
  "apimodule_prepare_child S fp w = do {
     (_, w1) \<leftarrow> C_Finalize S w;
     (_, w2) \<leftarrow> C_Initialize S fp w1;
     f \<leftarrow> pre_load_keyfile w2;
     (case file_lines S f of
        None \<Rightarrow> Some w2
      | Some [] \<Rightarrow> Some w2
      | Some (uri # _) \<Rightarrow>
          (let (ok, d) = apimodule_uri_to_uri_data (p11_kit_uri_parse S) (Some (c_str uri)) apimodule_uri_data_init in
           if \<not> ok then Some w2 else do {
             (_, w3) \<leftarrow> with_am (prepare_child_login S d) w2;
             Some w3 })) }"

section \<open>Loading the module\<close>

text \<open>A loaded module is known by its name.  \<open>g_module_close\<close> answers TRUE or FALSE, never less than zero.\<close>

definition apimodule_unload_module :: "'x skc_env \<Rightarrow> string \<Rightarrow> 'x world \<Rightarrow> ck_ulong" where
  "apimodule_unload_module S modl w =
     (if modl \<notin> set (module_hash w) then CKR_ARGUMENTS_BAD
      else if (if g_module_close S modl then 1 else 0) < (0 :: int) then CKR_FUNCTION_FAILED
      else CKR_OK)"

definition apimodule_load_module :: "'x skc_env \<Rightarrow> string option \<Rightarrow> 'x world \<Rightarrow> ck_ulong \<times> 'x world" where
  "apimodule_load_module S module_name w =
     (case module_name of None \<Rightarrow> (CKR_GENERAL_ERROR, w) | Some nm \<Rightarrow>
     (case g_module_open_p11 S nm of None \<Rightarrow> (CKR_GENERAL_ERROR, w) | Some get_function_list \<Rightarrow>
      (let w1 = w\<lparr>module_hash := (if nm \<in> set (module_hash w) then module_hash w else module_hash w @ [nm])\<rparr> in
       case get_function_list of
         None \<Rightarrow> (let _ = apimodule_unload_module S nm w1 in (CKR_GENERAL_ERROR, w1))
       | Some rv \<Rightarrow> (if rv = CKR_OK then (CKR_OK, w1) else (let _ = apimodule_unload_module S nm w1 in (rv, w1))))))"

definition module_ops :: "'x skc_env \<Rightarrow> 'x keyagent_apimodule_ops" where
  "module_ops S =
     \<lparr>ops_load_key = Some (apimodule_load_key (sk_lib S)),
      ops_get_challenge = Some (apimodule_get_challenge (sk_lib S) (sk_layout S)),
      ops_set_wrapping_key = Some (apimodule_set_wrapping_key (sk_lib S))\<rparr>"

text \<open>
  The settings of the module: the key agent's configuration file, the mode, the library to load and
  the preload file; an error is logged.
\<close>

definition module_config :: "'x skc_env \<Rightarrow> 'x world \<Rightarrow> ((string \<times> string \<times> string) option \<times> 'x world) option" where
  "module_config S w =
     (let file = (case g_getenv S ''SKC_PKCS11_APIMODULE_CONF'' of
                    None \<Rightarrow> SKC_CONF_PATH S @ ''/pkcs11-apimodule.ini'' | Some f \<Rightarrow> f);
          (cfg, e1) = key_config_openfile (load_keyfile (sk_ka S)) (Some file) None in
      case cfg of None \<Rightarrow> do { _ \<leftarrow> log_error e1; Some (None, w) } | Some _ \<Rightarrow>
      (let (agent_conf, e2) = key_config_get_string cfg ''core'' ''keyagent_conf'' e1 in
       case agent_conf of None \<Rightarrow> do { _ \<leftarrow> log_error e2; Some (None, w) } | Some conf \<Rightarrow>
       (let (md, e3) = key_config_get_string cfg ''core'' ''mode'' e2; w1 = w\<lparr>mode := md\<rparr> in
        case md of None \<Rightarrow> do { _ \<leftarrow> log_error e3; Some (None, w1) } | Some m \<Rightarrow>
        (let (modl, e4) = key_config_get_string cfg m ''module'' e3 in
         case modl of None \<Rightarrow> do { _ \<leftarrow> log_error e4; Some (None, w1) } | Some lib \<Rightarrow>
           Some (Some (conf, m, lib),
             w1\<lparr>pre_load_keyfile := key_config_get_string_optional cfg ''core'' ''preload_keys'' (Some ''NIL'')\<rparr>)))))"

text \<open>
  \<open>apimodule_init\<close>.  When the agent has no STM of the mode's name, registering fails without an
  error, and the log call dereferences it.
\<close>

definition apimodule_init :: "'x skc_env \<Rightarrow> 'x world \<Rightarrow> (ck_ulong \<times> 'x world) option" where
  "apimodule_init S w = do {
     let w0 = w\<lparr>am := (am w)\<lparr>token_hash := ght_empty, api_hash := ght_insert ''SGX'' SGX_APIMODULE_OPS ght_empty\<rparr>,
                module_hash := []\<rparr>;
     (settings, w1) \<leftarrow> module_config S w0;
     (case settings of None \<Rightarrow> Some (CKR_GENERAL_ERROR, w1) | Some (conf, m, lib) \<Rightarrow>
       (let (rv, w2) = apimodule_load_module S (Some lib) w1 in
        if rv \<noteq> CKR_OK then Some (rv, w2) else do {
          (ok, error, w3) \<leftarrow> keyagent_init (sk_npm S) (sk_ka S) (Some conf) None (w2\<lparr>func_list_set := True\<rparr>);
          if \<not> ok then do { _ \<leftarrow> log_error error; Some (CKR_GENERAL_ERROR, w3) }
          else
            (let (registered, w4) = keyagent_apimodule_register (Some m) (module_ops S) w3 in
             if \<not> registered then None else Some (CKR_OK, w4)) })) }"

text \<open>
  Once only; every call returns what the first one did.  In SGX mode \<open>apimodule_prepare_child\<close> is
  registered to run in every forked child.
\<close>

definition C_GetFunctionList :: "'x skc_env \<Rightarrow> 'x world \<Rightarrow> (ck_ulong \<times> 'x world) option" where
  "C_GetFunctionList S w =
     (if gfl_init w then Some (gfl_rv w, w) else do {
        (rv, w1) \<leftarrow> apimodule_init S w;
        Some (rv, w1\<lparr>gfl_rv := rv, atfork_set := (atfork_set w1 \<or> mode w1 = Some ''SGX''), gfl_init := True\<rparr>) })"

text \<open>
  \<open>apimodule_initialize\<close>; the flag says whether the caller passed a table to fill.
\<close>

definition apimodule_initialize ::
    "'x skc_env \<Rightarrow> nat \<Rightarrow> bool \<Rightarrow> gerr \<Rightarrow> 'x world \<Rightarrow> (bool \<times> gerr \<times> 'x keyagent_apimodule_ops option \<times> 'x world) option" where
  "apimodule_initialize S fp ops_given err w =
     (if \<not> ops_given then Some (False, g_set_error err APIMODULE_ERROR_INVALID_INPUT, None, w) else do {
        (rv, w1) \<leftarrow> C_GetFunctionList S w;
        if rv \<noteq> CKR_OK then Some (False, g_set_error err APIMODULE_ERROR_API_RETURN_ERROR, None, w1) else do {
        (rv2, w2) \<leftarrow> C_Initialize S fp w1;
        if rv2 \<noteq> CKR_OK \<and> rv2 \<noteq> CKR_CRYPTOKI_ALREADY_INITIALIZED
        then Some (False, g_set_error err APIMODULE_ERROR_API_RETURN_ERROR, None, w2)
        else Some (True, err, Some (module_ops S), w2) }})"

section \<open>Properties\<close>

text \<open>
  The module is initialised once: a second \<open>C_GetFunctionList\<close> answers what the first did and
  changes nothing, also when the first one failed.
\<close>
lemma function_list_once:
  assumes "C_GetFunctionList S w = Some (rv, w')"
  shows "C_GetFunctionList S w' = Some (rv, w')"
  using assms by (auto simp: C_GetFunctionList_def bind_eq_Some_conv split: if_splits)

text \<open>
  C15: a token that is open is used only with its own PIN: a URI with another PIN is refused, and
  neither the token nor the key agent is asked.
\<close>
theorem ondemand_pin_guard:
  assumes "func_list_set w"
    and "apimodule_uri_to_uri_data (p11_kit_uri_parse S) (Some u) apimodule_uri_data_init = (True, d)"
    and "token_label d = Some tlab" and "lookup_apimodule_token (am w) (c_str tlab) = Some t"
    and "pin d = Some p" and "c_str (tok_pin t) \<noteq> c_str p"
  shows "C_OnDemand_KeyLoad S fp (Some u) w = Some (CKR_GENERAL_ERROR, uri_mem_set fp None w)"
proof -
  have "lookup_apimodule_token (am (uri_mem_set fp (Some d) w)) (c_str tlab) = Some t"
    using assms(4) by (simp add: uri_mem_set_def lookup_apimodule_token_def)
  then show ?thesis using assms
    by (simp add: C_OnDemand_KeyLoad_def ondemand_body_def ondemand_token_def ondemand_present_def with_am_def)
      (simp add: uri_mem_set_def)
qed

text \<open>
  C16: preloading succeeds exactly when the file has lines and each of them, in order, was loaded.
\<close>
theorem preload_all:
  assumes "preload_lines S fp us False None w = Some (r, err', w')"
  shows "r \<longleftrightarrow> us \<noteq> [] \<and> err' = None \<and> (\<exists>ws. length ws = Suc (length us) \<and> ws ! 0 = w \<and> last ws = w' \<and>
    (\<forall>i<length us. C_OnDemand_KeyLoad S fp (Some (c_str (us ! i))) (ws ! i) = Some (CKR_OK, ws ! Suc i)))"
proof -
  have gen: "preload_lines S fp us ret None w = Some (r, err', w') \<Longrightarrow>
    (if r then (us \<noteq> [] \<or> ret) \<and> err' = None \<and> (\<exists>ws. length ws = Suc (length us) \<and> ws ! 0 = w \<and> last ws = w' \<and>
      (\<forall>i<length us. C_OnDemand_KeyLoad S fp (Some (c_str (us ! i))) (ws ! i) = Some (CKR_OK, ws ! Suc i)))
     else err' \<noteq> None \<or> us = [] \<and> \<not> ret)" for ret
  proof (induction us arbitrary: ret w)
    case Nil
    then show ?case by (auto intro: exI[of _ "[w]"])
  next
    case (Cons u us)
    then obtain rv w1 where o: "C_OnDemand_KeyLoad S fp (Some (c_str u)) w = Some (rv, w1)"
      by (auto simp: bind_eq_Some_conv)
    show ?case
    proof (cases "rv = CKR_OK")
      case False
      then show ?thesis using Cons.prems o by auto
    next
      case True
      then have p: "preload_lines S fp us True None w1 = Some (r, err', w')" using Cons.prems o by simp
      show ?thesis
      proof (cases r)
        case False
        then show ?thesis using Cons.IH[OF p] by simp
      next
        case r: True
        then obtain ws where ws: "length ws = Suc (length us)" "ws ! 0 = w1" "last ws = w'" "err' = None"
          "\<forall>i<length us. C_OnDemand_KeyLoad S fp (Some (c_str (us ! i))) (ws ! i) = Some (CKR_OK, ws ! Suc i)"
          using Cons.IH[OF p] by auto
        have "C_OnDemand_KeyLoad S fp (Some (c_str ((u # us) ! i))) ((w # ws) ! i) = Some (CKR_OK, (w # ws) ! Suc i)"
          if "i < length (u # us)" for i
          using that ws o True by (cases i) auto
        then show ?thesis using ws r by (auto intro!: exI[of _ "w # ws"])
      qed
    qed
  qed
  show ?thesis using gen[OF assms] by (cases r) auto
qed

text \<open>
  C32: the first start of the library below that succeeds, when no key is preloaded.  Without a
  preload directive, or with a preload file that has no line, preloading fails without an error, and
  logging the error it does not have crashes \<open>C_Initialize\<close>.  A file that cannot be opened sets an error:
  it is logged, and \<open>C_Initialize\<close> answers what the library below did, with the counter set, so that no
  later call preloads the keys.
\<close>
theorem initialize_without_preload:
  assumes "func_list_set w" and "exports_C_Initialize (sk_lib S)"
    and "fst (c_initialize (sk_lib S) (ext (am w))) = rv" and "rv = CKR_OK \<or> rv = CKR_CRYPTOKI_ALREADY_INITIALIZED"
    and "preload_keys_flag (am w) = 0" and "pre_load_keyfile w = Some f"
    and "f = ''NIL'' \<or> file_lines S f = Some [] \<or> file_lines S f = None"
  shows "C_Initialize S fp w = (if f = ''NIL'' \<or> file_lines S f = Some [] then None
    else Some (rv, w\<lparr>am := (am w)\<lparr>ext := snd (c_initialize (sk_lib S) (ext (am w))), preload_keys_flag := 1\<rparr>\<rparr>))"
  using assms by (auto simp: C_Initialize_def out_beta apimodule_preload_keys_def log_error_def Let_def g_set_error_def)

text \<open>
  C33: a load that is refused for its URL, because the token or the key id is empty, fails without an
  error; the entry point that asked for it dereferences the missing error.
\<close>
theorem silent_refusal:
  assumes "strv_nth (g_strsplit CHR '':'' url) 0 = Some [] \<or> strv_nth (g_strsplit CHR '':'' url) 1 = Some []"
    and "ondemand_url d uri = Some url"
  shows "keyagent_loadkey_with_moduledata N E url md err w = Some (False, err, w) \<and> ondemand_load S fp d uri None w = None"
proof -
  have "g_strsplit CHR '':'' url \<noteq> []" using assms(1) by (cases "g_strsplit CHR '':'' url") auto
  then have "keyagent_loadkey_with_moduledata N E url md err w = Some (False, err, w)" for N E md err
    using assms(1) by (simp add: keyagent_loadkey_with_moduledata_def Let_def)
  then show ?thesis using assms(2) by (simp add: ondemand_load_def log_error_def)
qed

end
