(* ===== verification/Returns.thy ===== *)
theory Returns
  imports Pkcs11_Module
begin

text \<open>
  Which loads of the KMS plug-in return.  The broker's answers are outside the program; three of them the
  plug-in may not survive: a header line behind which memory cannot be read, a challenge too long for the
  nonce's buffer, and a key whose algorithm can no longer be read when it is compared.
\<close>

text \<open>
  What can go wrong in a round of a load.  The answer has a header line that is not terminated, and
  reading on behind it faults; or the broker asks for a session with a challenge that does not fit into
  the nonce; or it sends a key, and reading the destroyed string with its algorithm faults.
\<close>

definition unreadable_headers ::
    "('x, 'j) kms_env \<Rightarrow> 'x keyagent_keyload_details \<Rightarrow> 'x world \<Rightarrow> bool" where
  "unreadable_headers M details w = (case transfer_request details w of
      None \<Rightarrow> False
    | Some (url, headers) \<Rightarrow>
        \<not> list_all readable_line (fst (response_of (k_curl M)
           (https_options url headers None True (Some (kl_ssl_opts details)) None (kms_debug w)) (ext (am w)))))"

definition overlong_challenge ::
    "('x, 'j) kms_env \<Rightarrow> 'x keyagent_keyload_details \<Rightarrow> 'x world \<Rightarrow> bool" where
  "overlong_challenge M details w = (case request_key M details w of
      None \<Rightarrow> False
    | Some ((st, _, t), _) \<Rightarrow> st = 401 \<and> parse_fault (k_json M) t = Some True \<and>
        (case parse_challenge (k_json M) t of
           None \<Rightarrow> False
         | Some cr \<Rightarrow> cr_method cr = ''post'' \<and>
             32 < length (filter (\<lambda>b. b \<noteq> byte_of_char CHR ''-'') (g_base64_decode M (cr_session_id cr)))))"

definition unreadable_algorithm ::
    "('x, 'j) kms_env \<Rightarrow> 'x keyagent_keyload_details \<Rightarrow> 'x world \<Rightarrow> bool" where
  "unreadable_algorithm M details w = (case request_key M details w of
      None \<Rightarrow> False
    | Some ((st, _, t), _) \<Rightarrow> st = 200 \<and> map_option fst (parse_transfer M t) = Some None)"

definition fatal_answer ::
    "('x, 'j) kms_env \<Rightarrow> 'x keyagent_keyload_details \<Rightarrow> 'x world \<Rightarrow> bool" where
  "fatal_answer M details w \<longleftrightarrow> unreadable_headers M details w \<or> overlong_challenge M details w \<or>
     unreadable_algorithm M details w"

text \<open>The outcome of the session of a round, when one was started.\<close>

definition session_started ::
    "('x, 'j) kms_env \<Rightarrow> 'x keyagent_keyload_details \<Rightarrow> gerr \<Rightarrow> 'x world \<Rightarrow> (gerr \<times> 'x world) option" where
  "session_started M details err w = do {
     ((st, _, t), w1) \<leftarrow> request_key M details w;
     if st = 401 \<and> parse_fault (k_json M) t = Some True then do {
       (ok, e, w2) \<leftarrow> start_session M details t err w1;
       if ok then Some (e, w2) else None }
     else None }"

section \<open>A host whose callbacks return\<close>

lemma https_send_crash:
  "https_send M url hs post (Some []) ssl w = None \<longleftrightarrow> \<not> list_all readable_line (fst (response_of (k_curl M)
     (https_options url hs post True (Some ssl) None (kms_debug w)) (ext (am w))))"
  using skc_https_send_None[of "k_curl M" url hs post "Some []" "[]" "Some ssl" None "kms_debug w" "ext (am w)"]
  by (auto simp: https_send_def)

lemma https_send_no_headers: "https_send M url hs post None ssl w \<noteq> None"
  using skc_https_send_no_headers[of "k_curl M" url hs post "[]" "Some ssl" None "kms_debug w" "ext (am w)"]
  by (auto simp: https_send_def)

lemma accept_key_crash:
  assumes "\<And>ty ats sid. \<exists>q e v. cb_key_create (kl_cbs details) (kl_url details) ty ats sid err w = Some (q, e, v)"
  shows "accept_key M details hs t err w = None \<longleftrightarrow> map_option fst (parse_transfer M t) = Some None"
proof (cases "map_option fst (parse_transfer M t) = Some None")
  case True
  then show ?thesis by (auto simp: accept_key_def)
next
  case False
  then have "accept_key M details hs t err w \<noteq> None" by (intro accept_key_total[OF assms]) auto
  then show ?thesis using False by simp
qed

locale live_host = npm_host cbs rid for cbs :: "'x npm_callbacks" and rid +
  fixes ready :: "'x world \<Rightarrow> bool"
  assumes ready_ok: "ready w \<Longrightarrow> loading_ok rid w"
    and ready_step: "load_step rid w w' \<Longrightarrow> ready w \<Longrightarrow> ready w'"
    and get_challenge_returns: "ready w \<Longrightarrow> cb_stm_get_challenge cbs (Some rid) nonce nm err w \<noteq> None"
    and session_create_returns: "ready w \<Longrightarrow> cb_session_create cbs rid label sid key ty err w \<noteq> None"
    and key_create_returns: "ready w \<Longrightarrow> cb_key_create cbs url kty ats ses err w \<noteq> None"
begin

lemma finish_session_returns:
  assumes c: "kl_cbs details = cbs" "kl_request_id details = rid" and ok: "ready w"
  shows "finish_session M details cr st body err w \<noteq> None"
proof (cases "parse_session_reply M (parse_data (k_json M) body)")
  case None
  then show ?thesis by (simp add: finish_session_def del: not_None_eq)
next
  case (Some p)
  obtain swk ty where p: "p = (swk, ty)" by (cases p)
  obtain r where "cb_session_create cbs rid (cr_type cr) (c_str_of_bytes (g_base64_decode M (cr_session_id cr))) swk ty err w = Some r"
    using session_create_returns[OF ok] by blast
  then show ?thesis using Some p by (cases r) (simp add: finish_session_def c del: not_None_eq)
qed

lemma start_session_crash:
  assumes c: "kl_cbs details = cbs" "kl_request_id details = rid" and ok: "ready w"
  shows "start_session M details t err w = None \<longleftrightarrow>
    (\<exists>cr. parse_challenge (k_json M) t = Some cr \<and> cr_method cr = ''post'' \<and>
      session_nonce M (g_base64_decode M (cr_session_id cr)) = None)"
proof (cases "\<exists>cr nonce. parse_challenge (k_json M) t = Some cr \<and> cr_method cr = ''post'' \<and>
    session_nonce M (g_base64_decode M (cr_session_id cr)) = Some nonce")
  case False
  then show ?thesis by (auto simp: start_session_def split: option.splits)
next
  case True
  then obtain cr nonce where cr: "parse_challenge (k_json M) t = Some cr" "cr_method cr = ''post''"
    and n: "session_nonce M (g_base64_decode M (cr_session_id cr)) = Some nonce" by blast
  obtain g ch err1 w1 where g: "cb_stm_get_challenge cbs (Some rid) nonce (Some (cr_type cr)) err w = Some (g, ch, err1, w1)"
    using get_challenge_returns[OF ok] by (metis not_Some_eq prod_cases4)
  note s1 = get_challenge[OF ready_ok[OF ok] g]
  have "start_session M details t err w \<noteq> None"
  proof (cases g)
    case False
    then show ?thesis using cr n g by (simp add: start_session_def c del: not_None_eq)
  next
    case True
    then obtain chb where chb: "ch = Some chb" using s1 by auto
    obtain st hs body w2 where h: "https_send M (cr_url cr) json_headers
        (Some (challenge_reply M cr chb)) None (kl_ssl_opts details) w1 = Some ((st, hs, body), w2)"
      using https_send_no_headers[of M "cr_url cr" json_headers "Some (challenge_reply M cr chb)" "kl_ssl_opts details" w1]
      by (cases "https_send M (cr_url cr) json_headers (Some (challenge_reply M cr chb)) None (kl_ssl_opts details) w1") auto
    have "load_step rid w w2" using s1 https_send_step[OF h] by (blast intro: load_step_trans)
    then have "finish_session M details cr st body err1 w2 \<noteq> None"
      using finish_session_returns[OF c] ready_step ok by blast
    then show ?thesis using cr n g h True chb by (simp add: start_session_def c del: not_None_eq)
  qed
  then show ?thesis using cr n by simp
qed

lemma request_key_crash:
  assumes c: "kl_cbs details = cbs" and ok: "ready w" and url: "kms_server_url w \<noteq> None"
  shows "request_key M details w = None \<longleftrightarrow> unreadable_headers M details w"
proof -
  obtain u hs where r: "transfer_request details w = Some (u, hs)"
    using get_ids[OF ready_ok[OF ok]] url by (auto simp: transfer_request_def c)
  have "request_key M details w = None \<longleftrightarrow> https_send M u hs None (Some []) (kl_ssl_opts details) w = None"
    using r by (cases "https_send M u hs None (Some []) (kl_ssl_opts details) w") (auto simp: request_key_def)
  then show ?thesis using r by (simp add: https_send_crash unreadable_headers_def)
qed

lemma load_round_crash:
  assumes c: "kl_cbs details = cbs" "kl_request_id details = rid" and ok: "ready w"
    and url: "kms_server_url w \<noteq> None"
  shows "load_round M details next err w = None \<longleftrightarrow>
    fatal_answer M details w \<or> (\<exists>e v. session_started M details err w = Some (e, v) \<and> next e v = None)"
proof (cases "request_key M details w")
  case None
  then have "unreadable_headers M details w" using request_key_crash[OF c(1) ok url, of M] by simp
  then show ?thesis using None by (simp add: load_round_def fatal_answer_def)
next
  case (Some p)
  then obtain st hs t w1 where rq: "request_key M details w = Some ((st, hs, t), w1)" by (cases p) auto
  then have h: "\<not> unreadable_headers M details w" using request_key_crash[OF c(1) ok url, of M] by simp
  have ok1: "ready w1" using request_key_step[OF rq] ok by (rule ready_step)
  show ?thesis
  proof (cases "st = 401 \<and> parse_fault (k_json M) t = Some True")
    case False
    have "accept_key M details hs t err w1 = None \<longleftrightarrow> map_option fst (parse_transfer M t) = Some None"
      by (rule accept_key_crash) (use key_create_returns[OF ok1] in \<open>auto simp: c\<close>)
    then have "load_round M details next err w = None \<longleftrightarrow> unreadable_algorithm M details w"
      using rq False by (auto simp: load_round_def unreadable_algorithm_def split: option.splits bool.splits)
    moreover have "\<not> overlong_challenge M details w" "session_started M details err w = None"
      using rq False by (auto simp: overlong_challenge_def session_started_def)
    ultimately show ?thesis using h by (simp add: fatal_answer_def)
  next
    case True
    have "overlong_challenge M details w \<longleftrightarrow> start_session M details t err w1 = None"
      unfolding start_session_crash[OF c ok1] session_nonce_overflow_iff
      using rq True by (auto simp: overlong_challenge_def split: option.splits)
    moreover have "load_round M details next err w =
        start_session M details t err w1 \<bind> (\<lambda>(r, e, v). if r then next e v else Some (False, e, v))"
      "session_started M details err w = start_session M details t err w1 \<bind> (\<lambda>(r, e, v). if r then Some (e, v) else None)"
      using rq True by (simp_all add: load_round_def session_started_def)
    moreover have "\<not> unreadable_algorithm M details w" using rq True by (simp add: unreadable_algorithm_def)
    ultimately show ?thesis using h
      by (cases "start_session M details t err w1") (auto simp: fatal_answer_def split: if_splits)
  qed
qed

lemma session_started_step:
  assumes c: "kl_cbs details = cbs" "kl_request_id details = rid" and ok: "ready w"
    and run: "session_started M details err w = Some (e, v)"
  shows "load_step rid w v"
proof -
  from run obtain st hs t w1 where rq: "request_key M details w = Some ((st, hs, t), w1)"
    and ss: "start_session M details t err w1 = Some (True, e, v)"
    by (auto simp: session_started_def bind_eq_Some_conv split: if_splits)
  have s1: "load_step rid w w1" using rq by (rule request_key_step)
  then have "load_step rid w1 v" using start_session_step[OF c ready_ok[OF ready_step[OF s1 ok]] ss] by blast
  then show ?thesis using s1 by (rule load_step_trans[rotated])
qed

text \<open>A load that does not return was sent such an answer, in its first round or in its second.\<close>

lemma npm_key_load_crash:
  assumes c: "kl_cbs details = cbs" "kl_request_id details = rid" and ok: "ready w"
    and url: "kms_server_url w \<noteq> None"
  shows "npm_key_load M details err w = None \<longleftrightarrow>
    strv_nth (g_strsplit CHR '':'' (kl_url details)) 0 = Some KMS_PREFIX_TOKEN \<and>
    (fatal_answer M details w \<or>
     (\<exists>e v. session_started M details err w = Some (e, v) \<and> fatal_answer M details v))"
proof (cases "strv_nth (g_strsplit CHR '':'' (kl_url details)) 0 = Some KMS_PREFIX_TOKEN")
  case False
  then show ?thesis by (simp add: npm_key_load_def npm_loadkey.simps[of M details 0])
next
  case pre: True
  have r: "npm_loadkey M details n e v = load_round M details (npm_loadkey M details (Suc n)) e v" if "n \<le> 1" for n e v
    using npm_loadkey_round[OF that pre, of M] by simp
  have end2: "npm_loadkey M details (Suc (Suc 0)) e v \<noteq> None" for e v
    by (subst npm_loadkey.simps) (simp del: not_None_eq)
  have second: "npm_loadkey M details (Suc 0) e v = None \<longleftrightarrow> fatal_answer M details v"
    if "session_started M details err w = Some (e, v)" for e v
  proof -
    have s: "load_step rid w v" using session_started_step[OF c ok that] .
    then have "kms_server_url v \<noteq> None" using url staticsD(8)[of v w] by (simp add: load_step_def agent_step_def)
    then show ?thesis using load_round_crash[OF c ready_step[OF s ok], where M = M] r[of "Suc 0"] end2 by (simp del: not_None_eq)
  qed
  have "npm_key_load M details err w = None \<longleftrightarrow> fatal_answer M details w \<or>
      (\<exists>e v. session_started M details err w = Some (e, v) \<and> npm_loadkey M details (Suc 0) e v = None)"
    using load_round_crash[OF c ok url, where M = M] r[of 0] by (simp add: npm_key_load_def)
  then show ?thesis using pre second by blast
qed

end

section \<open>The agent's callbacks return\<close>

text \<open>
  What an exported quote must look like to be taken apart: as long as the call says, and at least as
  long as the toolkit's header.
\<close>

definition quotes_ok :: "'x cryptoki \<Rightarrow> rsa_params_layout \<Rightarrow> bool" where
  "quotes_ok K L \<longleftrightarrow> (\<forall>h m k n x quote len x'. C_WrapKey K h m k n x = ((CKR_OK, quote, len), x') \<longrightarrow>
     rsa_params_size L \<le> unat len \<and> unat len \<le> length quote)"

text \<open>The STM plug-in has its settings, and the URI's token is open.\<close>

definition token_open :: "nat \<Rightarrow> 'x am \<Rightarrow> bool" where
  "token_open p a \<longleftrightarrow> am_ok a \<and> qlPolicy a \<noteq> None \<and> attestation_type a \<noteq> None \<and>
     (\<exists>d tlab. uri_mem a p = Some d \<and> token_label d = Some tlab \<and> lookup_apimodule_token a (c_str tlab) \<noteq> None)"

lemma token_open_step:
  assumes s: "am_step a a'" and ok: "token_open p a"
  shows "token_open p a'"
proof -
  from ok obtain d tlab t where d: "uri_mem a p = Some d" "token_label d = Some tlab"
    and t: "ght_lookup (token_hash a) (c_str tlab) = Some t"
    by (auto simp: token_open_def lookup_apimodule_token_def)
  obtain d' where d': "uri_mem a' p = Some d'" "uri_same d d'" using am_step_uri_memD[OF s d(1)] by blast
  have "tokens_kept a a'" "am_ok a'" using s ok by (simp_all add: am_step_def token_open_def)
  then have "lookup_apimodule_token a' (c_str tlab) \<noteq> None"
    using t by (auto simp: tokens_kept_def lookup_apimodule_token_def)
  then show ?thesis using ok s d d' \<open>am_ok a'\<close> by (auto simp: token_open_def am_step_def uri_same_def)
qed

lemma build_challenge_returns:
  "quotes_ok K L \<Longrightarrow> C_WrapKey K h m k n x = ((CKR_OK, quote, len), x') \<Longrightarrow> build_challenge L quote len \<noteq> None"
  unfolding quotes_ok_def build_challenge_def by (fastforce simp del: not_None_eq)

lemma export_quote_returns:
  assumes "quotes_ok K L"
  shows "sgx_export_quote K L mech t err a \<noteq> None"
proof -
  obtain rv t1 a1 where g: "generate_rsa_keypair K t PKCS11_APIMODULE_QUOTELABEL PKCS11_APIMODULE_QUOTEID a = (rv, t1, a1)"
    by (metis prod_cases3)
  obtain rv2 len x2 where l: "C_WrapKey_size K (tok_session t1) mech (publickey_challenge_handle t1) (ext a1) = ((rv2, len), x2)"
    by (metis surj_pair)
  obtain rv3 quote len2 x3 where w: "C_WrapKey K (tok_session t1) mech (publickey_challenge_handle t1)
      (unat (ucast len :: u32)) x2 = ((rv3, quote, len2), x3)" by (metis surj_pair)
  have "build_challenge L quote len2 \<noteq> None" if "rv3 = CKR_OK"
    using w unfolding that by (rule build_challenge_returns[OF assms])
  then show ?thesis by (cases "rv3 = CKR_OK") (auto simp: sgx_export_quote_def g l w with_ext_def)
qed

lemma sgx_get_challenge_returns:
  assumes "quotes_ok K L" and "token_open p a" and "cd_module_data details = Some p"
  shows "sgx_get_challenge K L details rq err a \<noteq> None"
proof -
  from assms(2) obtain d tlab t where d: "uri_mem a p = Some d" "token_label d = Some tlab"
    "lookup_apimodule_token a (c_str tlab) = Some t" by (auto simp: token_open_def)
  obtain r where "sgx_export_quote K L (CKM_EXPORT_ECDSA_QUOTE_RSA_PUBLIC_KEY (launch_policy rq) (cd_nonce details)) t err a
      = Some r" using export_quote_returns[OF assms(1)] by blast
  then show ?thesis using d assms(3) by (cases r) (simp add: sgx_get_challenge_def)
qed

lemma get_challenge_returns:
  assumes q: "quotes_ok K L" and ok: "token_open p a" and p: "cd_module_data details = Some p"
  shows "apimodule_get_challenge K L details rq err a \<noteq> None"
proof -
  from ok obtain d tlab t where d: "uri_mem a p = Some d" "token_label d = Some tlab"
    "lookup_apimodule_token a (c_str tlab) = Some t" by (auto simp: token_open_def)
  have ct: "challenge_token K p d tlab err a = Some (True, err, a)" using d(3) by (simp add: challenge_token_def)
  obtain r err1 a1 where g: "sgx_get_challenge K L details rq err a = Some (r, err1, a1)"
    using sgx_get_challenge_returns[OF q ok p] by (metis not_None_eq prod_cases3)
  have "am_ok a" using ok by (simp add: token_open_def)
  from sgx_get_challenge_step[OF g this] p d have
    "r \<longrightarrow> (\<exists>t. lookup_apimodule_token a1 (c_str tlab) = Some t \<and> tok_challenge t \<noteq> None)" by blast
  then show ?thesis using d p ct g
    by (auto simp: apimodule_get_challenge_def split: option.splits api_backend.splits)
qed

lemma set_wrapping_key_returns:
  assumes "token_open p a" and "sd_module_data details = Some p" and "sd_label details \<noteq> None"
  shows "apimodule_set_wrapping_key K details err a \<noteq> None"
  using assms by (auto simp: apimodule_set_wrapping_key_def sgx_set_wrapping_key_def token_open_def with_ext_def split_beta
      split: option.splits api_backend.splits)

lemma create_challenge_returns:
  assumes "quotes_ok K L" and "token_open p a" and "cd_module_data (cd_apimodule_details details) = Some p"
    and "apimodule_get_challenge_cb details = Some (apimodule_get_challenge K L)"
  shows "stm_create_challenge details err a \<noteq> None"
proof -
  have s: "qlPolicy a \<noteq> None" "attestation_type a \<noteq> None" using assms(2) by (simp_all add: token_open_def)
  then obtain pol ty where s: "qlPolicy a = Some pol" "attestation_type a = Some ty" by blast
  define request where "request lp = \<lparr>launch_policy = lp, rq_nonce = cd_nonce (cd_apimodule_details details),
      attestationType = ty\<rparr>" for lp
  have ex: "\<exists>r d1 e1 a1. apimodule_get_challenge K L (cd_apimodule_details details) (request lp) err a = Some (r, d1, e1, a1)"
    for lp using get_challenge_returns[OF assms(1-3)] by auto
  consider lp where "(if c_str pol = ''PERSISTENT'' then Some SGX_QL_PERSISTENT
      else if c_str pol = ''EPHEMERAL'' then Some SGX_QL_EPHEMERAL else None) = Some lp"
    | "(if c_str pol = ''PERSISTENT'' then Some SGX_QL_PERSISTENT
      else if c_str pol = ''EPHEMERAL'' then Some SGX_QL_EPHEMERAL else None) = None" by blast
  then show ?thesis
  proof cases
    case (1 lp)
    obtain r d1 e1 a1 where "apimodule_get_challenge K L (cd_apimodule_details details) (request lp) err a
        = Some (r, d1, e1, a1)" using ex by blast
    then show ?thesis
      by (simp add: stm_create_challenge_def assms(4) s 1 Let_def request_def del: not_None_eq)
  qed (simp add: stm_create_challenge_def assms(4) s Let_def)
qed

text \<open>
  The agent while a load runs: the repository's API module is registered, the request points to the
  URI of an open token, every STM's module can be opened, and nothing is cached in the database.
\<close>

definition sgx_live :: "'x skc_env \<Rightarrow> string \<Rightarrow> 'x world \<Rightarrow> bool" where
  "sgx_live S rid w \<longleftrightarrow> apimodule_ops w = module_ops S \<and>
     (\<exists>rq p. ght_lookup (apimodule_loadkey_hash w) rid = Some rq \<and> req_module_data rq = Some p \<and> token_open p (am w)) \<and>
     (\<forall>q stm. ght_lookup (stm_hash w) q = Some stm \<longrightarrow> file_exists (sk_ka S) (stm_module_name stm)) \<and>
     \<not> cache_sessions w \<and> \<not> cache_keys w"

definition sgx_ready :: "'x skc_env \<Rightarrow> string \<Rightarrow> 'x world \<Rightarrow> bool" where
  "sgx_ready S rid w \<longleftrightarrow> loading_ok rid w \<and> sgx_live S rid w"

lemma sgx_live_step:
  assumes st: "agent_step w w'" and ok: "sgx_live S rid w"
  shows "sgx_live S rid w'"
proof -
  note h = staticsD[OF agent_step_statics[OF st]]
  from ok obtain rq p where rq: "ght_lookup (apimodule_loadkey_hash w) rid = Some rq" "req_module_data rq = Some p"
    and t: "token_open p (am w)" by (auto simp: sgx_live_def)
  obtain rq' where rq': "ght_lookup (apimodule_loadkey_hash w') rid = Some rq'" "same_request rq rq'"
    using agent_step_requestD[OF st rq(1)] by blast
  have "req_module_data rq' = Some p" using rq'(2) rq(2) by (auto simp: same_request_def)
  moreover have "token_open p (am w')" using t st by (auto simp: agent_step_def intro: token_open_step)
  moreover have "file_exists (sk_ka S) (stm_module_name stm)" if "ght_lookup (stm_hash w') q = Some stm" for q stm
  proof -
    have "rel_option same_stm (ght_lookup (stm_hash w) q) (Some stm)"
      using st that by (simp add: agent_step_def stms_kept_def) metis
    then obtain stm0 where "ght_lookup (stm_hash w) q = Some stm0" "same_stm stm0 stm"
      by (auto simp: option_rel_Some2)
    then show ?thesis using ok by (auto simp: sgx_live_def same_stm_def)
  qed
  ultimately show ?thesis using ok h rq'(1) by (auto simp: sgx_live_def)
qed

lemma sgx_ready_step: "load_step rid w w' \<Longrightarrow> sgx_ready S rid w \<Longrightarrow> sgx_ready S rid w'"
  by (auto simp: sgx_ready_def load_step_def intro: sgx_live_step)

lemma sgx_module_op:
  assumes "sgx_live S rid w" and "keyagent_stm_get_by_name w nm = Some stm"
  shows "stm_module_op (sgx_only (sk_ka S)) symb stm = symb (sgx_stm_module (load_keyfile (sk_ka S)))"
  using assms by (auto simp: sgx_live_def keyagent_stm_get_by_name_def stm_module_op_def sgx_only_def)

lemma stm_get_challenge_returns:
  assumes ok: "sgx_live S rid w" and q: "quotes_ok (sk_lib S) (sk_layout S)"
  shows "keyagent_stm_get_challenge (sgx_only (sk_ka S)) (Some rid) nonce nm err w \<noteq> None"
proof (cases "\<exists>n stm. nm = Some n \<and> keyagent_stm_get_by_name w n = Some stm")
  case False
  then show ?thesis by (auto simp: keyagent_stm_get_challenge_def split: option.splits)
next
  case True
  then obtain n stm where n: "nm = Some n" "keyagent_stm_get_by_name w n = Some stm" by blast
  from ok obtain rq p where rq: "ght_lookup (apimodule_loadkey_hash w) rid = Some rq" "req_module_data rq = Some p"
    and t: "token_open p (am w)" by (auto simp: sgx_live_def)
  let ?w = "request_store rid (rq\<lparr>req_stm_name := Some (stm_label stm)\<rparr>) w"
  have "stm_create_challenge (challenge_details_of ?w rid rq n nonce) err (am w) \<noteq> None"
    by (rule create_challenge_returns[OF q t])
      (use ok rq in \<open>simp_all add: challenge_details_of_def sgx_live_def module_ops_def\<close>)
  then obtain r where "stm_create_challenge (challenge_details_of ?w rid rq n nonce) err (am w) = Some r" by blast
  then show ?thesis using n rq sgx_module_op[OF ok n(2), of sym_stm_create_challenge]
    by (cases r) (simp add: keyagent_stm_get_challenge_def sgx_stm_module_def Let_def)
qed

lemma stm_set_session_returns:
  assumes ok: "sgx_live S rid w" and s: "sess_at w p \<noteq> None"
  shows "keyagent_stm_set_session (sgx_only (sk_ka S)) rid (Some p) err w \<noteq> None"
proof -
  from ok obtain rq fp where rq: "ght_lookup (apimodule_loadkey_hash w) rid = Some rq" "req_module_data rq = Some fp"
    and t: "token_open fp (am w)" by (auto simp: sgx_live_def)
  obtain s0 where s0: "sess_at w p = Some s0" using s by blast
  show ?thesis
  proof (cases "keyagent_stm_get_by_name w (ses_name s0)")
    case None
    then show ?thesis using s0 by (simp add: keyagent_stm_set_session_def keyagent_session_get_stmname_def)
  next
    case (Some stm)
    let ?w = "request_store rid (rq\<lparr>req_stm_name := Some (stm_label stm)\<rparr>)
              (stm_store (ses_name s0) (stm\<lparr>stm_session := Some p\<rparr>) w)"
    have "apimodule_set_wrapping_key (sk_lib S) (sd_apimodule_details (session_details_of ?w rid rq s0)) err (am w) \<noteq> None"
      by (rule set_wrapping_key_returns[OF t]) (use rq in \<open>simp_all add: session_details_of_def\<close>)
    moreover have "set_wrapping_key_cb (session_details_of ?w rid rq s0) = Some (apimodule_set_wrapping_key (sk_lib S))"
      using ok by (simp add: sgx_live_def module_ops_def)
    ultimately have "stm_set_session (session_details_of ?w rid rq s0) err (am w) \<noteq> None"
      by (simp add: stm_set_session_def)
    then show ?thesis using Some s0 rq sgx_module_op[OF ok Some, of sym_stm_set_session]
      by (auto simp: keyagent_stm_set_session_def keyagent_session_get_stmname_def sgx_stm_module_def Let_def call_stm_def)
  qed
qed

lemma session_evict_returns:
  assumes ok: "agent_ok w" and stm: "ght_lookup (stm_hash w) q = Some stm"
  shows "session_evict E stm sid w \<noteq> None"
proof (cases "stm_session stm")
  case (Some cur)
  then have "sess_at w cur \<noteq> None" using ok stm by (auto simp: agent_ok_def stms_ok_def sess_at_def)
  then show ?thesis using Some ok by (auto simp: session_evict_def agent_ok_def session_hash_remove_eval)
qed (simp add: session_evict_def)

lemma session_enter_returns:
  assumes ok: "agent_ok w"
  shows "session_enter label sid key ty cid (keyagent_session_lookup w sid) w \<noteq> None"
proof (cases "keyagent_session_lookup w sid")
  case (Some p)
  then show ?thesis using sess_ok_lookup[of w sid p] ok by (auto simp: session_enter_def agent_ok_def)
qed (simp add: session_enter_def sess_alloc_def)

lemma session_out_returns:
  assumes ok: "sgx_live S rid w" and s: "sess_at w p = Some s"
  shows "session_out (sgx_only (sk_ka S)) rid p cid err w \<noteq> None"
proof -
  let ?E = "sgx_only (sk_ka S)"
  have "\<exists>w1. (if cid = - 1 then cache_session ?E p err w else Some (True, err, w)) = Some (True, err, w1)"
    using session_cache_off[of w p s] ok s by (cases "cid = - 1") (simp_all add: sgx_live_def)
  then obtain w1 where c: "(if cid = - 1 then cache_session ?E p err w else Some (True, err, w)) = Some (True, err, w1)"
    by blast
  then have cs: "cache_step w w1" using cache_session_step by (fastforce split: if_splits)
  have "sgx_live S rid w1" using agent_step_cache[OF cs] ok by (rule sgx_live_step)
  moreover have "sess_at w1 p \<noteq> None" using cache_step_sess_at[OF cs s] by auto
  ultimately have "keyagent_stm_set_session ?E rid (Some p) err w1 \<noteq> None" by (rule stm_set_session_returns)
  then show ?thesis using c by (simp add: session_out_def del: not_None_eq)
qed

lemma session_create_returns:
  assumes ok: "sgx_ready S rid w"
  shows "keyagent_session_create (sgx_only (sk_ka S)) rid label sid key ty err w \<noteq> None"
proof (cases "keyagent_session_lookup_swktype w ty = None \<or> ght_lookup (stm_hash w) (Some label) = None")
  case True
  then show ?thesis by (auto simp: keyagent_session_create_def keyagent_session_create_with_cacheid_def
      g_quark_from_string_def)
next
  case False
  then obtain stm where stm: "ght_lookup (stm_hash w) (Some label) = Some stm" by blast
  let ?E = "sgx_only (sk_ka S)" and ?ses = "keyagent_session_lookup w sid"
  have ag: "agent_ok w" "sgx_live S rid w" using ok by (simp_all add: sgx_ready_def loading_ok_def)
  obtain w1 where ev: "session_evict ?E stm sid w = Some w1" using session_evict_returns[OF ag(1) stm] by blast
  note s1 = evict_step[OF ag(1) ev] and ses = evict_keeps_session[OF ag(1) ev]
  obtain p w2 where en: "session_enter label sid key ty (- 1) ?ses w1 = Some (p, w2)"
    using session_enter_returns[of w1 label sid key ty "- 1"] s1 ses by auto
  have s2: "agent_step w1 w2 \<and> agent_ok w2 \<and> entered w1 label sid key ?ses p w2"
    by (rule session_enter_spec[OF _ _ en]) (use s1 ses in simp_all)
  then obtain s where "sess_at w2 p = Some s" by (auto simp: entered_def)
  moreover have "sgx_live S rid w2" using s1 s2 ag(2) by (blast intro: sgx_live_step)
  ultimately have "session_out ?E rid p (- 1) err w2 \<noteq> None" by (rule session_out_returns[rotated])
  then show ?thesis using False stm ev en
    by (simp add: keyagent_session_create_def keyagent_session_create_with_cacheid_def g_quark_from_string_def
        del: not_None_eq)
qed

lemma key_create_returns:
  assumes "sgx_ready S rid w"
  shows "keyagent_key_create E url kty ats ses err w \<noteq> None"
  using key_create_total[of w E url kty ats ses err] assms by (auto simp: sgx_ready_def sgx_live_def)

lemma sgx_ready_parts: "sgx_ready S rid w \<Longrightarrow> loading_ok rid w" "sgx_ready S rid w \<Longrightarrow> sgx_live S rid w"
  by (simp_all add: sgx_ready_def)

interpretation sgx_live_host: live_host "internal_npm_ops (sgx_only (sk_ka S))" rid
    "\<lambda>w. sgx_ready S rid w \<and> quotes_ok (sk_lib S) (sk_layout S)" for S rid
proof (unfold_locales, unfold internal_npm_ops_simps, goal_cases)
  case (2 w w')
  then show ?case using sgx_ready_step by blast
next
  case (4 w)
  then show ?case using session_create_returns by blast
next
  case (5 w)
  then show ?case using key_create_returns by blast
qed (use sgx_ready_parts stm_get_challenge_returns in blast)+


end
