(* ===== verification/Cli.thy ===== *)
theory Cli
  imports Pkcs11_Module
begin

text \<open>
  \<open>key-agent/cli/main.c\<close>, the command line tool, and the two listings it prints
  (\<open>keyagent_npm_showlist\<close> of \<open>npm_init.cpp\<close>, \<open>keyagent_stm_showlist\<close> of \<open>stm_init.cpp\<close>).
\<close>

section \<open>Listings\<close>

definition show_npms :: "keyagent_npm_real \<Rightarrow> string" where
  "show_npms npm = ''NPM - '' @ npm_label npm @ '' ('' @ (if npm_initialized npm then ''Initialized'' else ''Failed'') @
     '') - '' @ npm_module_name npm @ [CHR 0x0A]"

definition keyagent_npm_showlist :: "'x world \<Rightarrow> string" where
  "keyagent_npm_showlist w = [CHR 0x0A] @ concat (map show_npms (ght_values (npm_hash w)))"

definition show_stms :: "keyagent_stm_real \<Rightarrow> string" where
  "show_stms stm = ''STM - '' @ stm_label stm @ '' ('' @ (if stm_initialized stm then ''Initialized'' else ''Failed'') @
     '') - '' @ stm_module_name stm @ [CHR 0x0A]"

definition keyagent_stm_showlist :: "'x world \<Rightarrow> string" where
  "keyagent_stm_showlist w = [CHR 0x0A] @ concat (map show_stms (ght_values (stm_hash w)))"

section \<open>The tool\<close>

text \<open>The options, after they have been parsed.\<close>

record cli_options =
  o_configfile :: "string option"
  o_listnpms :: bool
  o_liststms :: bool
  o_keyurl :: "string option"
  o_api_module :: "string option"

text \<open>
  How the process ends: with an exit status, or aborted by a fatal log message.  \<open>cli_module\<close> is
  \<open>g_module_open\<close> on the API module and whether it has \<open>apimodule_initialize\<close>.
\<close>

datatype cli_outcome = Exited int | Aborted

definition load_apimodule :: "(string \<Rightarrow> bool option) \<Rightarrow> string \<Rightarrow> bool" where
  "load_apimodule cli_module module_name = (case cli_module module_name of None \<Rightarrow> False | Some found \<Rightarrow> found)"

definition cli_load ::
    "'x skc_env \<Rightarrow> (string \<Rightarrow> bool option) \<Rightarrow> nat \<Rightarrow> string \<Rightarrow> string \<Rightarrow> gerr \<Rightarrow> 'x world \<Rightarrow> 'x world option" where
  "cli_load S cli_module fp modl keyurl error w =
     (if \<not> load_apimodule cli_module modl then Some w else do {
        (_, error1, ops, w1) \<leftarrow> apimodule_initialize S fp True error w;
        if error1 \<noteq> None then Some w1
        else if ops = None then None
        else do { (_, w2) \<leftarrow> apimodule_load_uri S fp (Some keyurl) w1; Some w2 } })"

definition cli_main ::
    "'x skc_env \<Rightarrow> (string \<Rightarrow> bool option) \<Rightarrow> nat \<Rightarrow> cli_options option \<Rightarrow> 'x world \<Rightarrow>
     (cli_outcome \<times> string \<times> 'x world) option" where
  "cli_main S cli_module fp options w =
     (case options of None \<Rightarrow> Some (Exited 1, [], w) | Some opts \<Rightarrow> do {
        let configfile = (case o_configfile opts of None \<Rightarrow> SKC_CONF_PATH S @ ''/key-agent.ini'' | Some f \<Rightarrow> f);
        (ok, error, w1) \<leftarrow> (if o_api_module opts = None \<and> o_keyurl opts = None
            then keyagent_init (sk_npm S) (sk_ka S) (Some configfile) None w else Some (True, None, w));
        if \<not> ok then do { _ \<leftarrow> log_error error; Some (Aborted, [], w1) }
        else do {
          let text = (if o_listnpms opts then keyagent_npm_showlist w1 else []) @
                     (if o_liststms opts then keyagent_stm_showlist w1 else []);
          (case (o_keyurl opts, o_api_module opts) of
             (Some u, Some m) \<Rightarrow> do { w2 \<leftarrow> cli_load S cli_module fp m u error w1; Some (Exited 0, text, w2) }
           | _ \<Rightarrow> Some (Exited 0, text, w1)) } })"

section \<open>Properties\<close>

text \<open>
  C35: once its options are parsed the tool exits with status 0, whatever failed, unless starting the
  key agent failed, which aborts it.
\<close>
theorem cli_exit_status:
  assumes "cli_main S md fp options w = Some (outcome, printed, w')"
  shows "outcome = (if options = None then Exited 1
    else if o_api_module (the options) = None \<and> o_keyurl (the options) = None \<and> ka_init_error w' \<noteq> None then Aborted
    else Exited 0)"
proof (cases options)
  case None
  then show ?thesis using assms by (simp add: cli_main_def)
next
  case (Some op)
  show ?thesis
  proof (cases "o_api_module op = None \<and> o_keyurl op = None")
    case True
    then obtain ok e w1 where i: "keyagent_init (sk_npm S) (sk_ka S)
        (Some (case o_configfile op of None \<Rightarrow> SKC_CONF_PATH S @ ''/key-agent.ini'' | Some f \<Rightarrow> f)) None w = Some (ok, e, w1)"
      using assms Some by (auto simp: cli_main_def run_simps)
    show ?thesis using assms Some True i keyagent_init_result[OF i]
      by (cases ok) (auto simp: cli_main_def run_simps)
  next
    case False
    then show ?thesis using assms Some
      by (auto simp: cli_main_def run_simps split: option.splits)
  qed
qed

end
