(* ===== verification/Registry.thy ===== *)
theory Registry
  imports Session_Create
begin

text \<open>
  What the agent's session table promises, as one map: which session, with which wrapping key,
  each STM has on offer.  The table, the sessions in memory and the session pointer of each STM
  implement it, and creating a session is an update of the map.
\<close>

section \<open>The map\<close>

definition registry :: "'x world \<Rightarrow> string \<Rightarrow> (string \<times> bytes) option" where
  "registry w nm = do {
     stm \<leftarrow> keyagent_stm_get_by_name w nm;
     p \<leftarrow> stm_session stm;
     s \<leftarrow> sess_at w p;
     if keyagent_session_lookup w (ses_session_id s) = Some p \<and> ses_name s = nm
     then Some (ses_session_id s, ses_swk s) else None }"

text \<open>Under the invariant it is what the session table holds.\<close>

lemma registry_iff:
  assumes "single_ok w" and "sess_ok w"
  shows "registry w nm = Some (sid, k) \<longleftrightarrow> (\<exists>p s. keyagent_session_lookup w sid = Some p \<and>
     sess_at w p = Some s \<and> ses_name s = nm \<and> ses_swk s = k)"
proof
  assume "registry w nm = Some (sid, k)"
  then show "\<exists>p s. keyagent_session_lookup w sid = Some p \<and> sess_at w p = Some s \<and> ses_name s = nm \<and> ses_swk s = k"
    by (auto simp: registry_def bind_eq_Some_conv split: if_splits)
next
  assume "\<exists>p s. keyagent_session_lookup w sid = Some p \<and> sess_at w p = Some s \<and> ses_name s = nm \<and> ses_swk s = k"
  then obtain p s where p: "keyagent_session_lookup w sid = Some p" "sess_at w p = Some s" "ses_name s = nm" "ses_swk s = k"
    by blast
  have "ses_session_id s = sid" using sess_ok_lookup[OF assms(2) p(1)] p(2) by auto
  moreover obtain stm where "keyagent_stm_get_by_name w nm = Some stm" "stm_session stm = Some p"
    using assms(1) p unfolding single_ok_def keyagent_session_lookup_def keyagent_stm_get_by_name_def by blast
  ultimately show "registry w nm = Some (sid, k)" using p by (simp add: registry_def)
qed

lemma registry_eqI:
  assumes "\<And>sid k. f nm = Some (sid, k) \<longleftrightarrow> g nm = Some (sid, k)"
  shows "f nm = (g nm :: ('a \<times> 'b) option)"
  using assms by (cases "f nm"; cases "g nm") auto

section \<open>Creating a session\<close>

lemma session_enter_new:
  assumes "session_enter label sid key ty cid None w = Some (p, w2)"
  shows "p = length (sess_mem w)" and "sess_mem w2 = sess_mem w @ [\<lparr>ses_swk = key, ses_name = label,
      ses_session_id = sid, ses_swk_type = ty, ses_cache_id = cid\<rparr>]"
    and "ght_lookup (session_hash w2) q = (if q = Some sid then Some p else ght_lookup (session_hash w) q)"
  using assms by (auto simp: session_enter_def sess_alloc_def g_quark_from_string_def)

context stm_modules begin

lemma session_out_uncached:
  assumes ok: "agent_ok w" and s: "sess_at w p = Some s" and run: "session_out E rid p cid err w = Some (r, err', w')"
  shows "uncached w' = uncached w"
proof -
  obtain err1 w1 i where cs: "cache_step w w1" and ok1: "agent_ok w1" and s1: "sess_at w1 p = Some (s\<lparr>ses_cache_id := i\<rparr>)"
    and st: "keyagent_stm_set_session E rid (Some p) err1 w1 = Some (r, err', w')"
    using run by (rule session_out_parts[OF ok s])
  have "sess_mem w' = sess_mem w1" by (rule stm_set_session_step(4)[OF ok1 s1 st])
  then show ?thesis using cs by (simp add: cache_step_def uncached_def)
qed

end

text \<open>Every STM's session is the one of its name in the table.\<close>

definition current_ok :: "'x world \<Rightarrow> bool" where
  "current_ok w \<longleftrightarrow> (\<forall>nm stm p s. keyagent_stm_get_by_name w nm = Some stm \<longrightarrow> stm_session stm = Some p \<longrightarrow>
     sess_at w p = Some s \<longrightarrow> keyagent_session_lookup w (ses_session_id s) = Some p \<and> ses_name s = nm)"

text \<open>Reading a session through an unchanged \<open>uncached\<close>.\<close>

definition sess_view :: "'x world \<Rightarrow> nat \<Rightarrow> (string \<times> string \<times> bytes) option" where
  "sess_view w p = map_option (\<lambda>s. (ses_name s, ses_session_id s, ses_swk s)) (sess_at w p)"

lemma sess_view_uncached:
  "sess_view w p = (if p < length (uncached w)
     then Some (ses_name (uncached w ! p), ses_session_id (uncached w ! p), ses_swk (uncached w ! p)) else None)"
  by (simp add: sess_view_def sess_at_def uncached_def)

lemma registry_view:
  assumes "single_ok w" and "sess_ok w"
  shows "registry w nm = Some (sid, k) \<longleftrightarrow> (\<exists>p. keyagent_session_lookup w sid = Some p \<and> sess_view w p = Some (nm, sid, k))"
  unfolding registry_iff[OF assms] sess_view_def using sess_ok_lookup[OF assms(2), of sid] by fastforce

text \<open>
  What a session for a known STM and wrapping key type, under an id not in use, does to the tables.
\<close>

context stm_modules begin

lemma session_create_new:
  assumes ok: "agent_ok w" and rq: "ght_lookup (apimodule_loadkey_hash w) rid \<noteq> None"
    and new: "keyagent_session_lookup w sid = None"
    and swk: "keyagent_session_lookup_swktype w ty \<noteq> None" and stm: "keyagent_stm_get_by_name w label = Some stm"
    and run: "keyagent_session_create_with_cacheid E rid label sid key ty cid err w = Some (r, err', w')"
  shows "(\<forall>x. keyagent_session_lookup w' x = (if x = sid then Some (length (sess_mem w))
      else if evict_quark w stm sid (Some x) then None else keyagent_session_lookup w x)) \<and>
    (\<forall>p<length (sess_mem w). sess_view w' p = sess_view w p) \<and>
    sess_view w' (length (sess_mem w)) = Some (label, sid, key) \<and>
    (\<forall>nm. map_option stm_session (keyagent_stm_get_by_name w' nm) =
       (if nm = label then Some (Some (length (sess_mem w))) else map_option stm_session (keyagent_stm_get_by_name w nm)))"
proof -
  have stm': "ght_lookup (stm_hash w) (Some label) = Some stm"
    using stm by (simp add: keyagent_stm_get_by_name_def g_quark_from_string_def)
  from run swk stm' new obtain w1 p w2 where ev: "session_evict E stm sid w = Some w1"
    and en: "session_enter label sid key ty cid None w1 = Some (p, w2)"
    and out: "session_out E rid p cid err w2 = Some (r, err', w')"
    by (auto simp: keyagent_session_create_with_cacheid_def bind_eq_Some_conv g_quark_from_string_def)
  from session_evict_spec[OF ok ev] obtain h where w1: "w1 = w\<lparr>session_hash := h\<rparr>"
    and h: "\<And>q. ght_lookup h q = (if evict_quark w stm sid q then None else ght_lookup (session_hash w) q)" by blast
  note n = session_enter_new[OF en]
  have p: "p = length (sess_mem w)" using n(1) w1 by simp
  have ok1: "agent_ok w1" using evict_step[OF ok ev] by blast
  have n1: "None = keyagent_session_lookup w1 sid" using evict_keeps_session[OF ok ev] new by simp
  have e: "agent_ok w2 \<and> entered w1 label sid key None p w2" using session_enter_spec[OF ok1 n1 en] by blast
  obtain s where s: "sess_at w2 p = Some s" "ses_name s = label" using e unfolding entered_def by auto
  have ok2: "agent_ok w2" using e by blast
  note o = session_out_spec[OF ok2 s(1) out] and u = session_out_uncached[OF ok2 s(1) out]
  have f: "stm_hash w2 = stm_hash w" "apimodule_loadkey_hash w2 = apimodule_loadkey_hash w"
    using e w1 unfolding entered_def by auto
  have "session_hash w' = session_hash w2" using o by blast
  then have A: "\<forall>x. keyagent_session_lookup w' x = (if x = sid then Some p
      else if evict_quark w stm sid (Some x) then None else keyagent_session_lookup w x)"
    using n(3) w1 h by (auto simp: keyagent_session_lookup_def g_quark_from_string_def)
  have u2: "uncached w2 = uncached w @ [\<lparr>ses_swk = key, ses_name = label, ses_session_id = sid, ses_swk_type = ty,
      ses_cache_id = 0\<rparr>]" using n(2) w1 by (simp add: uncached_def)
  have lu: "length (uncached w) = length (sess_mem w)" by (simp add: uncached_def)
  have B: "\<forall>p'<length (sess_mem w). sess_view w' p' = sess_view w p'"
    unfolding sess_view_uncached u u2 lu by (auto simp: nth_append lu)
  have C: "sess_view w' p = Some (label, sid, key)"
    unfolding sess_view_uncached u u2 p by (simp add: nth_append lu)
  have "\<not> (keyagent_stm_get_by_name w2 (ses_name s) = None \<or> ght_lookup (apimodule_loadkey_hash w2) rid = None)"
    using stm' rq f s(2) by (simp add: keyagent_stm_get_by_name_def g_quark_from_string_def)
  then have "\<forall>q. ght_lookup (stm_hash w') q =
       (if q = Some label then map_option (stm_session_update (\<lambda>_. Some p)) (ght_lookup (stm_hash w) q)
        else ght_lookup (stm_hash w) q)"
    using o f(1) s(2) by auto
  then have D: "\<forall>nm. map_option stm_session (keyagent_stm_get_by_name w' nm) =
       (if nm = label then Some (Some p) else map_option stm_session (keyagent_stm_get_by_name w nm))"
    using stm' by (simp add: keyagent_stm_get_by_name_def g_quark_from_string_def)
  show ?thesis using A B C D p by simp
qed

end

text \<open>The session a new one drops from the table is the one the map has at the STM's name.\<close>

lemma evict_quark_registry:
  assumes "current_ok w" and "keyagent_stm_get_by_name w label = Some stm"
  shows "evict_quark w stm sid (Some x) \<longleftrightarrow> x \<noteq> sid \<and> (\<exists>k. registry w label = Some (x, k))"
proof
  assume "evict_quark w stm sid (Some x)"
  then obtain c s where c: "stm_session stm = Some c" "sess_at w c = Some s" "ses_session_id s = x" "x \<noteq> sid"
    by (auto simp: evict_quark_def g_quark_from_string_def)
  then show "x \<noteq> sid \<and> (\<exists>k. registry w label = Some (x, k))"
    using assms unfolding current_ok_def by (auto simp: registry_def)
next
  assume "x \<noteq> sid \<and> (\<exists>k. registry w label = Some (x, k))"
  then show "evict_quark w stm sid (Some x)"
    using assms(2) by (auto simp: registry_def bind_eq_Some_conv evict_quark_def g_quark_from_string_def split: if_splits)
qed

context stm_modules begin

text \<open>
  The map changes at the STM's name and nowhere else.  So it does when the STM then refuses the key.
\<close>

lemma session_create_registry:
  assumes ok: "agent_ok w" and one: "single_ok w" and cur: "current_ok w"
    and rq: "ght_lookup (apimodule_loadkey_hash w) rid \<noteq> None"
    and new: "keyagent_session_lookup w sid = None"
    and swk: "keyagent_session_lookup_swktype w ty \<noteq> None" and stm: "keyagent_stm_get_by_name w label = Some stm"
    and run: "keyagent_session_create_with_cacheid E rid label sid key ty cid err w = Some (r, err', w')"
  shows "registry w' = (registry w)(label \<mapsto> (sid, key))"
proof (rule ext, rule registry_eqI)
  fix nm x k
  have one': "single_ok w'" by (rule session_create_single[OF ok one rq run])
  have so: "sess_ok w'" "sess_ok w" using session_create_spec[OF ok run] ok by (simp_all add: agent_ok_def)
  note rv = registry_view[OF one' so(1)] registry_view[OF one so(2)]
  note N = session_create_new[OF ok rq new swk stm run] and ev = evict_quark_registry[OF cur stm]
  have lt: "keyagent_session_lookup w x = Some p \<Longrightarrow> p < length (sess_mem w)" for p
    using sess_ok_lookup[OF so(2)] sess_at_lt by blast
  show "registry w' nm = Some (x, k) \<longleftrightarrow> ((registry w)(label \<mapsto> (sid, key))) nm = Some (x, k)"
  proof (cases "x = sid")
    case True
    have "registry w nm \<noteq> Some (sid, k)" using new by (simp add: rv)
    moreover have "registry w' nm = Some (sid, k) \<longleftrightarrow> nm = label \<and> k = key"
      using N[THEN conjunct1, THEN spec, of sid] N[THEN conjunct2, THEN conjunct2, THEN conjunct1] by (auto simp: rv)
    ultimately show ?thesis using True by auto
  next
    case False
    have "registry w' nm = Some (x, k) \<longleftrightarrow> \<not> evict_quark w stm sid (Some x) \<and> registry w nm = Some (x, k)"
      using N[THEN conjunct1, THEN spec, of x] N[THEN conjunct2, THEN conjunct1] False lt by (auto simp: rv)
    moreover have "registry w nm = Some (x, k) \<Longrightarrow> registry w label = Some (x, k') \<Longrightarrow> nm = label" for k'
      by (auto simp: rv)
    ultimately show ?thesis using False ev by auto
  qed
qed

text \<open>Afterwards again every STM's session is the one of its name in the table.\<close>

lemma session_create_current:
  assumes ok: "agent_ok w" and one: "single_ok w" and cur: "current_ok w"
    and rq: "ght_lookup (apimodule_loadkey_hash w) rid \<noteq> None"
    and new: "keyagent_session_lookup w sid = None"
    and swk: "keyagent_session_lookup_swktype w ty \<noteq> None" and stm: "keyagent_stm_get_by_name w label = Some stm"
    and run: "keyagent_session_create_with_cacheid E rid label sid key ty cid err w = Some (r, err', w')"
  shows "current_ok w'"
  unfolding current_ok_def
proof (intro allI impI)
  fix nm stm' p s
  assume a: "keyagent_stm_get_by_name w' nm = Some stm'" "stm_session stm' = Some p" "sess_at w' p = Some s"
  have so: "sess_ok w" using ok by (simp add: agent_ok_def)
  note N = session_create_new[OF ok rq new swk stm run] and ev = evict_quark_registry[OF cur stm]
  note Nl = N[THEN conjunct1, THEN spec] and Ns = N[THEN conjunct2, THEN conjunct2, THEN conjunct2, THEN spec, of nm]
  have v: "sess_view w' p = Some (ses_name s, ses_session_id s, ses_swk s)" using a(3) by (simp add: sess_view_def)
  show "keyagent_session_lookup w' (ses_session_id s) = Some p \<and> ses_name s = nm"
  proof (cases "nm = label")
    case True
    then have "p = length (sess_mem w)" using Ns a(1,2) by simp
    then show ?thesis using Nl[of sid] N[THEN conjunct2, THEN conjunct2, THEN conjunct1] v True by simp
  next
    case False
    then obtain stm0 where s0: "keyagent_stm_get_by_name w nm = Some stm0" "stm_session stm0 = Some p"
      using Ns a(1,2) by (cases "keyagent_stm_get_by_name w nm") auto
    have "p < length (sess_mem w)" using ok s0 by (auto simp: agent_ok_def stms_ok_def keyagent_stm_get_by_name_def)
    then have vw: "sess_view w p = Some (ses_name s, ses_session_id s, ses_swk s)" using N v by simp
    then obtain s1 where s1: "sess_at w p = Some s1" "ses_name s1 = ses_name s" "ses_session_id s1 = ses_session_id s"
      unfolding sess_view_def by auto
    from cur[unfolded current_ok_def, rule_format, OF s0 s1(1)]
    have l: "keyagent_session_lookup w (ses_session_id s) = Some p" and nm: "ses_name s = nm"
      using s1 by simp_all
    have "ses_session_id s \<noteq> sid" using l new by auto
    moreover have "\<not> evict_quark w stm sid (Some (ses_session_id s))"
      using ev False l vw nm by (auto simp: registry_view[OF one so])
    ultimately show ?thesis using Nl[of "ses_session_id s"] l nm by simp
  qed
qed

end

section \<open>Keys\<close>

text \<open>
  The keys the agent holds: type, id of the session that protects it, and the wrapped key data.
\<close>

definition keyring :: "'x world \<Rightarrow> string \<Rightarrow> (keyagent_keytype \<times> string \<times> bytes) option" where
  "keyring w url = do {
     k \<leftarrow> keyagent_key_lookup w url;
     p \<leftarrow> key_session k;
     s \<leftarrow> sess_at w p;
     d \<leftarrow> ght_lookup (key_attributes k) KEYAGENT_ATTR_KEYDATA;
     Some (key_type k, ses_session_id s, d) }"

lemma keyring_None_iff: "keys_ok w \<Longrightarrow> keyring w url = None \<longleftrightarrow> keyagent_key_lookup w url = None"
proof (cases "keyagent_key_lookup w url")
  case None
  then show ?thesis by (simp add: keyring_def)
next
  case (Some k)
  moreover assume "keys_ok w"
  ultimately have "key_ok w (url_pointer url) k" using keys_ok_lookup by blast
  then obtain p d where "key_session k = Some p" "p < length (sess_mem w)"
    "ght_lookup (key_attributes k) KEYAGENT_ATTR_KEYDATA = Some d" unfolding key_ok_def by blast
  then show ?thesis using Some by (simp add: keyring_def sess_at_def)
qed

lemma key_step_ids:
  assumes "key_step w w'" and "sess_at w p = Some s"
  shows "\<exists>s'. sess_at w' p = Some s' \<and> ses_session_id s' = ses_session_id s"
proof -
  have u: "uncached w' = uncached w" using assms(1) by (simp add: key_step_def)
  then have "sess_view w' p = sess_view w p" by (simp add: sess_view_uncached)
  then show ?thesis using assms(2) by (auto simp: sess_view_def)
qed

lemma keyring_same:
  assumes "key_step w w'" and "keys_ok w" and "keyagent_key_lookup w u = Some k"
    and "keyagent_key_lookup w' u = Some k'" and "same_key k k'"
  shows "keyring w' u = keyring w u"
proof -
  from keys_ok_lookup[OF assms(2,3)] obtain p d where p: "key_session k = Some p" "p < length (sess_mem w)"
    "ght_lookup (key_attributes k) KEYAGENT_ATTR_KEYDATA = Some d" unfolding key_ok_def by blast
  obtain s where s: "sess_at w p = Some s" using p(2) by (simp add: sess_at_def)
  obtain s' where s': "sess_at w' p = Some s'" "ses_session_id s' = ses_session_id s"
    using key_step_ids[OF assms(1) s] by blast
  show ?thesis using assms(3-5) p s s' by (auto simp: keyring_def same_key_def)
qed

text \<open>
  Creating a key that is not there adds it, under the session named; one that is there is kept as it
  is; a refused one changes nothing.
\<close>

lemma key_create_keyring:
  assumes so: "sess_ok w" and ko: "keys_ok w"
    and run: "keyagent_key_create E url ty attrs sid err w = Some (q, err', w')"
  shows "keyring w' = (if q \<noteq> None \<and> keyring w url = None
    then (keyring w)(url \<mapsto> (ty, the sid, the (ght_lookup (the attrs) KEYAGENT_ATTR_KEYDATA))) else keyring w)"
proof -
  note s = key_create_spec[OF so ko run[unfolded keyagent_key_create_def]]
  have ks: "key_step w w'" and ko': "keys_ok w'" and kept: "keys_kept w w'"
    and others: "\<And>u. u \<noteq> url \<Longrightarrow> keyagent_key_lookup w' u = keyagent_key_lookup w u" using s by blast+
  have same: "keyring w' u = keyring w u" if "u \<noteq> url \<or> keyagent_key_lookup w url \<noteq> None" for u
  proof (cases "keyagent_key_lookup w u")
    case None
    then have "keyagent_key_lookup w' u = None" using that others by (cases "u = url") auto
    then show ?thesis using None by (simp add: keyring_def)
  next
    case (Some k)
    then obtain k' where "keyagent_key_lookup w' u = Some k'" "same_key k k'" using kept unfolding keys_kept_def by blast
    then show ?thesis using keyring_same[OF ks ko Some] by blast
  qed
  show ?thesis
  proof (cases "q = None")
    case True
    then show ?thesis using s by simp
  next
    case q: False
    show ?thesis
    proof (cases "keyagent_key_lookup w url")
      case (Some k)
      then show ?thesis using same keyring_None_iff[OF ko, of url] by (auto simp: fun_eq_iff)
    next
      case None
      with s q obtain k i p where k: "keyagent_key_lookup w' url = Some k" "key_type k = ty" "attrs = Some (key_attributes k)"
        "sid = Some i" "key_session k = Some p" "keyagent_session_lookup w i = Some p" by auto
      obtain s0 where s0: "sess_at w p = Some s0" "ses_session_id s0 = i" using sess_ok_lookup[OF so k(6)] by blast
      obtain s' where s': "sess_at w' p = Some s'" "ses_session_id s' = i" using key_step_ids[OF ks s0(1)] s0(2) by auto
      obtain d where "ght_lookup (key_attributes k) KEYAGENT_ATTR_KEYDATA = Some d"
        using keys_ok_lookup[OF ko' k(1)] unfolding key_ok_def by blast
      then have "keyring w' url = Some (ty, i, d)" using k s' by (simp add: keyring_def)
      then show ?thesis using same None q k keyring_None_iff[OF ko, of url] \<open>ght_lookup _ _ = Some d\<close>
        by (auto simp: fun_eq_iff)
    qed
  qed
qed

end
