(* ===== verification/Examples.thy ===== *)
theory Examples 
  imports Keyagent Registry
begin

text \<open>
  A concrete installation: one token, one STM, one network plug-in, and a key broker that
  challenges the first request, accepts the reply and then hands out an AES key.  The outside
  state is a counter of the calls made.
\<close>

definition x_token_label :: string where
  "x_token_label = ''KMS'' @ replicate 29 CHR '' ''"

definition x_cryptoki :: "nat cryptoki" where
  "x_cryptoki = \<lparr>
     C_GetSlotCount = (\<lambda>x. ((CKR_OK, 1), x)), C_GetSlotList = (\<lambda>n x. ((CKR_OK, [5]), x)),
     C_GetTokenInfo = (\<lambda>s x. ((CKR_OK, x_token_label), x)),
     C_InitToken = (\<lambda>s p l x. (CKR_OK, x)), C_InitPIN = (\<lambda>h p x. (CKR_OK, x)),
     C_OpenSession = (\<lambda>s f x. ((CKR_OK, 9), x)), C_CloseSession = (\<lambda>h x. (CKR_OK, x)),
     C_Login = (\<lambda>h u p x. (CKR_OK, x)), C_Logout = (\<lambda>h x. (CKR_OK, x)),
     C_FindObjectsInit = (\<lambda>h as x. (CKR_OK, x)), C_FindObjects = (\<lambda>h n x. ((CKR_OK, []), x)),
     C_FindObjectsFinal = (\<lambda>h x. (CKR_OK, x)), C_GetAttributeValue_CLASS = (\<lambda>h ob x. ((CKR_OK, CKO_SECRET_KEY), x)),
     C_UnwrapKey = (\<lambda>h m k bs as x. ((CKR_OK, 77), x)),
     C_WrapKey_size = (\<lambda>h m k x. ((CKR_OK, 6), x)), C_WrapKey = (\<lambda>h m k n x. ((CKR_OK, [1, 2, 3, 4, 5, 6], 6), x)),
     C_GenerateKeyPair = (\<lambda>h m pa qa x. ((CKR_OK, 3, 4), x)),
     c_initialize = (\<lambda>x. (CKR_OK, x)), c_finalize = (\<lambda>x. (CKR_OK, x)),
     exports_C_Initialize = True, exports_C_Finalize = True\<rparr>"

definition x_layout :: rsa_params_layout where
  "x_layout = \<lparr>rsa_params_size = 4, ulExponentLen = (\<lambda>bs. 3), ulModulusLen = (\<lambda>bs. 256)\<rparr>"

definition x_uri_data :: apimodule_uri_data where
  "x_uri_data = \<lparr>token_label = Some ''KMS'', key_label = Some ''k'', key_id = Some ''i'', pin = Some ''1234'',
     utype = CKO_SECRET_KEY, slot_id = 0\<rparr>"

definition x_am :: "nat am" where
  "x_am = \<lparr>ext = 0, token_hash = [], api_hash = [(''SGX'', SGX_APIMODULE_OPS)], uri_mem = [1 \<mapsto> x_uri_data],
     preload_keys_flag = 1, attestation_type = Some ''ECDSA'', qlPolicy = Some ''EPHEMERAL''\<rparr>"

datatype x_json = JNull | JString string | JObject "(string \<times> x_json) list" | JArray "x_json list"

definition x_challenge :: x_json where
  "x_challenge = JObject [(''status'', JString ''failure''),
     (''faults'', JArray [JObject [(''type'', JString ''not-authorized'')]]),
     (''link'', JObject [(''challenge-replyto'', JObject [(''href'', JString ''u''), (''method'', JString ''post'')])]),
     (''challenge_type'', JString ''SGX''), (''challenge'', JString ''s1'')]"

definition x_session :: x_json where
  "x_session = JObject [(''status'', JString ''success''),
     (''data'', JObject [(''type'', JString ''AES256-GCM''), (''swk'', JString ''w'')])]"

definition x_keytransfer :: bytes where
  "x_keytransfer = le32 12 @ le32 16 @ le32 4 @ replicate 12 1 @ [2, 3, 4, 5]"

definition x_key :: x_json where
  "x_key = JObject [(''data'', JObject [(''id'', JString ''1''), (''algorithm'', JString ''AES''),
     (''payload'', JString ''K'')])]"

fun x_member :: "x_json \<Rightarrow> string \<Rightarrow> x_json option" where
  "x_member (JObject ms) k = Some (case map_of ms k of None \<Rightarrow> JNull | Some v \<Rightarrow> v)"
| "x_member JNull k = Some JNull"
| "x_member _ k = None"

fun x_is_member :: "x_json \<Rightarrow> string \<Rightarrow> bool option" where
  "x_is_member (JObject ms) k = Some (map_of ms k \<noteq> None)"
| "x_is_member JNull k = Some False"
| "x_is_member _ k = None"

fun x_element :: "x_json \<Rightarrow> nat \<Rightarrow> x_json option" where
  "x_element (JArray vs) i = Some (if i < length vs then vs ! i else JNull)"
| "x_element JNull i = Some JNull"
| "x_element _ i = None"

fun x_as_string :: "x_json \<Rightarrow> string option" where
  "x_as_string (JString s) = Some s"
| "x_as_string JNull = Some []"
| "x_as_string _ = None"

definition x_json_ops :: "x_json json_ops" where
  "x_json_ops = \<lparr>js_parse = (\<lambda>bs. if bs = [1] then x_challenge else if bs = [2] then x_session
       else if bs = [3] then x_key else JNull),
     js_is_member = x_is_member, js_member = x_member, js_element = x_element, js_as_string = x_as_string,
     js_write = (\<lambda>ms. concat (map snd ms))\<rparr>"

text \<open>The server answers by the number of requests it has seen.\<close>

definition x_curl :: "nat curl_ops" where
  "x_curl = \<lparr>curl_easy_init = (\<lambda>x. (True, x)), curl_easy_setopt = (\<lambda>opt x. (True, x)),
     curl_easy_perform = (\<lambda>x. ((if x = 6 then [(''Session-Id:SGX:s1'', Some [])] else [], [[of_nat (x - 3)]]), Suc x)),
     curl_easy_getinfo = (\<lambda>x. (if x = 5 then 401 else if x = 6 then 201 else if x = 7 then 200 else 500, x))\<rparr>"

definition x_kms :: "(nat, x_json) kms_env" where
  "x_kms = \<lparr>k_curl = x_curl, k_json = x_json_ops, g_base64_decode = (\<lambda>s. if s = ''K'' then x_keytransfer else map byte_of_char s),
     g_base64_encode = map char_of_byte, stale = Some, k_undef = []\<rparr>"

definition x_gda :: "nat gda_ops" where
  "x_gda = \<lparr>gda_connection_open = (\<lambda>p c e x. ((True, e), x)), gda_sql_parser_parse_string = (\<lambda>s e x. ((True, e), x)),
     gda_statement_get_parameters = (\<lambda>s e x. ((True, e), x)), gda_execute_select = (\<lambda>s ps e x. ((Some [], e), x)),
     gda_execute_non_select = (\<lambda>s ps e x. ((0, e), x)), gda_insert_row_into_table = (\<lambda>t vs e x. ((True, e), x)),
     gda_commit_transaction = (\<lambda>x. (True, x))\<rparr>"

definition x_env :: "nat ka_env" where
  "x_env = \<lparr>g_module_open_stm = (\<lambda>f. None), load_keyfile = (\<lambda>f. Inl (EXTERNAL 2)), g_random_int = (\<lambda>x. (of_nat x, Suc x)),
     e_gda = x_gda, file_exists = (\<lambda>f. True), dir_entries = (\<lambda>d. None), g_pattern_match_string = (\<lambda>p s. True),
     g_mkdir_with_parents = (\<lambda>d x. (None, x)), g_path_get_dirname = (\<lambda>s. s), g_path_get_basename = (\<lambda>s. s),
     PKGDATA = [], undef_mem = []\<rparr>"

definition x_stm :: keyagent_stm_real where
  "x_stm = \<lparr>stm_label = ''SGX'', stm_module_name = ''stm_sgx.so'', stm_initialized = True, stm_session = None,
     stm_apimodule = True\<rparr>"

definition x_ops :: "nat keyagent_apimodule_ops" where
  "x_ops = \<lparr>ops_load_key = Some (apimodule_load_key x_cryptoki),
     ops_get_challenge = Some (apimodule_get_challenge x_cryptoki x_layout),
     ops_set_wrapping_key = Some (apimodule_set_wrapping_key x_cryptoki)\<rparr>"

definition x_world :: "nat world" where
  "x_world = snd (keyagent_session_init \<lparr>am = x_am, sess_mem = [], session_hash = [], stm_hash = [(Some ''SGX'', x_stm)],
     key_hash = [], npm_hash = [(''KMS'', \<lparr>npm_label = ''KMS'', npm_module_name = ''npm_kms.so'', npm_initialized = True\<rparr>)],
     swk_type_hash = [], apimodule_loadkey_hash = [], apimodule_ops = x_ops, apimodule_enabled = True,
     rwlock = False, cache_rwlock = False, cache_sessions = False, cache_keys = False, fake_cache_ids = 0,
     global_model = False, global_delete_list = [], config = None, cert = [], certkey = [], cacert = [],
     keyformat = KEYAGENT_KEY_FORMAT_PEM, ka_ssl_verify = 1, configdirectory = [], kms_server_url = Some ''h'',
     kms_debug = False, ka_init_done = True, ka_init_error = None, gfl_init = True, gfl_rv = 0, mode = Some ''SGX'',
     pre_load_keyfile = None, func_list_set = True, module_hash = [''/lib/p11.so''],
     atfork_set = True\<rparr>)"

definition x_run where
  "x_run url = keyagent_loadkey_with_moduledata (kms_only x_env x_kms) (sgx_only x_env) url (Some 1) None x_world"

definition x_view where
  "x_view r = map_option (\<lambda>(b, e, w). (b, e, ext (am w), rwlock w, map ses_session_id (sess_mem w), sess_names w,
     map fst (key_hash w), map fst (apimodule_loadkey_hash w), map (stm_session \<circ> snd) (stm_hash w))) r"

text \<open>The whole exchange, evaluated.\<close>

lemma x_run_view:
  "x_view (x_run ''KMS:k1'') = Some (True, None, 7, False, [''s1''], [(''SGX'', ''s1'', ''AES256-GCM'')],
     [QUARK_TO_POINTER (Some ''KMS:k1'')], [], [Some 0])"
  by code_simp

definition x_done :: "nat world" where
  "x_done = snd (snd (the (x_run ''KMS:k1'')))"

lemma x_run_done: "x_run ''KMS:k1'' = Some (True, None, x_done)"
proof (cases "x_run ''KMS:k1''")
  case None
  then show ?thesis using x_run_view by (simp add: x_view_def)
next
  case (Some r)
  then show ?thesis using x_run_view by (cases r) (simp add: x_view_def x_done_def)
qed

lemma x_am_ok: "am_ok x_am"
  by (simp add: am_ok_def x_am_def ght_wf_def ght_lookup_def)

lemma x_ops_ok: "ops_ok x_ops"
  by (simp add: ops_ok_def x_ops_def apimodule_get_challenge_ok apimodule_set_wrapping_key_ok apimodule_load_key_ok)

lemma x_world_idle: "agent_idle x_world"
  using x_am_ok x_ops_ok
  by (simp add: agent_idle_def agent_ok_def sess_ok_def keys_ok_def stms_ok_def single_ok_def ght_wf_def ght_lookup_def
      x_world_def keyagent_session_init_def x_stm_def g_quark_from_string_def)

definition x_request :: keyagent_request where
  "x_request = \<lparr>req_module_data = Some 1, req_npm_name = ''KMS'', req_stm_name = None\<rparr>"

definition x_loading :: "nat world" where
  "x_loading = request_store ''r'' x_request x_world"

lemma x_loading_ok: "agent_ok x_loading" "single_ok x_loading" "current_ok x_loading"
  "ght_lookup (apimodule_loadkey_hash x_loading) ''r'' \<noteq> None"
proof -
  show "agent_ok x_loading" "single_ok x_loading"
    using x_world_idle by (simp_all add: x_loading_def agent_idle_def agent_ok_request_store single_ok_request_store)
  show "current_ok x_loading"
    by (simp add: current_ok_def x_loading_def x_world_def keyagent_session_init_def keyagent_stm_get_by_name_def
        x_stm_def ght_lookup_def g_quark_from_string_def)
  show "ght_lookup (apimodule_loadkey_hash x_loading) ''r'' \<noteq> None"
    by (simp add: x_loading_def)
qed

text \<open>A world with the session \<open>s9\<close>.\<close>

definition x_with_session :: "nat world" where
  "x_with_session = x_world\<lparr>sess_mem := [\<lparr>ses_swk = [1], ses_name = ''SGX'', ses_session_id = ''s9'',
     ses_swk_type = ''AES256-GCM'', ses_cache_id = 1\<rparr>], session_hash := [(Some ''s9'', 0)]\<rparr>"

text \<open>The three callbacks on a token that is there.\<close>

definition x_details :: "challenge_details \<times> sgx_challenge_request \<times> session_details \<times> loadkey_details" where
  "x_details =
     (\<lparr>cd_label = Some ''SGX'', cd_nonce = [], cd_challenge = None, cd_module_data = Some 1\<rparr>,
      \<lparr>launch_policy = SGX_QL_EPHEMERAL, rq_nonce = [], attestationType = ''ECDSA''\<rparr>,
      \<lparr>sd_label = Some ''SGX'', sd_module_data = Some 1, sd_swk_type = None, sd_session = Some [1]\<rparr>,
      \<lparr>ld_label = Some ''SGX'', ld_url = [], ld_type = KEYAGENT_AESKEY, ld_key = Some [1], ld_iv = Some [2],
       ld_tag_size = 16, ld_module_data = Some 1\<rparr>)"


definition x_load_details :: "nat keyagent_keyload_details" where
  "x_load_details = load_details (sgx_only x_env) ''r'' ''KMS:k1'' x_world"

end
