(* ===== verification/Startup.thy ===== *)
theory Startup
  imports Keyagent
begin

text \<open>
  The key agent between two loads, and its start: whatever \<open>keyagent_init\<close> meets, the state it
  leaves is a good one.
\<close>

section \<open>At rest\<close>

definition rest :: "'x world \<Rightarrow> bool" where
  "rest w \<longleftrightarrow> agent_idle w \<and> \<not> rwlock w \<and> uri_mem (am w) = Map.empty"

text \<open>A step of the start-up that leaves the tables alone.\<close>

definition settled :: "'x world \<Rightarrow> 'x world \<Rightarrow> bool" where
  "settled w w' \<longleftrightarrow> tables w' = tables w \<and> sess_names w' = sess_names w \<and>
     apimodule_ops w' = apimodule_ops w \<and> rwlock w' = rwlock w \<and> uri_mem (am w') = uri_mem (am w) \<and>
     (am_ok (am w) \<longrightarrow> am_ok (am w'))"

lemma settled_refl [simp, intro!]: "settled w w"
  by (simp add: settled_def)

lemma settled_trans [trans]: "settled u v \<Longrightarrow> settled v w \<Longrightarrow> settled u w"
  by (simp add: settled_def)

lemma settled_cache_step: "cache_step w w' \<Longrightarrow> settled w w'"
  using uncached_names[of w' w] moved_step[of "am w" "am w'"]
  by (auto simp: settled_def cache_step_def statics_def moved_simps intro: am_step_okD)

lemma settled_out [simp, intro!]: "settled w (w\<lparr>am := (am w)\<lparr>ext := x\<rparr>\<rparr>)"
  by (rule settled_cache_step) simp

lemma settled_length: "settled w w' \<Longrightarrow> length (sess_mem w') = length (sess_mem w)"
  by (metis settled_def length_sess_names)

lemma settled_agent_ok:
  assumes s: "settled w w'" and ok: "agent_ok w"
  shows "agent_ok w'"
proof -
  note len = settled_length[OF s]
  have "tables w' = tables w" using s by (simp add: settled_def)
  note t = tablesD[OF this]
  have "sess_ok w \<Longrightarrow> sess_ok w'" by (rule sess_ok_cong) (use s t in \<open>simp_all add: settled_def\<close>)
  moreover have "keys_ok w \<Longrightarrow> keys_ok w'" by (rule keys_ok_cong) (use t len in simp_all)
  moreover have "stms_ok w' = stms_ok w" using t len by (simp add: stms_ok_def)
  ultimately show ?thesis using ok s t by (simp add: agent_ok_def settled_def)
qed

lemma settled_single_ok:
  assumes s: "settled w w'" and one: "single_ok w"
  shows "single_ok w'"
  unfolding single_ok_def
proof (intro allI impI)
  have "tables w' = tables w" using s by (simp add: settled_def)
  note t = tablesD[OF this]
  fix q p s' assume p: "ght_lookup (session_hash w') q = Some p" "sess_at w' p = Some s'"
  obtain s0 where s0: "sess_at w p = Some s0"
    using sess_at_lt[OF p(2)] settled_length[OF s] by (auto simp: sess_at_def)
  have "ses_name s' = ses_name s0" using sess_names_at[OF p(2)] sess_names_at[OF s0] s by (simp add: settled_def)
  then show "\<exists>stm. ght_lookup (stm_hash w') (g_quark_from_string (ses_name s')) = Some stm \<and> stm_session stm = Some p"
    using one p(1) s0 t by (simp add: single_ok_def)
qed

lemma settled_rest: "settled w w' \<Longrightarrow> rest w \<Longrightarrow> rest w'"
  using settled_agent_ok[of w w'] settled_single_ok[of w w']
  by (simp add: rest_def agent_idle_def settled_def tables_def)

text \<open>Fields no invariant reads.\<close>

lemma settled_fields [simp, intro!]:
  "settled w (w\<lparr>config := c\<rparr>)" "settled w (w\<lparr>cert := d\<rparr>)" "settled w (w\<lparr>certkey := d\<rparr>)" "settled w (w\<lparr>cacert := d\<rparr>)"
  "settled w (w\<lparr>keyformat := k\<rparr>)" "settled w (w\<lparr>ka_ssl_verify := i\<rparr>)" "settled w (w\<lparr>cache_sessions := b\<rparr>)"
  "settled w (w\<lparr>cache_keys := b\<rparr>)" "settled w (w\<lparr>cache_rwlock := b\<rparr>)" "settled w (w\<lparr>mode := m\<rparr>)"
  "settled w (w\<lparr>pre_load_keyfile := m\<rparr>)" "settled w (w\<lparr>module_hash := h\<rparr>)" "settled w (w\<lparr>func_list_set := b\<rparr>)"
  "settled w (w\<lparr>npm_hash := n\<rparr>)" "settled w (w\<lparr>swk_type_hash := s\<rparr>)" "settled w (w\<lparr>kms_server_url := m\<rparr>)"
  "settled w (w\<lparr>kms_server_url := m, kms_debug := b\<rparr>)" "settled w (w\<lparr>ka_init_error := e, ka_init_done := b\<rparr>)"
  "settled w (w\<lparr>gfl_rv := rv, atfork_set := b, gfl_init := b'\<rparr>)" "settled w (w\<lparr>configdirectory := d\<rparr>)"
  "settled w (w\<lparr>global_model := b\<rparr>)" "settled w (w\<lparr>global_delete_list := l\<rparr>)"
  by (simp_all add: settled_def tables_def sess_names_def)

lemma settled_am:
  assumes "am_step (am w) a" and "uri_mem a = uri_mem (am w)"
  shows "settled w (w\<lparr>am := a\<rparr>)"
  using assms am_step_okD by (auto simp: settled_def)

lemma settled_moved: "moved (am w) a \<Longrightarrow> settled w (w\<lparr>am := a\<rparr>)"
  by (rule settled_am) (simp_all add: moved_step moved_simps)


section \<open>The database\<close>

lemma cache_init_settled:
  assumes run: "cache_init E err w = Some (r, err', w')"
  shows "settled w w'"
proof -
  obtain cs err1 where c1: "key_config_get_boolean (config w) ''cache'' ''cache_sessions'' err = (cs, err1)"
    by (cases "key_config_get_boolean (config w) ''cache'' ''cache_sessions'' err")
  obtain ck err2 where c2: "key_config_get_boolean (config w) ''cache'' ''cache_keys'' err1 = (ck, err2)"
    by (cases "key_config_get_boolean (config w) ''cache'' ''cache_keys'' err1")
  let ?w2 = "w\<lparr>cache_sessions := cs \<noteq> 0, cache_keys := ck \<noteq> 0\<rparr>" and
    ?w3 = "w\<lparr>cache_sessions := cs \<noteq> 0, cache_keys := ck \<noteq> 0, cache_rwlock := False\<rparr>"
  have s: "settled w ?w2" "settled w ?w3" by (simp_all add: settled_def tables_def sess_names_def)
  consider "err1 \<noteq> None" | "err1 = None" "err2 \<noteq> None" | "err1 = None" "err2 = None" "cs = 0 \<and> ck = 0"
    | "err1 = None" "err2 = None" "\<not> (cs = 0 \<and> ck = 0)" by blast
  then show ?thesis
  proof cases
    case 4
    then have "cache_open E None ?w3 = Some (r, err', w')" using run c1 c2 by (auto simp: cache_init_def Let_def)
    then have "settled ?w3 w'" by (intro settled_cache_step cache_open_step)
    with s(2) show ?thesis by (rule settled_trans)
  qed (use run c1 c2 s in \<open>auto simp: cache_init_def Let_def\<close>)
qed

section \<open>Starting the agent\<close>

text \<open>What the agent relies on when it starts its plug-ins.\<close>

definition npm_init_ok :: "(string \<Rightarrow> gerr \<Rightarrow> 'x world \<Rightarrow> string option \<times> gerr \<times> 'x world) \<Rightarrow> bool" where
  "npm_init_ok f \<longleftrightarrow> (\<forall>dir err w nm err' w'. f dir err w = (nm, err', w') \<longrightarrow> settled w w')"

definition stm_init_ok :: "'x stm_init_fn \<Rightarrow> bool" where
  "stm_init_ok f \<longleftrightarrow> (\<forall>dir err a nm err' a'. f dir err a = Some (nm, err', a') \<longrightarrow>
     uri_mem a' = uri_mem a \<and> (am_ok a \<longrightarrow> am_ok a'))"

text \<open>While STMs are loaded there are no sessions yet.\<close>

definition starting :: "'x world \<Rightarrow> bool" where
  "starting w \<longleftrightarrow> rest w \<and> session_hash w = ght_empty"

lemma settled_starting: "settled w w' \<Longrightarrow> starting w \<Longrightarrow> starting w'"
  using settled_rest[of w w'] by (simp add: starting_def settled_def tables_def)

lemma starting_init_tables:
  assumes "rest w"
  shows "starting (init_tables w)"
  using assms by (simp add: starting_def rest_def agent_idle_def agent_ok_def sess_ok_def keys_ok_def
      stms_ok_def single_ok_def init_tables_def)

lemma starting_stm_insert:
  assumes "starting w"
  shows "starting (w\<lparr>stm_hash := ght_insert (g_quark_from_string nm)
    \<lparr>stm_label = nm, stm_module_name = f, stm_initialized = b, stm_session = None, stm_apimodule = c\<rparr> (stm_hash w)\<rparr>)"
  using assms by (auto simp: starting_def rest_def agent_idle_def agent_ok_def sess_ok_def keys_ok_def key_ok_def
      stms_ok_def single_ok_def)

lemma rest_stm_enable:
  assumes stm: "keyagent_stm_get_by_name w n = Some s" and ok: "rest w"
  shows "rest (stm_store n (s\<lparr>stm_apimodule := True\<rparr>) w)"
proof -
  let ?w = "stm_store n (s\<lparr>stm_apimodule := True\<rparr>) w"
  have l: "ght_lookup (stm_hash w) (Some n) = Some s"
    using stm by (simp add: keyagent_stm_get_by_name_def g_quark_from_string_def)
  have s: "stms_ok w" using ok by (simp add: rest_def agent_idle_def agent_ok_def)
  then have "Some n = g_quark_from_string (stm_label s) \<and> (\<forall>p. stm_session s = Some p \<longrightarrow> p < length (sess_mem w))"
    using l unfolding stms_ok_def by blast
  then have "stms_ok ?w" using s by (simp add: stms_ok_def)
  moreover have "keys_ok ?w = keys_ok w" "sess_ok ?w = sess_ok w"
    by (simp_all add: keys_ok_def key_ok_def sess_ok_def)
  ultimately have "agent_ok ?w" using ok by (simp add: rest_def agent_idle_def agent_ok_def)
  moreover have "single_ok ?w"
    unfolding single_ok_def
  proof (intro allI impI)
    have one: "single_ok w" using ok by (simp add: rest_def agent_idle_def)
    fix q p x assume "ght_lookup (session_hash ?w) q = Some p" "sess_at ?w p = Some x"
    then obtain t where "ght_lookup (stm_hash w) (g_quark_from_string (ses_name x)) = Some t" "stm_session t = Some p"
      using one[unfolded single_ok_def, rule_format, of q p x] by auto
    then show "\<exists>t. ght_lookup (stm_hash ?w) (g_quark_from_string (ses_name x)) = Some t \<and> stm_session t = Some p"
      using l by (auto simp: g_quark_from_string_def)
  qed
  ultimately show ?thesis using ok by (simp add: rest_def agent_idle_def) (simp add: stm_store_def)
qed

lemma sess_at_ops [simp]:
  "sess_at (w\<lparr>apimodule_ops := ops\<rparr>) p = sess_at w p"
  "sess_at (w\<lparr>apimodule_enabled := b\<rparr>) p = sess_at w p"
  by (simp_all add: sess_at_def)

lemma ok_ops_frame [simp]:
  "sess_ok (w\<lparr>apimodule_ops := ops\<rparr>) = sess_ok w" "keys_ok (w\<lparr>apimodule_ops := ops\<rparr>) = keys_ok w"
  "stms_ok (w\<lparr>apimodule_ops := ops\<rparr>) = stms_ok w" "single_ok (w\<lparr>apimodule_ops := ops\<rparr>) = single_ok w"
  "sess_ok (w\<lparr>apimodule_enabled := b\<rparr>) = sess_ok w" "keys_ok (w\<lparr>apimodule_enabled := b\<rparr>) = keys_ok w"
  "stms_ok (w\<lparr>apimodule_enabled := b\<rparr>) = stms_ok w" "single_ok (w\<lparr>apimodule_enabled := b\<rparr>) = single_ok w"
  by (simp_all add: sess_ok_def keys_ok_def key_ok_def stms_ok_def single_ok_def)

lemma rest_ops: "rest w \<Longrightarrow> ops_ok ops \<Longrightarrow> rest (w\<lparr>apimodule_ops := ops\<rparr>)"
  and rest_enabled: "rest w \<Longrightarrow> rest (w\<lparr>apimodule_enabled := b\<rparr>)"
  by (simp_all add: rest_def agent_idle_def agent_ok_def)

lemma rest_register:
  "rest w \<Longrightarrow> ops_ok ops \<Longrightarrow> keyagent_apimodule_register label ops w = (b, w') \<Longrightarrow> rest w'"
  by (auto simp: keyagent_apimodule_register_def keyagent_stm_apimodule_enable_def Let_def
      split: option.splits intro: rest_enabled rest_stm_enable rest_ops)

locale startup = agent E N for E :: "'x ka_env" and N +
  assumes npm_init: "N f = Some m \<Longrightarrow> opt_ok npm_init_ok (sym_npm_init m)"
    and stm_init: "g_module_open_stm E f = Some md \<Longrightarrow> opt_ok stm_init_ok (sym_stm_init md)"
begin

lemma initialize_npm_settled:
  assumes run: "initialize_npm N f w = Some w'"
  shows "settled w w'"
proof (cases "\<exists>m init. N f = Some m \<and> sym_npm_init m = Some init \<and>
    (\<exists>nm err w1. init (configdirectory w) None w = (nm, err, w1) \<and> (w' = w1 \<or> (\<exists>n. w' = w1\<lparr>npm_hash := n\<rparr>)))")
  case False
  then have "w' = w" using run
    by (auto simp: initialize_npm_def run_simps split: option.splits prod.splits)
  then show ?thesis by simp
next
  case True
  then obtain m init nm err w1 where m: "N f = Some m" "sym_npm_init m = Some init"
    "init (configdirectory w) None w = (nm, err, w1)" and w': "w' = w1 \<or> (\<exists>n. w' = w1\<lparr>npm_hash := n\<rparr>)" by blast
  have "settled w w1" using npm_init[OF m(1)] m(2,3) unfolding opt_ok_def npm_init_ok_def by auto
  moreover have "settled w1 w'" using w' by auto
  ultimately show ?thesis by (rule settled_trans)
qed

lemma initialize_npms_settled: "initialize_npms N fs w = Some w' \<Longrightarrow> settled w w'"
  by (induction fs arbitrary: w) (auto simp: bind_eq_Some_conv dest!: initialize_npm_settled intro: settled_trans)

lemma initialize_stm_starting:
  assumes ok: "starting w" and run: "initialize_stm E f w = Some w'"
  shows "starting w'"
proof (cases "g_module_open_stm E f")
  case None
  then show ?thesis using ok run by (simp add: initialize_stm_def)
next
  case (Some m)
  show ?thesis
  proof (cases "sym_stm_init m = None \<or> sym_stm_create_challenge m = None \<or> sym_stm_set_session m = None \<or>
      sym_stm_load_key m = None")
    case True
    then have "w' = w" using run Some by (auto simp: initialize_stm_def split: option.splits)
    then show ?thesis using ok by simp
  next
    case False
    then obtain init f2 f3 f4 where sy: "sym_stm_init m = Some init" "sym_stm_create_challenge m = Some f2"
      "sym_stm_set_session m = Some f3" "sym_stm_load_key m = Some f4" by auto
    with run Some obtain nm err a where i: "init (configdirectory w) None (am w) = Some (nm, err, a)"
      by (auto simp: initialize_stm_def with_am_def bind_eq_Some_conv)
    have "uri_mem a = uri_mem (am w) \<and> (am_ok (am w) \<longrightarrow> am_ok a)"
      using stm_init[OF Some] sy(1) i unfolding opt_ok_def stm_init_ok_def by auto
    then have "settled w (w\<lparr>am := a\<rparr>)" by (simp add: settled_def)
    then have s: "starting (w\<lparr>am := a\<rparr>)" using ok by (rule settled_starting)
    show ?thesis
    proof (cases nm)
      case None
      then have "w' = w\<lparr>am := a\<rparr>" using run Some sy i
        by (auto simp: initialize_stm_def with_am_def bind_eq_Some_conv)
      then show ?thesis using s by simp
    next
      case n: (Some l)
      then show ?thesis using run Some sy i starting_stm_insert[OF s, of l f True False]
        by (auto simp: initialize_stm_def with_am_def)
    qed
  qed
qed

lemma initialize_stms_starting: "initialize_stms E fs w = Some w' \<Longrightarrow> starting w \<Longrightarrow> starting w'"
proof (induction fs arbitrary: w)
  case Nil
  then show ?case by simp
next
  case (Cons f fs)
  then obtain w1 where "initialize_stm E f w = Some w1" "initialize_stms E fs w1 = Some w'"
    by (auto simp: bind_eq_Some_conv)
  then show ?case using Cons.IH Cons.prems(2) initialize_stm_starting by blast
qed

end

lemma init_certificates_settled: "init_certificates w = (e, w') \<Longrightarrow> settled w w'"
  by (auto simp: init_certificates_def Let_def settled_def tables_def sess_names_def split: prod.splits if_splits)

lemma init_keyformat_settled: "init_keyformat E w = (e, w') \<Longrightarrow> settled w w'"
  by (auto simp: init_keyformat_def Let_def settled_def tables_def sess_names_def
      split: prod.splits if_splits option.splits)

lemma init_credentials_settled: "init_credentials E w = (e, w') \<Longrightarrow> settled w w'"
  by (auto simp: init_credentials_def split: prod.splits if_splits
      dest!: init_certificates_settled init_keyformat_settled intro: settled_trans)

text \<open>The lock, and the file the agent was started with.\<close>

lemma rest_open: "rest w \<Longrightarrow> rest (w\<lparr>rwlock := False, configdirectory := d, config := c\<rparr>)"
  by (rule settled_rest[of w]) (auto simp: settled_def rest_def tables_def sess_names_def)

context startup begin

lemma init_plugins_rest:
  assumes ok: "starting w" and run: "init_plugins N E nd sd w = Some (r, err', w')"
  shows "rest w'"
proof (cases "handle_wildcards E (nd @ ''/npm_*.so'') = []")
  case True
  then show ?thesis using ok run by (simp add: init_plugins_def starting_def)
next
  case False
  then obtain w1 where w1: "initialize_npms N (handle_wildcards E (nd @ ''/npm_*.so'')) w = Some w1"
    using run by (auto simp: init_plugins_def run_simps)
  have s1: "starting w1" using initialize_npms_settled[OF w1] ok by (rule settled_starting)
  show ?thesis
  proof (cases "handle_wildcards E (sd @ ''/stm_*.so'') = []")
    case True
    then show ?thesis using False run w1 s1 by (simp add: init_plugins_def starting_def)
  next
    case sd: False
    obtain b w2 where w2: "keyagent_session_init w1 = (b, w2)" by (cases "keyagent_session_init w1")
    then have "settled w1 w2" by (auto simp: keyagent_session_init_def)
    then have s2: "starting w2" using s1 by (rule settled_starting)
    from run False sd w1 w2 obtain w3 where w3: "initialize_stms E (handle_wildcards E (sd @ ''/stm_*.so'')) w2 = Some w3"
      and c: "cache_init E None w3 = Some (r, err', w')"
      by (auto simp: init_plugins_def run_simps)
    have "rest w3" using initialize_stms_starting[OF w3 s2] by (simp add: starting_def)
    with cache_init_settled[OF c] show ?thesis by (rule settled_rest)
  qed
qed

lemma do_keyagent_init_rest:
  assumes ok: "rest w" and run: "do_keyagent_init N E f w = Some (r, err', w')"
  shows "rest w'"
proof (cases f)
  case None
  then show ?thesis using ok run by (simp add: do_keyagent_init_def)
next
  case (Some fn)
  obtain cfg e0 where c: "key_config_openfile (load_keyfile E) (Some fn) None = (cfg, e0)" by (metis prod.exhaust)
  let ?w1 = "w\<lparr>rwlock := False, configdirectory := g_path_get_dirname E fn, config := cfg\<rparr>"
  have r1: "rest ?w1" using ok by (rule rest_open)
  obtain nd e1 sd e2 e3 w2 where v: "cfg_string ?w1 ''core'' ''npm-directory'' None = (nd, e1)"
    "cfg_string ?w1 ''core'' ''stm-directory'' None = (sd, e2)" "init_credentials E ?w1 = (e3, w2)"
    by (metis prod.exhaust)
  have r2: "rest w2" using init_credentials_settled[OF v(3)] r1 by (rule settled_rest)
  show ?thesis
  proof (cases "e0 = None \<and> e1 = None \<and> e2 = None \<and> e3 = None")
    case False
    then show ?thesis using run Some c v r1 r2
      by (auto simp: do_keyagent_init_def Let_def split: if_splits)
  next
    case True
    then have "init_plugins N E nd sd (init_tables w2) = Some (r, err', w')"
      using run Some c v by (simp add: do_keyagent_init_def Let_def)
    then show ?thesis using starting_init_tables[OF r2] by (rule init_plugins_rest[rotated])
  qed
qed

lemma keyagent_init_rest:
  assumes ok: "rest w" and run: "keyagent_init N E f err w = Some (r, err', w')"
  shows "rest w'"
proof (cases "ka_init_done w")
  case True
  then show ?thesis using ok run by (auto simp: keyagent_init_def bind_eq_Some_conv split: if_splits)
next
  case False
  with run obtain b e w0 where i: "do_keyagent_init N E f w = Some (b, e, w0)"
    and w': "w' = w0\<lparr>ka_init_error := e, ka_init_done := True\<rparr>"
    by (auto simp: keyagent_init_def bind_eq_Some_conv split: if_splits)
  have "rest w0" using ok i by (rule do_keyagent_init_rest)
  then show ?thesis unfolding w' by (rule settled_rest[rotated]) simp
qed

lemma loadkey_rest:
  assumes ok: "rest w" and run: "keyagent_loadkey_with_moduledata N E url md err w = Some (r, err', w')"
  shows "rest w'"
proof -
  have i: "agent_idle w" "\<not> rwlock w" "uri_mem (am w) = Map.empty" using ok by (simp_all add: rest_def)
  have s: "agent_idle w'" "ka_step w w'" using loadkey_spec[OF i(1) run] by auto
  then have "rwlock w' = rwlock w" "dom (uri_mem (am w')) = dom (uri_mem (am w))"
    using am_step_uri_mem_dom[of "am w" "am w'"] staticsD(2)[of w' w] by (simp_all add: ka_step_def)
  then show ?thesis using s i by (simp add: rest_def)
qed

end

end
