(* ===== verification/Entry_Points.thy ===== *)
theory Entry_Points
  imports Startup Pkcs11_Module
begin

text \<open>
  What every exported entry point keeps, from the start of the process on.
\<close>

section \<open>The entry points of the library\<close>

lemma settled_idle: "settled w w' \<Longrightarrow> agent_idle w \<Longrightarrow> agent_idle w'"
  using settled_agent_ok[of w w'] settled_single_ok[of w w']
  by (simp add: agent_idle_def settled_def tables_def)

lemma rest_uri_mem_set:
  "agent_idle (uri_mem_set fp d w) = agent_idle w" "rwlock (uri_mem_set fp d w) = rwlock w"
  "uri_mem (am (uri_mem_set fp d w)) = (uri_mem (am w))(fp := d)"
  by (simp_all add: uri_mem_set_def agent_idle_def agent_ok_def sess_ok_def keys_ok_def key_ok_def stms_ok_def
      single_ok_def am_ok_def)

text \<open>While a key is fetched, the local variable at \<open>fp\<close> is what module data may point to.\<close>

definition fetching :: "nat \<Rightarrow> apimodule_uri_data \<Rightarrow> 'x world \<Rightarrow> bool" where
  "fetching fp d w \<longleftrightarrow> agent_idle w \<and> \<not> rwlock w \<and>
     (\<exists>d'. uri_mem (am w) = [fp \<mapsto> d'] \<and> uri_same d d')"

lemma fetching_start: "rest w \<Longrightarrow> fetching fp d (uri_mem_set fp (Some d) w)"
  by (auto simp: fetching_def rest_def rest_uri_mem_set)

lemma fetching_end: "fetching fp d w \<Longrightarrow> rest (uri_mem_set fp None w)"
  by (auto simp: fetching_def rest_def rest_uri_mem_set)

lemma fetching_am:
  assumes ok: "fetching fp d w" and s: "am_step (am w) a"
  shows "fetching fp d (w\<lparr>am := a\<rparr>)"
proof -
  obtain d0 where d0: "uri_mem (am w) = [fp \<mapsto> d0]" "uri_same d d0" using ok by (auto simp: fetching_def)
  obtain d1 where d1: "uri_mem a fp = Some d1" "uri_same d0 d1"
    using am_step_uri_memD[OF s, of fp d0] d0(1) by auto
  have "dom (uri_mem a) = {fp}" using am_step_uri_mem_dom[OF s] d0(1) by simp
  then have "uri_mem a = [fp \<mapsto> d1]" using d1(1) by (auto simp: dom_eq_singleton_conv)
  moreover have "agent_idle (w\<lparr>am := a\<rparr>)"
    using ok agent_ok_am[of w a] s by (simp add: fetching_def agent_idle_def)
  ultimately show ?thesis using ok d0(2) d1(2) by (auto simp: fetching_def intro: uri_same_trans)
qed

lemma ondemand_token_step:
  assumes run: "ondemand_token S fp d tlab err a = Some ((t, d1, err'), a')"
    and tl: "token_label d = Some tlab" and p: "uri_mem a fp = Some d0" and same: "uri_same d d0"
  shows "am_step a a' \<and> uri_same d d1"
proof (cases "lookup_apimodule_token a (c_str tlab)")
  case (Some t0)
  then show ?thesis using run by (simp add: ondemand_token_def)
next
  case None
  with run obtain a1 where i: "init_apimodule_token (sk_lib S) d False err a = Some (t, d1, err', a1)"
    and a': "a' = uri_data_write fp d1 a1" by (auto simp: ondemand_token_def bind_eq_Some_conv)
  obtain s where d1: "d1 = d\<lparr>slot_id := s\<rparr>" using init_apimodule_token_result(1)[OF i] by blast
  have st: "am_step a a1" "uri_mem a1 = uri_mem a"
    using init_apimodule_token_step(1,2)[OF i] None tl by auto
  have "am_step a1 a'" unfolding a'
    by (rule uri_data_write_step[of _ _ d0]) (use p st same d1 in \<open>auto simp: uri_same_def\<close>)
  then show ?thesis using st(1) d1 by (auto intro: am_step_trans)
qed

lemma ondemand_present_step: "ondemand_present S t d a = Some (rv, a') \<Longrightarrow> am_step a a'"
  by (auto simp: ondemand_present_def bind_eq_Some_conv split: if_splits dest!: findobject_frame)

locale installation = startup "sk_ka S" "sk_npm S" for S :: "'x skc_env"
begin

lemma loadkey_fetching:
  assumes ok: "fetching fp d w"
    and run: "keyagent_loadkey_with_moduledata (sk_npm S) (sk_ka S) url md err w = Some (r, err', w')"
  shows "fetching fp d w'"
proof -
  have i: "agent_idle w" using ok by (simp add: fetching_def)
  have s: "agent_idle w'" "ka_step w w'" using loadkey_spec[OF i run] by auto
  have am: "am_step (am w) (am w')" and rw: "rwlock w' = rwlock w"
    using s staticsD(2)[of w' w] by (simp_all add: ka_step_def)
  have "fetching fp d (w\<lparr>am := am w'\<rparr>)" using ok am by (rule fetching_am)
  then show ?thesis using s(1) rw by (simp add: fetching_def)
qed

lemma ondemand_load_fetching:
  "fetching fp d w \<Longrightarrow> ondemand_load S fp e uri err w = Some (rv, w') \<Longrightarrow> fetching fp d w'"
  by (auto simp: ondemand_load_def bind_eq_Some_conv split: if_splits dest: loadkey_fetching)

lemma ondemand_body_fetching:
  assumes ok: "fetching fp d w" and run: "ondemand_body S fp d uri w = Some (rv, w')"
  shows "fetching fp d w'"
proof -
  from run obtain tlab tok d1 err1 a1 where tl: "token_label d = Some tlab"
    and t: "ondemand_token S fp d tlab None (am w) = Some ((tok, d1, err1), a1)"
    by (auto simp: ondemand_body_def bind_eq_Some_conv with_am_def)
  obtain d0 where "uri_mem (am w) fp = Some d0" "uri_same d d0" using ok by (auto simp: fetching_def)
  then have "am_step (am w) a1" using ondemand_token_step[OF t tl] by blast
  then have f1: "fetching fp d (w\<lparr>am := a1\<rparr>)" using ok by (rule fetching_am[rotated])
  show ?thesis
  proof (cases tok)
    case None
    then show ?thesis using run tl t f1
      by (auto simp: ondemand_body_def with_am_def intro: ondemand_load_fetching)
  next
    case (Some t0)
    with run tl t obtain x a2 where p: "ondemand_present S t0 d1 a1 = Some (x, a2)"
      by (auto simp: ondemand_body_def with_am_def bind_eq_Some_conv)
    have f2: "fetching fp d (w\<lparr>am := a2\<rparr>)"
      using fetching_am[OF f1] ondemand_present_step[OF p] by simp
    show ?thesis
    proof (cases x)
      case None
      then show ?thesis using run tl t Some p f2
        by (auto simp: ondemand_body_def with_am_def intro: ondemand_load_fetching)
    next
      case v: (Some v)
      then show ?thesis using run tl t Some p f2 by (simp add: ondemand_body_def with_am_def)
    qed
  qed
qed

lemma ondemand_rest:
  assumes ok: "rest w" and run: "C_OnDemand_KeyLoad S fp uri w = Some (rv, w')"
  shows "rest w'"
proof -
  from run obtain u where u: "uri = Some u" by (auto simp: C_OnDemand_KeyLoad_def bind_eq_Some_conv)
  obtain b d where d: "apimodule_uri_to_uri_data (p11_kit_uri_parse S) (Some u) apimodule_uri_data_init = (b, d)"
    by (metis prod.exhaust)
  show ?thesis
  proof (cases b)
    case False
    then show ?thesis using ok run u d by (simp add: C_OnDemand_KeyLoad_def)
  next
    case True
    with run u d obtain w1 where "ondemand_body S fp d u (uri_mem_set fp (Some d) w) = Some (rv, w1)"
      and w': "w' = uri_mem_set fp None w1"
      by (auto simp: C_OnDemand_KeyLoad_def bind_eq_Some_conv split: if_splits)
    then have "fetching fp d w1" using ondemand_body_fetching[OF fetching_start[OF ok]] by blast
    then show ?thesis unfolding w' by (rule fetching_end)
  qed
qed

lemma preload_lines_rest:
  "preload_lines S fp us ret err w = Some (r, err', w') \<Longrightarrow> rest w \<Longrightarrow> rest w'"
proof (induction us arbitrary: ret w)
  case Nil
  then show ?case by simp
next
  case (Cons u us)
  then obtain rv w1 where o: "C_OnDemand_KeyLoad S fp (Some (c_str u)) w = Some (rv, w1)"
    by (auto simp: bind_eq_Some_conv)
  have "rest w1" using Cons.prems(2) o by (rule ondemand_rest)
  then show ?case using Cons.prems(1) Cons.IH[of True w1] o by (cases "rv = CKR_OK") simp_all
qed

lemma preload_rest:
  "rest w \<Longrightarrow> apimodule_preload_keys S fp err w = Some (r, err', w') \<Longrightarrow> rest w'"
  by (auto simp: apimodule_preload_keys_def bind_eq_Some_conv split: branch_splits
      dest: preload_lines_rest)

lemma C_Initialize_rest:
  assumes ok: "rest w" and run: "C_Initialize S fp w = Some (rv, w')"
  shows "rest w'"
proof -
  define w1 where "w1 = w\<lparr>am := (am w)\<lparr>ext := snd (c_initialize (sk_lib S) (ext (am w)))\<rparr>\<rparr>"
  let ?w2 = "w1\<lparr>am := (am w1)\<lparr>preload_keys_flag := preload_keys_flag (am w1) + 1\<rparr>\<rparr>"
  have r1: "rest w1" unfolding w1_def by (rule settled_rest[OF settled_out ok])
  have "moved (am w1) ((am w1)\<lparr>preload_keys_flag := preload_keys_flag (am w1) + 1\<rparr>)"
    unfolding moved_def by (rule exI[of _ "ext (am w1)"]) auto
  then have r2: "rest ?w2" using r1 by (blast intro: settled_rest settled_moved)
  have "w' = w1 \<or> w' = ?w2 \<or> (\<exists>b e. apimodule_preload_keys S fp None ?w2 = Some (b, e, w'))"
    using run by (auto simp: C_Initialize_def out_beta w1_def[symmetric] run_simps split: if_splits)
  then show ?thesis using r1 r2 preload_rest by blast
qed

lemma C_Finalize_rest: "rest w \<Longrightarrow> C_Finalize S w = Some (rv, w') \<Longrightarrow> rest w'"
  by (auto simp: C_Finalize_def out_beta split: if_splits intro: settled_rest[OF settled_out])

end

lemma prepare_child_login_ext: "prepare_child_login S d a = Some (u, a') \<Longrightarrow> \<exists>x. a' = a\<lparr>ext := x\<rparr>"
  by (auto simp: prepare_child_login_def call_simps split: if_splits dest!: findtoken_frame(1))

text \<open>In a child the library is restarted, and at most the outside world moves after that.\<close>

lemma prepare_child_parts:
  assumes run: "apimodule_prepare_child S fp w = Some w'"
  obtains rv1 w1 rv2 w2 x where "C_Finalize S w = Some (rv1, w1)" and "C_Initialize S fp w1 = Some (rv2, w2)"
    and "w' = w2\<lparr>am := (am w2)\<lparr>ext := x\<rparr>\<rparr>"
proof -
  from run obtain rv1 w1 rv2 w2 fn where f: "C_Finalize S w = Some (rv1, w1)" and i: "C_Initialize S fp w1 = Some (rv2, w2)"
    and fl: "pre_load_keyfile w2 = Some fn"
    by (auto simp: apimodule_prepare_child_def bind_eq_Some_conv)
  have same: "w2 = w2\<lparr>am := (am w2)\<lparr>ext := ext (am w2)\<rparr>\<rparr>" by simp
  show ?thesis
  proof (cases "\<exists>uri us. file_lines S fn = Some (uri # us)")
    case False
    then have "w' = w2" using run f i fl by (auto simp: apimodule_prepare_child_def split: option.splits list.splits)
    then show ?thesis using that[OF f i] same by metis
  next
    case True
    then obtain uri us where us: "file_lines S fn = Some (uri # us)" by blast
    obtain b d where d: "apimodule_uri_to_uri_data (p11_kit_uri_parse S) (Some (c_str uri)) apimodule_uri_data_init = (b, d)"
      by (metis prod.exhaust)
    have "w' = w2 \<or> (\<exists>u. with_am (prepare_child_login S d) w2 = Some (u, w'))"
      using run f i fl us d by (cases b) (auto simp: apimodule_prepare_child_def bind_eq_Some_conv)
    then have "\<exists>x. w' = w2\<lparr>am := (am w2)\<lparr>ext := x\<rparr>\<rparr>"
      using same by (elim disjE) (metis, auto simp: with_am_eq dest!: prepare_child_login_ext)
    then show ?thesis using that[OF f i] by blast
  qed
qed

lemma load_module_settled: "apimodule_load_module S nm w = (rv, w') \<Longrightarrow> settled w w'"
  by (auto simp: apimodule_load_module_def Let_def split: option.splits if_splits)

lemma module_config_settled: "module_config S w = Some (r, w') \<Longrightarrow> settled w w'"
  by (auto simp: module_config_def run_simps settled_def tables_def sess_names_def
      split: prod.splits option.splits)

lemma module_ops_ok: "ops_ok (module_ops S)"
  by (simp add: ops_ok_def module_ops_def apimodule_get_challenge_ok apimodule_set_wrapping_key_ok apimodule_load_key_ok)

text \<open>The module's own tables, empty and with the one backend.\<close>

lemma rest_module_tables:
  "rest w \<Longrightarrow> rest (w\<lparr>am := (am w)\<lparr>token_hash := ght_empty, api_hash := h\<rparr>, module_hash := []\<rparr>)"
  by (rule settled_rest[of w]) (auto simp: settled_def tables_def sess_names_def am_ok_def)

context installation begin

lemma prepare_child_rest:
  assumes ok: "rest w" and run: "apimodule_prepare_child S fp w = Some w'"
  shows "rest w'"
proof -
  obtain rv1 w1 rv2 w2 x where f: "C_Finalize S w = Some (rv1, w1)" and i: "C_Initialize S fp w1 = Some (rv2, w2)"
    and w': "w' = w2\<lparr>am := (am w2)\<lparr>ext := x\<rparr>\<rparr>"
    by (rule prepare_child_parts[OF run])
  have "rest w2" using C_Initialize_rest[OF C_Finalize_rest[OF ok f] i] .
  then show ?thesis unfolding w' by (rule settled_rest[OF settled_out])
qed

lemma apimodule_init_rest:
  assumes ok: "rest w" and run: "apimodule_init S w = Some (rv, w')"
  shows "rest w'"
proof -
  let ?w0 = "w\<lparr>am := (am w)\<lparr>token_hash := ght_empty, api_hash := ght_insert ''SGX'' SGX_APIMODULE_OPS ght_empty\<rparr>,
                module_hash := []\<rparr>"
  have r0: "rest ?w0" using ok by (rule rest_module_tables)
  from run obtain st w1 where c: "module_config S ?w0 = Some (st, w1)"
    by (auto simp: apimodule_init_def run_simps)
  have r1: "rest w1" using module_config_settled[OF c] r0 by (rule settled_rest)
  show ?thesis
  proof (cases st)
    case None
    then show ?thesis using run c r1 by (simp add: apimodule_init_def Let_def)
  next
    case (Some s)
    obtain conf m lib where s: "s = (conf, m, lib)" by (cases s)
    obtain rv2 w2 where l: "apimodule_load_module S (Some lib) w1 = (rv2, w2)" by (metis prod.exhaust)
    have r2: "rest w2" using load_module_settled[OF l] r1 by (rule settled_rest)
    show ?thesis
    proof (cases "rv2 = CKR_OK")
      case False
      then show ?thesis using run c Some s l r2 by (simp add: apimodule_init_def Let_def)
    next
      case True
      then obtain b e w3 where k: "keyagent_init (sk_npm S) (sk_ka S) (Some conf) None (w2\<lparr>func_list_set := True\<rparr>) = Some (b, e, w3)"
        using run c Some s l by (auto simp: apimodule_init_def run_simps)
      have "rest (w2\<lparr>func_list_set := True\<rparr>)" by (rule settled_rest[OF _ r2]) simp
      then have r3: "rest w3" using k by (rule keyagent_init_rest)
      then show ?thesis using run c Some s l True k
        by (auto simp: apimodule_init_def run_simps split: if_splits prod.splits
            dest: rest_register[OF _ module_ops_ok])
    qed
  qed
qed

lemma C_GetFunctionList_rest:
  assumes ok: "rest w" and run: "C_GetFunctionList S w = Some (rv, w')"
  shows "rest w'"
proof (cases "gfl_init w")
  case True
  then show ?thesis using ok run by (simp add: C_GetFunctionList_def)
next
  case False
  with run obtain rv1 w1 where i: "apimodule_init S w = Some (rv1, w1)"
    and w': "w' = w1\<lparr>gfl_rv := rv1, atfork_set := (atfork_set w1 \<or> mode w1 = Some ''SGX''), gfl_init := True\<rparr>"
    by (auto simp: C_GetFunctionList_def bind_eq_Some_conv)
  show ?thesis unfolding w' by (rule settled_rest[OF _ apimodule_init_rest[OF ok i]]) simp
qed

lemma apimodule_initialize_rest:
  assumes ok: "rest w" and run: "apimodule_initialize S fp g err w = Some (r, err', ops, w')"
  shows "rest w'"
proof (cases g)
  case False
  then show ?thesis using ok run by (simp add: apimodule_initialize_def)
next
  case True
  with run obtain rv w1 where f: "C_GetFunctionList S w = Some (rv, w1)"
    by (auto simp: apimodule_initialize_def bind_eq_Some_conv)
  have "rest w1" using ok f by (rule C_GetFunctionList_rest)
  then show ?thesis using run f True
    by (auto simp: apimodule_initialize_def bind_eq_Some_conv split: if_splits dest: C_Initialize_rest)
qed

lemma load_uri_rest: "rest w \<Longrightarrow> apimodule_load_uri S fp u w = Some (r, w') \<Longrightarrow> rest w'"
  by (auto simp: apimodule_load_uri_def bind_eq_Some_conv split: if_splits dest: ondemand_rest)

end

section \<open>Reachable states\<close>

text \<open>
  A process that has loaded the library calls its entry points, forks, and runs on its own in
  between.
\<close>

inductive entry :: "'x skc_env \<Rightarrow> 'x world \<Rightarrow> 'x world \<Rightarrow> bool" for S where
  get_function_list: "C_GetFunctionList S w = Some (rv, w') \<Longrightarrow> entry S w w'"
| initialize: "C_Initialize S fp w = Some (rv, w') \<Longrightarrow> entry S w w'"
| finalize: "C_Finalize S w = Some (rv, w') \<Longrightarrow> entry S w w'"
| on_demand: "C_OnDemand_KeyLoad S fp uri w = Some (rv, w') \<Longrightarrow> entry S w w'"
| initialize_module: "apimodule_initialize S fp given err w = Some (r, err', ops, w') \<Longrightarrow> entry S w w'"
| load_uri: "apimodule_load_uri S fp u w = Some (r, w') \<Longrightarrow> entry S w w'"
| start: "keyagent_init (sk_npm S) (sk_ka S) f err w = Some (r, err', w') \<Longrightarrow> entry S w w'"
| load_key: "keyagent_loadkey_with_moduledata (sk_npm S) (sk_ka S) url None err w = Some (r, err', w') \<Longrightarrow> entry S w w'"
| child: "apimodule_prepare_child S fp w = Some w' \<Longrightarrow> entry S w w'"
| outside: "entry S w (w\<lparr>am := (am w)\<lparr>ext := x\<rparr>\<rparr>)"

definition fresh :: "'x world \<Rightarrow> bool" where
  "fresh w \<longleftrightarrow> tables w = (ght_empty, ght_empty, ght_empty, ght_empty) \<and> sess_mem w = [] \<and> \<not> rwlock w \<and>
     npm_hash w = ght_empty \<and> ka_init_error w = None \<and> token_hash (am w) = ght_empty \<and> uri_mem (am w) = Map.empty \<and>
     apimodule_ops w = \<lparr>ops_load_key = None, ops_get_challenge = None, ops_set_wrapping_key = None\<rparr>"

inductive reachable :: "'x skc_env \<Rightarrow> 'x world \<Rightarrow> bool" for S where
  fresh: "fresh w \<Longrightarrow> reachable S w"
| step: "reachable S w \<Longrightarrow> entry S w w' \<Longrightarrow> reachable S w'"

lemma fresh_rest: "fresh w \<Longrightarrow> rest w"
  by (simp add: fresh_def rest_def agent_idle_def agent_ok_def am_ok_def sess_ok_def keys_ok_def stms_ok_def
      single_ok_def ops_ok_def tables_def)

context installation begin

lemma entry_rest: "entry S w w' \<Longrightarrow> rest w \<Longrightarrow> rest w'"
  by (induction rule: entry.induct)
    ((erule (1) C_GetFunctionList_rest[rotated] C_Initialize_rest[rotated] C_Finalize_rest[rotated]
      ondemand_rest[rotated] apimodule_initialize_rest[rotated] load_uri_rest[rotated] keyagent_init_rest[rotated]
      loadkey_rest[rotated] prepare_child_rest[rotated] | (rule settled_rest[OF settled_out], assumption))+)

lemma reachable_rest: "reachable S w \<Longrightarrow> rest w"
  by (induction rule: reachable.induct) (auto intro: fresh_rest entry_rest)

end

text \<open>The installation with this repository's plug-ins.\<close>

definition kms_installation :: "'x skc_env \<Rightarrow> ('x, 'j) kms_env \<Rightarrow> 'x skc_env" where
  "kms_installation S M = S\<lparr>sk_ka := sgx_only (sk_ka S), sk_npm := kms_only (sk_ka S) M\<rparr>"

lemma kms_npm_init_ok: "npm_init_ok (npm_init load)"
  by (auto simp: npm_init_ok_def npm_init_def npm_finalize_def Let_def split: prod.splits if_splits)

lemma sgx_stm_init_ok: "stm_init_ok (stm_init load)"
  by (auto simp: stm_init_ok_def stm_init_def application_stm_init_def Let_def am_ok_def split: prod.splits if_splits)

interpretation sgx_installation: installation "kms_installation S M" for S M
  by unfold_locales
    (auto simp: kms_installation_def kms_only_def kms_npm_module_def sgx_only_def sgx_stm_module_def
      npm_register_ok npm_key_load_ok stm_create_challenge_ok stm_set_session_ok stm_load_key_ok
      kms_npm_init_ok sgx_stm_init_ok split: if_splits)

end
