(* ===== verification/Lifetime.thy ===== *)
theory Lifetime
  imports Entry_Points
begin

text \<open>
  What lasts: once the module has been started, no entry point takes back what an earlier one did; and the
  table of network plug-ins holds none or the KMS plug-in in every reachable state.
\<close>

section \<open>Small steps\<close>

lemma ka_step_am:
  assumes "am_step (am w) a"
  shows "ka_step w (w\<lparr>am := a\<rparr>)"
  using assms by (simp add: agent_ka_step agent_step_am)

lemma ka_step_out [simp, intro!]: "ka_step w (w\<lparr>am := (am w)\<lparr>ext := x\<rparr>\<rparr>)"
  by (rule ka_step_am) simp

text \<open>The variable a key is fetched with comes and goes.\<close>

lemma uri_mem_set_frame [simp]:
  "statics (uri_mem_set fp d w) = statics w"
  "stms_kept (uri_mem_set fp d w) w' = stms_kept w w'" "stms_kept w (uri_mem_set fp d w') = stms_kept w w'"
  "sessions_kept (uri_mem_set fp d w) w' = sessions_kept w w'" "sessions_kept w (uri_mem_set fp d w') = sessions_kept w w'"
  "keys_kept (uri_mem_set fp d w) w' = keys_kept w w'" "keys_kept w (uri_mem_set fp d w') = keys_kept w w'"
  by (simp_all add: uri_mem_set_def stms_kept_def sessions_kept_def keys_kept_def keyagent_key_lookup_def)

lemma am_step_without_uris:
  assumes "am_step (a\<lparr>uri_mem := u\<rparr>) b" and "uri_mem a = Map.empty"
  shows "am_step a (b\<lparr>uri_mem := Map.empty\<rparr>)"
proof -
  have k: "am_ok (c\<lparr>uri_mem := v\<rparr>) = am_ok c" "tokens_kept (c\<lparr>uri_mem := v\<rparr>) e = tokens_kept c e"
    "tokens_kept c (e\<lparr>uri_mem := v\<rparr>) = tokens_kept c e" for c e :: "'x am" and v
    by (simp_all add: am_ok_def tokens_kept_def)
  have "uris_kept a (b\<lparr>uri_mem := Map.empty\<rparr>)" using assms(2) by (simp add: uris_kept_def)
  then show ?thesis using assms(1) unfolding am_step_def k by simp
qed

lemma ka_step_fetch:
  assumes r: "rest w" and step: "ka_step (uri_mem_set fp (Some d) w) w1"
  shows "ka_step w (uri_mem_set fp None w1)"
proof -
  have m: "uri_mem (am w) = Map.empty" using r by (simp add: rest_def)
  have "dom (uri_mem (am w1)) = {fp}"
    using am_step_uri_mem_dom[of "am (uri_mem_set fp (Some d) w)" "am w1"] step m
    by (simp add: ka_step_def uri_mem_set_def)
  then have "(uri_mem (am w1))(fp := None) = Map.empty" by (auto simp: dom_eq_singleton_conv)
  then have m1: "am (uri_mem_set fp None w1) = (am w1)\<lparr>uri_mem := Map.empty\<rparr>" by (simp add: uri_mem_set_def)
  have "am_step ((am w)\<lparr>uri_mem := (uri_mem (am w))(fp := Some d)\<rparr>) (am w1)"
    using step by (simp add: ka_step_def uri_mem_set_def)
  then have "am_step (am w) (am (uri_mem_set fp None w1))" unfolding m1 by (rule am_step_without_uris) (rule m)
  moreover have "statics w1 = statics w" "stms_kept w w1" "sessions_kept w w1" "keys_kept w w1"
    using step by (simp_all add: ka_step_def)
  ultimately show ?thesis by (simp add: ka_step_def)
qed

context installation begin

lemma loadkey_ka_step:
  "agent_idle w \<Longrightarrow> keyagent_loadkey_with_moduledata (sk_npm S) (sk_ka S) url md err w = Some (r, err', w') \<Longrightarrow> ka_step w w'"
  using loadkey_spec by blast

lemma ondemand_load_ka_step:
  "agent_idle w \<Longrightarrow> ondemand_load S fp d uri err w = Some (rv, w') \<Longrightarrow> ka_step w w'"
  by (auto simp: ondemand_load_def bind_eq_Some_conv split: if_splits dest: loadkey_ka_step)

lemma ondemand_body_ka_step:
  assumes ok: "fetching fp d w" and run: "ondemand_body S fp d uri w = Some (rv, w')"
  shows "ka_step w w'"
proof -
  from run obtain tlab tok d1 err1 a1 where tl: "token_label d = Some tlab"
    and t: "ondemand_token S fp d tlab None (am w) = Some ((tok, d1, err1), a1)"
    by (auto simp: ondemand_body_def bind_eq_Some_conv with_am_def)
  obtain d0 where "uri_mem (am w) fp = Some d0" "uri_same d d0" using ok by (auto simp: fetching_def)
  then have a1: "am_step (am w) a1" using ondemand_token_step[OF t tl] by blast
  have load: "ka_step w w'" if "am_step (am w) a" "ondemand_load S fp d1 uri err1 (w\<lparr>am := a\<rparr>) = Some (rv, w')" for a
  proof -
    have "agent_idle (w\<lparr>am := a\<rparr>)" using fetching_am[OF ok that(1)] by (simp add: fetching_def)
    with ka_step_am[OF that(1)] that(2) show ?thesis by (blast intro: ka_step_trans ondemand_load_ka_step)
  qed
  show ?thesis
  proof (cases tok)
    case None
    then show ?thesis using run tl t load[OF a1] by (auto simp: ondemand_body_def with_am_def)
  next
    case (Some t0)
    with run tl t obtain x a2 where p: "ondemand_present S t0 d1 a1 = Some (x, a2)"
      by (auto simp: ondemand_body_def with_am_def bind_eq_Some_conv)
    have "am_step (am w) a2" using a1 ondemand_present_step[OF p] by (rule am_step_trans)
    then show ?thesis using run tl t Some p load[of a2] ka_step_am
      by (cases x) (auto simp: ondemand_body_def with_am_def)
  qed
qed

lemma ondemand_ka_step:
  assumes ok: "rest w" and run: "C_OnDemand_KeyLoad S fp uri w = Some (rv, w')"
  shows "ka_step w w'"
proof -
  from run obtain u where u: "uri = Some u" by (auto simp: C_OnDemand_KeyLoad_def bind_eq_Some_conv)
  obtain b d where d: "apimodule_uri_to_uri_data (p11_kit_uri_parse S) (Some u) apimodule_uri_data_init = (b, d)"
    by (metis prod.exhaust)
  show ?thesis
  proof (cases b)
    case False
    then show ?thesis using run u d by (simp add: C_OnDemand_KeyLoad_def)
  next
    case True
    with run u d obtain w1 where "ondemand_body S fp d u (uri_mem_set fp (Some d) w) = Some (rv, w1)"
      and w': "w' = uri_mem_set fp None w1"
      by (auto simp: C_OnDemand_KeyLoad_def bind_eq_Some_conv split: if_splits)
    then show ?thesis using ondemand_body_ka_step[OF fetching_start[OF ok]] ka_step_fetch[OF ok] by blast
  qed
qed

lemma preload_lines_ka_step:
  "preload_lines S fp us ret err w = Some (r, err', w') \<Longrightarrow> rest w \<Longrightarrow> ka_step w w'"
proof (induction us arbitrary: ret w)
  case Nil
  then show ?case by simp
next
  case (Cons u us)
  then obtain rv w1 where o: "C_OnDemand_KeyLoad S fp (Some (c_str u)) w = Some (rv, w1)"
    by (auto simp: bind_eq_Some_conv)
  have "rest w1" "ka_step w w1" using Cons.prems(2) o ondemand_rest ondemand_ka_step by blast+
  then show ?case using Cons.prems(1) Cons.IH[of True w1] o by (cases "rv = CKR_OK") (auto intro: ka_step_trans)
qed

lemma C_Initialize_ka_step:
  assumes ok: "rest w" and run: "C_Initialize S fp w = Some (rv, w')"
  shows "ka_step w w'"
proof -
  define x where "x = snd (c_initialize (sk_lib S) (ext (am w)))"
  let ?w1 = "w\<lparr>am := (am w)\<lparr>ext := x\<rparr>\<rparr>"
  let ?w2 = "w\<lparr>am := (am w)\<lparr>ext := x, preload_keys_flag := preload_keys_flag (am w) + 1\<rparr>\<rparr>"
  have s: "ka_step w ?w1" "ka_step w ?w2" by (auto intro: ka_step_am)
  have r2: "rest ?w2" using ok by (rule settled_rest[rotated]) (rule settled_moved, simp)
  have "w' = ?w1 \<or> w' = ?w2 \<or> (\<exists>b e. apimodule_preload_keys S fp None ?w2 = Some (b, e, w'))"
    using run by (auto simp: C_Initialize_def out_beta x_def[symmetric] run_simps split: if_splits)
  moreover have "ka_step ?w2 w'" if "apimodule_preload_keys S fp None ?w2 = Some (b, e, w')" for b e
    using that r2 by (auto simp: apimodule_preload_keys_def bind_eq_Some_conv split: branch_splits
        dest: preload_lines_ka_step)
  ultimately show ?thesis using s by (blast intro: ka_step_trans)
qed

lemma prepare_child_ka_step:
  assumes ok: "rest w" and run: "apimodule_prepare_child S fp w = Some w'"
  shows "ka_step w w'"
proof -
  obtain rv1 w1 rv2 w2 x where f: "C_Finalize S w = Some (rv1, w1)" and i: "C_Initialize S fp w1 = Some (rv2, w2)"
    and w': "w' = w2\<lparr>am := (am w2)\<lparr>ext := x\<rparr>\<rparr>"
    by (rule prepare_child_parts[OF run])
  have "ka_step w w1" using f by (auto simp: C_Finalize_def out_beta split: if_splits)
  moreover have "ka_step w1 w2" using C_Finalize_rest[OF ok f] i by (rule C_Initialize_ka_step)
  moreover have "ka_step w2 w'" by (simp add: w')
  ultimately show ?thesis by (blast intro: ka_step_trans)
qed

end

section \<open>Any run of entry points\<close>

text \<open>The module's start and the agent's start have been run, with whatever outcome.\<close>

definition started :: "'x world \<Rightarrow> bool" where
  "started w \<longleftrightarrow> gfl_init w \<and> ka_init_done w"

lemma started_ka_step: "ka_step w w' \<Longrightarrow> started w \<Longrightarrow> started w'"
  by (simp add: ka_step_def statics_def started_def)

context installation begin

lemma entry_ka_step:
  assumes "entry S w w'" and "rest w" and "started w"
  shows "ka_step w w'"
  using assms(1)
proof cases
  case (initialize_module fp given err r err' ops)
  then show ?thesis using assms(2,3)
    by (auto simp: apimodule_initialize_def started_def C_GetFunctionList_def bind_eq_Some_conv split: if_splits
        dest: C_Initialize_ka_step)
next
  case (load_key url err r err')
  then show ?thesis using assms(2) loadkey_ka_step by (auto simp: rest_def)
qed (use assms(2,3) in \<open>auto simp: started_def C_GetFunctionList_def C_Finalize_def out_beta apimodule_load_uri_def
      keyagent_init_def bind_eq_Some_conv split: if_splits
      dest: C_Initialize_ka_step ondemand_ka_step prepare_child_ka_step\<close>)

lemma entries_ka_step:
  assumes "rtranclp (entry S) w w'" and "rest w" and "started w"
  shows "ka_step w w' \<and> rest w'"
  using assms(1)
proof (induction rule: rtranclp_induct)
  case base
  then show ?case using assms(2) by simp
next
  case (step v w')
  then have "started v" using assms(3) started_ka_step by blast
  then show ?case using step entry_ka_step[OF step.hyps(2)] entry_rest[OF step.hyps(2)] by (blast intro: ka_step_trans)
qed

end

section \<open>The plug-in table\<close>

text \<open>
  The plug-in table is empty until the agent is started, and holds the KMS plug-in alone from then on; and
  the error of a start, if there is one, has not been freed.
\<close>

definition plugins_ok :: "'x ka_env \<Rightarrow> 'x world \<Rightarrow> bool" where
  "plugins_ok E w \<longleftrightarrow> (npm_hash w = ght_empty \<or> (\<exists>npm. kms_loaded E w npm)) \<and> ka_init_error w \<noteq> Some RELEASED"

lemma plugins_ok_cong:
  "npm_hash w' = npm_hash w \<Longrightarrow> ka_init_error w' = ka_init_error w \<Longrightarrow> plugins_ok E w' = plugins_ok E w"
  by (simp add: plugins_ok_def kms_loaded_def)

lemma ka_step_plugins: "ka_step w w' \<Longrightarrow> plugins_ok E w \<Longrightarrow> plugins_ok E w'"
  using plugins_ok_cong[of w' w E] by (simp add: ka_step_def statics_def)

lemma npm_init_frame:
  "npm_init load dir err w = (nm, err', w') \<Longrightarrow> npm_hash w' = npm_hash w \<and> (\<forall>n. nm = Some n \<longrightarrow> n = KMS_PREFIX_TOKEN)"
  by (auto simp: npm_init_def npm_finalize_def Let_def split: prod.splits if_splits)

lemma initialize_npm_plugins:
  assumes run: "initialize_npm (kms_only E M) f w = Some w'"
    and ok: "npm_hash w = ght_empty \<or> (\<exists>npm. kms_loaded E w npm)"
  shows "npm_hash w' = ght_empty \<or> (\<exists>npm. kms_loaded E w' npm)"
proof (cases "file_exists E f")
  case False
  then show ?thesis using run ok by (simp add: initialize_npm_def kms_only_def)
next
  case True
  obtain nm e w1 where i: "npm_init (load_keyfile E) (configdirectory w) None w = (nm, e, w1)" by (metis prod_cases3)
  note fr = npm_init_frame[OF i]
  show ?thesis
  proof (cases nm)
    case None
    then have "w' = w1" using run True i
      by (auto simp: initialize_npm_def kms_only_def kms_npm_module_def bind_eq_Some_conv)
    then show ?thesis using fr ok by (simp add: kms_loaded_def)
  next
    case (Some n)
    then have "n = KMS_PREFIX_TOKEN" using fr by simp
    then have "npm_hash w' = ght_insert KMS_PREFIX_TOKEN
        \<lparr>npm_label = KMS_PREFIX_TOKEN, npm_module_name = f, npm_initialized = True\<rparr> (npm_hash w)"
      using run True i Some fr by (auto simp: initialize_npm_def kms_only_def kms_npm_module_def)
    moreover have "npm_hash w = [] \<or> (\<exists>npm. npm_hash w = [(KMS_PREFIX_TOKEN, npm)])"
      using ok by (auto simp: kms_loaded_def ght_empty_def)
    ultimately have "kms_loaded E w' \<lparr>npm_label = KMS_PREFIX_TOKEN, npm_module_name = f, npm_initialized = True\<rparr>"
      using True by (auto simp: kms_loaded_def ght_insert_def)
    then show ?thesis by blast
  qed
qed

lemma initialize_npms_plugins:
  "initialize_npms (kms_only E M) fs w = Some w' \<Longrightarrow> npm_hash w = ght_empty \<or> (\<exists>npm. kms_loaded E w npm) \<Longrightarrow>
     npm_hash w' = ght_empty \<or> (\<exists>npm. kms_loaded E w' npm)"
proof (induction fs arbitrary: w)
  case Nil
  then show ?case by simp
next
  case (Cons f fs)
  then obtain w1 where "initialize_npm (kms_only E M) f w = Some w1" "initialize_npms (kms_only E M) fs w1 = Some w'"
    by (auto simp: bind_eq_Some_conv)
  then show ?case using Cons.IH Cons.prems(2) initialize_npm_plugins by blast
qed

lemma initialize_stm_npms: "initialize_stm E f w = Some w' \<Longrightarrow> npm_hash w' = npm_hash w"
  by (auto simp: initialize_stm_def with_am_def bind_eq_Some_conv split: option.splits)

lemma initialize_stms_npms: "initialize_stms E fs w = Some w' \<Longrightarrow> npm_hash w' = npm_hash w"
  by (induction fs arbitrary: w) (auto simp: bind_eq_Some_conv dest!: initialize_stm_npms)

lemma init_credentials_npms: "init_credentials E w = (e, w') \<Longrightarrow> npm_hash w' = npm_hash w"
  by (auto simp: init_credentials_def init_certificates_def init_keyformat_def Let_def split: prod.splits if_splits option.splits)

lemma cache_init_npms:
  assumes run: "cache_init E err w = Some (r, err', w')"
  shows "npm_hash w' = npm_hash w"
proof -
  have "npm_hash v = npm_hash w" if "cache_open E e (w\<lparr>cache_sessions := a, cache_keys := b, cache_rwlock := c\<rparr>) = Some (r, err', v)" for e a b c v
    using cache_open_step[OF that] by (simp add: cache_step_def statics_def)
  then show ?thesis using run by (auto simp: cache_init_def Let_def split: prod.splits if_splits)
qed

lemma init_plugins_plugins:
  assumes run: "init_plugins (kms_only E M) E' nd sd w = Some (r, err', w')" and e: "npm_hash w = ght_empty"
  shows "npm_hash w' = ght_empty \<or> (\<exists>npm. kms_loaded E w' npm)"
proof (cases "handle_wildcards E' (nd @ ''/npm_*.so'') = []")
  case True
  then show ?thesis using e run by (simp add: init_plugins_def)
next
  case False
  then obtain w1 where w1: "initialize_npms (kms_only E M) (handle_wildcards E' (nd @ ''/npm_*.so'')) w = Some w1"
    using run by (auto simp: init_plugins_def run_simps)
  have ok: "npm_hash w1 = ght_empty \<or> (\<exists>npm. kms_loaded E w1 npm)" using initialize_npms_plugins[OF w1] e by blast
  have "npm_hash w' = npm_hash w1"
    using run False w1 by (auto simp: init_plugins_def run_simps keyagent_session_init_def
        dest!: initialize_stms_npms cache_init_npms split: if_splits)
  then show ?thesis using ok by (simp add: kms_loaded_def)
qed

lemma do_keyagent_init_plugins:
  assumes run: "do_keyagent_init (kms_only E M) E' f w = Some (r, err', w')"
    and ok: "npm_hash w = ght_empty \<or> (\<exists>npm. kms_loaded E w npm)"
  shows "npm_hash w' = ght_empty \<or> (\<exists>npm. kms_loaded E w' npm)"
proof (cases "npm_hash w' = npm_hash w")
  case True
  then show ?thesis using ok by (simp add: kms_loaded_def)
next
  case False
  then obtain nd sd w2 where "init_plugins (kms_only E M) E' nd sd (init_tables w2) = Some (r, err', w')"
    using run by (auto simp: do_keyagent_init_def Let_def dest!: init_credentials_npms split: prod.splits option.splits if_splits)
  then show ?thesis by (rule init_plugins_plugins) (simp add: init_tables_def)
qed

lemma keyagent_init_plugins:
  assumes run: "keyagent_init (kms_only E M) E' f err w = Some (r, err', w')" and ok: "plugins_ok E w"
  shows "plugins_ok E w'"
proof (cases "ka_init_done w")
  case True
  then have "w' = w" using run by (auto simp: keyagent_init_def bind_eq_Some_conv split: if_splits)
  then show ?thesis using ok by simp
next
  case False
  with run obtain b e w0 where i: "do_keyagent_init (kms_only E M) E' f w = Some (b, e, w0)"
    and w': "w' = w0\<lparr>ka_init_error := e, ka_init_done := True\<rparr>" and e: "e \<noteq> Some RELEASED"
    by (auto simp: keyagent_init_def bind_eq_Some_conv log_error_iff split: if_splits)
  have "npm_hash w0 = ght_empty \<or> (\<exists>npm. kms_loaded E w0 npm)"
    using do_keyagent_init_plugins[OF i] ok unfolding plugins_ok_def by blast
  then show ?thesis using e by (simp add: plugins_ok_def w' kms_loaded_def)
qed

lemma module_config_plugins: "module_config S w = Some (r, w') \<Longrightarrow> plugins_ok E w' = plugins_ok E w"
  by (rule plugins_ok_cong) (auto simp: module_config_def run_simps split: prod.splits option.splits)

lemma load_module_plugins: "apimodule_load_module S nm w = (rv, w') \<Longrightarrow> plugins_ok E w' = plugins_ok E w"
  by (rule plugins_ok_cong) (auto simp: apimodule_load_module_def Let_def split: option.splits if_splits)

lemma register_plugins: "keyagent_apimodule_register l ops w = (b, w') \<Longrightarrow> plugins_ok E w' = plugins_ok E w"
  by (rule plugins_ok_cong)
    (auto simp: keyagent_apimodule_register_def keyagent_stm_apimodule_enable_def stm_store_def Let_def split: option.splits)

lemma apimodule_init_plugins:
  assumes ok: "plugins_ok (sk_ka S) w" and run: "apimodule_init (kms_installation S M) w = Some (rv, w')"
  shows "plugins_ok (sk_ka S) w'"
proof -
  let ?I = "kms_installation S M" and ?ok = "plugins_ok (sk_ka S)"
  let ?w0 = "w\<lparr>am := (am w)\<lparr>token_hash := ght_empty, api_hash := ght_insert ''SGX'' SGX_APIMODULE_OPS ght_empty\<rparr>,
                module_hash := []\<rparr>"
  have I: "sk_npm ?I = kms_only (sk_ka S) M" by (simp add: kms_installation_def)
  have "?ok ?w0" using ok by (simp add: plugins_ok_def kms_loaded_def)
  moreover from run obtain st w1 where c: "module_config ?I ?w0 = Some (st, w1)"
    by (auto simp: apimodule_init_def run_simps)
  ultimately have r1: "?ok w1" by (simp add: module_config_plugins)
  show ?thesis
  proof (cases st)
    case None
    then show ?thesis using run c r1 by (simp add: apimodule_init_def Let_def)
  next
    case (Some s)
    obtain conf m lib where s: "s = (conf, m, lib)" by (cases s)
    obtain rv2 w2 where l: "apimodule_load_module ?I (Some lib) w1 = (rv2, w2)" by (metis prod.exhaust)
    have r2: "?ok w2" using r1 by (simp add: load_module_plugins[OF l])
    show ?thesis
    proof (cases "rv2 = CKR_OK")
      case False
      then show ?thesis using run c Some s l r2 by (simp add: apimodule_init_def Let_def)
    next
      case True
      then obtain b e w3 where k: "keyagent_init (sk_npm ?I) (sk_ka ?I) (Some conf) None (w2\<lparr>func_list_set := True\<rparr>) = Some (b, e, w3)"
        using run c Some s l by (auto simp: apimodule_init_def run_simps)
      have "?ok (w2\<lparr>func_list_set := True\<rparr>)" using r2 by (simp add: plugins_ok_def kms_loaded_def)
      then have r3: "?ok w3" using k unfolding I by (rule keyagent_init_plugins[rotated])
      then show ?thesis using run c Some s l True k
        by (auto simp: apimodule_init_def run_simps register_plugins split: if_splits prod.splits)
    qed
  qed
qed

lemma C_GetFunctionList_plugins:
  assumes ok: "plugins_ok (sk_ka S) w" and run: "C_GetFunctionList (kms_installation S M) w = Some (rv, w')"
  shows "plugins_ok (sk_ka S) w'"
proof (cases "gfl_init w")
  case True
  then show ?thesis using ok run by (simp add: C_GetFunctionList_def)
next
  case False
  with run obtain rv1 w1 where i: "apimodule_init (kms_installation S M) w = Some (rv1, w1)"
    and w': "npm_hash w' = npm_hash w1" "ka_init_error w' = ka_init_error w1"
    by (auto simp: C_GetFunctionList_def bind_eq_Some_conv)
  show ?thesis using apimodule_init_plugins[OF ok i] plugins_ok_cong[OF w'] by simp
qed

lemma entry_plugins:
  assumes "entry (kms_installation S M) w w'" and r: "rest w" and ok: "plugins_ok (sk_ka S) w"
  shows "plugins_ok (sk_ka S) w'"
  using assms(1)
proof cases
  case (get_function_list rv)
  then show ?thesis using ok C_GetFunctionList_plugins by blast
next
  case (initialize_module fp given err r' err' ops)
  then have "w' = w \<or> (\<exists>rv. C_GetFunctionList (kms_installation S M) w = Some (rv, w')) \<or>
      (\<exists>rv w1 rv2. C_GetFunctionList (kms_installation S M) w = Some (rv, w1) \<and>
        C_Initialize (kms_installation S M) fp w1 = Some (rv2, w'))"
    by (auto simp: apimodule_initialize_def bind_eq_Some_conv split: if_splits)
  then show ?thesis using ok C_GetFunctionList_plugins sgx_installation.C_GetFunctionList_rest[OF r]
      sgx_installation.C_Initialize_ka_step ka_step_plugins by blast
next
  case (start f err r' err')
  then show ?thesis using ok keyagent_init_plugins by (auto simp: kms_installation_def)
next
  case (load_key url err r' err')
  have "agent_idle w" using r by (simp add: rest_def)
  then show ?thesis using ok ka_step_plugins[OF sgx_installation.loadkey_ka_step[OF _ load_key]] by blast
next
  case (load_uri fp u r')
  then have "w' = w \<or> (\<exists>rv. C_OnDemand_KeyLoad (kms_installation S M) fp u w = Some (rv, w'))"
    by (auto simp: apimodule_load_uri_def bind_eq_Some_conv split: if_splits)
  then show ?thesis using r ok sgx_installation.ondemand_ka_step ka_step_plugins by blast
next
  case (finalize rv)
  then show ?thesis using ok by (auto simp: C_Finalize_def out_beta plugins_ok_def kms_loaded_def split: if_splits)
next
  case (outside x)
  then show ?thesis using ok by (simp add: plugins_ok_def kms_loaded_def)
qed (rule ka_step_plugins[OF _ ok], erule sgx_installation.C_Initialize_ka_step[OF r]
      sgx_installation.ondemand_ka_step[OF r] sgx_installation.prepare_child_ka_step[OF r])+

lemma reachable_plugins: "reachable (kms_installation S M) w \<Longrightarrow> plugins_ok (sk_ka S) w"
proof (induction rule: reachable.induct)
  case (fresh w)
  then show ?case by (simp add: fresh_def plugins_ok_def)
next
  case (step w w')
  then show ?case using entry_plugins sgx_installation.reachable_rest by blast
qed

text \<open>
  C31: what has been done stays, whatever entry points the process calls, and in whatever order: once the
  module and the key agent have been started, the answers of \<open>C_GetFunctionList\<close> and \<open>keyagent_init\<close> are
  those of the first call, as long as no caller has released the error of a failed start; a key in the
  agent's table stays there, with its type, session and attributes; and an open token keeps its PIN.
\<close>
theorem done_once_for_all:
  assumes "reachable (kms_installation S M) w" and "gfl_init w" and "ka_init_done w"
    and "rtranclp (entry (kms_installation S M)) w w'"
  shows "C_GetFunctionList (kms_installation S M) w' = Some (gfl_rv w, w') \<and>
    keyagent_init N E f None w' = Some (ka_init_error w = None, ka_init_error w, w') \<and>
    (\<forall>url k. keyagent_key_lookup w url = Some k \<longrightarrow> (\<exists>i. keyagent_key_lookup w' url = Some (k\<lparr>key_cache_id := i\<rparr>))) \<and>
    (\<forall>l t. lookup_apimodule_token (am w) l = Some t \<longrightarrow>
      (\<exists>t'. lookup_apimodule_token (am w') l = Some t' \<and> tok_pin t' = tok_pin t))"
proof (intro conjI)
  have r: "rest w" using assms(1) by (rule sgx_installation.reachable_rest)
  then have s: "ka_step w w'"
    using sgx_installation.entries_ka_step[OF assms(4)] assms(2,3) by (simp add: started_def)
  then have st: "gfl_init w'" "gfl_rv w' = gfl_rv w" "ka_init_done w'" "ka_init_error w' = ka_init_error w"
    using assms(2,3) by (simp_all add: ka_step_def statics_def)
  show "C_GetFunctionList (kms_installation S M) w' = Some (gfl_rv w, w')" using st by (simp add: C_GetFunctionList_def)
  have "ka_init_error w' \<noteq> Some RELEASED" using reachable_plugins[OF assms(1)] st(4) by (simp add: plugins_ok_def)
  then show "keyagent_init N E f None w' = Some (ka_init_error w = None, ka_init_error w, w')"
    using st by (auto simp: keyagent_init_def log_error_def)
  show "\<forall>url k. keyagent_key_lookup w url = Some k \<longrightarrow> (\<exists>i. keyagent_key_lookup w' url = Some (k\<lparr>key_cache_id := i\<rparr>))"
    using s unfolding ka_step_def keys_kept_def same_key_def by blast
  have "am_ok (am w)" using r by (simp add: rest_def agent_idle_def agent_ok_def)
  then show "\<forall>l t. lookup_apimodule_token (am w) l = Some t \<longrightarrow>
      (\<exists>t'. lookup_apimodule_token (am w') l = Some t' \<and> tok_pin t' = tok_pin t)"
    using s am_step_tokenD unfolding ka_step_def lookup_apimodule_token_def by blast
qed

section \<open>A forked child\<close>

text \<open>
  C30: in a forked child the library below is finalized and started again, but nothing the module and the
  agent know is brought up to date: their tables, with the session and object handles of the
  parent's library, are the same, and so are the keys the agent believes to be loaded; the session opened for
  the child is not recorded.
\<close>
theorem child_keeps_parent_handles:
  assumes "apimodule_prepare_child S fp w = Some w'" and "preload_keys_flag (am w) \<noteq> 0"
  shows "\<exists>x f. w' = w\<lparr>am := (am w)\<lparr>ext := x, preload_keys_flag := f\<rparr>\<rparr>"
proof -
  obtain rv1 w1 rv2 w2 x where f: "C_Finalize S w = Some (rv1, w1)" and i: "C_Initialize S fp w1 = Some (rv2, w2)"
    and w': "w' = w2\<lparr>am := (am w2)\<lparr>ext := x\<rparr>\<rparr>"
    by (rule prepare_child_parts[OF assms(1)])
  obtain y where w1: "w1 = w\<lparr>am := (am w)\<lparr>ext := y\<rparr>\<rparr>" using f by (auto simp: C_Finalize_def out_beta split: if_splits)
  then have "preload_keys_flag (am w1) \<noteq> 0" using assms(2) by simp
  with i have "w2 = w\<lparr>am := (am w)\<lparr>ext := ext (am w2)\<rparr>\<rparr> \<or>
      w2 = w\<lparr>am := (am w)\<lparr>ext := ext (am w2), preload_keys_flag := preload_keys_flag (am w2)\<rparr>\<rparr>"
    by (auto simp: C_Initialize_def out_beta Let_def w1 split: if_splits)
  then obtain a where a: "w2 = w\<lparr>am := a\<rparr>" "moved (am w) a" by (metis moved_ext movedI)
  have "moved (am w) (a\<lparr>ext := x\<rparr>)" using a(2) moved_ext by (rule moved_trans)
  then obtain u v where "a\<lparr>ext := x\<rparr> = (am w)\<lparr>ext := u, preload_keys_flag := v\<rparr>" unfolding moved_def by blast
  then have "w' = w\<lparr>am := (am w)\<lparr>ext := u, preload_keys_flag := v\<rparr>\<rparr>" by (simp add: w' a(1))
  then show ?thesis by blast
qed

end
