(* ===== verification/Delivery.thy ===== *)
theory Delivery
  imports Entry_Points
begin

text \<open>
  What \<open>CKR_OK\<close> from \<open>C_OnDemand_KeyLoad\<close> means, from the entry point down to the call into the
  library below that makes the key an object of the token.
\<close>

section \<open>A key unwrapped into its token\<close>

text \<open>
  The last call into the library below was the unwrapping of what the key's data holds: its wrapped
  bytes under its IV and tag size, in the session of the token and with the handle of its wrapping key,
  under this label and id.
\<close>

definition unwrap_template :: "keyagent_keytype \<Rightarrow> string \<Rightarrow> string \<Rightarrow> ck_attribute list" where
  "unwrap_template ty label kid = (if ty = KEYAGENT_AESKEY then aes_key_template label kid else rsa_key_template label kid)"

definition unwrapped :: "'x cryptoki \<Rightarrow> string \<Rightarrow> ck_attribute list \<Rightarrow> bytes \<Rightarrow> ck_ulong \<Rightarrow> bytes \<Rightarrow> 'x am \<Rightarrow> bool" where
  "unwrapped K tlab tmpl iv tag wrapped a \<longleftrightarrow> (\<exists>t x h. lookup_apimodule_token a (c_str tlab) = Some t \<and>
     C_UnwrapKey K (tok_session t) (CKM_AES_GCM iv (of_nat (length iv)) (of_nat (length iv * 8)) (tag * 8))
       (wrappingkey_handle t) wrapped tmpl x = ((CKR_OK, h), ext a))"

definition key_unwrapped :: "'x cryptoki \<Rightarrow> string \<Rightarrow> string \<Rightarrow> string \<Rightarrow> keyagent_key_real \<Rightarrow> 'x am \<Rightarrow> bool" where
  "key_unwrapped K tlab kl kid k a \<longleftrightarrow> (\<exists>iv tag wrapped rest.
     ght_lookup (key_attributes k) KEYAGENT_ATTR_KEYDATA = Some (keytransfer_payload iv tag wrapped @ rest) \<and>
     iv \<noteq> [] \<and> length iv \<le> 64 \<and> unwrapped K tlab (unwrap_template (key_type k) kl kid) iv (ucast tag) wrapped a)"

lemma key_unwrapped_uri_mem [simp]: "key_unwrapped K tlab kl kid k (a\<lparr>uri_mem := m\<rparr>) = key_unwrapped K tlab kl kid k a"
  by (simp add: key_unwrapped_def unwrapped_def lookup_apimodule_token_def)

text \<open>A load by the API module leaves the token as it was, and ends in the unwrapping of its details.\<close>

lemma load_key_unwraps:
  assumes run: "apimodule_load_key K ld err a = Some (True, e, a')" and p: "ld_module_data ld = Some p"
    and d: "uri_mem a p = Some d" "token_label d = Some tlab" "key_label d = Some kl" "key_id d = Some kid"
  obtains iv wrapped where "ld_iv ld = Some iv" "ld_key ld = Some wrapped" "token_hash a' = token_hash a"
    "unwrapped K tlab (unwrap_template (ld_type ld) kl kid) iv (ld_tag_size ld) wrapped a'"
proof -
  let ?cls = "class_of_keytype (ld_type ld)"
  define d1 where "d1 = (if utype d = CKO_DATA then d\<lparr>utype := ?cls\<rparr> else d)"
  have d1: "token_label d1 = Some tlab" "key_label d1 = Some kl" "key_id d1 = Some kid" using d by (simp_all add: d1_def)
  let ?a = "uri_data_write p d1 a"
  from run p d have s: "sgx_load_key K ld err ?a = Some (True, e, a')"
    by (auto simp: apimodule_load_key_def bind_eq_Some_conv d1_def Let_def split: option.splits api_backend.splits if_splits)
  then obtain t where t: "lookup_apimodule_token ?a (c_str tlab) = Some t"
    and u: "(case ld_type ld of
        KEYAGENT_AESKEY \<Rightarrow> sgx_unwrap_symmeric_key K ld d1 t ?a
      | KEYAGENT_RSAKEY \<Rightarrow> sgx_unwrap_rsa_key K ld d1 t ?a
      | KEYAGENT_INVALIDKEY \<Rightarrow> Some (CKR_ARGUMENTS_BAD, ?a)) = Some (CKR_OK, a')"
    using p d1 by (auto simp: sgx_load_key_def bind_eq_Some_conv split: option.splits if_splits)
  from u d1 obtain iv wrapped h x where i: "ld_iv ld = Some iv" "ld_key ld = Some wrapped"
    and c: "C_UnwrapKey K (tok_session t) (CKM_AES_GCM iv (of_nat (length iv)) (of_nat (length iv * 8)) (ld_tag_size ld * 8))
      (wrappingkey_handle t) wrapped (unwrap_template (ld_type ld) kl kid) (ext ?a) = ((CKR_OK, h), x)" "a' = ?a\<lparr>ext := x\<rparr>"
    by (cases "ld_type ld")
      (auto simp: sgx_unwrap_symmeric_key_def sgx_unwrap_rsa_key_def gcm_params_def bind_eq_Some_conv with_ext_def
        unwrap_template_def split: prod.splits)
  have "unwrapped K tlab (unwrap_template (ld_type ld) kl kid) iv (ld_tag_size ld) wrapped a'"
    unfolding unwrapped_def using c t by (intro exI conjI) (auto simp: lookup_apimodule_token_def)
  then show ?thesis using that i c(2) by simp
qed

lemma stm_load_key_unwraps:
  assumes run: "keyagent_stm_load_key (sgx_only E) rid k None w = Some (True, e, w')"
    and rq: "ght_lookup (apimodule_loadkey_hash w) rid = Some rq" "req_module_data rq = Some p"
    and ops: "ops_load_key (apimodule_ops w) = Some (apimodule_load_key K)"
    and d: "uri_mem (am w) p = Some d" "token_label d = Some tlab" "key_label d = Some kl" "key_id d = Some kid"
  shows "key_unwrapped K tlab kl kid k (am w')" and "token_hash (am w') = token_hash (am w)"
proof -
  from run rq obtain stm sp where "stm_load_key_run (sgx_only E) rid k stm rq sp None w = Some (True, e, w')"
    by (auto simp: keyagent_stm_load_key_def bind_eq_Some_conv split: option.splits) blast
  then obtain kd ivo s wr op a where kd: "ght_lookup (key_attributes k) KEYAGENT_ATTR_KEYDATA = Some kd"
    "read_bytes kd 0 12 \<noteq> None" "unat (keytransfer_iv_length kd) \<le> 64"
    and iv: "(if keytransfer_iv_length kd \<noteq> 0 then map_option Some (read_bytes kd 12 (unat (keytransfer_iv_length kd)))
      else Some None) = Some ivo"
    and wr: "read_bytes kd (12 + unat (keytransfer_iv_length kd)) (unat (keytransfer_wrap_size kd)) = Some wr"
    and op: "stm_module_op (sgx_only E) sym_stm_load_key stm = Some op"
    and o: "op (loadkey_details_of w rid rq (stm_label stm) s k wr ivo (ucast (keytransfer_tag_size kd))) None (am w)
      = Some (True, e, a)" "w' = w\<lparr>am := a\<rparr>"
    by (auto simp: stm_load_key_run_def run_simps call_stm_def split: if_splits)
  have "op = stm_load_key"
    using op by (auto simp: stm_module_op_def bind_eq_Some_conv sgx_stm_module_def dest!: sgx_only_module)
  then have l: "apimodule_load_key K (ld_apimodule_details (loadkey_details_of w rid rq (stm_label stm) s k wr ivo
      (ucast (keytransfer_tag_size kd)))) None (am w) = Some (True, e, a)" using o(1) ops by (simp add: stm_load_key_def)
  obtain i where i: "ivo = Some i" "token_hash a = token_hash (am w)"
    and u: "unwrapped K tlab (unwrap_template (key_type k) kl kid) i (ucast (keytransfer_tag_size kd)) wr a"
    using load_key_unwraps[OF l _ d] rq by (auto simp: loadkey_details_of_def)
  have nz: "keytransfer_iv_length kd \<noteq> 0" "read_bytes kd 12 (unat (keytransfer_iv_length kd)) = Some i"
    using iv i(1) by (auto split: if_splits)
  have "length i \<le> 64" using nz(2) kd(3) by (auto simp: read_bytes_def split: if_splits)
  moreover obtain rest where "kd = keytransfer_payload i (keytransfer_tag_size kd) wr @ rest"
    using keytransfer_parts(2)[OF kd(2) nz wr] by blast
  ultimately show "key_unwrapped K tlab kl kid k (am w')"
    using kd(1) keytransfer_parts(1)[OF kd(2) nz wr] u o(2) unfolding key_unwrapped_def by auto
  show "token_hash (am w') = token_hash (am w)" using i(2) o(2) by simp
qed

section \<open>The entry point\<close>

text \<open>
  The last thing the library below was asked is a search for an object with the URI's label and id, in the
  session of the URI's token, and it found one.
\<close>

definition object_found :: "'x cryptoki \<Rightarrow> apimodule_uri_data \<Rightarrow> 'x am \<Rightarrow> bool" where
  "object_found K d a \<longleftrightarrow> (\<exists>tlab t d' a0. token_label d = Some tlab \<and> lookup_apimodule_token a (c_str tlab) = Some t \<and>
     uri_same d d' \<and> apimodule_findobject K (tok_session t) d' a0 = Some (CKR_OK, True, a0\<lparr>ext := ext a\<rparr>))"

lemma object_found_uri_mem [simp]: "object_found K d (a\<lparr>uri_mem := m\<rparr>) = object_found K d a"
  by (simp add: object_found_def lookup_apimodule_token_def)

lemma ondemand_token_entered:
  assumes run: "ondemand_token S fp d tlab err a = Some ((Some t, d1, err'), a')" and tl: "token_label d = Some tlab"
  shows "lookup_apimodule_token a' (c_str tlab) = Some t"
proof (cases "lookup_apimodule_token a (c_str tlab)")
  case (Some t0)
  then show ?thesis using run by (simp add: ondemand_token_def)
next
  case None
  with run obtain a1 where i: "init_apimodule_token (sk_lib S) d False err a = Some (Some t, d1, err', a1)"
    and a': "a' = uri_data_write fp d1 a1" by (auto simp: ondemand_token_def bind_eq_Some_conv)
  have "lookup_apimodule_token a1 (c_str tlab) = Some t"
    using init_apimodule_token_step(3)[OF i] None tl by auto
  then show ?thesis by (simp add: a' uri_data_write_def lookup_apimodule_token_def)
qed

lemma ondemand_present_ok:
  assumes "ondemand_present S t d' a = Some (Some CKR_OK, a')" and "uri_same d d'"
    and "token_label d = Some tlab" and "lookup_apimodule_token a (c_str tlab) = Some t"
  shows "object_found (sk_lib S) d a'"
proof -
  from assms(1) obtain rv present where f: "apimodule_findobject (sk_lib S) (tok_session t) d' a = Some (rv, present, a')"
    and "(if rv \<noteq> CKR_OK \<or> present then Some rv else None) = Some CKR_OK"
    by (auto simp: ondemand_present_def bind_eq_Some_conv split: if_splits)
  then have "rv = CKR_OK" present by (auto split: if_splits)
  moreover obtain x where "a' = a\<lparr>ext := x\<rparr>" using findobject_frame[OF f] by blast
  moreover from this have "lookup_apimodule_token a' (c_str tlab) = Some t"
    using assms(4) by (auto simp: lookup_apimodule_token_def)
  ultimately show ?thesis using f assms(2,3) unfolding object_found_def
    by (intro exI[of _ tlab] exI[of _ t] exI[of _ d'] exI[of _ a]) auto
qed

lemma ondemand_load_ok:
  assumes run: "ondemand_load (kms_installation S M) fp d' u err w = Some (CKR_OK, w')" and same: "uri_same d d'"
    and d: "token_label d = Some tlab" "key_label d = Some kl" "key_id d = Some kid"
    and url: "url = g_strjoinv '':'' [c_str tlab, c_str kid, c_str kl, u]"
  shows "\<exists>err1. keyagent_loadkey_with_moduledata (kms_only (sk_ka S) M) (sgx_only (sk_ka S)) url (Some fp) err w
    = Some (True, err1, w')"
proof -
  have "ondemand_url d' u = Some url" using same d url by (simp add: ondemand_url_def uri_same_def)
  with run show ?thesis
    by (auto simp: ondemand_load_def bind_eq_Some_conv kms_installation_def log_error_iff split: if_splits)
qed

text \<open>The key was in the agent's table before, or was unwrapped now.\<close>

lemma loaded_unwrapped:
  assumes ok: "fetching fp d w" and ops: "apimodule_ops w = module_ops S"
    and l: "keyagent_loadkey_with_moduledata (kms_only E M) (sgx_only E) url (Some fp) err w = Some (True, err1, w')"
    and d: "token_label d = Some tlab" "key_label d = Some kl" "key_id d = Some kid"
  shows "\<exists>k. keyagent_key_lookup w' url = Some k \<and>
    (keyagent_key_lookup w url \<noteq> None \<or> key_unwrapped (sk_lib S) tlab kl kid k (am w'))"
proof -
  have "agent_idle w" using ok by (simp add: fetching_def)
  note s = sgx_kms.loadkey_spec[OF this l]
  show ?thesis
  proof (cases "keyagent_key_lookup w url")
    case (Some k)
    then show ?thesis using s by auto
  next
    case None
    then have "stm_accepted (sgx_only E) url (Some fp) w w'" using s by simp
    then obtain rid rq k w3 w4 where a: "am_step (am w) (am w3)" "apimodule_ops w3 = apimodule_ops w"
      "ght_lookup (apimodule_loadkey_hash w3) rid = Some rq" "req_module_data rq = Some fp"
      "keyagent_stm_load_key (sgx_only E) rid k None w3 = Some (True, None, w4)" "am w' = am w4"
      and k: "keyagent_key_lookup w' url = Some k"
      unfolding stm_accepted_def by blast
    obtain d0 where d0: "uri_mem (am w) fp = Some d0" "uri_same d d0" using ok by (auto simp: fetching_def)
    then obtain d3 where d3: "uri_mem (am w3) fp = Some d3" "uri_same d d3"
      using am_step_uri_memD[OF a(1), of fp d0] by (auto intro: uri_same_trans)
    have "key_unwrapped (sk_lib S) tlab kl kid k (am w4)"
      by (rule stm_load_key_unwraps(1)[OF a(5,3,4) _ d3(1)]) (use a(2) ops d3(2) d in \<open>simp_all add: module_ops_def uri_same_def\<close>)
    then show ?thesis using k a(6) by simp
  qed
qed

text \<open>After \<open>CKR_OK\<close>, the object was found, or the agent's load answered TRUE for the URL.\<close>

lemma ondemand_body_ok:
  assumes ok: "fetching fp d w" and run: "ondemand_body (kms_installation S M) fp d u w = Some (CKR_OK, w')"
    and d: "token_label d = Some tlab" "key_label d = Some kl" "key_id d = Some kid"
    and url: "url = g_strjoinv '':'' [c_str tlab, c_str kid, c_str kl, u]"
  shows "object_found (sk_lib S) d (am w') \<or> (\<exists>a err err1. fetching fp d (w\<lparr>am := a\<rparr>) \<and>
    keyagent_loadkey_with_moduledata (kms_only (sk_ka S) M) (sgx_only (sk_ka S)) url (Some fp) err (w\<lparr>am := a\<rparr>)
      = Some (True, err1, w'))"
proof -
  let ?I = "kms_installation S M"
  have lib: "sk_lib ?I = sk_lib S" by (simp add: kms_installation_def)
  from run d(1) obtain tok d1 err1 a1 where t: "ondemand_token ?I fp d tlab None (am w) = Some ((tok, d1, err1), a1)"
    by (auto simp: ondemand_body_def bind_eq_Some_conv with_am_def)
  obtain d0 where "uri_mem (am w) fp = Some d0" "uri_same d d0" using ok by (auto simp: fetching_def)
  then have s1: "am_step (am w) a1" "uri_same d d1" using ondemand_token_step[OF t d(1)] by blast+
  have f1: "fetching fp d (w\<lparr>am := a1\<rparr>)" using ok s1(1) by (rule fetching_am)
  show ?thesis
  proof (cases tok)
    case None
    then have "ondemand_load ?I fp d1 u err1 (w\<lparr>am := a1\<rparr>) = Some (CKR_OK, w')"
      using run d(1) t by (simp add: ondemand_body_def with_am_def)
    from ondemand_load_ok[OF this s1(2) d url] f1 show ?thesis by blast
  next
    case (Some t0)
    with run d(1) t obtain v a2 where p: "ondemand_present ?I t0 d1 a1 = Some (v, a2)"
      by (auto simp: ondemand_body_def with_am_def bind_eq_Some_conv)
    show ?thesis
    proof (cases v)
      case (Some r)
      then have "r = CKR_OK" "w' = w\<lparr>am := a2\<rparr>"
        using run d(1) t p \<open>tok = Some t0\<close> by (simp_all add: ondemand_body_def with_am_def)
      then show ?thesis
        using ondemand_present_ok[OF p[unfolded Some \<open>r = CKR_OK\<close>] s1(2) d(1)
            ondemand_token_entered[OF t[unfolded \<open>tok = Some t0\<close>] d(1)]] lib by simp
    next
      case None
      then have l: "ondemand_load ?I fp d1 u err1 (w\<lparr>am := a2\<rparr>) = Some (CKR_OK, w')"
        using run d(1) t p \<open>tok = Some t0\<close> by (simp add: ondemand_body_def with_am_def)
      have "fetching fp d (w\<lparr>am := a2\<rparr>)" using fetching_am[OF f1] ondemand_present_step[OF p] by simp
      with ondemand_load_ok[OF l s1(2) d url] show ?thesis by blast
    qed
  qed
qed

text \<open>
  The outcome of the entry point: the URI's data, and a world \<open>v\<close> that differs from the first in the
  module's state only, in which the agent's load answered TRUE.
\<close>

definition ondemand_loaded ::
    "'x skc_env \<Rightarrow> ('x, 'j) kms_env \<Rightarrow> nat \<Rightarrow> apimodule_uri_data \<Rightarrow> string \<Rightarrow> 'x world \<Rightarrow> 'x world \<Rightarrow> bool" where
  "ondemand_loaded S M fp d url w w' \<longleftrightarrow> (\<exists>a err err1 w1. fetching fp d (w\<lparr>am := a\<rparr>) \<and> w' = uri_mem_set fp None w1 \<and>
     keyagent_loadkey_with_moduledata (kms_only (sk_ka S) M) (sgx_only (sk_ka S)) url (Some fp) err (w\<lparr>am := a\<rparr>)
       = Some (True, err1, w1))"

lemma ondemand_ok:
  assumes "reachable (kms_installation S M) w"
    and "C_OnDemand_KeyLoad (kms_installation S M) fp (Some u) w = Some (CKR_OK, w')"
  obtains d tlab kl kid where "apimodule_uri_to_uri_data (p11_kit_uri_parse S) (Some u) apimodule_uri_data_init = (True, d)"
    "token_label d = Some tlab" "key_label d = Some kl" "key_id d = Some kid"
    "object_found (sk_lib S) d (am w') \<or> ondemand_loaded S M fp d (g_strjoinv '':'' [c_str tlab, c_str kid, c_str kl, u]) w w'"
proof -
  let ?I = "kms_installation S M"
  have i: "p11_kit_uri_parse ?I = p11_kit_uri_parse S" by (simp add: kms_installation_def)
  obtain b d where p: "apimodule_uri_to_uri_data (p11_kit_uri_parse S) (Some u) apimodule_uri_data_init = (b, d)"
    by (metis prod.exhaust)
  with assms(2) have b by (cases b) (simp_all add: C_OnDemand_KeyLoad_def i)
  then have p1: "apimodule_uri_to_uri_data (p11_kit_uri_parse S) (Some u) apimodule_uri_data_init = (True, d)"
    using p by simp
  obtain tlab kl kid where d: "token_label d = Some tlab" "key_label d = Some kl" "key_id d = Some kid"
    using uri_to_uri_data_accepts[OF p1] by auto
  from assms(2) p \<open>b\<close> obtain w1 where run: "ondemand_body ?I fp d u (uri_mem_set fp (Some d) w) = Some (CKR_OK, w1)"
    and w': "w' = uri_mem_set fp None w1"
    by (auto simp: C_OnDemand_KeyLoad_def i bind_eq_Some_conv split: if_splits)
  have "rest w" using assms(1) by (rule sgx_installation.reachable_rest)
  then have "fetching fp d (uri_mem_set fp (Some d) w)" by (rule fetching_start)
  from ondemand_body_ok[OF this run d refl] have "object_found (sk_lib S) d (am w') \<or>
      ondemand_loaded S M fp d (g_strjoinv '':'' [c_str tlab, c_str kid, c_str kl, u]) w w'"
    unfolding ondemand_loaded_def by (auto simp: w' uri_mem_set_def simp del: g_strjoinv.simps)
  then show ?thesis using that p1 d by blast
qed

lemma function_list_registers:
  assumes "\<not> gfl_init w" and "C_GetFunctionList S w = Some (CKR_OK, w')"
  shows "apimodule_ops w' = module_ops S"
proof -
  from assms obtain w1 where i: "apimodule_init S w = Some (CKR_OK, w1)" and "apimodule_ops w' = apimodule_ops w1"
    by (auto simp: C_GetFunctionList_def bind_eq_Some_conv)
  moreover have "apimodule_ops w1 = module_ops S"
  proof -
    from i obtain conf m lib v where "module_config S (w\<lparr>am := (am w)\<lparr>token_hash := ght_empty,
        api_hash := ght_insert ''SGX'' SGX_APIMODULE_OPS ght_empty\<rparr>, module_hash := []\<rparr>) = Some (Some (conf, m, lib), v)"
      by (auto simp: apimodule_init_def run_simps split: option.splits)
    moreover obtain rv v2 where "apimodule_load_module S (Some lib) v = (rv, v2)" by (metis prod.exhaust)
    ultimately obtain e v3 where "keyagent_apimodule_register (Some m) (module_ops S) v3 = (True, w1)"
      using i by (auto simp: apimodule_init_def run_simps split: if_splits prod.splits)
    then show ?thesis
      by (auto simp: keyagent_apimodule_register_def Let_def keyagent_stm_apimodule_enable_def stm_store_def
          split: option.splits)
  qed
  ultimately show ?thesis by simp
qed

text \<open>
  C5: when fetching a key on demand answers \<open>CKR_OK\<close>, the URI was well formed and either its token had
  an object of this label and id, or the key agent has the key of this URL: it had it before, or the
  last call into the library below unwrapped it under this label and id, in the session of the URI's
  token and with the token's wrapping key; what it unwrapped are the wrapped bytes that the key's data
  holds, with the IV and the tag size packed beside them.
\<close>
theorem ondemand_delivers:
  assumes "reachable (kms_installation S M) w" and "apimodule_ops w = module_ops S"
    and "C_OnDemand_KeyLoad (kms_installation S M) fp (Some u) w = Some (CKR_OK, w')"
  shows "\<exists>d tlab kl kid. apimodule_uri_to_uri_data (p11_kit_uri_parse S) (Some u) apimodule_uri_data_init = (True, d) \<and>
    token_label d = Some tlab \<and> key_label d = Some kl \<and> key_id d = Some kid \<and>
    (let url = g_strjoinv '':'' [c_str tlab, c_str kid, c_str kl, u] in
      object_found (sk_lib S) d (am w') \<or>
      (\<exists>k. keyagent_key_lookup w' url = Some k \<and>
        (keyagent_key_lookup w url \<noteq> None \<or> key_unwrapped (sk_lib S) tlab kl kid k (am w'))))"
proof -
  obtain d tlab kl kid where p: "apimodule_uri_to_uri_data (p11_kit_uri_parse S) (Some u) apimodule_uri_data_init = (True, d)"
    and d: "token_label d = Some tlab" "key_label d = Some kl" "key_id d = Some kid"
    and o: "object_found (sk_lib S) d (am w') \<or> ondemand_loaded S M fp d (g_strjoinv '':'' [c_str tlab, c_str kid, c_str kl, u]) w w'"
    by (rule ondemand_ok[OF assms(1,3)])
  have "\<exists>k. keyagent_key_lookup w' url = Some k \<and> (keyagent_key_lookup w url \<noteq> None \<or> key_unwrapped (sk_lib S) tlab kl kid k (am w'))"
    if "ondemand_loaded S M fp d url w w'" for url
  proof -
    from that obtain a err err1 w1 where f: "fetching fp d (w\<lparr>am := a\<rparr>)" and w': "w' = uri_mem_set fp None w1"
      and l: "keyagent_loadkey_with_moduledata (kms_only (sk_ka S) M) (sgx_only (sk_ka S)) url (Some fp) err (w\<lparr>am := a\<rparr>)
        = Some (True, err1, w1)" by (auto simp: ondemand_loaded_def)
    from loaded_unwrapped[OF f _ l d] assms(2) show ?thesis by (simp add: w' uri_mem_set_def keyagent_key_lookup_def)
  qed
  then show ?thesis using p d o unfolding Let_def by blast
qed

text \<open>
  C40: a key that the agent has loaded once is not given to its token again: when the token no longer
  has the object, as after a fork or when its session was closed, fetching the key on demand answers
  \<open>CKR_OK\<close> after the search, and nothing else is done.
\<close>
theorem lost_key_not_reloaded:
  assumes "func_list_set w" and "\<not> rwlock w"
    and "apimodule_uri_to_uri_data (p11_kit_uri_parse S) (Some u) apimodule_uri_data_init = (True, d)"
    and "token_label d = Some tlab" and "lookup_apimodule_token (am w) (c_str tlab) = Some t"
    and "pin d = Some p" and "c_str (tok_pin t) = c_str p"
    and "apimodule_findobject (sk_lib S) (tok_session t) d (am (uri_mem_set fp (Some d) w)) = Some (CKR_OK, False, a1)"
    and "ondemand_url d u = Some url" and "g_strsplit CHR '':'' url = x # y # zs" and "x \<noteq> []" and "y \<noteq> []"
    and "keyagent_key_lookup w url \<noteq> None"
  shows "C_OnDemand_KeyLoad S fp (Some u) w = Some (CKR_OK, uri_mem_set fp None (w\<lparr>am := a1\<rparr>))"
proof -
  let ?w = "uri_mem_set fp (Some d) w"
  have "keyagent_loadkey_with_moduledata (sk_npm S) (sk_ka S) url (Some fp) None (w\<lparr>am := a1\<rparr>) = Some (True, None, w\<lparr>am := a1\<rparr>)"
    by (rule loadkey_present[OF assms(10-12)]) (use assms(2,13) in \<open>simp_all add: keyagent_key_lookup_def\<close>)
  then have "ondemand_load S fp d u None (w\<lparr>am := a1\<rparr>) = Some (CKR_OK, w\<lparr>am := a1\<rparr>)"
    using assms(9) by (simp add: ondemand_load_def)
  moreover have "with_am (ondemand_token S fp d tlab None) ?w = Some ((Some t, d, None), ?w)"
    using assms(5) by (simp add: ondemand_token_def with_am_def uri_mem_set_def lookup_apimodule_token_def)
  moreover have "with_am (ondemand_present S t d) ?w = Some (None, w\<lparr>am := a1\<rparr>)"
    using assms(6,7,8) by (simp add: ondemand_present_def with_am_def) (simp add: uri_mem_set_def)
  ultimately have "ondemand_body S fp d u ?w = Some (CKR_OK, w\<lparr>am := a1\<rparr>)"
    using assms(4) by (simp add: ondemand_body_def)
  then show ?thesis using assms(1,3) by (simp add: C_OnDemand_KeyLoad_def)
qed

end
