(* ===== verification/Attestation.thy ===== *)
theory Attestation
  imports Delivery Lifetime
begin

text \<open>
  The attestation protocol as a whole.  The key server protects the key it hands out with a session
  wrapping key (SWK); it sends the SWK encrypted for a public key that the enclave has quoted, with a
  nonce of the server in the quote.  Here the exchange is followed through all the layers: from
  \<open>start_session\<close> of the KMS plug-in through the key agent, the SGX STM and the API module down to the
  calls into the PKCS #11 library below, and back.
\<close>

section \<open>The quote\<close>

text \<open>
  The last calls into the library below made the challenge key pair of the token \<open>t\<close> and exported its
  public key with a quote for this launch policy and nonce; \<open>ch\<close> is the challenge laid out from it.
\<close>

definition quote_of ::
    "'x cryptoki \<Rightarrow> rsa_params_layout \<Rightarrow> sgx_ql_policy \<Rightarrow> bytes \<Rightarrow> apimodule_token \<Rightarrow> bytes \<Rightarrow> 'x \<Rightarrow> bool" where
  "quote_of K L lp nonce t ch x \<longleftrightarrow> (\<exists>x0 x1 x2 len quote len'.
     C_GenerateKeyPair K (tok_session t) CKM_RSA_PKCS_KEY_PAIR_GEN
       (challenge_public_template PKCS11_APIMODULE_QUOTELABEL PKCS11_APIMODULE_QUOTEID)
       (challenge_private_template PKCS11_APIMODULE_QUOTELABEL PKCS11_APIMODULE_QUOTEID) x0
       = ((CKR_OK, publickey_challenge_handle t, privatekey_challenge_handle t), x1) \<and>
     C_WrapKey_size K (tok_session t) (CKM_EXPORT_ECDSA_QUOTE_RSA_PUBLIC_KEY lp nonce)
       (publickey_challenge_handle t) x1 = ((CKR_OK, len), x2) \<and>
     C_WrapKey K (tok_session t) (CKM_EXPORT_ECDSA_QUOTE_RSA_PUBLIC_KEY lp nonce)
       (publickey_challenge_handle t) (unat (ucast len :: u32)) x2 = ((CKR_OK, quote, len'), x) \<and>
     build_challenge L quote len' = Some ch)"

lemma export_quote_of:
  assumes "sgx_export_quote K L (CKM_EXPORT_ECDSA_QUOTE_RSA_PUBLIC_KEY lp nonce) t err a = Some (True, err', t', a')"
  shows "\<exists>ch. tok_challenge t' = Some ch \<and> quote_of K L lp nonce t' ch (ext a')"
proof -
  obtain rv pub priv x1 where g: "C_GenerateKeyPair K (tok_session t) CKM_RSA_PKCS_KEY_PAIR_GEN
       (challenge_public_template PKCS11_APIMODULE_QUOTELABEL PKCS11_APIMODULE_QUOTEID)
       (challenge_private_template PKCS11_APIMODULE_QUOTELABEL PKCS11_APIMODULE_QUOTEID) (ext a) = ((rv, pub, priv), x1)"
    by (metis prod_cases4 surj_pair)
  let ?m = "CKM_EXPORT_ECDSA_QUOTE_RSA_PUBLIC_KEY lp nonce"
  obtain rv2 len x2 where l: "C_WrapKey_size K (tok_session t) ?m pub x1 = ((rv2, len), x2)"
    by (metis surj_pair)
  obtain rv3 quote len2 x3 where w: "C_WrapKey K (tok_session t) ?m pub (unat (ucast len :: u32)) x2 = ((rv3, quote, len2), x3)"
    by (metis surj_pair)
  from assms have rv: "rv = CKR_OK" "rv2 = CKR_OK" "rv3 = CKR_OK"
    by (auto simp: sgx_export_quote_def generate_rsa_keypair_def g l w with_ext_def split: if_splits)
  with assms obtain ch where c: "build_challenge L quote len2 = Some ch"
    "t' = t\<lparr>publickey_challenge_handle := pub, privatekey_challenge_handle := priv, tok_challenge := Some ch\<rparr>"
    "a' = a\<lparr>ext := x3\<rparr>"
    by (auto simp: sgx_export_quote_def generate_rsa_keypair_def g l w with_ext_def bind_eq_Some_conv)
  have "quote_of K L lp nonce t' ch x3"
    unfolding quote_of_def using g l w c by (simp add: rv) blast
  then show ?thesis using c by simp
qed

lemma ext_cache [simp]: "ext (cache_apimodule_token t a) = ext a"
  by (simp add: cache_apimodule_token_def)

text \<open>The token of the URI behind \<open>p\<close>, and the challenge kept in it.\<close>

definition quoted_token ::
    "'x cryptoki \<Rightarrow> rsa_params_layout \<Rightarrow> sgx_ql_policy \<Rightarrow> bytes \<Rightarrow> string \<Rightarrow> bytes \<Rightarrow> 'x am \<Rightarrow> bool" where
  "quoted_token K L lp nonce tlab ch a \<longleftrightarrow> (\<exists>t. lookup_apimodule_token a (c_str tlab) = Some t \<and>
     tok_challenge t = Some ch \<and> quote_of K L lp nonce t ch (ext a))"

lemma sgx_challenge_quoted:
  assumes ok: "am_ok a" and run: "sgx_get_challenge K L details rq err a = Some (True, err', a')"
    and p: "cd_module_data details = Some p" and d: "uri_mem a p = Some d" "token_label d = Some tlab"
  shows "attestationType rq = ''ECDSA'' \<and>
    (\<exists>ch. quoted_token K L (launch_policy rq) (cd_nonce details) tlab ch a')"
proof -
  from run p d obtain t where t: "lookup_apimodule_token a (c_str tlab) = Some t" "attestationType rq = ''ECDSA''"
    by (auto simp: sgx_get_challenge_def split: option.splits if_splits)
  from run p d t obtain t1 a1 where e: "sgx_export_quote K L
      (CKM_EXPORT_ECDSA_QUOTE_RSA_PUBLIC_KEY (launch_policy rq) (cd_nonce details)) t err a = Some (True, err', t1, a1)"
    and a': "a' = cache_apimodule_token t1 a1"
    by (auto simp: sgx_get_challenge_def bind_eq_Some_conv)
  have "tok_label t1 = c_str tlab" using sgx_export_quote_frame[OF e] am_ok_label[OF ok t(1)] by simp
  then show ?thesis using export_quote_of[OF e] t(2) by (auto simp: quoted_token_def a')
qed

lemma am_step_label:
  "am_step a a' \<Longrightarrow> uri_mem a p = Some d \<Longrightarrow> token_label d = Some l \<Longrightarrow>
     \<exists>d'. uri_mem a' p = Some d' \<and> token_label d' = Some l"
  using am_step_uri_memD[of a a' p d] by (auto simp: uri_same_def)

lemma api_challenge_quoted:
  assumes ok: "am_ok a" and run: "apimodule_get_challenge K L details rq err a = Some (True, details', err', a')"
    and p: "cd_module_data details = Some p" and d: "uri_mem a p = Some d" "token_label d = Some tlab"
  shows "attestationType rq = ''ECDSA'' \<and>
    (\<exists>ch. cd_challenge details' = Some ch \<and> quoted_token K L (launch_policy rq) (cd_nonce details) tlab ch a')"
proof -
  from run p d obtain label err1 a1 where l: "cd_label details = Some label"
    and c: "challenge_token K p d tlab err a = Some (True, err1, a1)"
    and g: "sgx_get_challenge K L details rq err1 a1 = Some (True, err', a')"
    and r: "\<exists>t. lookup_apimodule_token a' (c_str tlab) = Some t \<and> tok_challenge t = cd_challenge details'"
    by (auto simp: apimodule_get_challenge_def bind_eq_Some_conv split: option.splits api_backend.splits if_splits)
  have s: "am_step a a1" using challenge_token_step[OF c d] by blast
  obtain d1 where d1: "uri_mem a1 p = Some d1" "token_label d1 = Some tlab" using am_step_label[OF s d] by blast
  from sgx_challenge_quoted[OF am_step_okD[OF s ok] g p d1] r show ?thesis by (auto simp: quoted_token_def)
qed

text \<open>The launch policy of the settings.\<close>

definition launch_policy_of :: "'x am \<Rightarrow> sgx_ql_policy option" where
  "launch_policy_of a = do { pol \<leftarrow> qlPolicy a;
     if c_str pol = ''PERSISTENT'' then Some SGX_QL_PERSISTENT
     else if c_str pol = ''EPHEMERAL'' then Some SGX_QL_EPHEMERAL else None }"

lemma stm_challenge_quoted:
  assumes ok: "am_ok a" and run: "stm_create_challenge details err a = Some (True, details', err', a')"
    and cb: "apimodule_get_challenge_cb details = Some (apimodule_get_challenge K L)"
    and p: "cd_module_data (cd_apimodule_details details) = Some p"
    and d: "uri_mem a p = Some d" "token_label d = Some tlab"
  shows "attestation_type a = Some ''ECDSA'' \<and> (\<exists>lp ch. launch_policy_of a = Some lp \<and>
    cd_challenge (cd_apimodule_details details') = Some ch \<and>
    quoted_token K L lp (cd_nonce (cd_apimodule_details details)) tlab ch a')"
proof -
  from run cb obtain lp aty d1 err1 where lp: "launch_policy_of a = Some lp" and aty: "attestation_type a = Some aty"
    and g: "apimodule_get_challenge K L (cd_apimodule_details details) \<lparr>launch_policy = lp,
        rq_nonce = cd_nonce (cd_apimodule_details details), attestationType = aty\<rparr> err a = Some (True, d1, err1, a')"
    and d': "details' = details\<lparr>cd_apimodule_details := d1\<rparr>"
    by (auto simp: stm_create_challenge_def launch_policy_of_def bind_eq_Some_conv Let_def split: if_splits)
  from api_challenge_quoted[OF ok g p d] lp aty d' show ?thesis by auto
qed


section \<open>The request under way\<close>

text \<open>
  The agent is loading a key under the request \<open>rid\<close> of this module, for a URI with these labels and id.
\<close>

definition loads_into :: "'x skc_env \<Rightarrow> string \<Rightarrow> string \<Rightarrow> string \<Rightarrow> string \<Rightarrow> 'x world \<Rightarrow> bool" where
  "loads_into S rid tlab kl kid w \<longleftrightarrow> agent_ok w \<and> apimodule_ops w = module_ops S \<and>
     (\<exists>rq p d. ght_lookup (apimodule_loadkey_hash w) rid = Some rq \<and> req_module_data rq = Some p \<and>
        uri_mem (am w) p = Some d \<and> token_label d = Some tlab \<and> key_label d = Some kl \<and> key_id d = Some kid)"

lemma loads_into_step:
  assumes st: "agent_step w w'" "agent_ok w'" and l: "loads_into S rid tlab kl kid w"
  shows "loads_into S rid tlab kl kid w'"
proof -
  from l obtain rq p d where r: "ght_lookup (apimodule_loadkey_hash w) rid = Some rq" "req_module_data rq = Some p"
    "uri_mem (am w) p = Some d" "token_label d = Some tlab" "key_label d = Some kl" "key_id d = Some kid"
    by (auto simp: loads_into_def)
  obtain rq' where r': "ght_lookup (apimodule_loadkey_hash w') rid = Some rq'" "same_request rq rq'"
    using agent_step_requestD[OF st(1) r(1)] by blast
  have "am_step (am w) (am w')" using st(1) by (simp add: agent_step_def)
  from am_step_uri_memD[OF this r(3)] r obtain d' where "uri_mem (am w') p = Some d'" "token_label d' = Some tlab"
    "key_label d' = Some kl" "key_id d' = Some kid" by (auto simp: uri_same_def)
  moreover have "req_module_data rq' = Some p" using r(2) r'(2) by (auto simp: same_request_def)
  moreover have "apimodule_ops w' = module_ops S"
    using l staticsD(1)[OF agent_step_statics[OF st(1)]] by (simp add: loads_into_def)
  ultimately show ?thesis using st(2) r'(1) by (auto simp: loads_into_def)
qed

lemma loads_into_ext: "loads_into S rid tlab kl kid w \<Longrightarrow> loads_into S rid tlab kl kid (w\<lparr>am := (am w)\<lparr>ext := x\<rparr>\<rparr>)"
  by (rule loads_into_step[rotated 2])
    (auto simp: loads_into_def intro!: agent_step_am agent_ok_am)

lemma sgx_op:
  "stm_module_op (sgx_only E) symb stm = Some op \<Longrightarrow> symb (sgx_stm_module (load_keyfile E)) = Some op"
  by (auto simp: stm_module_op_def bind_eq_Some_conv dest!: sgx_only_module)

lemma agent_challenge_quoted:
  assumes l: "loads_into S rid tlab kl kid w"
    and run: "keyagent_stm_get_challenge (sgx_only E) (Some rid) nonce nm err w = Some (True, chb, err', w')"
  shows "attestation_type (am w) = Some ''ECDSA'' \<and> (\<exists>lp ch. launch_policy_of (am w) = Some lp \<and> chb = Some ch \<and>
    quoted_token (sk_lib S) (sk_layout S) lp (take 32 nonce) tlab ch (am w'))"
proof -
  from l obtain rq p d where r: "ght_lookup (apimodule_loadkey_hash w) rid = Some rq" "req_module_data rq = Some p"
    and d: "uri_mem (am w) p = Some d" "token_label d = Some tlab" and ops: "apimodule_ops w = module_ops S"
    by (auto simp: loads_into_def)
  from run r obtain n stm op det a where op: "stm_module_op (sgx_only E) sym_stm_create_challenge stm = Some op"
    and c: "op (challenge_details_of (request_store rid (rq\<lparr>req_stm_name := Some (stm_label stm)\<rparr>) w) rid rq n nonce) err (am w)
        = Some (True, det, err', a)" "chb = cd_challenge (cd_apimodule_details det)" "am w' = a"
    by (auto simp: keyagent_stm_get_challenge_def bind_eq_Some_conv Let_def split: option.splits)
  have "op = stm_create_challenge" using sgx_op[OF op] by (simp add: sgx_stm_module_def)
  note c' = c(1)[unfolded this]
  have "am_ok (am w)" using l by (simp add: loads_into_def agent_ok_def)
  from stm_challenge_quoted[OF this c' _ _ d, of "sk_lib S" "sk_layout S"] show ?thesis using c(2,3) r ops
    by (auto simp: challenge_details_of_def module_ops_def request_store_def)
qed

section \<open>The wrapping key\<close>

text \<open>
  The last call into the library below unwrapped the server's wrapping key with the private half of the
  challenge key pair, and the token has its handle.
\<close>

definition swk_unwrapped :: "'x cryptoki \<Rightarrow> apimodule_token \<Rightarrow> bytes \<Rightarrow> string \<Rightarrow> 'x am \<Rightarrow> bool" where
  "swk_unwrapped K t swk tlab a \<longleftrightarrow> (\<exists>x h. C_UnwrapKey K (tok_session t) CKM_RSA_PKCS_OAEP
     (privatekey_challenge_handle t) swk swk_template x = ((CKR_OK, h), ext a) \<and>
     lookup_apimodule_token a (c_str tlab) = Some (t\<lparr>wrappingkey_handle := h\<rparr>))"

lemma sgx_swk_unwrapped:
  assumes ok: "am_ok a" and run: "sgx_set_wrapping_key K details err a = Some (True, err', a')"
    and p: "sd_module_data details = Some p" and d: "uri_mem a p = Some d" "token_label d = Some tlab"
    and t: "lookup_apimodule_token a (c_str tlab) = Some t" and swk: "sd_session details = Some swk"
  shows "swk_unwrapped K t swk tlab a'"
proof -
  obtain rv h x where u: "C_UnwrapKey K (tok_session t) CKM_RSA_PKCS_OAEP (privatekey_challenge_handle t) swk swk_template
      (ext a) = ((rv, h), x)" by (metis surj_pair)
  with run p d t swk have rv: "rv = CKR_OK" and a': "a' = cache_apimodule_token (t\<lparr>wrappingkey_handle := h\<rparr>) (a\<lparr>ext := x\<rparr>)"
    by (auto simp: sgx_set_wrapping_key_def with_ext_def split: if_splits)
  have "tok_label t = c_str tlab" using am_ok_label[OF ok t] .
  then show ?thesis using u[unfolded rv] by (auto simp: swk_unwrapped_def a')
qed

lemma api_swk_unwrapped:
  assumes ok: "am_ok a" and run: "apimodule_set_wrapping_key K details err a = Some (True, err', a')"
    and p: "sd_module_data details = Some p" and d: "uri_mem a p = Some d" "token_label d = Some tlab"
    and t: "lookup_apimodule_token a (c_str tlab) = Some t" and swk: "sd_session details = Some swk"
  shows "swk_unwrapped K t swk tlab a'"
proof -
  from run p d t have "sgx_set_wrapping_key K details err a = Some (True, err', a')"
    by (auto simp: apimodule_set_wrapping_key_def bind_eq_Some_conv split: option.splits api_backend.splits)
  from sgx_swk_unwrapped[OF ok this p d t swk] show ?thesis .
qed

lemma agent_swk_unwrapped:
  assumes l: "loads_into S rid tlab kl kid w" and s: "sess_at w sp = Some s"
    and t: "lookup_apimodule_token (am w) (c_str tlab) = Some t"
    and run: "keyagent_stm_set_session (sgx_only E) rid (Some sp) err w = Some (True, err', w')"
  shows "swk_unwrapped (sk_lib S) t (ses_swk s) tlab (am w')"
proof -
  from l obtain rq p d where r: "ght_lookup (apimodule_loadkey_hash w) rid = Some rq" "req_module_data rq = Some p"
    and d: "uri_mem (am w) p = Some d" "token_label d = Some tlab" and ops: "apimodule_ops w = module_ops S"
    by (auto simp: loads_into_def)
  from run r s obtain stm op where op: "stm_module_op (sgx_only E) sym_stm_set_session stm = Some op"
    and c: "call_stm (op (session_details_of (request_store rid (rq\<lparr>req_stm_name := Some (stm_label stm)\<rparr>)
        (stm_store (ses_name s) (stm\<lparr>stm_session := Some sp\<rparr>) w)) rid rq s)) err
        (request_store rid (rq\<lparr>req_stm_name := Some (stm_label stm)\<rparr>)
        (stm_store (ses_name s) (stm\<lparr>stm_session := Some sp\<rparr>) w)) = Some (True, err', w')"
    by (auto simp: keyagent_stm_set_session_def keyagent_session_get_stmname_def bind_eq_Some_conv Let_def split: option.splits)
  have "op = stm_set_session" using sgx_op[OF op] by (simp add: sgx_stm_module_def)
  with c ops r obtain details where "apimodule_set_wrapping_key (sk_lib S) details err (am w) = Some (True, err', am w')"
    and det: "sd_module_data details = Some p" "sd_session details = Some (ses_swk s)"
    by (auto simp: call_stm_def bind_eq_Some_conv stm_set_session_def session_details_of_def module_ops_def)
  moreover have "am_ok (am w)" using l by (simp add: loads_into_def agent_ok_def)
  ultimately show ?thesis using api_swk_unwrapped[OF _ _ det(1) d t det(2)] by blast
qed


text \<open>A session created is handed to its STM with the wrapping key given, and no key has been touched.\<close>

lemma session_create_handed:
  assumes ok: "agent_ok w" and run: "keyagent_session_create (sgx_only E) rid label sid swk ty err w = Some (r, err', w')"
  obtains (rejected) "w' = w" "\<not> r"
  | (handed) w3 p s err1 where "agent_step w w3" "agent_ok w3" "key_hash w3 = key_hash w" "moved (am w) (am w3)"
      "sess_at w3 p = Some s" "ses_swk s = swk"
      "keyagent_stm_set_session (sgx_only E) rid (Some p) err1 w3 = Some (r, err', w')"
  using run[unfolded keyagent_session_create_def]
proof (cases rule: sgx_modules.session_create_parts)
  case rejected
  then show ?thesis using that(1) by simp
next
  case (entered stm w1 p w2)
  have w1: "am w1 = am w" "key_hash w1 = key_hash w" using session_evict_spec[OF ok entered(2)] by auto
  note ev = evict_step[OF ok entered(2)]
  have en: "agent_step w1 w2" "agent_ok w2" "Session_Create.entered w1 label sid swk (keyagent_session_lookup w sid) p w2"
    using session_enter_spec[OF _ _ entered(3)] ev evict_keeps_session[OF ok entered(2)] by simp_all
  then obtain s where s: "sess_at w2 p = Some s" "ses_swk s = swk" and w2: "am w2 = am w" "key_hash w2 = key_hash w"
    using w1 by (auto simp: entered_def)
  obtain err1 w3 i where cs: "cache_step w2 w3" and ok3: "agent_ok w3" and s3: "sess_at w3 p = Some (s\<lparr>ses_cache_id := i\<rparr>)"
    and st: "keyagent_stm_set_session (sgx_only E) rid (Some p) err1 w3 = Some (r, err', w')"
    using entered(4) by (rule session_out_parts[OF en(2) s(1)])
  have "agent_step w w1" using ev by blast
  also note en(1)
  also note agent_step_cache[OF cs]
  finally have "agent_step w w3" .
  moreover have "key_hash w3 = key_hash w" "moved (am w) (am w3)" using cs w2 by (simp_all add: cache_step_def tables_def)
  ultimately show ?thesis using that(2)[OF _ ok3 _ _ s3 _ st] s(2) by simp
qed

lemma session_create_swk:
  assumes l: "loads_into S rid tlab kl kid w" and t: "lookup_apimodule_token (am w) (c_str tlab) = Some t"
    and run: "keyagent_session_create (sgx_only E) rid label sid swk ty err w = Some (True, err', w')"
  shows "swk_unwrapped (sk_lib S) t swk tlab (am w')"
proof -
  have "agent_ok w" using l by (simp add: loads_into_def)
  then show ?thesis using run
  proof (cases rule: session_create_handed)
    case (handed w3 p s err1)
    have "loads_into S rid tlab kl kid w3" using handed(1,2) l by (rule loads_into_step)
    moreover have "lookup_apimodule_token (am w3) (c_str tlab) = Some t" using t lookup_moved[OF handed(4)] by simp
    ultimately show ?thesis using agent_swk_unwrapped[OF _ handed(5) _ handed(7)] handed(6) by simp
  qed simp
qed

section \<open>The exchange\<close>

lemma https_send_am:
  "https_send M url hs post rh ssl w = Some (res, w') \<Longrightarrow> \<exists>x. w' = w\<lparr>am := (am w)\<lparr>ext := x\<rparr>\<rparr>"
  by (auto simp: https_send_def bind_eq_Some_conv)

lemma finish_session_swk:
  assumes l: "loads_into S (kl_request_id details) tlab kl kid w" and t: "lookup_apimodule_token (am w) (c_str tlab) = Some t"
    and c: "kl_cbs details = internal_npm_ops (sgx_only E)"
    and run: "finish_session M details cr st body err w = Some (True, err', w')"
  shows "st = 201 \<and> (\<exists>swk ty. parse_session_reply M (parse_data (k_json M) body) = Some (swk, ty) \<and>
    swk_unwrapped (sk_lib S) t swk tlab (am w'))"
proof -
  have st: "st = 201" using run by (auto simp: finish_session_def split: if_splits)
  with run obtain swk ty where p: "parse_session_reply M (parse_data (k_json M) body) = Some (swk, ty)"
    by (auto simp: finish_session_def split: option.splits)
  with run st obtain err1 where "keyagent_session_create (sgx_only E) (kl_request_id details) (cr_type cr)
      (c_str_of_bytes (g_base64_decode M (cr_session_id cr))) swk ty err w = Some (True, err1, w')"
    by (auto simp: finish_session_def c internal_npm_ops_simps bind_eq_Some_conv)
  from session_create_swk[OF l t this] st p show ?thesis by blast
qed

lemma session_nonce_take: "session_nonce M bs = Some n \<Longrightarrow> take 32 n = n"
  by (auto simp: session_nonce_def bind_eq_Some_conv)

text \<open>
  A session opened for the challenge document \<open>doc\<close>: the nonce of the server is in the quote of the
  token's new challenge key, the challenge laid out from that quote is what the server was sent, and the
  wrapping key in its answer was unwrapped with the private half of that very key.
\<close>

definition attested_session ::
    "'x skc_env \<Rightarrow> ('x, 'j) kms_env \<Rightarrow> keyagent_ssl_opts \<Rightarrow> string \<Rightarrow> 'j \<Rightarrow> 'x world \<Rightarrow> 'x world \<Rightarrow> bool" where
  "attested_session S M ssl tlab doc w w' \<longleftrightarrow> (\<exists>cr nonce lp t ch w1 hs body w2 swk ty.
     parse_challenge (k_json M) doc = Some cr \<and> cr_method cr = ''post'' \<and>
     session_nonce M (g_base64_decode M (cr_session_id cr)) = Some nonce \<and>
     attestation_type (am w) = Some ''ECDSA'' \<and> launch_policy_of (am w) = Some lp \<and>
     lookup_apimodule_token (am w1) (c_str tlab) = Some t \<and>
     quote_of (sk_lib S) (sk_layout S) lp nonce t ch (ext (am w1)) \<and>
     https_send M (cr_url cr) json_headers (Some (challenge_reply M cr ch)) None ssl w1 = Some ((201, hs, body), w2) \<and>
     parse_session_reply M (parse_data (k_json M) body) = Some (swk, ty) \<and>
     swk_unwrapped (sk_lib S) t swk tlab (am w'))"

text \<open>A session that the plug-in opened was attested.\<close>

lemma session_started_attested:
  assumes l: "loads_into S (kl_request_id details) tlab kl kid w" and c: "kl_cbs details = internal_npm_ops (sgx_only E)"
    and run: "start_session M details doc err w = Some (True, err', w')"
  shows "attested_session S M (kl_ssl_opts details) tlab doc w w'"
proof -
  from run obtain cr where cr: "parse_challenge (k_json M) doc = Some cr" "cr_method cr = ''post''"
    by (auto simp: start_session_def split: option.splits if_splits)
  with run obtain nonce g chb err1 w1 where n: "session_nonce M (g_base64_decode M (cr_session_id cr)) = Some nonce"
    and q: "keyagent_stm_get_challenge (sgx_only E) (Some (kl_request_id details)) nonce (Some (cr_type cr)) err w
      = Some (True, Some chb, err1, w1)"
    and r: "do { ((res_status, _, body), w2) \<leftarrow> https_send M (cr_url cr) json_headers
        (Some (challenge_reply M cr chb)) None (kl_ssl_opts details) w1; finish_session M details cr res_status body err1 w2 }
      = Some (True, err', w')"
    by (auto simp: start_session_def c internal_npm_ops_simps bind_eq_Some_conv split: if_splits)
  from r obtain st hs body w2 where h: "https_send M (cr_url cr) json_headers (Some (challenge_reply M cr chb)) None
      (kl_ssl_opts details) w1 = Some ((st, hs, body), w2)"
    and fin: "finish_session M details cr st body err1 w2 = Some (True, err', w')"
    by (auto simp: bind_eq_Some_conv)
  from agent_challenge_quoted[OF l q] session_nonce_take[OF n] obtain lp t where
    a: "attestation_type (am w) = Some ''ECDSA''" "launch_policy_of (am w) = Some lp"
      "lookup_apimodule_token (am w1) (c_str tlab) = Some t" "quote_of (sk_lib S) (sk_layout S) lp nonce t chb (ext (am w1))"
    by (auto simp: quoted_token_def)
  have "agent_ok w" using l by (simp add: loads_into_def)
  from sgx_modules.stm_get_challenge_step[OF this q] have "agent_step w w1" "agent_ok w1" by blast+
  then have l1: "loads_into S (kl_request_id details) tlab kl kid w1" using l by (rule loads_into_step)
  obtain x where w2: "w2 = w1\<lparr>am := (am w1)\<lparr>ext := x\<rparr>\<rparr>" using https_send_am[OF h] by blast
  have "loads_into S (kl_request_id details) tlab kl kid w2" unfolding w2 using l1 by (rule loads_into_ext)
  moreover have "lookup_apimodule_token (am w2) (c_str tlab) = Some t" using a(3) by (simp add: w2 lookup_apimodule_token_def)
  moreover note fin
  ultimately obtain swk ty where "st = 201" "parse_session_reply M (parse_data (k_json M) body) = Some (swk, ty)"
    "swk_unwrapped (sk_lib S) t swk tlab (am w')" using finish_session_swk[OF _ _ c] by blast
  with cr n a h show ?thesis unfolding attested_session_def by blast
qed


section \<open>No key without a session\<close>

text \<open>Opening a session adds no key.\<close>

lemma session_create_key_hash:
  assumes ok: "agent_ok w" and run: "keyagent_session_create (sgx_only E) rid label sid swk ty err w = Some (r, err', w')"
  shows "key_hash w' = key_hash w"
  using assms
proof (cases rule: session_create_handed)
  case (handed w3 p s err1)
  have "key_hash w' = key_hash w3"
    using sgx_modules.stm_set_session_result[OF handed(2,5,7)] by (auto split: if_splits)
  then show ?thesis using handed(3) by simp
qed simp

lemma finish_session_key_hash:
  assumes ok: "agent_ok w" and c: "kl_cbs details = internal_npm_ops (sgx_only E)"
    and run: "finish_session M details cr st body err w = Some (r, err', w')"
  shows "key_hash w' = key_hash w"
proof (cases "w' = w")
  case False
  with run obtain label sid swk ty r1 err1 where
    "keyagent_session_create (sgx_only E) (kl_request_id details) label sid swk ty err w = Some (r1, err1, w')"
    by (auto simp: finish_session_def c internal_npm_ops_simps bind_eq_Some_conv split: if_splits option.splits)
  then show ?thesis by (rule session_create_key_hash[OF ok])
qed simp

lemma start_session_key_hash:
  assumes ok: "agent_ok w" and c: "kl_cbs details = internal_npm_ops (sgx_only E)"
    and run: "start_session M details doc err w = Some (r, err', w')"
  shows "key_hash w' = key_hash w"
proof (cases "\<exists>cr. parse_challenge (k_json M) doc = Some cr \<and> cr_method cr = ''post''")
  case False
  then show ?thesis using run by (auto simp: start_session_def split: option.splits)
next
  case True
  then obtain cr where cr: "parse_challenge (k_json M) doc = Some cr" "cr_method cr = ''post''" by blast
  from run cr obtain nonce g ch err1 w1 where
    q: "keyagent_stm_get_challenge (sgx_only E) (Some (kl_request_id details)) nonce (Some (cr_type cr)) err w
      = Some (g, ch, err1, w1)"
    and rest: "(if \<not> g then Some (False, err1, w1) else do {
              ch \<leftarrow> ch;
              ((res_status, _, body), w2) \<leftarrow> https_send M (cr_url cr) json_headers
                     (Some (challenge_reply M cr ch)) None (kl_ssl_opts details) w1;
              finish_session M details cr res_status body err1 w2 }) = Some (r, err', w')"
    by (auto simp: start_session_def c internal_npm_ops_simps bind_eq_Some_conv)
  have w1: "key_hash w1 = key_hash w" using q
    by (auto simp: keyagent_stm_get_challenge_def bind_eq_Some_conv Let_def split: option.splits)
  have ok1: "agent_ok w1" using sgx_modules.stm_get_challenge_step[OF ok q] by blast
  show ?thesis
  proof (cases "\<exists>st body x. finish_session M details cr st body err1 (w1\<lparr>am := (am w1)\<lparr>ext := x\<rparr>\<rparr>) = Some (r, err', w')")
    case False
    then show ?thesis using rest w1
      by (auto simp: bind_eq_Some_conv https_send_def split: if_splits)
  next
    case True
    then obtain st body x where f: "finish_session M details cr st body err1 (w1\<lparr>am := (am w1)\<lparr>ext := x\<rparr>\<rparr>) = Some (r, err', w')"
      by blast
    let ?w = "w1\<lparr>am := (am w1)\<lparr>ext := x\<rparr>\<rparr>"
    have "agent_ok ?w" using ok1 by (rule agent_ok_am) simp
    from finish_session_key_hash[OF this c f] show ?thesis using w1 by simp
  qed
qed

text \<open>
  A key that a request brought was parsed from its answer, and belongs to a session on offer; the
  tokens are as before.
\<close>

lemma accept_key_created:
  assumes ok: "agent_ok w" and c: "kl_cbs details = internal_npm_ops E"
    and run: "accept_key M details hs t err w = Some (r, err', w')"
    and new: "keyagent_key_lookup w (kl_url details) = None" "keyagent_key_lookup w' (kl_url details) = Some k"
  shows "parse_transfer M t = Some (Some (key_type k), key_attributes k) \<and> token_hash (am w') = token_hash (am w) \<and>
    (\<exists>sid. keyagent_session_lookup w sid \<noteq> None)"
proof -
  have "w' \<noteq> w" using new by auto
  with run obtain p where p: "parse_transfer M t = Some p"
    by (cases "parse_transfer M t") (auto simp: accept_key_def)
  with run obtain kty attrs where t: "parse_transfer M t = Some (Some kty, attrs)"
    by (cases p) (auto simp: accept_key_def bind_eq_Some_conv)
  with run \<open>w' \<noteq> w\<close> obtain tokens where f: "fold get_session_id_from_header hs None = Some tokens"
    by (cases "fold get_session_id_from_header hs None") (auto simp: accept_key_def)
  with run t \<open>w' \<noteq> w\<close> obtain s where s: "strv_nth tokens 2 = Some s"
    by (cases "strv_nth tokens 2") (auto simp: accept_key_def)
  with run t f obtain sid q where
    run': "keyagent_key_create E (kl_url details) kty (Some attrs) (Some sid) err w = Some (q, err', w')"
    by (auto simp: accept_key_def c internal_npm_ops_simps bind_eq_Some_conv)
  have "sess_ok w" "keys_ok w" using ok by (simp_all add: agent_ok_def)
  note s = key_create_spec[OF this run'[unfolded keyagent_key_create_def]]
  have "q \<noteq> None" using s new by (cases q) auto
  with s new have "key_type k = kty" "key_attributes k = attrs" "\<exists>p. keyagent_session_lookup w sid = Some p" "key_step w w'"
    by (auto split: if_splits)
  then show ?thesis using t by (auto simp: key_step_def moved_simps)
qed

lemma request_key_am:
  "request_key M details w = Some (res, w') \<Longrightarrow> \<exists>x. w' = w\<lparr>am := (am w)\<lparr>ext := x\<rparr>\<rparr>"
  by (auto simp: request_key_def https_send_def bind_eq_Some_conv)

text \<open>A round that brought the key did so at once, or by way of a session.\<close>

lemma load_round_created:
  assumes ok: "agent_ok w" and c: "kl_cbs details = internal_npm_ops (sgx_only E)"
    and run: "load_round M details next_round err w = Some (r, err', w')"
    and new: "keyagent_key_lookup w (kl_url details) = None" "keyagent_key_lookup w' (kl_url details) \<noteq> None"
  obtains (at_once) hs t w1 where "request_key M details w = Some ((200, hs, t), w1)"
      "accept_key M details hs t err w1 = Some (r, err', w')"
  | (session) hs t w1 err2 w2 where "request_key M details w = Some ((401, hs, t), w1)"
      "parse_fault (k_json M) t = Some True" "start_session M details t err w1 = Some (True, err2, w2)"
      "next_round err2 w2 = Some (r, err', w')" "keyagent_key_lookup w2 (kl_url details) = None"
proof -
  from run obtain st hs t w1 where rq: "request_key M details w = Some ((st, hs, t), w1)"
    by (auto simp: load_round_def bind_eq_Some_conv)
  obtain x where w1: "w1 = w\<lparr>am := (am w)\<lparr>ext := x\<rparr>\<rparr>" using request_key_am[OF rq] by blast
  have k1: "keyagent_key_lookup w1 (kl_url details) = None" using new(1) by (simp add: w1 keyagent_key_lookup_def)
  have ok1: "agent_ok w1" unfolding w1 using ok by (rule agent_ok_am) simp
  consider (curable) "st = 401" "parse_fault (k_json M) t = Some True" | (key) "st = 200" | (failed) "w' = w1"
    using run rq by (auto simp: load_round_def split: if_splits option.splits bool.splits)
  then show ?thesis
  proof cases
    case key
    then have "accept_key M details hs t err w1 = Some (r, err', w')" using run rq by (simp add: load_round_def)
    then show ?thesis using at_once rq key by simp
  next
    case curable
    with run rq obtain sok err2 w2 where ss: "start_session M details t err w1 = Some (sok, err2, w2)"
      and n: "(if sok then next_round err2 w2 else Some (False, err2, w2)) = Some (r, err', w')"
      by (auto simp: load_round_def bind_eq_Some_conv)
    have k2: "keyagent_key_lookup w2 (kl_url details) = None"
      using k1 start_session_key_hash[OF ok1 c ss] by (simp add: keyagent_key_lookup_def)
    then have sok using n new(2) by (auto split: if_splits)
    then show ?thesis using session[of hs t w1 err2 w2] rq curable ss n k2 by simp
  next
    case failed
    then show ?thesis using k1 new(2) by simp
  qed
qed


text \<open>
  A transfer under attestation: a first request for the key was answered by a challenge, a session was
  opened for that challenge, and a second request, made in that session, was answered with the key \<open>k\<close>,
  parsed from the answer; the tokens are as the session left them.
\<close>

definition attested_transfer ::
    "'x skc_env \<Rightarrow> ('x, 'j) kms_env \<Rightarrow> 'x keyagent_keyload_details \<Rightarrow> string \<Rightarrow> keyagent_key_real \<Rightarrow> 'x world \<Rightarrow>
     'x world \<Rightarrow> bool" where
  "attested_transfer S M details tlab k w w' \<longleftrightarrow> (\<exists>hs doc w1 w2 hs' t w3.
     request_key M details w = Some ((401, hs, doc), w1) \<and> parse_fault (k_json M) doc = Some True \<and>
     attested_session S M (kl_ssl_opts details) tlab doc w1 w2 \<and>
     request_key M details w2 = Some ((200, hs', t), w3) \<and>
     parse_transfer M t = Some (Some (key_type k), key_attributes k) \<and>
     token_hash (am w') = token_hash (am w2))"

lemma second_round_created:
  assumes ok: "agent_ok w" and c: "kl_cbs details = internal_npm_ops (sgx_only E)"
    and run: "load_round M details (npm_loadkey M details 2) err w = Some (r, err', w')"
    and new: "keyagent_key_lookup w (kl_url details) = None" "keyagent_key_lookup w' (kl_url details) = Some k"
  shows "(\<exists>hs t w1. request_key M details w = Some ((200, hs, t), w1) \<and>
    parse_transfer M t = Some (Some (key_type k), key_attributes k)) \<and> token_hash (am w') = token_hash (am w)"
proof -
  from new(2) have "keyagent_key_lookup w' (kl_url details) \<noteq> None" by simp
  with ok c run new(1) show ?thesis
  proof (cases rule: load_round_created)
    case (at_once hs t w1)
    obtain x where w1: "w1 = w\<lparr>am := (am w)\<lparr>ext := x\<rparr>\<rparr>" using request_key_am[OF at_once(1)] by blast
    have "agent_ok w1" unfolding w1 using ok by (rule agent_ok_am) simp
    from accept_key_created[OF this c at_once(2) _ new(2)] new(1) at_once(1) show ?thesis
      by (auto simp: w1 keyagent_key_lookup_def)
  next
    case (session hs t w1 err2 w2)
    have "w' = w2" using session(4) by (simp add: npm_loadkey.simps[of M details 2])
    then show ?thesis using session(5) new(2) by simp
  qed
qed

lemma npm_load_attested:
  assumes l: "loads_into S (kl_request_id details) tlab kl kid w" and lo: "loading_ok (kl_request_id details) w"
    and c: "kl_cbs details = internal_npm_ops (sgx_only E)"
    and run: "npm_key_load M details err w = Some (r, err', w')"
    and new: "keyagent_key_lookup w (kl_url details) = None" "keyagent_key_lookup w' (kl_url details) = Some k"
  shows "attested_transfer S M details tlab k w w' \<or>
    (\<exists>res w1. request_key M details w = Some ((200, res), w1)) \<and> (\<exists>sid. keyagent_session_lookup w sid \<noteq> None) \<and>
      token_hash (am w') = token_hash (am w)"
proof -
  have ok: "agent_ok w" using l by (simp add: loads_into_def)
  have new': "keyagent_key_lookup w' (kl_url details) \<noteq> None" using new(2) by simp
  have kms: "strv_nth (g_strsplit CHR '':'' (kl_url details)) 0 = Some KMS_PREFIX_TOKEN"
    using run new by (subst (asm) npm_key_load_def) (auto simp: npm_loadkey.simps[of M details 0] split: if_splits)
  have "load_round M details (load_round M details (npm_loadkey M details 2)) err w = Some (r, err', w')"
    using run unfolding npm_key_load_rounds[OF kms, of M] .
  from ok c this new(1) new' show ?thesis
  proof (cases rule: load_round_created)
    case (at_once hs t w1)
    obtain x where w1: "w1 = w\<lparr>am := (am w)\<lparr>ext := x\<rparr>\<rparr>" using request_key_am[OF at_once(1)] by blast
    have "agent_ok w1" unfolding w1 using ok by (rule agent_ok_am) simp
    from accept_key_created[OF this c at_once(2) _ new(2)] new(1) at_once(1) show ?thesis
      by (auto simp: w1 keyagent_key_lookup_def keyagent_session_lookup_def simp del: not_None_eq)
  next
    case (session hs doc w1 err2 w2)
    obtain x where w1: "w1 = w\<lparr>am := (am w)\<lparr>ext := x\<rparr>\<rparr>" using request_key_am[OF session(1)] by blast
    have l1: "loads_into S (kl_request_id details) tlab kl kid w1" unfolding w1 using l by (rule loads_into_ext)
    have a: "attested_session S M (kl_ssl_opts details) tlab doc w1 w2" by (rule session_started_attested[OF l1 c session(3)])
    have "load_step (kl_request_id details) w w1" unfolding w1 by (rule load_step_out)
    then have lo1: "loading_ok (kl_request_id details) w1" using lo by (rule load_step_ok)
    have "load_step (kl_request_id details) w1 w2"
      using npm_host.start_session_step[OF sgx_modules.npm_host_internal c refl lo1 session(3)] by blast
    then have "agent_ok w2" using load_step_ok[OF _ lo1] by (simp add: loading_ok_def)
    from second_round_created[OF this c session(4,5) new(2)]
    show ?thesis using session(1,2) a unfolding attested_transfer_def by blast
  qed
qed


section \<open>The whole load\<close>

text \<open>
  A load that answers TRUE for a key that was not there was the KMS plug-in's; it ends in the unwrapping of the
  key.  The key came under attestation, or else at once, with a session on offer; the token is then the one
  there was before.
\<close>

lemma loadkey_needs_plugin:
  assumes "keyagent_key_lookup w url = None"
    and "keyagent_loadkey_with_moduledata (kms_only E' M) E url md err w = Some (True, err', w')"
    and "plugins_ok E' w"
  obtains npm where "kms_loaded E' w npm"
proof -
  from assms(1,2) have "npm_hash w \<noteq> ght_empty"
    by (auto simp: keyagent_loadkey_with_moduledata_def loadkey_locked_def ght_values_def ght_empty_def run_simps
        simp del: not_None_eq split: if_splits)
  then show ?thesis using assms(3) that by (auto simp: plugins_ok_def)
qed

lemma load_attested:
  assumes "agent_idle w" and "apimodule_ops w = module_ops S"
    and "keyagent_key_lookup w url = None" and "uri_mem (am w) fp = Some d"
    and "token_label d = Some tlab" and "key_label d = Some kl" and "key_id d = Some kid"
    and "keyagent_loadkey_with_moduledata (kms_only E' M) (sgx_only E) url (Some fp) err w = Some (True, err', w')"
    and "plugins_ok E' w"
  obtains npm rid v v' k where "enter_request (sgx_only E) (Some fp) npm (w\<lparr>rwlock := True\<rparr>) = (rid, v)"
    "attested_transfer S M (load_details (sgx_only E) rid url v) tlab k v v' \<or>
      (\<exists>res v1. request_key M (load_details (sgx_only E) rid url v) v = Some ((200, res), v1)) \<and>
      (\<exists>sid. keyagent_session_lookup w sid \<noteq> None) \<and> token_hash (am v') = token_hash (am w)"
    "load_ssl_opts v = load_ssl_opts w" "keyagent_key_lookup w' url = Some k" "token_hash (am w') = token_hash (am v')"
    "key_unwrapped (sk_lib S) tlab kl kid k (am w')"
proof -
  let ?E = "sgx_only E" and ?w = "w\<lparr>rwlock := True\<rparr>"
  obtain npm where "kms_loaded E' w npm" using assms(3,8,9) by (rule loadkey_needs_plugin)
  then have "ght_values (npm_hash w) = [npm]" by (rule kms_loaded_parts)
  from sgx_kms.loadkey_registered[OF this assms(3,8)] obtain w1 where run: "load_registered (kms_only E' M) ?E url (Some fp) npm None err ?w = Some (True, err', w1)"
    and k1: "keyagent_key_lookup w1 url \<noteq> None" and w': "w' = w1\<lparr>rwlock := False\<rparr>" by blast
  have idle: "agent_idle ?w" using assms(1) by simp
  obtain rid w2 f b err1 w3 e0 w4 where e: "enter_request ?E (Some fp) npm ?w = (rid, w2)"
    and f: "npm_module_op (kms_only E' M) sym_npm_key_load npm = Some f"
    and n: "f (load_details ?E rid url w2) err w2 = Some (b, err1, w3)" and s3: "load_step rid w2 w3"
    and st0: "load_into_stm ?E rid url None w3 = Some (True, if True then None else Some e0, w4)"
    and "True \<or> err' = Some RELEASED" and w1: "w1 = request_remove rid w4"
    by (rule sgx_kms.load_registered_parts[OF idle run])
  have st: "load_into_stm ?E rid url None w3 = Some (True, None, w4)" using st0 by simp
  define details where "details = load_details ?E rid url w2"
  have d: "kl_request_id details = rid" "kl_url details = url" "kl_cbs details = internal_npm_ops ?E"
    by (simp_all add: details_def load_details_def)
  have "f = npm_key_load M" using f
    by (auto simp: npm_module_op_def kms_only_def kms_npm_module_def bind_eq_Some_conv split: if_splits)
  with n have n: "npm_key_load M details err w2 = Some (b, err1, w3)" by (simp add: details_def)
  have lo2: "loading_ok rid w2" by (rule enter_request_frame(8)[OF e idle])
  have l2: "loads_into S rid tlab kl kid w2"
    using lo2 assms(2,4-7) enter_request_frame(4)[OF e] enter_request_frame(9)[OF e idle]
      staticsD(1)[OF enter_request_frame(1)[OF e]] by (auto simp: loads_into_def loading_ok_def)
  have lo3: "loading_ok rid w3" using s3 lo2 by (rule load_step_ok)
  have l3: "loads_into S rid tlab kl kid w3"
    using s3 lo3 l2 by (auto simp: load_step_def loading_ok_def intro: loads_into_step)
  have new2: "keyagent_key_lookup w2 url = None" using assms(3) enter_request_frame(3)[OF e] by (simp add: keyagent_key_lookup_def)
  note s4 = sgx_kms.load_into_stm_step[OF lo3 st]
  have "keyagent_key_lookup w3 url \<noteq> None"
    using k1 s4 by (simp add: w1 request_remove_def keyagent_key_lookup_def)
  then obtain k where k: "keyagent_key_lookup w3 url = Some k" and sk: "keyagent_stm_load_key ?E rid k None w3 = Some (True, None, w4)"
    using s4 by auto
  have "attested_transfer S M details tlab k w2 w3 \<or> (\<exists>res v1. request_key M details w2 = Some ((200, res), v1)) \<and>
      (\<exists>sid. keyagent_session_lookup w2 sid \<noteq> None) \<and> token_hash (am w3) = token_hash (am w2)"
    by (rule npm_load_attested[OF _ _ d(3) n]) (use l2 lo2 new2 k d in simp_all)
  then have t: "attested_transfer S M details tlab k w2 w3 \<or> (\<exists>res v1. request_key M details w2 = Some ((200, res), v1)) \<and>
      (\<exists>sid. keyagent_session_lookup w sid \<noteq> None) \<and> token_hash (am w3) = token_hash (am w)"
    using enter_request_frame(2,5)[OF e] by (simp add: keyagent_session_lookup_def)
  obtain rq p d' where r: "ght_lookup (apimodule_loadkey_hash w3) rid = Some rq" "req_module_data rq = Some p"
    "uri_mem (am w3) p = Some d'" "token_label d' = Some tlab" "key_label d' = Some kl" "key_id d' = Some kid"
    using l3 by (auto simp: loads_into_def)
  have ops: "ops_load_key (apimodule_ops w3) = Some (apimodule_load_key (sk_lib S))"
    using l3 by (simp add: loads_into_def module_ops_def)
  have w4: "am w' = am w4" "key_hash w' = key_hash w3" using s4 by (simp_all add: w' w1 request_remove_def)
  have ssl: "load_ssl_opts w2 = load_ssl_opts w"
    using enter_request_frame(1)[OF e] by (simp add: load_ssl_opts_def statics_def)
  note u = stm_load_key_unwraps[OF sk r(1,2) ops r(3-6)]
  show ?thesis
    by (rule that[OF e t[unfolded details_def] ssl]) (use u w4 k in \<open>simp_all add: keyagent_key_lookup_def\<close>)
qed

text \<open>
  C2: the first key that a process fetches comes under attestation.  When fetching a key on demand answers
  \<open>CKR_OK\<close> and no session is on offer, then the token had the object, or the agent had the key before, or:
  the key server answered a first request with a challenge; a session was opened for it, in which the
  enclave quoted a new key of the URI's token with the server's nonce, the server was sent that quote, and
  the wrapping key it answered with was unwrapped with the private half of the quoted key; a second request
  brought the key; and the last call into the library below unwrapped that key with that wrapping key, in
  the session of the token, under the URI's label and id.  All requests were made with the agent's TLS
  settings.
\<close>
theorem first_key_attested:
  assumes "reachable (kms_installation S M) w" and "apimodule_ops w = module_ops S"
    and "\<And>sid. keyagent_session_lookup w sid = None"
    and "C_OnDemand_KeyLoad (kms_installation S M) fp (Some u) w = Some (CKR_OK, w')"
  shows "\<exists>d tlab kl kid. apimodule_uri_to_uri_data (p11_kit_uri_parse S) (Some u) apimodule_uri_data_init = (True, d) \<and>
    token_label d = Some tlab \<and> key_label d = Some kl \<and> key_id d = Some kid \<and>
    (let url = g_strjoinv '':'' [c_str tlab, c_str kid, c_str kl, u] in
      object_found (sk_lib S) d (am w') \<or> keyagent_key_lookup w url \<noteq> None \<or>
      (\<exists>details v v' k. kl_url details = url \<and> kl_ssl_opts details = load_ssl_opts w \<and>
        attested_transfer S M details tlab k v v' \<and> keyagent_key_lookup w' url = Some k \<and>
        token_hash (am w') = token_hash (am v') \<and> key_unwrapped (sk_lib S) tlab kl kid k (am w')))"
proof -
  obtain d tlab kl kid where p: "apimodule_uri_to_uri_data (p11_kit_uri_parse S) (Some u) apimodule_uri_data_init = (True, d)"
    and d: "token_label d = Some tlab" "key_label d = Some kl" "key_id d = Some kid"
    and o: "object_found (sk_lib S) d (am w') \<or> ondemand_loaded S M fp d (g_strjoinv '':'' [c_str tlab, c_str kid, c_str kl, u]) w w'"
    by (rule ondemand_ok[OF assms(1,4)])
  have "\<exists>details v v' k. kl_url details = url \<and> kl_ssl_opts details = load_ssl_opts w \<and>
      attested_transfer S M details tlab k v v' \<and> keyagent_key_lookup w' url = Some k \<and>
      token_hash (am w') = token_hash (am v') \<and> key_unwrapped (sk_lib S) tlab kl kid k (am w')"
    if "ondemand_loaded S M fp d url w w'" and new: "keyagent_key_lookup w url = None" for url
  proof -
    from that obtain a err err1 w1 where f: "fetching fp d (w\<lparr>am := a\<rparr>)" and w': "w' = uri_mem_set fp None w1"
      and l: "keyagent_loadkey_with_moduledata (kms_only (sk_ka S) M) (sgx_only (sk_ka S)) url (Some fp) err (w\<lparr>am := a\<rparr>)
        = Some (True, err1, w1)" by (auto simp: ondemand_loaded_def)
    from f obtain d0 where d0: "agent_idle (w\<lparr>am := a\<rparr>)" "uri_mem a fp = Some d0" "uri_same d d0" by (auto simp: fetching_def)
    then have dl: "token_label d0 = Some tlab" "key_label d0 = Some kl" "key_id d0 = Some kid" using d by (simp_all add: uri_same_def)
    let ?w = "w\<lparr>am := a\<rparr>" and ?E = "sgx_only (sk_ka S)"
    have "apimodule_ops ?w = module_ops S" "keyagent_key_lookup ?w url = None" "uri_mem (am ?w) fp = Some d0"
      using assms(2) new d0(2) by (simp_all add: keyagent_key_lookup_def)
    have "plugins_ok (sk_ka S) ?w" using reachable_plugins[OF assms(1)] by (simp add: plugins_ok_def kms_loaded_def)
    note load_attested[OF d0(1) \<open>apimodule_ops ?w = module_ops S\<close> \<open>keyagent_key_lookup ?w url = None\<close>
        \<open>uri_mem (am ?w) fp = Some d0\<close> dl l this]
    then obtain npm rid v v' k where "enter_request ?E (Some fp) npm (?w\<lparr>rwlock := True\<rparr>) = (rid, v)"
      and t: "attested_transfer S M (load_details ?E rid url v) tlab k v v' \<or>
        (\<exists>res v1. request_key M (load_details ?E rid url v) v = Some ((200, res), v1)) \<and>
        (\<exists>sid. keyagent_session_lookup ?w sid \<noteq> None) \<and> token_hash (am v') = token_hash (am ?w)"
      and k: "load_ssl_opts v = load_ssl_opts ?w" "keyagent_key_lookup w1 url = Some k" "token_hash (am w1) = token_hash (am v')"
        "key_unwrapped (sk_lib S) tlab kl kid k (am w1)" .
    have "keyagent_session_lookup ?w sid = None" for sid using assms(3)[of sid] by (simp add: keyagent_session_lookup_def)
    then have "attested_transfer S M (load_details ?E rid url v) tlab k v v'" using t by simp
    moreover have "kl_ssl_opts (load_details ?E rid url v) = load_ssl_opts w"
      using k(1) by (simp add: load_details_def load_ssl_opts_def)
    ultimately show ?thesis using k(2-4)
      by (intro exI[of _ "load_details ?E rid url v"] exI[of _ v] exI[of _ v'] exI[of _ k])
        (simp add: w' uri_mem_set_def keyagent_key_lookup_def load_details_def)
  qed
  then show ?thesis using p d o unfolding Let_def by blast
qed

section \<open>A token that is not open\<close>


end
