(* ===== verification/Aes_Test.thy ===== *)
theory Aes_Test
  imports Delivery
begin

text \<open>
  \<open>api-module/pkcs11/tests/aes-test/aes_encrypt_decrypt.cpp\<close>, the program that tries the module out: it
  loads the module, fetches the key its URI names, looks for the key in the token, and encrypts and
  decrypts 48 bytes with it.
\<close>

section \<open>What it calls in the library below\<close>

text \<open>
  The parameter block of AES-GCM with additional data.  \<open>C_Encrypt\<close> and \<open>C_Decrypt\<close> are called twice:
  without a buffer for the size, then with a buffer of \<open>n\<close> bytes, which holds the answered bytes
  afterwards, and of which the answered length counts.
\<close>

record ck_gcm_params =
  pIv :: bytes
  ulIvBits :: ck_ulong
  pAAD :: bytes
  ulTagBits :: ck_ulong

record 'x aes_functions =
  C_EncryptInit :: "ck_ulong \<Rightarrow> ck_gcm_params \<Rightarrow> ck_ulong \<Rightarrow> 'x \<Rightarrow> ck_ulong \<times> 'x"
  C_Encrypt_size :: "ck_ulong \<Rightarrow> bytes \<Rightarrow> 'x \<Rightarrow> (ck_ulong \<times> ck_ulong) \<times> 'x"
  C_Encrypt :: "ck_ulong \<Rightarrow> bytes \<Rightarrow> nat \<Rightarrow> 'x \<Rightarrow> (ck_ulong \<times> bytes \<times> ck_ulong) \<times> 'x"
  C_DecryptInit :: "ck_ulong \<Rightarrow> ck_gcm_params \<Rightarrow> ck_ulong \<Rightarrow> 'x \<Rightarrow> ck_ulong \<times> 'x"
  C_Decrypt_size :: "ck_ulong \<Rightarrow> bytes \<Rightarrow> 'x \<Rightarrow> (ck_ulong \<times> ck_ulong) \<times> 'x"
  C_Decrypt :: "ck_ulong \<Rightarrow> bytes \<Rightarrow> nat \<Rightarrow> 'x \<Rightarrow> (ck_ulong \<times> bytes \<times> ck_ulong) \<times> 'x"

text \<open>The symbols of a module that can be opened.\<close>

type_synonym test_modules = "string \<Rightarrow> string list option"

section \<open>Finding the token\<close>

text \<open>The label has been copied into a C string; the comparison is \<open>strncmp\<close> with the length of the one wanted.\<close>

definition test_utf8_to_char :: "string \<Rightarrow> nat \<Rightarrow> string option" where
  "test_utf8_to_char utf8buf len =
     (if len = 0 then None
      else (let n = utf8_len utf8buf len in if n = 0 then None else Some (c_str (take n utf8buf))))"

fun FindToken_slots ::
    "'x cryptoki \<Rightarrow> string \<Rightarrow> ck_ulong list \<Rightarrow> ck_ulong \<Rightarrow> 'x world \<Rightarrow> (ck_ulong \<times> ck_ulong option) \<times> 'x world" where
  "FindToken_slots K want [] rv w = ((rv, None), w)"
| "FindToken_slots K want (s # slots) rv w =
     (let ((rv1, info), w1) = out (C_GetTokenInfo K s) w in
      if rv1 \<noteq> CKR_OK then FindToken_slots K want slots rv1 w1
      else case test_utf8_to_char info (length info) of
        None \<Rightarrow> FindToken_slots K want slots rv1 w1
      | Some current \<Rightarrow>
          if take (length want) current = want then ((rv1, Some s), w1)
          else FindToken_slots K want slots rv1 w1)"

text \<open>The slot, if the token is present.\<close>

definition FindToken :: "'x cryptoki \<Rightarrow> string \<Rightarrow> 'x world \<Rightarrow> (ck_ulong \<times> ck_ulong option) \<times> 'x world" where
  "FindToken K input_token_label w =
     (let want = c_str input_token_label; ((rv, nslots), w1) = out (C_GetSlotCount K) w in
      if rv \<noteq> CKR_OK \<or> nslots = 0 then ((rv, None), w1)
      else (let ((rv2, slots), w2) = out (C_GetSlotList K nslots) w1 in
            if rv2 \<noteq> CKR_OK \<or> slots = [] then ((rv2, None), w2)
            else FindToken_slots K want slots rv2 w2))"

section \<open>Loading the module\<close>

text \<open>
  The function list is set by the first \<open>C_GetFunctionList\<close> of the process only.  Result: the return
  value and whether there is a function list.
\<close>

definition load_module ::
    "'x skc_env \<Rightarrow> test_modules \<Rightarrow> string \<Rightarrow> 'x world \<Rightarrow> ((ck_ulong \<times> bool) \<times> 'x world) option" where
  "load_module S modules module_name w =
     (case modules module_name of None \<Rightarrow> Some ((CKR_GENERAL_ERROR, False), w) | Some syms \<Rightarrow>
      if ''C_GetFunctionList'' \<notin> set syms \<or> ''C_OnDemand_KeyLoad'' \<notin> set syms \<or>
         ''apimodule_uri_to_uri_data'' \<notin> set syms \<or> ''apimodule_uri_data_cleanup'' \<notin> set syms
      then Some ((CKR_GENERAL_ERROR, False), w)
      else do {
        (rv, w1) \<leftarrow> C_GetFunctionList S w;
        Some ((rv, \<not> gfl_init w \<and> func_list_set w1), w1) })"

section \<open>Encrypting and decrypting\<close>

definition RV_CHECK :: "ck_ulong \<Rightarrow> bool" where
  "RV_CHECK rv \<longleftrightarrow> rv = CKR_OK \<or> rv = CKR_USER_ALREADY_LOGGED_IN"

definition plainText :: bytes where
  "plainText = [0x00, 0x01, 0x02, 0x03, 0x04, 0x05, 0x06, 0x07, 0x08, 0x09, 0x0A, 0x0B, 0x0C, 0x0D, 0x0E, 0x0F,
     0x00, 0x01, 0x02, 0x03, 0x04, 0x05, 0x06, 0x07, 0x08, 0x09, 0x0A, 0x0B, 0x0C, 0x0D, 0x0E, 0x0F,
     0x00, 0x01, 0x02, 0x03, 0x04, 0x05, 0x06, 0x07, 0x08, 0x09, 0x0A, 0x0B, 0x0C, 0x0D, 0x0E, 0x0F,
     0x00]"

definition gcmIV :: bytes where
  "gcmIV = [0xCA, 0xFE, 0xBA, 0xBE, 0xFA, 0xCE, 0xDB, 0xAD, 0xDE, 0xCA, 0xF8, 0x88]"

text \<open>The first byte is the key handle as it was initialised.\<close>

definition gcmAAD :: bytes where
  "gcmAAD = [ucast (CK_INVALID_HANDLE :: ck_ulong),
     0xFE, 0xED, 0xFA, 0xCE, 0xDE, 0xAD, 0xBE, 0xEF,
     0xFE, 0xED, 0xFA, 0xCE, 0xDE, 0xAD, 0xBE, 0xEF,
     0xAB, 0xAD, 0xDA, 0xD2]"

definition gcmParams :: ck_gcm_params where
  "gcmParams = \<lparr>pIv = gcmIV, ulIvBits = of_nat (length gcmIV) * 8, pAAD = gcmAAD, ulTagBits = 128\<rparr>"

text \<open>\<open>std::vector<CK_BYTE>::resize\<close>; \<open>front\<close> of an empty vector is undefined.\<close>

definition vector_resize :: "ck_ulong \<Rightarrow> bytes \<Rightarrow> bytes" where
  "vector_resize n v = take (unat n) v @ replicate (unat n - length v) 0"

text \<open>Each ends with the return value to leave with, or with the data.\<close>

definition test_encrypt ::
    "'x aes_functions \<Rightarrow> ck_ulong \<Rightarrow> ck_ulong \<Rightarrow> 'x world \<Rightarrow> ((ck_ulong + bytes) \<times> 'x world) option" where
  "test_encrypt A hSession hKey w = do {
     let (rv, w1) = out (C_EncryptInit A hSession gcmParams hKey) w;
     if \<not> RV_CHECK rv then Some (Inl rv, w1) else do {
     let ((rv2, n), w2) = out (C_Encrypt_size A hSession (butlast plainText)) w1;
     if \<not> RV_CHECK rv2 then Some (Inl rv2, w2)
     else if n = 0 then None else do {
     let ((rv3, buf, n2), w3) = out (C_Encrypt A hSession (butlast plainText) (unat n)) w2;
     if \<not> RV_CHECK rv3 then Some (Inl rv3, w3) else Some (Inr (vector_resize n2 buf), w3) }}}"

definition test_decrypt ::
    "'x aes_functions \<Rightarrow> ck_ulong \<Rightarrow> ck_ulong \<Rightarrow> bytes \<Rightarrow> 'x world \<Rightarrow>
     ((ck_ulong + ck_ulong \<times> bytes) \<times> 'x world) option" where
  "test_decrypt A hSession hKey enc w = do {
     let (rv, w1) = out (C_DecryptInit A hSession gcmParams hKey) w;
     if \<not> RV_CHECK rv then Some (Inl rv, w1)
     else if enc = [] then None else do {
     let ((rv2, n), w2) = out (C_Decrypt_size A hSession enc) w1;
     if \<not> RV_CHECK rv2 then Some (Inl rv2, w2)
     else if n = 0 then None else do {
     let ((rv3, buf, n2), w3) = out (C_Decrypt A hSession enc (unat n)) w2;
     if \<not> RV_CHECK rv3 then Some (Inl rv3, w3) else Some (Inr (rv3, vector_resize n2 buf), w3) }}}"

text \<open>
  A session with the token, logged in; or the return value to leave with.  A token that is not
  there leaves with what the search answered.
\<close>

definition test_open ::
    "'x cryptoki \<Rightarrow> apimodule_uri_data \<Rightarrow> 'x world \<Rightarrow> ((ck_ulong + ck_ulong) \<times> 'x world) option" where
  "test_open K d w = do {
     tlab \<leftarrow> token_label d;
     let ((rv, slot), w1) = FindToken K tlab w;
     (case slot of None \<Rightarrow> Some (Inl rv, w1) | Some s \<Rightarrow> do {
        let ((rv2, hs), w2) = out (C_OpenSession K s CKF_RW_SERIAL_SESSION) w1;
        if \<not> RV_CHECK rv2 then Some (Inl rv2, w2) else do {
        p \<leftarrow> pin d;
        let (rv3, w3) = out (C_Login K hs CKU_USER (c_str p)) w2;
        Some (if RV_CHECK rv3 then Inr hs else Inl rv3, w3) }}) }"

text \<open>The one secret key with the id of the URI; the search is left open when it is not found.\<close>

definition test_find_key ::
    "'x cryptoki \<Rightarrow> apimodule_uri_data \<Rightarrow> ck_ulong \<Rightarrow> 'x world \<Rightarrow> ((ck_ulong + ck_ulong) \<times> 'x world) option" where
  "test_find_key K d hSession w = do {
     kid \<leftarrow> key_id d;
     let (rv, w1) = out (C_FindObjectsInit K hSession [CKA_CLASS CKO_SECRET_KEY, CKA_ID (c_str kid)]) w;
     if \<not> RV_CHECK rv then Some (Inl rv, w1) else do {
     let ((rv2, objs), w2) = out (C_FindObjects K hSession 1) w1;
     if \<not> RV_CHECK rv2 then Some (Inl rv2, w2)
     else (case objs of
         [h] \<Rightarrow> (let (_, w3) = out (C_FindObjectsFinal K hSession) w2 in Some (Inr h, w3))
       | _ \<Rightarrow> Some (Inl rv2, w2)) }}"

text \<open>With the session and the key: the return value, and what was decrypted.\<close>

definition test_crypt ::
    "'x cryptoki \<Rightarrow> 'x aes_functions \<Rightarrow> ck_ulong \<Rightarrow> ck_ulong \<Rightarrow> 'x world \<Rightarrow> ((ck_ulong \<times> bytes option) \<times> 'x world) option" where
  "test_crypt K A hSession hKey w = do {
     (e, w1) \<leftarrow> test_encrypt A hSession hKey w;
     (case e of Inl rv \<Rightarrow> Some ((rv, None), w1) | Inr enc \<Rightarrow> do {
        (r, w2) \<leftarrow> test_decrypt A hSession hKey enc w1;
        (case r of Inl rv \<Rightarrow> Some ((rv, None), w2) | Inr (rv, dec) \<Rightarrow>
          (let (_, w3) = out (C_Logout K hSession) w2; (_, w4) = out (C_CloseSession K hSession) w3
           in Some ((rv, Some dec), w4))) }) }"

definition test_with_key ::
    "'x skc_env \<Rightarrow> 'x aes_functions \<Rightarrow> apimodule_uri_data \<Rightarrow> 'x world \<Rightarrow> ((ck_ulong \<times> bytes option) \<times> 'x world) option" where
  "test_with_key S A d w = do {
     (s, w1) \<leftarrow> test_open (sk_lib S) d w;
     (case s of Inl rv \<Rightarrow> Some ((rv, None), w1) | Inr hs \<Rightarrow> do {
        (k, w2) \<leftarrow> test_find_key (sk_lib S) d hs w1;
        (case k of Inl rv \<Rightarrow> Some ((rv, None), w2) | Inr hKey \<Rightarrow> test_crypt (sk_lib S) A hs hKey w2) }) }"

text \<open>
  \<open>func_list->C_Initialize\<close> is the module's, if the library exports the function, and the library's
  own otherwise.  When the key cannot be loaded the return value is still that of the start.
\<close>

definition do_aes_encrypt_decrypt ::
    "'x skc_env \<Rightarrow> 'x aes_functions \<Rightarrow> nat \<Rightarrow> string \<Rightarrow> apimodule_uri_data \<Rightarrow> 'x world \<Rightarrow>
     ((ck_ulong \<times> bytes option) \<times> 'x world) option" where
  "do_aes_encrypt_decrypt S A fp uri d w = do {
     (rv, w1) \<leftarrow> (if exports_C_Initialize (sk_lib S) then C_Initialize S fp w else Some (out (c_initialize (sk_lib S)) w));
     if rv \<noteq> CKR_OK \<and> rv \<noteq> CKR_CRYPTOKI_ALREADY_INITIALIZED then Some ((rv, None), w1) else do {
     (loaded, w2) \<leftarrow> C_OnDemand_KeyLoad S fp (Some uri) w1;
     if loaded \<noteq> CKR_OK then Some ((rv, None), w2) else test_with_key S A d w2 }}"

section \<open>The program\<close>

text \<open>The exit status, and what was decrypted.\<close>

definition aes_test_main ::
    "'x skc_env \<Rightarrow> 'x aes_functions \<Rightarrow> test_modules \<Rightarrow> string \<Rightarrow> nat \<Rightarrow> string list \<Rightarrow> 'x world \<Rightarrow>
     (int \<times> bytes option \<times> 'x world) option" where
  "aes_test_main S A modules SKC_INSTALL_DIR fp argv w =
     (case argv of
        _ # arg # _ \<Rightarrow> do {
          let uri = c_str arg;
          let module_path = (case g_getenv S ''INSTALLDIR'' of None \<Rightarrow> SKC_INSTALL_DIR | Some dir \<Rightarrow> dir) @ ''/lib/libpkcs11-api.so'';
          ((rv, func_list), w1) \<leftarrow> load_module S modules module_path w;
          if rv \<noteq> CKR_OK then Some (- 1, None, w1) else do {
          let (ok, d) = apimodule_uri_to_uri_data (p11_kit_uri_parse S) (Some uri) apimodule_uri_data_init;
          if \<not> ok then Some (- 1, None, w1)
          else if \<not> func_list then None else do {
          ((_, dec), w2) \<leftarrow> do_aes_encrypt_decrypt S A fp uri d w1;
          Some (0, dec, w2) }}}
      | _ \<Rightarrow> Some (- 1, None, w))"

section \<open>Properties\<close>

lemma prefix_c_str:
  "CHR 0x00 \<notin> set want \<Longrightarrow> take (length want) (c_str x) = want \<longleftrightarrow> take (length want) x = want"
proof (induction want arbitrary: x)
  case (Cons c want)
  then show ?case by (cases x) (auto simp: c_str_def)
qed simp

lemma test_utf8_to_char_eq: "test_utf8_to_char buf n = map_option c_str (apimodule_utf8_to_char buf n)"
  by (simp add: test_utf8_to_char_def apimodule_utf8_to_char_def Let_def)

text \<open>The slot that was found, entered into the URI data.\<close>

definition with_slot :: "apimodule_uri_data \<Rightarrow> ck_ulong option \<Rightarrow> apimodule_uri_data" where
  "with_slot d slot = (case slot of None \<Rightarrow> d | Some s \<Rightarrow> d\<lparr>slot_id := s\<rparr>)"

lemma FindToken_slots_agrees:
  assumes "token_label d = Some want" and "CHR 0x00 \<notin> set want"
  shows "findtoken_loop K d slots rv (am w) =
    (case FindToken_slots K want slots rv w of ((rv', slot), w') \<Rightarrow> Some (rv', slot \<noteq> None, with_slot d slot, am w'))"
proof (induction slots arbitrary: rv w)
  case Nil
  then show ?case by (simp add: with_slot_def)
next
  case (Cons s slots)
  obtain rv1 info x where t: "C_GetTokenInfo K s (ext (am w)) = ((rv1, info), x)" by (metis prod.exhaust)
  have IH: "findtoken_loop K d slots rv ((am w)\<lparr>ext := x\<rparr>) =
    (case FindToken_slots K want slots rv (w\<lparr>am := (am w)\<lparr>ext := x\<rparr>\<rparr>) of
       ((rv', slot), w') \<Rightarrow> Some (rv', slot \<noteq> None, with_slot d slot, am w'))" for rv
    using Cons.IH[of rv "w\<lparr>am := (am w)\<lparr>ext := x\<rparr>\<rparr>"] by simp
  show ?case
    by (cases "apimodule_utf8_to_char info (length info)")
      (simp_all add: out_def with_ext_def t IH assms(1) test_utf8_to_char_eq prefix_c_str[OF assms(2)] with_slot_def)
qed

text \<open>
  The program exits with status 0 exactly when the module was loaded and the URI is well formed,
  whether or not the key could be loaded, found or used; and it has decrypted something only if the
  module answered \<open>CKR_OK\<close> to the request for the key.
\<close>

definition test_accepts :: "'x skc_env \<Rightarrow> test_modules \<Rightarrow> string \<Rightarrow> string list \<Rightarrow> 'x world \<Rightarrow> bool" where
  "test_accepts S modules dir argv w \<longleftrightarrow> (case argv of
       _ # arg # _ \<Rightarrow> (\<exists>ok w1. load_module S modules
           ((case g_getenv S ''INSTALLDIR'' of None \<Rightarrow> dir | Some i \<Rightarrow> i) @ ''/lib/libpkcs11-api.so'') w = Some ((CKR_OK, ok), w1)) \<and>
         fst (apimodule_uri_to_uri_data (p11_kit_uri_parse S) (Some (c_str arg)) apimodule_uri_data_init)
     | _ \<Rightarrow> False)"

lemma do_aes_needs_key:
  "do_aes_encrypt_decrypt S A fp uri d w = Some ((rv, Some dec), w') \<Longrightarrow>
     \<exists>w1 w2. C_OnDemand_KeyLoad S fp (Some uri) w1 = Some (CKR_OK, w2)"
  by (force simp: do_aes_encrypt_decrypt_def bind_eq_Some_conv split: if_splits)

lemma aes_test_exit_status:
  assumes run: "aes_test_main S A modules dir fp argv w = Some (r, dec, w')"
  shows "r = (if test_accepts S modules dir argv w then 0 else - 1)"
    and "dec \<noteq> None \<Longrightarrow> \<exists>uri w1 w2. C_OnDemand_KeyLoad S fp (Some uri) w1 = Some (CKR_OK, w2)"
proof -
  let ?path = "(case g_getenv S ''INSTALLDIR'' of None \<Rightarrow> dir | Some i \<Rightarrow> i) @ ''/lib/libpkcs11-api.so''"
  have "r = (if test_accepts S modules dir argv w then 0 else - 1) \<and>
    (dec \<noteq> None \<longrightarrow> (\<exists>uri w1 w2. C_OnDemand_KeyLoad S fp (Some uri) w1 = Some (CKR_OK, w2)))"
  proof (cases "\<exists>prog arg args. argv = prog # arg # args")
    case False
    then show ?thesis using run by (auto simp: aes_test_main_def test_accepts_def split: list.splits)
  next
    case True
    then obtain prog arg args where argv: "argv = prog # arg # args" by blast
    with run obtain rv ok w1 where l: "load_module S modules ?path w = Some ((rv, ok), w1)"
      by (auto simp: aes_test_main_def run_simps)
    obtain b d where u: "apimodule_uri_to_uri_data (p11_kit_uri_parse S) (Some (c_str arg)) apimodule_uri_data_init = (b, d)"
      by (metis prod.exhaust)
    show ?thesis
    proof (cases "rv = CKR_OK \<and> b")
      case False
      then show ?thesis using run by (auto simp: aes_test_main_def test_accepts_def Let_def argv l u split: if_splits)
    next
      case True
      then obtain rv2 where "do_aes_encrypt_decrypt S A fp (c_str arg) d w1 = Some ((rv2, dec), w')" "r = 0"
        using run by (auto simp: aes_test_main_def Let_def argv l u bind_eq_Some_conv split: if_splits)
      then show ?thesis using True do_aes_needs_key by (fastforce simp: test_accepts_def argv l u)
    qed
  qed
  then show "r = (if test_accepts S modules dir argv w then 0 else - 1)"
    and "dec \<noteq> None \<Longrightarrow> \<exists>uri w1 w2. C_OnDemand_KeyLoad S fp (Some uri) w1 = Some (CKR_OK, w2)" by blast+
qed

text \<open>
  C39: the program's own search for a token is the module's: on a label without NUL it asks the same
  questions, and has the same answer, the same slot and the same return value.
\<close>
theorem find_token_agrees:
  assumes "token_label d = Some want" and "CHR 0x00 \<notin> set want"
  shows "apimodule_findtoken K d (am w) =
    (case FindToken K want w of ((rv, slot), w') \<Rightarrow> Some (rv, slot \<noteq> None, with_slot d slot, am w'))"
proof -
  have want: "c_str want = want" using assms(2) by (rule c_str_id)
  obtain rv n x where c: "C_GetSlotCount K (ext (am w)) = ((rv, n), x)" by (metis prod.exhaust)
  obtain rv2 slots y where l: "C_GetSlotList K n x = ((rv2, slots), y)" by (metis prod.exhaust)
  have f: "findtoken_loop K d slots r ((am w)\<lparr>ext := y\<rparr>) =
    (case FindToken_slots K want slots r (w\<lparr>am := (am w)\<lparr>ext := y\<rparr>\<rparr>) of
       ((rv', slot), w') \<Rightarrow> Some (rv', slot \<noteq> None, with_slot d slot, am w'))" for r
    using FindToken_slots_agrees[OF assms, of K slots r "w\<lparr>am := (am w)\<lparr>ext := y\<rparr>\<rparr>"] by simp
  show ?thesis
    by (simp add: apimodule_findtoken_def FindToken_def out_def with_ext_def c l want f with_slot_def)
qed

end
