(* ===== verification/Example_System.thy ===== *)
theory Example_System
  imports Entry_Points Cli Examples
begin

text \<open>The configuration: one string per file, section and key.\<close>

definition y_string :: "string \<Rightarrow> string \<Rightarrow> string \<Rightarrow> errcode + string" where
  "y_string f s k =
     (if f = ''/p11.ini'' then
        (if k = ''keyagent_conf'' then Inr ''/ka.ini'' else if k = ''mode'' then Inr ''SGX''
         else if s = ''SGX'' \<and> k = ''module'' then Inr ''/ctk.so'' else if k = ''preload_keys'' then Inr ''/keys''
         else Inl (EXTERNAL 3))
      else if f = ''/ka.ini'' then
        (if k = ''npm-directory'' then Inr ''npm'' else if k = ''stm-directory'' then Inr ''stm''
         else if k = ''keyformat'' then Inr ''PEMFILE'' else if s = ''keyserver_credentials'' then Inr ''c'' else Inl (EXTERNAL 3))
      else if k = ''type'' then Inr ''ECDSA'' else if k = ''launch_policy'' then Inr ''EPHEMERAL''
      else if k = ''server'' then Inr ''h'' else Inl (EXTERNAL 3))"

definition y_keyfile :: "string \<Rightarrow> keyfile" where
  "y_keyfile f = \<lparr>kf_string = y_string f, kf_boolean = (\<lambda>s k. Inr (k = ''ssl_verify'')), kf_integer = (\<lambda>s k. Inl (EXTERNAL 3))\<rparr>"

definition y_env :: "nat ka_env" where
  "y_env = x_env\<lparr>load_keyfile := (\<lambda>f. Inr (y_keyfile f)), g_path_get_dirname := (\<lambda>f. ''d''),
     dir_entries := (\<lambda>d. Some [''one.so''])\<rparr>"

definition y_skc :: "nat skc_env" where
  "y_skc = \<lparr>sk_ka = y_env, sk_npm = (\<lambda>_. None), sk_lib = x_cryptoki, sk_layout = x_layout,
     p11_kit_uri_parse = (\<lambda>u. if u = ''pkcs11:type='' then Some sample_uri else None),
     file_lines = (\<lambda>f. if f = ''/keys'' then Some [''pkcs11:type=''] else None),
     g_getenv = (\<lambda>_. Some ''/p11.ini''), SKC_CONF_PATH = [], g_module_open_p11 = (\<lambda>f. Some (Some CKR_OK)),
     g_module_close = (\<lambda>_. True)\<rparr>"

definition y_fresh :: "nat world" where
  "y_fresh = \<lparr>am = \<lparr>ext = 0, token_hash = [], api_hash = [], uri_mem = Map.empty, preload_keys_flag = 0,
       attestation_type = None, qlPolicy = None\<rparr>, sess_mem = [], session_hash = [], stm_hash = [],
     key_hash = [], npm_hash = [], swk_type_hash = [], apimodule_loadkey_hash = [],
     apimodule_ops = \<lparr>ops_load_key = None, ops_get_challenge = None, ops_set_wrapping_key = None\<rparr>, apimodule_enabled = False,
     rwlock = False, cache_rwlock = False, cache_sessions = False, cache_keys = False, fake_cache_ids = 0,
     global_model = False, global_delete_list = [], config = None, cert = [], certkey = [], cacert = [],
     keyformat = KEYAGENT_KEY_FORMAT_PEM, ka_ssl_verify = 0, configdirectory = [], kms_server_url = None,
     kms_debug = False, ka_init_done = False, ka_init_error = None, gfl_init = False, gfl_rv = CKR_GENERAL_ERROR, mode = None,
     pre_load_keyfile = None, func_list_set = False, module_hash = [], atfork_set = False\<rparr>"

definition y_system :: "nat skc_env" where
  "y_system = kms_installation y_skc x_kms"

definition y_run :: "(ck_ulong \<times> ck_ulong \<times> nat world) option" where
  "y_run = do {
     (rv, w1) \<leftarrow> C_GetFunctionList y_system y_fresh;
     (rv2, w2) \<leftarrow> C_Initialize y_system 7 w1;
     Some (rv, rv2, w2) }"

definition y_view where
  "y_view = map_option (\<lambda>(rv, rv2, w). (rv, rv2, ext (am w), rwlock w, sess_names w,
     map fst (key_hash w), map fst (apimodule_loadkey_hash w), map (stm_session \<circ> snd) (stm_hash w),
     map fst (token_hash (am w)), atfork_set w))"

text \<open>The module is loaded and started, and the one key of the preload file is fetched.\<close>

lemma y_run_view:
  "y_view y_run = Some (CKR_OK, CKR_OK, 7, False, [(''SGX'', ''s1'', ''AES256-GCM'')],
     [QUARK_TO_POINTER (Some (''KMS:'' @ replicate 36 CHR ''7'' @ '':k:pkcs11:type=''))], [], [Some 0], [''KMS''], True)"
  by code_simp

definition y_done :: "nat world" where
  "y_done = snd (snd (the y_run))"

lemma y_run_done: "y_run = Some (CKR_OK, CKR_OK, y_done)"
proof -
  obtain w where w: "y_run = Some (CKR_OK, CKR_OK, w)" using y_run_view by (auto simp: y_view_def)
  have "y_done = w" unfolding y_done_def by (subst w) simp
  then show ?thesis using w by simp
qed

lemma y_fresh: "fresh y_fresh"
  by (simp add: fresh_def y_fresh_def tables_def ght_empty_def)

lemma y_reachable: "reachable y_system y_done"
proof -
  from y_run_done obtain rv w1 rv2 where f: "C_GetFunctionList y_system y_fresh = Some (rv, w1)"
    and i: "C_Initialize y_system 7 w1 = Some (rv2, y_done)"
    by (auto simp: y_run_def bind_eq_Some_conv)
  have "reachable y_system w1"
    by (rule reachable.step[OF reachable.fresh[OF y_fresh] entry.get_function_list[OF f]])
  then show ?thesis by (rule reachable.step) (rule entry.initialize[OF i])
qed

end
