(* ===== verification/Witnesses.thy ===== *)
theory Witnesses
  imports Example_System Returns Delivery Attestation Lifetime Aes_Test
begin

text \<open>
  The properties of the components, each applied at a concrete input: the example installation of
  \<open>Examples\<close>, the example system of \<open>Example_System\<close>, or a small value of its own.
\<close>

lemma npm_load_two_rounds_witness:
  "npm_key_load x_kms x_load_details = load_round x_kms x_load_details (load_round x_kms x_load_details
     (\<lambda>err w. Some (False, k_set_error err NPM_ERROR_LOAD_KEY, w)))"
proof -
  have "strv_nth (g_strsplit CHR '':'' (kl_url x_load_details)) 0 = Some KMS_PREFIX_TOKEN" by code_simp
  then show ?thesis by (rule npm_load_two_rounds)
qed

text \<open>The token of the example, entered.\<close>

definition x_token :: apimodule_token where
  "x_token = (alloc_apimodule_token ''KMS'' ''1234'')\<lparr>tok_session := 9, privatekey_challenge_handle := 4\<rparr>"

text \<open>The example's load with its token open, before the broker's challenge; and an overlong one.\<close>

definition x_open :: "nat world" where
  "x_open = x_loading\<lparr>am := (cache_apimodule_token x_token x_am)\<lparr>ext := 4\<rparr>\<rparr>"

definition x_long :: "(nat, x_json) kms_env" where
  "x_long = x_kms\<lparr>g_base64_decode := (\<lambda>_. replicate 33 0)\<rparr>"

lemma x_open_ready: "sgx_ready (y_skc\<lparr>sk_ka := x_env\<rparr>) ''r'' x_open"
proof -
  have m: "am_step (am x_loading) ((cache_apimodule_token x_token x_am)\<lparr>ext := 4\<rparr>)"
    by (simp add: x_loading_def x_world_def keyagent_session_init_def am_step_def am_ok_def uris_kept_def tokens_kept_def
        cache_apimodule_token_def x_am_def x_token_def alloc_apimodule_token_def ght_wf_def ght_insert_def ght_lookup_def)
  have "loading_ok ''r'' x_open"
    using agent_ok_am[OF x_loading_ok(1) m] x_loading_ok(2)
    by (simp add: loading_ok_def x_open_def) (simp add: x_loading_def)
  moreover have "token_open 1 (am x_open)"
    by (simp add: token_open_def x_open_def x_am_def cache_apimodule_token_def x_token_def alloc_apimodule_token_def
        am_ok_def ght_wf_def ght_insert_def ght_lookup_def lookup_apimodule_token_def x_uri_data_def c_str_def)
  moreover have "apimodule_ops x_open = module_ops (y_skc\<lparr>sk_ka := x_env\<rparr>)"
    by (simp add: x_open_def x_loading_def x_world_def keyagent_session_init_def module_ops_def y_skc_def x_ops_def)
  moreover have "ght_lookup (apimodule_loadkey_hash x_open) ''r'' = Some x_request" by (simp add: x_open_def x_loading_def)
  moreover have "\<not> cache_sessions x_open" "\<not> cache_keys x_open" by code_simp+
  ultimately show ?thesis by (auto simp: sgx_ready_def sgx_live_def x_request_def x_env_def)
qed


lemma keytransfer_roundtrip_witness:
  "\<exists>op s. stm_load_key_run (sgx_only x_env) ''r'' \<lparr>key_url = ''u'', key_type = KEYAGENT_AESKEY, key_session = Some 0,
       key_attributes = [(KEYAGENT_ATTR_KEYDATA, keytransfer_payload [1, 2] 16 [7])], key_cache_id = 0\<rparr>
       x_stm x_request 0 None x_with_session =
     call_stm (op (loadkey_details_of x_with_session ''r'' x_request ''SGX'' s \<lparr>key_url = ''u'', key_type = KEYAGENT_AESKEY,
       key_session = Some 0, key_attributes = [(KEYAGENT_ATTR_KEYDATA, keytransfer_payload [1, 2] 16 [7])], key_cache_id = 0\<rparr>
       [7] (Some [1, 2]) 16)) None x_with_session"
proof -
  let ?k = "\<lparr>key_url = ''u'', key_type = KEYAGENT_AESKEY, key_session = Some 0,
       key_attributes = [(KEYAGENT_ATTR_KEYDATA, keytransfer_payload [1, 2] 16 [7])], key_cache_id = 0\<rparr>"
  have a: "ght_lookup (key_attributes ?k) KEYAGENT_ATTR_KEYDATA = Some (keytransfer_payload [1, 2] 16 [7])"
    by (simp add: ght_lookup_def)
  obtain s where s: "sess_at x_with_session 0 = Some s" by (simp add: sess_at_def x_with_session_def)
  have o: "stm_module_op (sgx_only x_env) sym_stm_load_key x_stm = Some stm_load_key"
    by (simp add: stm_module_op_def sgx_only_def sgx_stm_module_def x_env_def)
  from keytransfer_roundtrip[OF a _ _ _ s o] show ?thesis by (auto simp: x_stm_def)
qed

lemma stm_names_joined_witness:
  "keyagent_stm_get_names x_world = ''SGX'' \<and> keyagent_stm_get_apimodule_enabled_names x_world = ''SGX''"
proof -
  have v: "ght_values (stm_hash x_world) = [x_stm]"
    by (simp add: x_world_def keyagent_session_init_def ght_values_def)
  then have "\<forall>stm \<in> set (ght_values (stm_hash x_world)). stm_label stm \<noteq> []" by (simp add: x_stm_def)
  from stm_names_joined[OF this] show ?thesis by (simp add: v x_stm_def)
qed

lemma challenge_layout_witness:
  "\<exists>ch. build_challenge x_layout [1, 2, 3, 4, 5, 6] 6 = Some ch \<and> rd32 (drop 4 ch) = 256 \<and> drop 12 ch = [5, 6]"
proof -
  obtain ch where c: "build_challenge x_layout [1, 2, 3, 4, 5, 6] 6 = Some ch"
    by (simp add: build_challenge_def x_layout_def)
  from challenge_layout[OF c] show ?thesis using c by (simp add: x_layout_def)
qed

lemma key_unwrapped_with_session_key_witness:
  "\<exists>a1 a2. apimodule_set_wrapping_key x_cryptoki
      \<lparr>sd_label = Some ''SGX'', sd_module_data = Some 1, sd_swk_type = None, sd_session = Some [1]\<rparr> None
      (cache_apimodule_token x_token x_am) = Some (True, None, a1) \<and>
    apimodule_load_key x_cryptoki \<lparr>ld_label = Some ''SGX'', ld_url = [], ld_type = KEYAGENT_AESKEY, ld_key = Some [1],
      ld_iv = Some [2], ld_tag_size = 16, ld_module_data = Some 1\<rparr> None a1 = Some (True, None, a2)"
proof -
  let ?a = "cache_apimodule_token x_token x_am"
  have a: "uri_mem ?a 1 = Some x_uri_data" "lookup_apimodule_token ?a (c_str ''KMS'') = Some x_token"
    "tok_label x_token = c_str ''KMS''"
    by (simp_all add: x_am_def x_token_def alloc_apimodule_token_def c_str_def)
  have s: "ght_lookup (api_hash ?a) ''SGX'' = Some SGX_APIMODULE_OPS"
    by (simp add: x_am_def cache_apimodule_token_def ght_lookup_def)
  have d: "token_label x_uri_data = Some ''KMS''" "key_label x_uri_data = Some ''k''" "key_id x_uri_data = Some ''i''"
    "utype x_uri_data = CKO_SECRET_KEY" by (simp_all add: x_uri_data_def)
  from key_unwrapped_with_session_key[where K = x_cryptoki, OF a(1) d(1-4) a(2,3) s,
      of "\<lparr>sd_label = Some ''SGX'', sd_module_data = Some 1, sd_swk_type = None, sd_session = Some [1]\<rparr>" "[1]"
         "\<lparr>ld_label = Some ''SGX'', ld_url = [], ld_type = KEYAGENT_AESKEY, ld_key = Some [1],
           ld_iv = Some [2], ld_tag_size = 16, ld_module_data = Some 1\<rparr>" "[1]" "[2]" 77 "ext ?a" CKR_OK 77 "ext ?a"]
  show ?thesis by (auto simp: x_cryptoki_def)
qed

lemma function_list_once_witness:
  "\<exists>w1. C_GetFunctionList y_system y_fresh = Some (CKR_OK, w1) \<and> C_GetFunctionList y_system w1 = Some (CKR_OK, w1)"
proof -
  have "map_option fst (C_GetFunctionList y_system y_fresh) = Some CKR_OK" by code_simp
  then obtain w1 where w: "C_GetFunctionList y_system y_fresh = Some (CKR_OK, w1)" by auto
  from function_list_once[OF w] w show ?thesis by blast
qed

lemma keyagent_init_once_witness:
  "\<exists>w1. keyagent_init (sk_npm y_system) (sk_ka y_system) (Some ''/ka.ini'') None y_fresh = Some (True, None, w1) \<and>
     keyagent_init (sk_npm y_system) (sk_ka y_system) None None w1 = Some (True, None, w1)"
proof -
  have "map_option (\<lambda>(r, e, _). (r, e)) (keyagent_init (sk_npm y_system) (sk_ka y_system) (Some ''/ka.ini'') None y_fresh)
      = Some (True, None)" by code_simp
  then obtain w1 where w: "keyagent_init (sk_npm y_system) (sk_ka y_system) (Some ''/ka.ini'') None y_fresh = Some (True, None, w1)"
    by auto
  from keyagent_init_once[OF w] w show ?thesis by blast
qed

text \<open>A world whose token was opened with another PIN.\<close>

definition y_token_world :: "nat world" where
  "y_token_world = y_fresh\<lparr>func_list_set := True,
     am := cache_apimodule_token (alloc_apimodule_token ''KMS'' ''9999'') (am y_fresh)\<rparr>"

lemma ondemand_pin_guard_witness:
  "C_OnDemand_KeyLoad y_system 7 (Some ''pkcs11:type='') y_token_world =
     Some (CKR_GENERAL_ERROR, uri_mem_set 7 None y_token_world)"
proof -
  define d where "d = snd (apimodule_uri_to_uri_data (p11_kit_uri_parse y_system) (Some ''pkcs11:type='') apimodule_uri_data_init)"
  have u: "apimodule_uri_to_uri_data (p11_kit_uri_parse y_system) (Some ''pkcs11:type='') apimodule_uri_data_init = (True, d)"
    unfolding d_def by code_simp
  have d: "token_label d = Some ''KMS''" "pin d = Some ''1234''" unfolding d_def by code_simp+
  have f: "func_list_set y_token_world" by (simp add: y_token_world_def)
  have t: "lookup_apimodule_token (am y_token_world) (c_str ''KMS'') = Some (alloc_apimodule_token ''KMS'' ''9999'')"
    by (simp add: y_token_world_def alloc_apimodule_token_def c_str_def)
  have "c_str (tok_pin (alloc_apimodule_token ''KMS'' ''9999'')) \<noteq> c_str ''1234''"
    by (simp add: alloc_apimodule_token_def c_str_def)
  from ondemand_pin_guard[OF f u d(1) t d(2) this] show ?thesis .
qed

lemma preload_all_witness:
  "\<exists>w1 w2. C_OnDemand_KeyLoad y_system 7 (Some ''pkcs11:type='') w1 = Some (CKR_OK, w2)"
proof -
  have "(case C_GetFunctionList y_system y_fresh of None \<Rightarrow> None | Some (_, w1) \<Rightarrow>
      map_option fst (preload_lines y_system 7 [''pkcs11:type=''] False None (w1\<lparr>am := (am w1)\<lparr>preload_keys_flag := 1\<rparr>\<rparr>)))
      = Some True" by code_simp
  then obtain w1 err' w' where p: "preload_lines y_system 7 [''pkcs11:type=''] False None w1 = Some (True, err', w')"
    by (auto split: option.splits)
  from preload_all[OF p] obtain ws where "ws ! 0 = w1"
    "C_OnDemand_KeyLoad y_system 7 (Some (c_str ''pkcs11:type='')) (ws ! 0) = Some (CKR_OK, ws ! 1)"
    by auto
  moreover have "c_str ''pkcs11:type='' = ''pkcs11:type=''" by (simp add: c_str_def)
  ultimately show ?thesis by auto
qed

lemma initialize_without_preload_witness:
  "C_Initialize y_system 7 (y_fresh\<lparr>func_list_set := True, pre_load_keyfile := Some ''NIL''\<rparr>) = None \<and>
   (\<exists>w'. C_Initialize y_system 7 (y_fresh\<lparr>func_list_set := True, pre_load_keyfile := Some ''/none''\<rparr>) = Some (CKR_OK, w'))"
proof -
  have "C_Initialize y_system 7 (y_fresh\<lparr>func_list_set := True, pre_load_keyfile := Some f\<rparr>) = (if f = ''NIL'' then None
      else Some (CKR_OK, y_fresh\<lparr>func_list_set := True, pre_load_keyfile := Some f, am := (am y_fresh)\<lparr>ext :=
        snd (c_initialize (sk_lib y_system) (ext (am y_fresh))), preload_keys_flag := 1\<rparr>\<rparr>))" if "f = ''NIL'' \<or> f = ''/none''" for f
    using that initialize_without_preload[of "y_fresh\<lparr>func_list_set := True, pre_load_keyfile := Some f\<rparr>" y_system CKR_OK f 7]
    by (auto simp: y_fresh_def y_system_def kms_installation_def y_skc_def x_cryptoki_def)
  from this[of "''NIL''"] this[of "''/none''"] show ?thesis by simp
qed

lemma silent_refusal_witness:
  "ondemand_load y_system 7 \<lparr>token_label = Some ''KMS'', key_label = Some ''k'', key_id = Some [], pin = Some ''1234'',
     utype = CKO_SECRET_KEY, slot_id = 0\<rparr> ''u'' None y_fresh = None"
proof -
  have a: "strv_nth (g_strsplit CHR '':'' ''KMS::k:u'') 0 = Some [] \<or> strv_nth (g_strsplit CHR '':'' ''KMS::k:u'') 1 = Some []"
    by code_simp
  have u: "ondemand_url \<lparr>token_label = Some ''KMS'', key_label = Some ''k'', key_id = Some [], pin = Some ''1234'',
     utype = CKO_SECRET_KEY, slot_id = 0\<rparr> ''u'' = Some ''KMS::k:u''" by code_simp
  from silent_refusal[OF a u] show ?thesis by blast
qed

lemma cli_exit_status_witness:
  "\<exists>printed w'. cli_main y_system (\<lambda>_. None) 7 (Some \<lparr>o_configfile = None, o_listnpms = False, o_liststms = False,
     o_keyurl = Some ''u'', o_api_module = Some ''nowhere''\<rparr>) y_fresh = Some (Exited 0, printed, w')"
proof -
  let ?r = "cli_main y_system (\<lambda>_. None) 7 (Some \<lparr>o_configfile = None, o_listnpms = False, o_liststms = False,
     o_keyurl = Some ''u'', o_api_module = Some ''nowhere''\<rparr>) y_fresh"
  have "map_option (\<lambda>(_, t, _). t) ?r = Some []" by code_simp
  then obtain oc printed w' where r: "?r = Some (oc, printed, w')" by auto
  from cli_exit_status[OF r] show ?thesis using r by simp
qed

lemma credentials_checked_witness:
  "\<exists>w'. init_credentials y_env (y_fresh\<lparr>config := Some (y_keyfile ''/ka.ini'')\<rparr>) = (None, w') \<and> file_exists y_env (certkey w')"
proof -
  let ?w = "y_fresh\<lparr>config := Some (y_keyfile ''/ka.ini'')\<rparr>"
  have "fst (init_credentials y_env ?w) = None" "keyformat (snd (init_credentials y_env ?w)) = KEYAGENT_KEY_FORMAT_PEM"
    by code_simp+
  then obtain w' where w: "init_credentials y_env ?w = (None, w')" "keyformat w' = KEYAGENT_KEY_FORMAT_PEM"
    by (cases "init_credentials y_env ?w") auto
  from credentials_checked[OF w(1)] w show ?thesis by blast
qed

text \<open>The example with a URI for a private key, which the AES key of the server is not.\<close>

definition x_refusing :: "nat world" where
  "x_refusing = x_world\<lparr>am := x_am\<lparr>uri_mem := [1 \<mapsto> x_uri_data\<lparr>utype := CKO_PRIVATE_KEY\<rparr>]\<rparr>\<rparr>"

definition x_npm :: keyagent_npm_real where
  "x_npm = \<lparr>npm_label = ''KMS'', npm_module_name = ''npm_kms.so'', npm_initialized = True\<rparr>"

lemma refused_key_crashes_witness:
  "keyagent_loadkey_with_moduledata (kms_only x_env x_kms) (sgx_only x_env) ''KMS:k1'' (Some 1) None x_refusing = None"
proof -
  let ?E = "sgx_only x_env"
  have "(case enter_request ?E (Some 1) x_npm (x_refusing\<lparr>rwlock := True\<rparr>) of (rid, w2) \<Rightarrow>
     case npm_key_load x_kms (load_details ?E rid ''KMS:k1'' w2) None w2 of None \<Rightarrow> None | Some (_, _, w3) \<Rightarrow>
     case keyagent_key_lookup w3 ''KMS:k1'' of None \<Rightarrow> None | Some k \<Rightarrow>
     map_option (\<lambda>(r, e, _). (r, e)) (keyagent_stm_load_key ?E rid k None w3)) = Some (False, Some ERR_MINUS_ONE)"
    by code_simp
  then obtain rid w2 b err1 w3 k w4 where
    x: "enter_request ?E (Some 1) x_npm (x_refusing\<lparr>rwlock := True\<rparr>) = (rid, w2)"
      "npm_key_load x_kms (load_details ?E rid ''KMS:k1'' w2) None w2 = Some (b, err1, w3)"
      "keyagent_key_lookup w3 ''KMS:k1'' = Some k" "keyagent_stm_load_key ?E rid k None w3 = Some (False, Some ERR_MINUS_ONE, w4)"
    by (auto split: prod.splits option.splits)
  have i: "agent_idle x_refusing" "\<not> rwlock x_refusing"
    using x_am_ok x_ops_ok
    by (simp_all add: agent_idle_def agent_ok_def sess_ok_def keys_ok_def stms_ok_def single_ok_def ght_wf_def ght_lookup_def
        am_ok_def x_refusing_def x_world_def keyagent_session_init_def x_stm_def g_quark_from_string_def)
  have l: "kms_loaded x_env x_refusing x_npm" "keyagent_key_lookup x_refusing ''KMS:k1'' = None"
    by (simp_all add: kms_loaded_def x_npm_def x_refusing_def x_world_def keyagent_session_init_def x_env_def KMS_PREFIX_TOKEN_def
        keyagent_key_lookup_def ght_lookup_def)
  have "fst (npm_register ''KMS:k1'' None)" by code_simp
  from refused_key_crashes[OF i l this _ x] show ?thesis by simp
qed

lemma session_cache_off_witness:
  "\<exists>w'. cache_session x_env 0 None x_with_session = Some (True, None, w') \<and> fake_cache_ids w' = 1"
proof -
  have c: "\<not> cache_sessions x_with_session" "fake_cache_ids x_with_session = 0"
    by (simp_all add: x_with_session_def x_world_def keyagent_session_init_def)
  obtain s where "sess_at x_with_session 0 = Some s" by (simp add: sess_at_def x_with_session_def)
  from session_cache_off[OF c(1) this] c(2) show ?thesis by simp
qed

lemma other_attestation_type_witness:
  "\<exists>a'. stm_init (\<lambda>_. Inr \<lparr>kf_string = (\<lambda>s k. Inr ''EPID''), kf_boolean = (\<lambda>s k. Inr True), kf_integer = (\<lambda>s k. Inr 0)\<rparr>)
      ''d'' None (x_am\<lparr>qlPolicy := None\<rparr>) = Some (Some ''SGX'', None, a') \<and>
    stm_create_challenge (challenge_details_of x_world ''r'' x_request ''SGX'' []) None a' = None"
proof -
  let ?kf = "\<lparr>kf_string = (\<lambda>s k. Inr ''EPID''), kf_boolean = (\<lambda>s k. Inr True), kf_integer = (\<lambda>s k. Inr 0)\<rparr>"
  have "apimodule_get_challenge_cb (challenge_details_of x_world ''r'' x_request ''SGX'' []) \<noteq> None"
    by (simp add: x_world_def keyagent_session_init_def x_ops_def)
  from other_attestation_type[of "\<lambda>_. Inr ?kf" "''d''" ?kf "''EPID''", OF _ _ _ _ this] show ?thesis by simp
qed

lemma loadkey_present_witness:
  "keyagent_loadkey_with_moduledata (kms_only x_env x_kms) (sgx_only x_env) ''KMS:k1'' None None x_done = Some (True, None, x_done)"
proof -
  have i: "agent_idle x_done" "rwlock x_done = rwlock x_world" "keyagent_key_lookup x_done ''KMS:k1'' \<noteq> None"
    using staticsD(2)[of x_done x_world] sgx_kms.loadkey_spec[OF x_world_idle x_run_done[unfolded x_run_def]]
    by (auto simp: ka_step_def)
  have s: "g_strsplit CHR '':'' ''KMS:k1'' = ''KMS'' # ''k1'' # []" by code_simp
  have "\<not> rwlock x_done" using i(2) by (simp add: x_world_def keyagent_session_init_def)
  from loadkey_present[OF s _ _ this i(3)] show ?thesis by simp
qed

lemma token_entered_witness:
  "\<exists>r d' err' a'. init_apimodule_token x_cryptoki x_uri_data True None x_am = Some (Some r, d', err', a') \<and>
     tok_label r = ''KMS'' \<and> lookup_apimodule_token a' ''KMS'' = Some r"
proof -
  have "map_option (\<lambda>(r, _). r \<noteq> None) (init_apimodule_token x_cryptoki x_uri_data True None x_am) = Some True"
    by code_simp
  then obtain r d' e a' where i: "init_apimodule_token x_cryptoki x_uri_data True None x_am = Some (Some r, d', e, a')"
    by auto
  have t: "token_label x_uri_data = Some ''KMS''" "pin x_uri_data = Some ''1234''" "c_str ''KMS'' = ''KMS''"
    by (simp_all add: x_uri_data_def c_str_def)
  from token_entered[OF i t(1,2)] show ?thesis using i t(3) by simp
qed

lemma findtoken_prefix_witness:
  "\<exists>rv d' a'. apimodule_findtoken x_cryptoki x_uri_data x_am = Some (rv, True, d', a') \<and> rv = CKR_OK"
proof -
  have "map_option (\<lambda>(_, b, _). b) (apimodule_findtoken x_cryptoki x_uri_data x_am) = Some True" by code_simp
  then obtain rv d' a' where f: "apimodule_findtoken x_cryptoki x_uri_data x_am = Some (rv, True, d', a')" by auto
  from findtoken_prefix[OF f] show ?thesis using f by blast
qed

lemma session_ids_sent_witness: "keyagent_session_get_ids x_done = Some (Some ''SGX:s1'')"
proof -
  have "map_option (\<lambda>(_, _, w). (session_hash w = [], g_strjoinv '','' (map (session_entry w) (ght_values (session_hash w)))))
      (x_run ''KMS:k1'') = Some (False, ''SGX:s1'')" by code_simp
  then have v: "session_hash x_done \<noteq> []"
    "g_strjoinv '','' (map (session_entry x_done) (ght_values (session_hash x_done))) = ''SGX:s1''"
    by (simp_all add: x_run_done)
  have "agent_idle x_done" using sgx_kms.loadkey_spec[OF x_world_idle x_run_done[unfolded x_run_def]] by blast
  then have "sess_ok x_done" by (simp add: agent_idle_def agent_ok_def)
  from session_ids_sent[OF this] show ?thesis using v by simp
qed

text \<open>A fresh process of the example system fetches its key on demand.\<close>

definition y_fetch where
  "y_fetch = do {
     (rv, w1) \<leftarrow> C_GetFunctionList y_system y_fresh;
     (rv2, w2) \<leftarrow> C_OnDemand_KeyLoad y_system 7 (Some ''pkcs11:type='') w1;
     Some (rv, rv2, w1, w2) }"

lemma y_fetch_view:
  "map_option (\<lambda>(rv, rv2, w1, w2). (rv, rv2, keyagent_key_lookup w1 (''KMS:'' @ replicate 36 CHR ''7'' @ '':k:pkcs11:type='') = None,
      session_hash w1)) y_fetch = Some (CKR_OK, CKR_OK, True, [])"
  by code_simp

lemma y_fetched:
  obtains w1 w2 where "y_fetch = Some (CKR_OK, CKR_OK, w1, w2)" "reachable y_system w1" "apimodule_ops w1 = module_ops y_skc"
    "C_OnDemand_KeyLoad y_system 7 (Some ''pkcs11:type='') w1 = Some (CKR_OK, w2)" "\<And>sid. keyagent_session_lookup w1 sid = None"
    "keyagent_key_lookup w1 (''KMS:'' @ replicate 36 CHR ''7'' @ '':k:pkcs11:type='') = None"
proof -
  obtain rv w1 w2 where y: "y_fetch = Some (CKR_OK, CKR_OK, w1, w2)" "session_hash w1 = []"
    and n: "keyagent_key_lookup w1 (''KMS:'' @ replicate 36 CHR ''7'' @ '':k:pkcs11:type='') = None"
    using y_fetch_view by (auto simp del: replicate.simps)
  then have g: "C_GetFunctionList y_system y_fresh = Some (CKR_OK, w1)"
    and o: "C_OnDemand_KeyLoad y_system 7 (Some ''pkcs11:type='') w1 = Some (CKR_OK, w2)"
    by (auto simp: y_fetch_def bind_eq_Some_conv)
  have r: "reachable y_system w1"
    by (rule reachable.step[OF reachable.fresh[OF y_fresh] entry.get_function_list[OF g]])
  have m: "apimodule_ops w1 = module_ops y_skc"
    using function_list_registers[OF _ g] by (simp add: y_fresh_def y_system_def module_ops_def kms_installation_def)
  have "keyagent_session_lookup w1 sid = None" for sid by (simp add: keyagent_session_lookup_def y(2) ght_lookup_def)
  then show ?thesis using that[OF y(1) r m o _ n] by blast
qed

lemma y_uri:
  assumes "apimodule_uri_to_uri_data (p11_kit_uri_parse y_skc) (Some ''pkcs11:type='') apimodule_uri_data_init = (True, d)"
    and "token_label d = Some tlab" "key_label d = Some kl" "key_id d = Some kid"
  shows "tlab = ''KMS''" and "kl = ''k''" and "kid = replicate 36 CHR ''7''"
    and "g_strjoinv '':'' [c_str tlab, c_str kid, c_str kl, ''pkcs11:type=''] = ''KMS:'' @ replicate 36 CHR ''7'' @ '':k:pkcs11:type=''"
proof -
  have "map_option id (case apimodule_uri_to_uri_data (p11_kit_uri_parse y_skc) (Some ''pkcs11:type='') apimodule_uri_data_init of
      (b, d) \<Rightarrow> Some (token_label d, key_label d, key_id d)) = Some (Some ''KMS'', Some ''k'', Some (replicate 36 CHR ''7''))"
    by code_simp
  then show l: "tlab = ''KMS''" "kl = ''k''" "kid = replicate 36 CHR ''7''" using assms by auto
  show "g_strjoinv '':'' [c_str tlab, c_str kid, c_str kl, ''pkcs11:type=''] = ''KMS:'' @ replicate 36 CHR ''7'' @ '':k:pkcs11:type=''"
    unfolding l by code_simp
qed

lemma x_no_object: "\<not> object_found x_cryptoki d a"
  by (auto simp: object_found_def apimodule_findobject_def x_cryptoki_def with_ext_def bind_eq_Some_conv)

lemma y_system_parts: "y_system = kms_installation y_skc x_kms" "sk_lib y_skc = x_cryptoki"
  by (simp_all add: y_system_def y_skc_def)

lemma ondemand_delivers_witness:
  "\<exists>w1 w2 k. y_fetch = Some (CKR_OK, CKR_OK, w1, w2) \<and>
     key_unwrapped x_cryptoki ''KMS'' ''k'' (replicate 36 CHR ''7'') k (am w2)"
proof -
  obtain w1 w2 where y: "y_fetch = Some (CKR_OK, CKR_OK, w1, w2)" "reachable y_system w1" "apimodule_ops w1 = module_ops y_skc"
    "C_OnDemand_KeyLoad y_system 7 (Some ''pkcs11:type='') w1 = Some (CKR_OK, w2)" "\<And>sid. keyagent_session_lookup w1 sid = None"
    "keyagent_key_lookup w1 (''KMS:'' @ replicate 36 CHR ''7'' @ '':k:pkcs11:type='') = None" by (rule y_fetched) blast
  from ondemand_delivers[OF y(2)[unfolded y_system_parts(1)] y(3) y(4)[unfolded y_system_parts(1)]]
  obtain d tlab kl kid k where d: "apimodule_uri_to_uri_data (p11_kit_uri_parse y_skc) (Some ''pkcs11:type='') apimodule_uri_data_init = (True, d)"
    "token_label d = Some tlab" "key_label d = Some kl" "key_id d = Some kid"
    and k: "keyagent_key_lookup w1 (g_strjoinv '':'' [c_str tlab, c_str kid, c_str kl, ''pkcs11:type='']) \<noteq> None \<or>
      key_unwrapped x_cryptoki tlab kl kid k (am w2)"
    unfolding Let_def y_system_parts(2) using x_no_object by blast
  show ?thesis using y(1,6) k unfolding y_uri(4)[OF d] unfolding y_uri(1-3)[OF d] by blast
qed

lemma first_key_attested_witness:
  "\<exists>w1 w2 details v v' k. y_fetch = Some (CKR_OK, CKR_OK, w1, w2) \<and> attested_transfer y_skc x_kms details ''KMS'' k v v' \<and>
     key_unwrapped x_cryptoki ''KMS'' ''k'' (replicate 36 CHR ''7'') k (am w2)"
proof -
  obtain w1 w2 where y: "y_fetch = Some (CKR_OK, CKR_OK, w1, w2)" "reachable y_system w1" "apimodule_ops w1 = module_ops y_skc"
    "C_OnDemand_KeyLoad y_system 7 (Some ''pkcs11:type='') w1 = Some (CKR_OK, w2)" "\<And>sid. keyagent_session_lookup w1 sid = None"
    "keyagent_key_lookup w1 (''KMS:'' @ replicate 36 CHR ''7'' @ '':k:pkcs11:type='') = None" by (rule y_fetched) blast
  from first_key_attested[OF y(2)[unfolded y_system_parts(1)] y(3,5) y(4)[unfolded y_system_parts(1)]]
  obtain d tlab kl kid where d: "apimodule_uri_to_uri_data (p11_kit_uri_parse y_skc) (Some ''pkcs11:type='') apimodule_uri_data_init = (True, d)"
    "token_label d = Some tlab" "key_label d = Some kl" "key_id d = Some kid"
    and k: "keyagent_key_lookup w1 (g_strjoinv '':'' [c_str tlab, c_str kid, c_str kl, ''pkcs11:type='']) \<noteq> None \<or>
      (\<exists>details v v' k. attested_transfer y_skc x_kms details tlab k v v' \<and> key_unwrapped x_cryptoki tlab kl kid k (am w2))"
    unfolding Let_def y_system_parts(2) using x_no_object by blast
  show ?thesis using y(1,6) k unfolding y_uri(4)[OF d] unfolding y_uri(1-3)[OF d] by blast
qed

text \<open>
  The example's agent with the session \<open>s0\<close>, as it is after reading the sessions of its database: no
  token is open, and the server challenges the first request.
\<close>

definition x_restored :: "nat world" where
  "x_restored = x_world\<lparr>sess_mem := [\<lparr>ses_swk = [1], ses_name = ''SGX'', ses_session_id = ''s0'',
     ses_swk_type = ''AES256-GCM'', ses_cache_id = 1\<rparr>], session_hash := [(Some ''s0'', 0)],
     stm_hash := [(Some ''SGX'', x_stm\<lparr>stm_session := Some 0\<rparr>)]\<rparr>"

lemma x_restored_idle: "agent_idle x_restored"
  using x_am_ok x_ops_ok
  by (auto simp: agent_idle_def agent_ok_def sess_ok_def keys_ok_def stms_ok_def single_ok_def ght_wf_def ght_lookup_def
      x_restored_def x_world_def keyagent_session_init_def x_stm_def g_quark_from_string_def sess_at_def split: if_splits)

lemma x_restored_view:
  "keyagent_key_lookup x_restored ''KMS:k2'' = None" "lookup_apimodule_token (am x_restored) (c_str ''KMS'') = None"
  "keyagent_session_lookup x_restored ''s0'' = Some 0"
  "map_option (\<lambda>(r, e, w). (r, e, session_hash w)) (keyagent_loadkey_with_moduledata (kms_only x_env x_kms)
     (sgx_only x_env) ''KMS:k2'' (Some 1) None x_restored) = Some (True, None, [(Some ''s1'', 1)])"
  by code_simp+


lemma lost_key_not_reloaded_witness:
  "\<exists>w'. C_OnDemand_KeyLoad y_system 7 (Some ''pkcs11:type='') y_done = Some (CKR_OK, w')"
proof -
  let ?url = "''KMS:'' @ replicate 36 CHR ''7'' @ '':k:pkcs11:type=''"
  define d where "d = snd (apimodule_uri_to_uri_data (p11_kit_uri_parse y_system) (Some ''pkcs11:type='') apimodule_uri_data_init)"
  have "map_option (\<lambda>(a, b, w). (func_list_set w, rwlock w, map_option (\<lambda>t. c_str (tok_pin t)) (lookup_apimodule_token (am w) (c_str ''KMS'')),
      keyagent_key_lookup w ?url = None)) y_run = Some (True, False, Some ''1234'', False)" by code_simp
  then obtain t where y: "func_list_set y_done" "\<not> rwlock y_done" "lookup_apimodule_token (am y_done) (c_str ''KMS'') = Some t"
    "c_str (tok_pin t) = ''1234''" "keyagent_key_lookup y_done ?url \<noteq> None"
    unfolding y_run_done by (auto simp del: replicate.simps)
  have u: "fst (apimodule_uri_to_uri_data (p11_kit_uri_parse y_system) (Some ''pkcs11:type='') apimodule_uri_data_init)"
    "token_label d = Some ''KMS''" "pin d = Some ''1234''" "ondemand_url d ''pkcs11:type='' = Some ?url"
    "g_strsplit CHR '':'' ?url = [''KMS'', replicate 36 CHR ''7'', ''k'', ''pkcs11'', ''type='']"
    unfolding d_def by code_simp+
  have "key_label d \<noteq> None" "key_id d \<noteq> None" unfolding d_def by code_simp+
  then have f: "apimodule_findobject (sk_lib y_system) (tok_session t) d a = Some (CKR_OK, False, a)" for a
    by (auto simp: apimodule_findobject_def y_system_def kms_installation_def y_skc_def x_cryptoki_def with_ext_def)
  have p: "apimodule_uri_to_uri_data (p11_kit_uri_parse y_system) (Some ''pkcs11:type='') apimodule_uri_data_init = (True, d)"
    using u(1) by (simp add: d_def prod_eq_iff)
  show ?thesis
    using lost_key_not_reloaded[OF y(1,2) p u(2) y(3) u(3) _ f u(4,5) _ _ y(5)] y(4) by (auto simp: c_str_def)
qed

lemma find_token_agrees_witness:
  "\<exists>rv w'. FindToken x_cryptoki ''KMS'' x_world = ((rv, Some 5), w') \<and>
     apimodule_findtoken x_cryptoki x_uri_data x_am = Some (rv, True, x_uri_data\<lparr>slot_id := 5\<rparr>, am w')"
proof -
  have "(case FindToken x_cryptoki ''KMS'' x_world of ((rv, slot), w') \<Rightarrow> slot) = Some 5" by code_simp
  then obtain rv w' where f: "FindToken x_cryptoki ''KMS'' x_world = ((rv, Some 5), w')" by (auto split: prod.splits)
  have d: "token_label x_uri_data = Some ''KMS''" by (simp add: x_uri_data_def)
  have "am x_world = x_am" by (simp add: x_world_def keyagent_session_init_def)
  with find_token_agrees[OF d, of x_cryptoki x_world] f show ?thesis by (simp add: with_slot_def)
qed

text \<open>
  The test program in a fresh process of the example system, whose token answers no search: the key is
  loaded, nothing is decrypted, and the exit status is 0.
\<close>

definition x_aes :: "nat aes_functions" where
  "x_aes = \<lparr>C_EncryptInit = (\<lambda>h p k x. (CKR_OK, x)), C_Encrypt_size = (\<lambda>h d x. ((CKR_OK, of_nat (length d + 16)), x)),
     C_Encrypt = (\<lambda>h d n x. ((CKR_OK, take n (d @ replicate 16 0), of_nat (length d + 16)), x)),
     C_DecryptInit = (\<lambda>h p k x. (CKR_OK, x)), C_Decrypt_size = (\<lambda>h d x. ((CKR_OK, of_nat (length d)), x)),
     C_Decrypt = (\<lambda>h d n x. ((CKR_OK, take (length d - 16) d @ replicate (n - (length d - 16)) 0, of_nat (length d - 16)), x))\<rparr>"

lemma x_aes_run:
  "map_option (\<lambda>(r, dec, _). (r, dec)) (aes_test_main y_system x_aes
      (\<lambda>_. Some [''C_GetFunctionList'', ''C_OnDemand_KeyLoad'', ''apimodule_uri_to_uri_data'', ''apimodule_uri_data_cleanup''])
      ''/opt/skc'' 7 [''test'', ''pkcs11:type=''] y_fresh) = Some (0, None)"
  by code_simp

lemma x_aes_crypt:
  "map_option fst (test_crypt x_cryptoki x_aes 1 2 y_fresh) = Some (CKR_OK, Some (butlast plainText))"
  by code_simp

lemma done_once_for_all_witness:
  "\<exists>w' k. C_Finalize y_system y_done = Some (CKR_OK, w') \<and> C_GetFunctionList y_system w' = Some (CKR_OK, w') \<and>
     keyagent_key_lookup w' (''KMS:'' @ replicate 36 CHR ''7'' @ '':k:pkcs11:type='') = Some k"
proof -
  let ?url = "''KMS:'' @ replicate 36 CHR ''7'' @ '':k:pkcs11:type=''"
  have "map_option (\<lambda>(a, b, w). (gfl_init w, ka_init_done w, gfl_rv w, keyagent_key_lookup w ?url = None,
      map_option fst (C_Finalize y_system w))) y_run = Some (True, True, CKR_OK, False, Some CKR_OK)" by code_simp
  then obtain w' where y: "gfl_init y_done" "ka_init_done y_done" "gfl_rv y_done = CKR_OK"
    "keyagent_key_lookup y_done ?url \<noteq> None" and f: "C_Finalize y_system y_done = Some (CKR_OK, w')"
    unfolding y_run_done by (auto simp del: replicate.simps)
  have run: "rtranclp (entry (kms_installation y_skc x_kms)) y_done w'"
    using entry.finalize[OF f] by (auto simp: y_system_def)
  have "reachable (kms_installation y_skc x_kms) y_done" using y_reachable by (simp add: y_system_def)
  from done_once_for_all[OF this y(1,2) run]
  have g: "C_GetFunctionList y_system w' = Some (gfl_rv y_done, w')"
    and k: "\<forall>url k. keyagent_key_lookup y_done url = Some k \<longrightarrow> (\<exists>i. keyagent_key_lookup w' url = Some (k\<lparr>key_cache_id := i\<rparr>))"
    unfolding y_system_def by blast+
  obtain k0 where "keyagent_key_lookup y_done ?url = Some k0" using y(4) by blast
  with k obtain i where "keyagent_key_lookup w' ?url = Some (k0\<lparr>key_cache_id := i\<rparr>)" by blast
  then show ?thesis using f g unfolding y(3) by blast
qed

lemma child_keeps_parent_handles_witness:
  "\<exists>w'. apimodule_prepare_child y_system 7 y_done = Some w' \<and> token_hash (am w') = token_hash (am y_done)"
proof -
  have "map_option (\<lambda>(a, b, w). (preload_keys_flag (am w) = 0, apimodule_prepare_child y_system 7 w = None)) y_run
      = Some (False, False)" by code_simp
  then obtain w' where y: "preload_keys_flag (am y_done) \<noteq> 0" and c: "apimodule_prepare_child y_system 7 y_done = Some w'"
    unfolding y_run_done by auto
  from child_keeps_parent_handles[OF c y] show ?thesis using c by auto
qed

end
