(* ===== verification/Spec2Isabelle.thy ===== *)
theory Spec2Isabelle
  imports Prelude Ghash Buffers Request Config Curl Cryptoki Pkcs11_Utils Apimodule_Sgx Apimodule Stm_Sgx World Session Cache Key Database Example_Database Invariants Stm_Manager Session_Create Npm_Interface Npm_Kms Returns Keyagent Pkcs11_Module Cli Registry Examples Entry_Points Lifetime Delivery Attestation Aes_Test Example_System Witnesses
begin

text \<open>
  A model of the SKC library, with the theorems that make it correct.  The library lets a program
  use keys it never sees: a PKCS#11 URI given to the API module names a key; the key agent fetches
  it from a key broker service (KBS) over HTTPS; the broker asks for an attested challenge of the
  enclave, answers with a session whose symmetric wrapping key (SWK) is wrapped with the enclave's
  public key, and then hands out the key wrapped with the SWK; the key is unwrapped inside the
  enclave, as an object of a PKCS#11 token.

  \<^bold>\<open>Parts of the program, and the theories that model them.\<close>

  \<^item> \<open>Prelude\<close>: bytes and machine integers, C strings, error slots (\<open>GError **\<close>;
    \<open>src/include/k_errors.h\<close>), quarks and pointers, enumerations of \<open>key-agent/types.h\<close>, and
    the rules they share.  \<open>Ghash\<close>: GLib's hash tables, the locale \<open>hash_table\<close>.
    \<open>Buffers\<close>: the reference counted buffers and attribute tables of \<open>include/k_types.h\<close> over an
    explicit store of counted cells.
  \<^item> \<open>Config\<close>: \<open>config-file/src/key_configfile.c\<close>.  \<open>Curl\<close>: \<open>utils/curl.cpp\<close>, one HTTPS
    request.  \<open>Request\<close>: \<open>key-agent/src/request.cpp\<close>, request ids.
  \<^item> \<open>Cryptoki\<close>: the PKCS#11 library below, the parsed URI, and the record \<open>am\<close>, the state of the API
    module (\<open>api-module/pkcs11/src/internal.h\<close> and its global tables).  \<open>Pkcs11_Utils\<close>: \<open>utils.c\<close>,
    tokens, objects and URI data.  \<open>Apimodule_Sgx\<close>: \<open>apimodule-sgx.cpp\<close>, the challenge with its
    quote, the wrapping key, unwrapping a key.  \<open>Apimodule\<close>: the callbacks of
    \<open>pkcs11-apimodule.cpp\<close> that the key agent calls.  \<open>Stm_Sgx\<close>: the STM plug-in
    \<open>stm/sgx/src/application_intf.cpp\<close>, which forwards to these callbacks.
  \<^item> \<open>World\<close>: the record \<open>world\<close>, which extends the state of the API module by the key agent's
    (\<open>key-agent/src/internal.h\<close> and the globals of \<open>key-agent/src\<close>, \<open>npm\<close> and \<open>stm\<close>), and the record
    \<open>ka_env\<close> of its surroundings.  \<open>Session\<close> and \<open>Session_Create\<close>: \<open>session.cpp\<close>.  \<open>Cache\<close>:
    \<open>cache-init.cpp\<close>, \<open>cache-session.cpp\<close>, \<open>cache-key.cpp\<close>.  \<open>Key\<close>: \<open>key.cpp\<close>.
    \<open>Stm_Manager\<close>: \<open>stm/stm_init.cpp\<close>.  \<open>Npm_Interface\<close>: what the agent offers a network
    plug-in.  \<open>Npm_Kms\<close>: the network plug-in \<open>npm/kms/src/intf.cpp\<close>.  \<open>Keyagent\<close>: \<open>intf.cpp\<close>,
    \<open>npm/npm_init.cpp\<close> and \<open>cert.cpp\<close>, start-up and loading a key.
  \<^item> \<open>Pkcs11_Module\<close>: the exported entry points of \<open>pkcs11-apimodule.cpp\<close>.  \<open>Cli\<close>:
    \<open>key-agent/cli/main.c\<close> and the listings it prints.  \<open>Aes_Test\<close>: the test program
    \<open>api-module/pkcs11/tests/aes-test/aes_encrypt_decrypt.cpp\<close>, a client of the module.
  \<^item> \<open>Invariants\<close>, \<open>Startup\<close>, \<open>Entry_Points\<close> and \<open>Registry\<close> hold what spans components: the
    invariant, that start-up and every entry point keep it, reachable states, and the abstract maps.
    \<open>Lifetime\<close>: what no run of entry points takes back, the table of network plug-ins, and what a
    forked child starts with.
    \<open>Delivery\<close>: what \<open>CKR_OK\<close> for a key fetched on demand means.  \<open>Attestation\<close>: the protocol between the
    enclave and the key server, from the plug-in down to the library below.  \<open>Returns\<close>: which answers
    of the key broker the plug-in's load of a key survives.  \<open>Database\<close>: what the cache leaves in the database, and
    what the next start makes of it.
  \<^item> \<open>Examples\<close>, \<open>Example_System\<close>, \<open>Example_Database\<close> and \<open>Witnesses\<close> run the model: an
    installation with one token, one STM, one plug-in and a key broker, from a fresh process to a loaded
    key; a database of two tables; and the properties at such inputs.

  \<^bold>\<open>State.\<close>  A C struct is a record with the struct's members, a global or static variable is a field
  of \<open>am\<close> or \<open>world\<close>.  A hash table is an association list in visiting order; its key says what
  GLib compares: a string, the quark of a string, or a pointer.  The sessions live in \<open>sess_mem\<close> and are
  pointed to by index, because the STM, the keys and the table share them; keys and STMs have one
  owner, their table.  The opaque \<open>module_data\<close> is an address in \<open>uri_mem\<close>, which is there as long as the
  variable it points to.  \<open>rwlock\<close> and \<open>cache_rwlock\<close> say whether the writer lock is held.

  \<^bold>\<open>Operations\<close> are state passing functions, one per C function, split where a C function has several
  phases.  A \<open>GError **\<close> is an argument and a result of type \<open>gerr\<close>; \<open>reports\<close> relates the boolean a
  function returns to the error slot it leaves.  \<open>None\<close> as the result of an operation with an option
  type is a crash or undefined behaviour: a dereferenced NULL, a use of memory
  already released, an overflow of a local array, an uncaught exception.  Two reads of memory that is not
  the program's have an argument of the model for what they find, a string or a fault, and \<open>None\<close> for the
  fault: behind a header line that libcurl does not terminate, and in the string of a key's algorithm that
  has been destroyed (\<open>stale\<close>).  An error slot that points to a freed error holds \<open>RELEASED\<close>: it can be
  handed on and tested, and setting, logging or releasing it is a crash.  Integers the code computes
  with, the reference counts among them, are words of their width.  Recursion is structural, but for \<open>npm_loadkey\<close>, whose measure is the
  number of tries left: at most two rounds.  No definition uses fuel.

  \<^bold>\<open>What lies outside\<close> is an argument: the PKCS#11 library below (\<open>cryptoki\<close>), libcurl (\<open>curl_ops\<close>), the JSON
  library and base64 (\<open>kms_env\<close>), the database library (\<open>gda_ops\<close>), the modules on disk, the
  configuration files, the file system and the random numbers (\<open>ka_env\<close>), the URI parser
  (\<open>p11_uri\<close>).  All of them but the pure ones act on a state of the outside of type \<open>'x\<close>, of which nothing
  is assumed: no property has a hypothesis on them beyond what it names.  Only \<open>Database\<close>
  assumes of the database, as \<open>session_db\<close> and \<open>key_db\<close>, what SQL promises of the statements sent.  The entry point \<open>outside\<close> lets
  that state change between two calls in any way.

  \<^bold>\<open>What the lemmas show.\<close>

  \<^item> Every group of operations has a step relation, reflexive and transitive, that says which part of
    the state it may change: \<open>am_step\<close> for the API module, \<open>cache_step\<close>, \<open>key_step\<close>, \<open>agent_step\<close>,
    \<open>load_step\<close> and \<open>ka_step\<close> for the key agent, \<open>settled\<close> for start-up.  The lemmas named
    \<open>..._step\<close> put each operation into its relation; \<open>..._spec\<close> state its outcome on each branch.
  \<^item> Interfaces are locales, each interpreted on the code's own definitions: \<open>hash_table\<close> by the
    association lists; \<open>api_module\<close> (the callbacks a table of API module operations owes) by those of
    \<open>Apimodule\<close>; \<open>stm_plugin\<close> by \<open>Stm_Sgx\<close>; \<open>stm_modules\<close> (the STM manager over modules that are such
    plug-ins) and \<open>npm_host\<close> (what a network plug-in may rely on) by the agent with the SGX plug-in;
    \<open>live_host\<close>, which extends it by when the host's operations return, by the same agent with an open
    token; \<open>npm_plugin\<close> (what it owes) by \<open>Npm_Kms\<close>; \<open>agent\<close>, \<open>startup\<close> and \<open>installation\<close>, each
    extending the one before, by the agent with the SGX and the KMS plug-in.
  \<^item> The invariant \<open>agent_ok\<close> of the key agent, with \<open>single_ok\<close> (one session per STM) and, between two
    calls, \<open>rest\<close>: kept by every entry point, whatever it answers, hence true in every state that is
    \<open>reachable\<close> from the start of the process.
  \<^item> Refinement: \<open>registry\<close>, the map from STMs to the session on offer, and \<open>keyring\<close>, the map from URLs
    to keys; creating a session and a key are updates of these maps.
  \<^item> Round trips and layouts: request ids, token labels, key data, the challenge, a session in the
    database.
  \<^item> Lifetime: \<open>done_once_for_all\<close>, over any run of entry points; \<open>ondemand_delivers\<close>, from the entry
    point down to the library's \<open>C_UnwrapKey\<close>; \<open>first_key_attested\<close>, the same for the whole attestation
    protocol, and \<open>unopened_token_attested\<close>, for a token the module has not opened, with sessions on
    offer; \<open>npm_load_crashes_iff\<close>, the answers of a key broker that the plug-in's load does not survive,
    and \<open>refused_key_crashes\<close>, what becomes of the key after it.
  \<^item> Each operation's errors, and the flaws met in the code, stated as what the code does: the calls
    that crash are theorems with result \<open>None\<close>.

  \<^bold>\<open>Not modelled\<close>, and why: output (log and error messages, \<open>json_print\<close>, the text of error values; an error
  is its domain and code); the checksums of \<open>include/k_debug.h\<close>, which are computed and discarded; memory that
  is only released (rows of the database, the members of URI data and tokens at the end of their life); the
  accessor \<open>getCLASS\<close> of \<open>utils.c\<close>, which nothing calls; prototypes and the macros that declare them;
  the parser of command line options and of configuration files, which are GLib's; the headers of
  SafeStringLibrary, whose code is not in the repository; what the test program prints, and the shell
  scripts beside it.  Calls are atomic: of the threads
  only the lock is seen, and taking the writer lock of the key agent while it is held is a crash.
\<close>

section \<open>Reachable states\<close>

text \<open>
  C1: in every state a process reaches by calling the library's entry points, no request is left
  open, the writer lock is free, no module data points to a dead variable; every key is entered
  under its URL, has key data and a session that exists; every session is entered under its id;
  and every STM is entered under its name.
\<close>
theorem reachable_invariant:
  assumes "reachable (kms_installation S M) w"
  shows "(\<forall>i. ght_lookup (apimodule_loadkey_hash w) i = None) \<and> \<not> rwlock w \<and> uri_mem (am w) = Map.empty \<and>
    (\<forall>url k. keyagent_key_lookup w url = Some k \<longrightarrow> key_url k = url \<and>
       ght_lookup (key_attributes k) KEYAGENT_ATTR_KEYDATA \<noteq> None \<and>
       (\<exists>p s. key_session k = Some p \<and> sess_at w p = Some s)) \<and>
    (\<forall>sid p. keyagent_session_lookup w sid = Some p \<longrightarrow> (\<exists>s. sess_at w p = Some s \<and> ses_session_id s = sid)) \<and>
    (\<forall>nm stm. keyagent_stm_get_by_name w nm = Some stm \<longrightarrow> stm_label stm = nm)"
proof -
  have r: "rest w" using assms by (rule sgx_installation.reachable_rest)
  then have ok: "agent_ok w" by (simp add: rest_def agent_idle_def)
  then have so: "sess_ok w" and ko: "keys_ok w" and st: "stms_ok w" by (simp_all add: agent_ok_def)
  have "key_url k = url \<and> ght_lookup (key_attributes k) KEYAGENT_ATTR_KEYDATA \<noteq> None \<and>
      (\<exists>p s. key_session k = Some p \<and> sess_at w p = Some s)" if "keyagent_key_lookup w url = Some k" for url k
    using keys_ok_lookup[OF ko that] by (auto simp: key_ok_def sess_at_def)
  moreover have "stm_label stm = nm" if "keyagent_stm_get_by_name w nm = Some stm" for nm stm
    using st that by (auto simp: stms_ok_def keyagent_stm_get_by_name_def g_quark_from_string_def)
  ultimately show ?thesis using r sess_ok_lookup[OF so] by (simp add: rest_def agent_idle_def)
qed

lemma reachable_invariant_witness:
  "reachable y_system y_done \<and> \<not> rwlock y_done \<and> uri_mem (am y_done) = Map.empty"
  using reachable_invariant[of y_skc x_kms y_done] y_reachable by (simp add: y_system_def)

text \<open>
  C3: at most one session per STM is on offer: two sessions in the table with the same STM name
  are the same session, and it is the STM's current one.
\<close>
theorem one_session_per_stm:
  assumes "reachable (kms_installation S M) w"
    and "keyagent_session_lookup w a = Some p" and "sess_at w p = Some s"
    and "keyagent_session_lookup w b = Some q" and "sess_at w q = Some t" and "ses_name s = ses_name t"
  shows "a = b \<and> p = q \<and> map_option stm_session (keyagent_stm_get_by_name w (ses_name s)) = Some (Some p)"
proof -
  have "rest w" using assms(1) by (rule sgx_installation.reachable_rest)
  then have one: "single_ok w" and so: "sess_ok w" by (simp_all add: rest_def agent_idle_def agent_ok_def)
  note l = assms(2,4)[unfolded keyagent_session_lookup_def]
  have "p = q" by (rule single_ok_unique[OF one l assms(3,5,6)])
  moreover have "a = b"
    using sess_ok_lookup[OF so assms(2)] sess_ok_lookup[OF so assms(4)] \<open>p = q\<close> by auto
  moreover obtain stm where "keyagent_stm_get_by_name w (ses_name s) = Some stm" "stm_session stm = Some p"
    using one[unfolded single_ok_def, rule_format, OF l(1) assms(3)] by (auto simp: keyagent_stm_get_by_name_def)
  ultimately show ?thesis by simp
qed

lemma one_session_per_stm_witness:
  "\<exists>p. keyagent_session_lookup y_done ''s1'' = Some p \<and>
     map_option stm_session (keyagent_stm_get_by_name y_done ''SGX'') = Some (Some p)"
proof -
  have "map_option (\<lambda>(a, b, w). (keyagent_session_lookup w ''s1'', map_option ses_name (sess_at w 0))) y_run =
      Some (Some 0, Some ''SGX'')" by code_simp
  then obtain s where s: "keyagent_session_lookup y_done ''s1'' = Some 0" "sess_at y_done 0 = Some s" "ses_name s = ''SGX''"
    by (auto simp: y_run_done)
  from one_session_per_stm[of y_skc x_kms, OF _ s(1,2) s(1,2) refl] y_reachable s
  show ?thesis by (simp add: y_system_def)
qed

section \<open>Loading a key\<close>



text \<open>
  C6: a session the key server opened, for a known STM and wrapping key type and under an id not in
  use, changes the map from STMs to the session and wrapping key on offer at that STM's name and
  nowhere else, whatever the STM answers.
\<close>
theorem session_create_refines:
  assumes "agent_ok w" and "single_ok w" and "current_ok w"
    and "ght_lookup (apimodule_loadkey_hash w) rid \<noteq> None" and "keyagent_session_lookup w sid = None"
    and "keyagent_session_lookup_swktype w ty \<noteq> None" and "keyagent_stm_get_by_name w label = Some stm"
    and "keyagent_session_create (sgx_only E) rid label sid key ty err w = Some (r, err', w')"
  shows "registry w' = (registry w)(label \<mapsto> (sid, key)) \<and> current_ok w' \<and> single_ok w'"
  using assms(8)[unfolded keyagent_session_create_def] assms(1-7)
  by (blast intro: sgx_modules.session_create_registry sgx_modules.session_create_current
      sgx_modules.session_create_single)

lemma session_create_refines_witness:
  "\<exists>r err' w'. keyagent_session_create (sgx_only x_env) ''r'' ''SGX'' ''s9'' [1, 2] ''AES256-GCM'' None x_loading
      = Some (r, err', w') \<and> registry w' = (registry x_loading)(''SGX'' \<mapsto> (''s9'', [1, 2]))"
proof -
  let ?run = "keyagent_session_create (sgx_only x_env) ''r'' ''SGX'' ''s9'' [1, 2] ''AES256-GCM'' None x_loading"
  have "map_option fst ?run \<noteq> None" by code_simp
  then obtain r err' w' where run: "?run = Some (r, err', w')" by auto
  have "keyagent_session_lookup x_loading ''s9'' = None"
    "keyagent_session_lookup_swktype x_loading ''AES256-GCM'' \<noteq> None"
    "map_option stm_label (keyagent_stm_get_by_name x_loading ''SGX'') = Some ''SGX''" by code_simp+
  then show ?thesis using session_create_refines[OF x_loading_ok _ _ _ run] run by auto
qed

text \<open>
  C7: a key enters the map from URLs to keys when it is not there; a key that is there stays as it
  is; and a refused one changes nothing.
\<close>
theorem key_create_refines:
  assumes "sess_ok w" and "keys_ok w"
    and "keyagent_key_create E url ty ats sid err w = Some (q, err', w')"
  shows "keyring w' = (if q \<noteq> None \<and> keyring w url = None
    then (keyring w)(url \<mapsto> (ty, the sid, the (ght_lookup (the ats) KEYAGENT_ATTR_KEYDATA))) else keyring w) \<and>
    (q = None \<longrightarrow> err' \<noteq> None \<and> w' = w)"
  using key_create_keyring[OF assms] key_create_spec[OF assms(1,2) assms(3)[unfolded keyagent_key_create_def]]
  by auto

lemma key_create_refines_witness:
  "\<exists>q err' w'. keyagent_key_create x_env ''KMS:k'' KEYAGENT_AESKEY (Some [(KEYAGENT_ATTR_KEYDATA, [7])]) (Some ''s9'')
      None x_with_session = Some (q, err', w') \<and>
     keyring w' = (keyring x_with_session)(''KMS:k'' \<mapsto> (KEYAGENT_AESKEY, ''s9'', [7]))"
proof -
  let ?run = "keyagent_key_create x_env ''KMS:k'' KEYAGENT_AESKEY (Some [(KEYAGENT_ATTR_KEYDATA, [7])]) (Some ''s9'')
      None x_with_session"
  have "sess_ok x_with_session" "keys_ok x_with_session"
    by (simp_all add: sess_ok_def keys_ok_def x_with_session_def x_world_def keyagent_session_init_def
        ght_lookup_def ght_wf_def sess_at_def g_quark_from_string_def)
  moreover have "map_option fst ?run = Some (Some ''KMS:k'')" "keyring x_with_session ''KMS:k'' = None" by code_simp+
  then obtain err' w' where run: "?run = Some (Some ''KMS:k'', err', w')" by auto
  moreover have "ght_lookup [(KEYAGENT_ATTR_KEYDATA, [7::byte])] KEYAGENT_ATTR_KEYDATA = Some [7]"
    by (simp add: ght_lookup_def)
  ultimately show ?thesis using key_create_refines[OF _ _ run] \<open>keyring x_with_session ''KMS:k'' = None\<close> by auto
qed

text \<open>
  C8: the callbacks of the API module report every failure: after a challenge, a wrapping key and a
  key in a row on an unset error slot, an unset slot means that all three succeeded and that there
  is a challenge.
\<close>
theorem exchange_reports:
  assumes "am_ok a" and "apimodule_get_challenge K L cd rq None a = Some (r1, cd', e1, a1)"
    and "apimodule_set_wrapping_key K sd e1 a1 = Some (r2, e2, a2)"
    and "apimodule_load_key K ld e2 a2 = Some (r3, e3, a3)"
  shows "e3 = None \<longrightarrow> r1 \<and> r2 \<and> r3 \<and> cd_challenge cd' \<noteq> None"
  using sgx_api.exchange_no_silent_failure[OF assms] by blast

lemma exchange_reports_witness:
  "case x_details of (cd, rq, sd, ld) \<Rightarrow>
     \<exists>r1 cd' e1 a1 r2 e2 a2 r3 a3. apimodule_get_challenge x_cryptoki x_layout cd rq None x_am = Some (r1, cd', e1, a1) \<and>
       apimodule_set_wrapping_key x_cryptoki sd e1 a1 = Some (r2, e2, a2) \<and>
       apimodule_load_key x_cryptoki ld e2 a2 = Some (r3, None, a3) \<and> r1 \<and> r2 \<and> r3 \<and> cd_challenge cd' \<noteq> None"
proof -
  obtain cd rq sd ld where d: "x_details = (cd, rq, sd, ld)" by (metis prod_cases4)
  have "(case x_details of (cd, rq, sd, ld) \<Rightarrow> do {
      (r1, cd', e1, a1) \<leftarrow> apimodule_get_challenge x_cryptoki x_layout cd rq None x_am;
      (r2, e2, a2) \<leftarrow> apimodule_set_wrapping_key x_cryptoki sd e1 a1;
      (r3, e3, a3) \<leftarrow> apimodule_load_key x_cryptoki ld e2 a2;
      Some e3 }) = Some None" by code_simp
  then obtain r1 cd' e1 a1 r2 e2 a2 r3 a3 where
    x: "apimodule_get_challenge x_cryptoki x_layout cd rq None x_am = Some (r1, cd', e1, a1)"
      "apimodule_set_wrapping_key x_cryptoki sd e1 a1 = Some (r2, e2, a2)"
      "apimodule_load_key x_cryptoki ld e2 a2 = Some (r3, None, a3)"
    by (auto simp: d bind_eq_Some_conv)
  have "am_ok x_am" by (simp add: am_ok_def x_am_def ght_wf_def ght_lookup_def)
  from exchange_reports[OF this x] show ?thesis using x by (auto simp: d)
qed

section \<open>Keys are not removed\<close>

text \<open>
  C21: dropping a session removes none of its keys: in every reachable state the removal by session
  changes nothing, because the table is searched for another pointer than the one keys are entered under.
\<close>
theorem no_key_removed:
  assumes "reachable (kms_installation S M) w"
  shows "keyagent_key_remove_by_session E p w = Some w"
proof (rule key_remove_by_session_noop)
  show "keys_ok w" using sgx_installation.reachable_rest[OF assms] by (simp add: rest_def agent_idle_def agent_ok_def)
qed

lemma no_key_removed_witness:
  "keyagent_key_remove_by_session y_env 0 y_done = Some y_done \<and> keyagent_key_remove_by_session y_env 0 y_fresh = Some y_fresh"
  using no_key_removed[of y_skc x_kms y_done] no_key_removed[of y_skc x_kms y_fresh] y_reachable
  by (simp add: y_system_def reachable.fresh[OF y_fresh])

end
